(* ===== verification/Prelude.thy ===== *)
theory Prelude
  imports Main "HOL-Library.Word" "HOL-Library.Log_Nat"
begin

text \<open>
  What the components share: JavaScript errors as values, the state-and-exception
  computations every asynchronous method of the federator becomes, and the pieces of
  the JavaScript standard library the code uses on strings and numbers.

  An awaited call is a function from the state to a result and the next state. A thrown
  error keeps the state reached so far, as a JavaScript exception does: nothing is rolled
  back. The collections \<open>m_simps\<close>, \<open>m_splits\<close> and \<open>steps_intros\<close> carry the automation.
\<close>

named_theorems m_simps \<open>evaluation of computations\<close>
named_theorems steps_intros \<open>computations whose every run relates its first and last state\<close>

section \<open>Errors as values\<close>

text \<open>
  The error classes the code throws or tests for. A \<open>HathorException\<close> carries the original
  message of the wallet; callers also pass a caught error object there (or leave it out), so
  the field is a union. Messages keep their fixed text; the interpolated parts, which no code
  inspects, are kept where they are strings already.
\<close>

datatype exn =
    JsError string
  | HathorException string orig_msg
  | CustomError string exn
  | JsTypeError
and orig_msg = NoMsg | StrMsg string | ExnMsg exn

type_synonym 'a res = "exn + 'a"

type_synonym ('s, 'a) comp = "'s \<Rightarrow> 'a res \<times> 's"

fun is_hathor_exception :: "exn \<Rightarrow> bool" where
  "is_hathor_exception (HathorException _ _) = True"
| "is_hathor_exception _ = False"

fun original_message :: "exn \<Rightarrow> orig_msg" where
  "original_message (HathorException _ m) = m"
| "original_message _ = NoMsg"

fun message_of :: "exn \<Rightarrow> string" where
  "message_of (JsError m) = m"
| "message_of (HathorException m _) = m"
| "message_of (CustomError m _) = m"
| "message_of JsTypeError = ''TypeError''"

section \<open>Computations\<close>

definition ret :: "'a \<Rightarrow> ('s, 'a) comp" where
  "ret a s = (Inr a, s)"

definition throw :: "exn \<Rightarrow> ('s, 'a) comp" where
  "throw e s = (Inl e, s)"

definition bnd :: "('s, 'a) comp \<Rightarrow> ('a \<Rightarrow> ('s, 'b) comp) \<Rightarrow> ('s, 'b) comp" where
  "bnd m f s = (case m s of (Inl e, t) \<Rightarrow> (Inl e, t) | (Inr a, t) \<Rightarrow> f a t)"

definition try_catch :: "('s, 'a) comp \<Rightarrow> (exn \<Rightarrow> ('s, 'a) comp) \<Rightarrow> ('s, 'a) comp" where
  "try_catch m h s = (case m s of (Inl e, t) \<Rightarrow> h e t | (Inr a, t) \<Rightarrow> (Inr a, t))"

definition gets :: "('s \<Rightarrow> 'a) \<Rightarrow> ('s, 'a) comp" where
  "gets f s = (Inr (f s), s)"

definition modify :: "('s \<Rightarrow> 's) \<Rightarrow> ('s, unit) comp" where
  "modify f s = (Inr (), f s)"

definition lift_res :: "'a res \<Rightarrow> ('s, 'a) comp" where
  "lift_res r s = (r, s)"

text \<open>\<open>for (const x of xs) await f(x)\<close>: left to right, stopping at the first error.\<close>

fun for_each :: "('a \<Rightarrow> ('s, unit) comp) \<Rightarrow> 'a list \<Rightarrow> ('s, unit) comp" where
  "for_each f [] = ret ()"
| "for_each f (x # xs) = bnd (f x) (\<lambda>_. for_each f xs)"

text \<open>A loop that pushes each result: left to right, stopping at the first error.\<close>

fun collect :: "('a \<Rightarrow> ('s, 'b) comp) \<Rightarrow> 'a list \<Rightarrow> ('s, 'b list) comp" where
  "collect f [] = ret []"
| "collect f (x # xs) = bnd (f x) (\<lambda>y. bnd (collect f xs) (\<lambda>ys. ret (y # ys)))"

lemma ret_run [simp, m_simps]: "ret a s = (Inr a, s)"
  by (simp add: ret_def)

lemma throw_run [simp, m_simps]: "throw e s = (Inl e, s)"
  by (simp add: throw_def)

lemma gets_run [simp, m_simps]: "gets f s = (Inr (f s), s)"
  by (simp add: gets_def)

lemma modify_run [simp, m_simps]: "modify f s = (Inr (), f s)"
  by (simp add: modify_def)

lemma lift_res_run [simp, m_simps]: "lift_res r s = (r, s)"
  by (simp add: lift_res_def)

lemma bnd_Inr [simp, m_simps]: "m s = (Inr a, t) \<Longrightarrow> bnd m f s = f a t"
  by (simp add: bnd_def)

lemma bnd_Inl [simp, m_simps]: "m s = (Inl e, t) \<Longrightarrow> bnd m f s = (Inl e, t)"
  by (simp add: bnd_def)

lemma try_catch_Inr [simp, m_simps]: "m s = (Inr a, t) \<Longrightarrow> try_catch m h s = (Inr a, t)"
  by (simp add: try_catch_def)

lemma try_catch_Inl [simp, m_simps]: "m s = (Inl e, t) \<Longrightarrow> try_catch m h s = h e t"
  by (simp add: try_catch_def)

lemma bnd_ret [simp, m_simps]: "bnd (ret a) f = f a"
  by (simp add: fun_eq_iff bnd_def)

lemma bnd_throw [simp, m_simps]: "bnd (throw e) f = throw e"
  by (simp add: fun_eq_iff bnd_def)

lemma bnd_eq_Inr_iff:
  "bnd m f s = (Inr b, t) \<longleftrightarrow> (\<exists>a u. m s = (Inr a, u) \<and> f a u = (Inr b, t))"
  by (auto simp: bnd_def split: prod.splits sum.splits)

lemma bnd_eq_iff:
  "bnd m f s = (r, t) \<longleftrightarrow>
     (\<exists>e. m s = (Inl e, t) \<and> r = Inl e) \<or> (\<exists>a u. m s = (Inr a, u) \<and> f a u = (r, t))"
  by (auto simp: bnd_def split: prod.splits sum.splits)

lemma bnd_cases [consumes 1, case_names err ok]:
  assumes "bnd m f s = (r, t)"
  obtains e where "m s = (Inl e, t)" "r = Inl e"
  | a u where "m s = (Inr a, u)" "f a u = (r, t)"
  using assms by (auto simp: bnd_eq_iff)

lemma bnd_assoc: "bnd (bnd m f) g = bnd m (\<lambda>x. bnd (f x) g)"
  by (auto simp: bnd_def fun_eq_iff split: prod.splits sum.splits)

lemma for_each_append:
  "for_each f (xs @ ys) = bnd (for_each f xs) (\<lambda>_. for_each f ys)"
proof (induction xs)
  case Nil
  show ?case by (simp add: fun_eq_iff bnd_def)
next
  case (Cons x xs)
  then show ?case by (simp add: bnd_assoc)
qed

lemma collect_length: "collect f xs s = (Inr ys, t) \<Longrightarrow> length ys = length xs"
proof (induction xs arbitrary: s ys)
  case Nil
  then show ?case by simp
next
  case (Cons x xs)
  then show ?case by (auto simp: bnd_eq_Inr_iff)
qed

section \<open>Relating the first and the last state of every run\<close>

text \<open>
  Frame conditions ("this method never touches the files") and history conditions ("every
  request it adds satisfies P") have one shape: a reflexive and transitive relation holds
  between the state before and the state after any run, whether it returned or threw. The
  locale proves the closure rules once; each relation the components use interprets it.
\<close>

definition runs_in :: "('s \<Rightarrow> 's \<Rightarrow> bool) \<Rightarrow> ('s, 'a) comp \<Rightarrow> bool" where
  "runs_in R m \<longleftrightarrow> (\<forall>s. R s (snd (m s)))"

lemma runs_inD: "runs_in R m \<Longrightarrow> m s = (r, t) \<Longrightarrow> R s t"
  by (auto simp: runs_in_def dest: spec [of _ s])

lemma runs_inI: "(\<And>s r t. m s = (r, t) \<Longrightarrow> R s t) \<Longrightarrow> runs_in R m"
  by (auto simp: runs_in_def prod_eq_iff)

lemma runs_in_if: "(b \<Longrightarrow> runs_in R m) \<Longrightarrow> (\<not> b \<Longrightarrow> runs_in R n) \<Longrightarrow> runs_in R (if b then m else n)"
  by simp

lemma runs_in_option:
  "(x = None \<Longrightarrow> runs_in R m) \<Longrightarrow> (\<And>a. x = Some a \<Longrightarrow> runs_in R (f a))
    \<Longrightarrow> runs_in R (case x of None \<Rightarrow> m | Some a \<Rightarrow> f a)"
  by (cases x) auto

lemma runs_in_sum:
  "(\<And>e. x = Inl e \<Longrightarrow> runs_in R (f e)) \<Longrightarrow> (\<And>a. x = Inr a \<Longrightarrow> runs_in R (g a))
    \<Longrightarrow> runs_in R (case x of Inl e \<Rightarrow> f e | Inr a \<Rightarrow> g a)"
  by (cases x) auto

lemma runs_in_prod:
  "(\<And>a b. x = (a, b) \<Longrightarrow> runs_in R (f a b)) \<Longrightarrow> runs_in R (case x of (a, b) \<Rightarrow> f a b)"
  by (cases x) auto

lemma runs_in_let: "runs_in R (f x) \<Longrightarrow> runs_in R (let y = x in f y)"
  by simp

lemmas [steps_intros] = runs_in_if runs_in_option runs_in_sum runs_in_prod runs_in_let

text \<open>The same for the runs with a certain result, and computations that never have it.\<close>

definition runs_when :: "('s \<Rightarrow> 's \<Rightarrow> bool) \<Rightarrow> ('a res \<Rightarrow> bool) \<Rightarrow> ('s, 'a) comp \<Rightarrow> bool" where
  "runs_when R Q m \<longleftrightarrow> (\<forall>s r t. m s = (r, t) \<longrightarrow> Q r \<longrightarrow> R s t)"

definition never :: "('a res \<Rightarrow> bool) \<Rightarrow> ('s, 'a) comp \<Rightarrow> bool" where
  "never Q m \<longleftrightarrow> (\<forall>s. \<not> Q (fst (m s)))"

lemma runs_whenD: "runs_when R Q m \<Longrightarrow> m s = (r, t) \<Longrightarrow> Q r \<Longrightarrow> R s t"
  by (simp add: runs_when_def)

lemma never_runs_when: "never Q m \<Longrightarrow> runs_when R Q m"
  unfolding runs_when_def never_def by (metis fst_conv)

lemma never_bnd:
  assumes "\<And>e. \<not> Q (Inl e)" and "\<And>a. never Q (f a)"
  shows "never Q (bnd m f)"
  using assms by (auto simp: never_def bnd_def split: prod.splits sum.splits)

lemma never_ret: "\<not> Q (Inr a) \<Longrightarrow> never Q (ret a)"
  by (simp add: never_def)

lemma runs_when_if:
  "(b \<Longrightarrow> runs_when R Q m) \<Longrightarrow> (\<not> b \<Longrightarrow> runs_when R Q n) \<Longrightarrow> runs_when R Q (if b then m else n)"
  by simp

lemma runs_when_let: "runs_when R Q (f x) \<Longrightarrow> runs_when R Q (let y = x in f y)"
  by simp

lemmas [steps_intros] = runs_when_if runs_when_let

locale step_rel =
  fixes R :: "'s \<Rightarrow> 's \<Rightarrow> bool"
  assumes R_refl: "R s s"
    and R_trans: "R s t \<Longrightarrow> R t u \<Longrightarrow> R s u"
begin

lemma runs_ret [steps_intros]: "runs_in R (ret a)"
  by (simp add: runs_in_def R_refl)

lemma runs_throw [steps_intros]: "runs_in R (throw e)"
  by (simp add: runs_in_def R_refl)

lemma runs_gets [steps_intros]: "runs_in R (gets f)"
  by (simp add: runs_in_def R_refl)

lemma runs_lift [steps_intros]: "runs_in R (lift_res r)"
  by (simp add: runs_in_def R_refl)

lemma runs_bnd [steps_intros]:
  assumes "runs_in R m" and "\<And>a. runs_in R (f a)"
  shows "runs_in R (bnd m f)"
proof (rule runs_inI)
  fix s r t
  assume "bnd m f s = (r, t)"
  then show "R s t"
  proof (cases rule: bnd_cases)
    case (err e)
    then show ?thesis using runs_inD [OF assms(1)] by blast
  next
    case (ok a u)
    then show ?thesis
      using runs_inD [OF assms(1)] runs_inD [OF assms(2)] R_trans by blast
  qed
qed

lemma runs_try [steps_intros]:
  assumes "runs_in R m" and "\<And>e. runs_in R (h e)"
  shows "runs_in R (try_catch m h)"
proof (rule runs_inI)
  fix s r t
  assume r: "try_catch m h s = (r, t)"
  obtain x u where m: "m s = (x, u)" by fastforce
  have "R s u" using runs_inD [OF assms(1) m] .
  moreover have "R u t"
    using r m R_refl runs_inD [OF assms(2)] by (cases x) auto
  ultimately show "R s t" by (rule R_trans)
qed

lemma runs_for_each [steps_intros]:
  assumes "\<And>x. x \<in> set xs \<Longrightarrow> runs_in R (f x)"
  shows "runs_in R (for_each f xs)"
  using assms by (induction xs) (auto intro: runs_ret runs_bnd)

lemma runs_collect [steps_intros]:
  assumes "\<And>x. runs_in R (f x)"
  shows "runs_in R (collect f xs)"
  using assms by (induction xs) (auto intro: runs_ret runs_bnd)

lemma runs_when_bnd [steps_intros]:
  assumes "runs_in R m" and "\<And>a. runs_when R Q (f a)"
  shows "runs_when R Q (bnd m f)"
  unfolding runs_when_def
proof (intro allI impI)
  fix s r t
  assume "bnd m f s = (r, t)" and Q: "Q r"
  then show "R s t"
  proof (cases rule: bnd_cases)
    case (err e)
    then show ?thesis using runs_inD [OF assms(1)] by blast
  next
    case (ok a u)
    moreover have "R u t" using ok(2) Q assms(2) by (auto simp: runs_when_def)
    ultimately show ?thesis using runs_inD [OF assms(1) ok(1)] R_trans by blast
  qed
qed

lemma runs_when_ret [steps_intros]: "runs_when R Q (ret a)" "runs_when R Q (throw e)"
  by (simp_all add: runs_when_def R_refl)

end

end
