(* ===== verification/JsLib.thy ===== *)
theory JsLib
  imports Prelude
begin

text \<open>
  The part of the JavaScript standard library the federator uses on strings and numbers:
  \<open>substring\<close>, \<open>slice\<close>, \<open>indexOf\<close>, \<open>startsWith\<close>, \<open>parseInt\<close>, the conversion of an integer
  to the nearest double, and decimal rendering. Strings are lists of characters; a JavaScript
  number that is an integer is an \<open>int\<close>, and NaN is \<open>None\<close>.
\<close>

section \<open>Strings\<close>

text \<open>\<open>s.substring(a, b)\<close> clamps both ends to the string and swaps them when out of order.\<close>

definition clamp_index :: "int \<Rightarrow> string \<Rightarrow> nat" where
  "clamp_index i s = nat (min i (int (length s)))"

definition js_substring :: "string \<Rightarrow> int \<Rightarrow> int \<Rightarrow> string" where
  "js_substring s a b =
     (let i = clamp_index a s; j = clamp_index b s
      in take (max i j - min i j) (drop (min i j) s))"

definition js_substring_from :: "string \<Rightarrow> int \<Rightarrow> string" where
  "js_substring_from s a = drop (clamp_index a s) s"

definition starts_with :: "string \<Rightarrow> string \<Rightarrow> bool" where
  "starts_with p s \<longleftrightarrow> take (length p) s = p"

text \<open>\<open>s.indexOf(p)\<close>: the least position where \<open>p\<close> occurs, or -1.\<close>

fun index_from :: "int \<Rightarrow> string \<Rightarrow> string \<Rightarrow> int" where
  "index_from i p [] = (if p = [] then i else -1)"
| "index_from i p (c # cs) = (if starts_with p (c # cs) then i else index_from (i + 1) p cs)"

definition index_of :: "string \<Rightarrow> string \<Rightarrow> int" where
  "index_of p s = index_from 0 p s"

definition js_includes :: "string \<Rightarrow> string \<Rightarrow> bool" where
  "js_includes p s \<longleftrightarrow> index_of p s \<ge> 0"

lemma js_substring_0: "js_substring s 0 b = take (nat b) s"
  by (cases "b \<le> int (length s)")
    (auto simp: js_substring_def clamp_index_def Let_def min_def)

lemma js_substring_from_nat: "js_substring_from s (int n) = drop n s"
  by (auto simp: js_substring_from_def clamp_index_def min_def nat_int)

lemma js_substring_from_2 [simp]: "js_substring_from s 2 = drop 2 s"
  using js_substring_from_nat [of s 2] by simp

lemma starts_with_append [simp]: "starts_with p (p @ s)"
  by (simp add: starts_with_def)

lemma starts_with_iff: "starts_with p s \<longleftrightarrow> (\<exists>t. s = p @ t)"
  by (auto simp: starts_with_def) (metis append_take_drop_id)

lemma index_from_ge: "index_from i p s = -1 \<or> i \<le> index_from i p s"
  by (induction s arbitrary: i) (auto, smt (verit))

lemma index_from_nonneg_iff:
  "0 \<le> i \<Longrightarrow> (0 \<le> index_from i p s) = (\<exists>a b. s = a @ p @ b)"
proof (induction s arbitrary: i)
  case Nil
  then show ?case by auto
next
  case (Cons c cs)
  show ?case
  proof (cases "starts_with p (c # cs)")
    case True
    then have "\<exists>a b. c # cs = a @ p @ b"
      by (auto simp: starts_with_iff intro: exI [of _ "[]"])
    with True Cons.prems show ?thesis by simp
  next
    case False
    have "(\<exists>a b. c # cs = a @ p @ b) = (\<exists>a b. cs = a @ p @ b)"
    proof
      assume "\<exists>a b. c # cs = a @ p @ b"
      then obtain a b where ab: "c # cs = a @ p @ b" by blast
      with False have "a \<noteq> []" by (auto simp: starts_with_iff)
      with ab show "\<exists>a b. cs = a @ p @ b" by (cases a) auto
    next
      assume "\<exists>a b. cs = a @ p @ b"
      then obtain a b where "cs = a @ p @ b" by blast
      then have "c # cs = (c # a) @ p @ b" by simp
      then show "\<exists>a b. c # cs = a @ p @ b" by blast
    qed
    with False Cons show ?thesis by simp
  qed
qed

lemma js_includes_iff: "js_includes p s \<longleftrightarrow> (\<exists>a b. s = a @ p @ b)"
  by (simp add: js_includes_def index_of_def index_from_nonneg_iff)

section \<open>Integers as doubles\<close>

text \<open>
  A JavaScript number holds an integer exactly up to 53 bits; a longer one is rounded to the
  nearest multiple of the unit in the last place, ties to even.
\<close>

definition js_double_nat :: "nat \<Rightarrow> nat" where
  "js_double_nat n =
     (let e = floorlog 2 n - 53; q = n div 2 ^ e; r = n mod 2 ^ e; half = 2 ^ (e - 1)
      in (if e > 0 \<and> (r > half \<or> (r = half \<and> odd q)) then Suc q else q) * 2 ^ e)"

definition js_double :: "int \<Rightarrow> int" where
  "js_double i = (if i < 0 then - int (js_double_nat (nat (- i))) else int (js_double_nat (nat i)))"

lemma js_double_nat_exact: "n < 2 ^ 53 \<Longrightarrow> js_double_nat n = n"
proof -
  assume "n < 2 ^ 53"
  then have "floorlog 2 n \<le> 53" by (intro floorlog_leI) auto
  then show ?thesis by (simp add: js_double_nat_def Let_def)
qed

lemma js_double_exact: "\<bar>i\<bar> < 2 ^ 53 \<Longrightarrow> js_double i = i"
  by (auto simp: js_double_def js_double_nat_exact nat_less_iff)

lemma js_double_nat_0_iff [simp]: "js_double_nat n = 0 \<longleftrightarrow> n = 0"
proof (cases "n < 2 ^ 53")
  case True
  then show ?thesis by (simp add: js_double_nat_exact)
next
  case False
  let ?e = "floorlog 2 n - 53"
  have "53 < floorlog 2 n"
  proof (rule ccontr)
    assume "\<not> 53 < floorlog 2 n"
    then have "n < 2 ^ 53" by (intro floorlog_leD) auto
    with False show False by simp
  qed
  then have fl: "floorlog 2 n = Suc (?e + 52)" by simp
  have "2 ^ (?e + 52) \<le> n"
    using floorlog_geD [of "Suc (?e + 52)" 2 n] fl by auto
  then have "2 ^ ?e \<le> n"
    by (simp add: power_add le_trans [OF _ \<open>2 ^ (?e + 52) \<le> n\<close>])
  then have "0 < n div 2 ^ ?e"
    by (simp add: div_greater_zero_iff)
  then have "0 < js_double_nat n"
    by (simp add: js_double_nat_def Let_def)
  with False show ?thesis by auto
qed

lemma js_double_0_iff [simp]: "js_double i = 0 \<longleftrightarrow> i = 0"
  by (auto simp: js_double_def)

lemma js_double_0 [simp]: "js_double 0 = 0"
  by simp

section \<open>Decimal digits\<close>

definition digit_char :: "nat \<Rightarrow> char" where
  "digit_char d = char_of (48 + d)"

fun show_nat :: "nat \<Rightarrow> string" where
  "show_nat n = (if n < 10 then [digit_char n] else show_nat (n div 10) @ [digit_char (n mod 10)])"

declare show_nat.simps [simp del]

definition show_int :: "int \<Rightarrow> string" where
  "show_int i = (if i < 0 then CHR ''-'' # show_nat (nat (- i)) else show_nat (nat i))"

lemma show_int_of_nat [simp]: "show_int (int n) = show_nat n"
  by (simp add: show_int_def)

text \<open>The value of a digit in a radix up to 16; letters of either case.\<close>

definition digit_val :: "char \<Rightarrow> nat option" where
  "digit_val c =
     (let n = of_char c :: nat
      in if 48 \<le> n \<and> n \<le> 57 then Some (n - 48)
         else if 97 \<le> n \<and> n \<le> 102 then Some (n - 87)
         else if 65 \<le> n \<and> n \<le> 70 then Some (n - 55) else None)"

definition is_digit :: "nat \<Rightarrow> char \<Rightarrow> bool" where
  "is_digit radix c = (case digit_val c of None \<Rightarrow> False | Some d \<Rightarrow> d < radix)"

definition read_digits :: "nat \<Rightarrow> string \<Rightarrow> nat" where
  "read_digits radix s = foldl (\<lambda>a c. a * radix + (case digit_val c of None \<Rightarrow> 0 | Some d \<Rightarrow> d)) 0 s"

definition js_space :: "char \<Rightarrow> bool" where
  "js_space c \<longleftrightarrow> (of_char c :: nat) \<in> {9, 10, 11, 12, 13, 32}"

text \<open>
  \<open>parseInt(s)\<close>: leading white space, a sign, an optional \<open>0x\<close>, then the longest run of digits;
  NaN when there is none. The value is rounded to a double.
\<close>

definition split_sign :: "string \<Rightarrow> bool \<times> string" where
  "split_sign s = (case s of c # cs \<Rightarrow>
     (if c = CHR ''-'' then (True, cs) else if c = CHR ''+'' then (False, cs) else (False, s))
   | [] \<Rightarrow> (False, s))"

definition split_radix :: "string \<Rightarrow> nat \<times> string" where
  "split_radix s =
     (if starts_with ''0x'' s \<or> starts_with ''0X'' s then (16, drop 2 s) else (10, s))"

definition parse_int :: "string \<Rightarrow> int option" where
  "parse_int s =
     (let (neg, t) = split_sign (dropWhile js_space s);
          (radix, u) = split_radix t;
          ds = takeWhile (is_digit radix) u;
          v = js_double (int (read_digits radix ds))
      in if ds = [] then None else Some (if neg then - v else v))"


lemma digit_val_digit_char [simp]: "d < 10 \<Longrightarrow> digit_val (digit_char d) = Some d"
  by (auto simp: digit_val_def digit_char_def Let_def of_char_of)

lemma is_digit_digit_char [simp]: "d < 10 \<Longrightarrow> is_digit 10 (digit_char d)"
  by (simp add: is_digit_def)

lemma show_nat_small: "n < 10 \<Longrightarrow> show_nat n = [digit_char n]"
  by (simp add: show_nat.simps)

lemma show_nat_big: "10 \<le> n \<Longrightarrow> show_nat n = show_nat (n div 10) @ [digit_char (n mod 10)]"
  by (subst show_nat.simps) simp

lemma show_nat_nonempty [simp]: "show_nat n \<noteq> []"
  by (subst show_nat.simps) simp

lemma show_nat_digits: "\<forall>c \<in> set (show_nat n). is_digit 10 c"
proof (induction n rule: show_nat.induct)
  case (1 n)
  then show ?case
    by (cases "n < 10") (auto simp: show_nat_small show_nat_big)
qed

lemma read_digits_snoc:
  "read_digits r (s @ [c]) = read_digits r s * r + (case digit_val c of None \<Rightarrow> 0 | Some d \<Rightarrow> d)"
  by (simp add: read_digits_def)

lemma read_show_nat [simp]: "read_digits 10 (show_nat n) = n"
proof (induction n rule: show_nat.induct)
  case (1 n)
  show ?case
  proof (cases "n < 10")
    case True
    then show ?thesis by (simp add: show_nat_small read_digits_def)
  next
    case False
    with 1 show ?thesis by (simp add: show_nat_big read_digits_snoc)
  qed
qed

text \<open>Cutting the last \<open>k\<close> digits off divides by \<open>10 ^ k\<close>, and leaves nothing when nothing is left.\<close>

lemma take_show_nat:
  "take (length (show_nat n) - k) (show_nat n)
    = (if n < 10 ^ k \<and> k > 0 then [] else show_nat (n div 10 ^ k))"
proof (induction k arbitrary: n)
  case 0
  show ?case by simp
next
  case (Suc k)
  show ?case
  proof (cases "n < 10")
    case True
    then have "n < 10 * 10 ^ k" by (simp add: less_le_trans)
    with True show ?thesis by (simp add: show_nat_small)
  next
    case False
    let ?m = "n div 10"
    have "take (length (show_nat n) - Suc k) (show_nat n)
        = take (length (show_nat ?m) - k) (show_nat ?m)"
      using False by (simp add: show_nat_big)
    also have "\<dots> = (if ?m < 10 ^ k \<and> k > 0 then [] else show_nat (?m div 10 ^ k))"
      by (rule Suc.IH)
    also have "\<dots> = (if n < 10 ^ Suc k \<and> Suc k > 0 then [] else show_nat (n div 10 ^ Suc k))"
    proof (cases "k = 0")
      case True
      with False show ?thesis by simp
    next
      case False
      have "(?m < 10 ^ k) = (n < 10 ^ Suc k)"
        by (simp add: less_mult_imp_div_less div_less_iff_less_mult mult.commute)
      with False show ?thesis by (simp add: div_mult2_eq)
    qed
    finally show ?thesis .
  qed
qed

lemma digit_not_space: "is_digit 10 c \<Longrightarrow> \<not> js_space c"
  by (auto simp: is_digit_def digit_val_def js_space_def Let_def split: if_splits)

lemma digit_not_sign: "is_digit 10 c \<Longrightarrow> c \<noteq> CHR ''-'' \<and> c \<noteq> CHR ''+''"
  by (auto simp: is_digit_def digit_val_def)

lemma letter_x_no_digit [simp]: "\<not> is_digit 10 CHR ''x''" "\<not> is_digit 10 CHR ''X''"
  by (simp_all add: is_digit_def digit_val_def)

lemma parse_int_digits:
  assumes ne: "s \<noteq> []" and ds: "\<forall>c \<in> set s. is_digit 10 c"
  shows "parse_int s = Some (js_double (int (read_digits 10 s)))"
proof -
  obtain c cs where s: "s = c # cs" using ne by (cases s) auto
  have sp: "dropWhile js_space s = s"
    using ds s digit_not_space by auto
  have sg: "split_sign s = (False, s)"
    using ds s digit_not_sign [of c] by (simp add: split_sign_def)
  have "\<not> starts_with ''0x'' s" and "\<not> starts_with ''0X'' s"
    using ds by (auto simp: starts_with_iff)
  then have rx: "split_radix s = (10, s)" by (simp add: split_radix_def)
  have tw: "takeWhile (is_digit 10) s = s"
    using ds by (simp add: takeWhile_eq_all_conv)
  show ?thesis
    using ne by (simp add: parse_int_def sp sg rx tw)
qed

lemma parse_int_show_nat: "parse_int (show_nat n) = Some (js_double (int n))"
  by (simp add: parse_int_digits show_nat_digits)

lemma parse_int_Nil [simp]: "parse_int [] = None"
  by (simp add: parse_int_def split_sign_def split_radix_def starts_with_def)

end
