(* ===== verification/Utils.thy ===== *)
theory Utils
  imports JsLib
begin

text \<open>
  \<open>lib/utils.ts\<close> and \<open>lib/typescriptUtils.ts\<close>: the retry helpers, the host and chain checks,
  and the two conversions between Hathor amounts (two decimals) and EVM amounts. A wait is a
  computation passed in, so that the waits a helper makes are visible in the state.
\<close>

section \<open>Retrying\<close>

record retry_config =
  retriesMax :: int
  interval :: int
  exponential :: bool
  factor :: int
  isCb :: bool

definition default_retry_config :: retry_config where
  "default_retry_config =
     \<lparr>retriesMax = 3, interval = 0, exponential = True, factor = 2, isCb = False\<rparr>"

text \<open>
  \<open>checkRetriesMax\<close> rethrows on the last attempt and for an error that has an own property
  \<open>retryable\<close> that is false; \<open>nr\<close> tells those errors apart.
\<close>

definition checkRetriesMax :: "(exn \<Rightarrow> bool) \<Rightarrow> int \<Rightarrow> int \<Rightarrow> exn \<Rightarrow> ('s, unit) comp" where
  "checkRetriesMax nr rmax i e = (if rmax = i + 1 \<or> nr e then throw e else ret ())"

function retry_loop ::
  "(int \<Rightarrow> ('s, unit) comp) \<Rightarrow> (exn \<Rightarrow> bool) \<Rightarrow> ('s, 'a) comp \<Rightarrow> retry_config \<Rightarrow> int \<Rightarrow> int
    \<Rightarrow> ('s, 'a) comp" where
  "retry_loop sleep nr fn c i iv =
     (if i < retriesMax c then
        (if isCb c then retry_loop sleep nr fn c (i + 1) iv
         else try_catch fn (\<lambda>e.
           bnd (checkRetriesMax nr (retriesMax c) i e) (\<lambda>_.
           let iv' = (if exponential c then iv * factor c else iv)
           in bnd (if iv' \<noteq> 0 then sleep iv' else ret ()) (\<lambda>_.
              retry_loop sleep nr fn c (i + 1) iv'))))
      else fn)"
  by pat_completeness auto
termination
  by (relation "measure (\<lambda>(_, _, _, c, i, _). nat (retriesMax c - i))") auto

declare retry_loop.simps [simp del]

definition retry ::
  "(int \<Rightarrow> ('s, unit) comp) \<Rightarrow> (exn \<Rightarrow> bool) \<Rightarrow> ('s, 'a) comp \<Rightarrow> retry_config \<Rightarrow> ('s, 'a) comp" where
  "retry sleep nr fn c = retry_loop sleep nr fn c 0 (interval c)"

text \<open>
  \<open>retry3Times(func, params = null)\<close>: spreading \<open>null\<close> into the call is a TypeError, raised
  inside the protected block on every attempt.
\<close>

definition retry3Times ::
  "(int \<Rightarrow> ('s, unit) comp) \<Rightarrow> (exn \<Rightarrow> bool) \<Rightarrow> ('p \<Rightarrow> ('s, 'a) comp) \<Rightarrow> 'p option \<Rightarrow> ('s, 'a) comp" where
  "retry3Times sleep nr func params =
     retry sleep nr (case params of None \<Rightarrow> throw JsTypeError | Some p \<Rightarrow> func p)
       \<lparr>retriesMax = 3, interval = 1000, exponential = False, factor = 0, isCb = False\<rparr>"

text \<open>
  \<open>retryNTimes\<close> receives a promise, not a function: by the time it is awaited the call has been
  made, and every further await of it gives the same settled result.
\<close>

function retry_attempts ::
  "(int \<Rightarrow> ('s, unit) comp) \<Rightarrow> 'a res \<Rightarrow> int \<Rightarrow> int \<Rightarrow> int \<Rightarrow> ('s, 'a) comp" where
  "retry_attempts sleep toTry ntimes iv count =
     (if count < ntimes then
        (case toTry of
           Inr a \<Rightarrow> ret a
         | Inl e \<Rightarrow> (if count + 1 \<ge> ntimes then throw e
                    else bnd (sleep iv) (\<lambda>_. retry_attempts sleep toTry ntimes iv (count + 1))))
      else throw (JsError ''Failed to obtain result''))"
  by pat_completeness auto
termination
  by (relation "measure (\<lambda>(_, _, ntimes, _, count). nat (ntimes - count))") auto

declare retry_attempts.simps [simp del]

definition retryNTimes ::
  "(int \<Rightarrow> ('s, unit) comp) \<Rightarrow> 'a res \<Rightarrow> int \<Rightarrow> int \<Rightarrow> ('s, 'a) comp" where
  "retryNTimes sleep toTry ntimes iv =
     (if ntimes < 1 then throw (JsError ''Bad argument: times must be greater than 0'')
      else retry_attempts sleep toTry ntimes iv 0)"

text \<open>The promise itself: the call runs once and its outcome, value or error, is kept.\<close>

definition settle :: "('s, 'a) comp \<Rightarrow> ('s, 'a res) comp" where
  "settle m s = (Inr (fst (m s)), snd (m s))"

lemma settle_run [simp, m_simps]: "m s = (r, t) \<Longrightarrow> settle m s = (Inr r, t)"
  by (simp add: settle_def)

context step_rel
begin

lemma runs_settle [steps_intros]: "runs_in R m \<Longrightarrow> runs_in R (settle m)"
  by (simp add: runs_in_def settle_def)

lemma runs_retry_attempts:
  "(\<And>i. runs_in R (sleep i)) \<Longrightarrow> runs_in R (retry_attempts sleep toTry ntimes iv count)"
proof (induction sleep toTry ntimes iv count rule: retry_attempts.induct)
  case (1 sleep toTry ntimes iv count)
  show ?case
    by (subst retry_attempts.simps) (use 1 in \<open>intro steps_intros; simp\<close>)
qed

lemma runs_retryNTimes [steps_intros]:
  "(\<And>i. runs_in R (sleep i)) \<Longrightarrow> runs_in R (retryNTimes sleep toTry ntimes iv)"
  by (simp add: retryNTimes_def runs_retry_attempts runs_throw)

end

section \<open>Hosts, chains and prefixes\<close>

definition stripHexPrefix :: "string \<Rightarrow> string" where
  "stripHexPrefix s = (if index_of ''0x'' s = 0 then drop 2 s else s)"

definition checkHttpsOrLocalhost :: "string option \<Rightarrow> string \<Rightarrow> bool" where
  "checkHttpsOrLocalhost skip_https url =
     (skip_https = Some ''true''
      \<or> starts_with ''https://'' url
      \<or> starts_with ''http://127.0.0.1'' url \<or> starts_with ''http://localhost'' url)"

definition checkIfItsInRSK :: "int \<Rightarrow> bool" where
  "checkIfItsInRSK chainId =
     (chainId = 0 \<or> chainId = 5777 \<or> chainId = 30 \<or> chainId = 31 \<or> chainId = 33)"

definition heartbeat_interval :: "int \<Rightarrow> int \<Rightarrow> int" where
  "heartbeat_interval chainId runHeartbeatEvery =
     (if chainId \<in> {30, 31} then 1000 * 60 * 60 else runHeartbeatEvery * 1000 * 60)"

definition ZERO_ADDRESS :: string where
  "ZERO_ADDRESS = ''0x0000000000000000000000000000000000000000''"

section \<open>Amounts\<close>

text \<open>
  \<open>BigInt(n)\<close> throws on NaN; the error is logged and swallowed, so the result is undefined.
\<close>

definition convertToEvmDecimals :: "int option \<Rightarrow> int option" where
  "convertToEvmDecimals originalQtd =
     (case originalQtd of None \<Rightarrow> None | Some n \<Rightarrow> Some (n * 10 ^ 16))"

definition convertToHathorDecimals :: "string \<Rightarrow> int \<Rightarrow> int res" where
  "convertToHathorDecimals originalQtd tokenDecimals =
     (let decimalDifference = tokenDecimals - 2;
          result = js_substring originalQtd 0 (int (length originalQtd) - decimalDifference)
      in if result = [] then
           Inl (HathorException
             (''Unable to convert amount to Hathor amount. '' @ originalQtd @ '' is invalid.'') NoMsg)
         else (case parse_int result of
             None \<Rightarrow> Inl (HathorException (''Invalid amount. '' @ originalQtd @ '' is NaN or 0.'') NoMsg)
           | Some amount \<Rightarrow>
               if amount = 0
               then Inl (HathorException (''Invalid amount. '' @ originalQtd @ '' is NaN or 0.'') NoMsg)
               else Inr amount))"


section \<open>What the helpers guarantee\<close>

text \<open>
  The specification of \<open>retry\<close> without waits: try, and on an error try again, the last
  attempt's outcome being the result.
\<close>

fun attempts :: "nat \<Rightarrow> ('s, 'a) comp \<Rightarrow> ('s, 'a) comp" where
  "attempts 0 fn = fn"
| "attempts (Suc k) fn = try_catch fn (\<lambda>_. attempts k fn)"

lemma retry_loop_attempts:
  assumes "\<not> isCb c" and "\<And>e. \<not> nr e"
  shows "i + 1 + int k = retriesMax c \<Longrightarrow> retry_loop sleep nr fn c i 0 = attempts k fn"
proof (induction k arbitrary: i)
  case 0
  then show ?case
    using assms by (subst retry_loop.simps)
      (auto simp: checkRetriesMax_def fun_eq_iff try_catch_def bnd_def split: sum.splits prod.splits)
next
  case (Suc k)
  then have IH: "retry_loop sleep nr fn c (i + 1) 0 = attempts k fn" by simp
  show ?case
    using assms Suc.prems by (subst retry_loop.simps)
      (simp add: IH checkRetriesMax_def bnd_def Let_def try_catch_def)
qed

lemma retry_attempts_settled:
  assumes "\<And>i s. \<exists>t. sleep i s = (Inr (), t)" and "count < n"
  shows "fst (retry_attempts sleep r n iv count s) = r"
  using assms(2)
proof (induction "nat (n - count)" arbitrary: count s rule: less_induct)
  case less
  obtain t where t: "sleep iv s = (Inr (), t)" using assms(1) by blast
  show ?case
  proof (cases r)
    case (Inr a)
    with less.prems show ?thesis by (subst retry_attempts.simps) simp
  next
    case (Inl e)
    have "fst (retry_attempts sleep r n iv (count + 1) t) = r" if "count + 1 < n"
      using less.hyps [of "count + 1" t] that by simp
    with Inl less.prems t show ?thesis by (subst retry_attempts.simps) simp
  qed
qed

lemma retryNTimes_run:
  "retryNTimes sleep (Inr a) 3 iv s = (Inr a, s)"
  by (simp add: retryNTimes_def retry_attempts.simps)

lemma stripHexPrefix_alt: "stripHexPrefix s = (if starts_with ''0x'' s then drop 2 s else s)"
proof (cases s)
  case Nil
  then show ?thesis by (simp add: stripHexPrefix_def index_of_def starts_with_def)
next
  case (Cons c cs)
  have "starts_with ''0x'' s \<longleftrightarrow> index_of ''0x'' s = 0"
    using index_from_ge [of 1 "''0x''" cs] by (auto simp: Cons index_of_def)
  then show ?thesis by (simp add: stripHexPrefix_def)
qed

lemma convertToHathorDecimals_parts:
  assumes "2 \<le> d"
  shows "js_substring (show_nat n) 0 (int (length (show_nat n)) - (int d - 2))
    = (if n < 10 ^ (d - 2) \<and> 2 < d then [] else show_nat (n div 10 ^ (d - 2)))"
proof -
  have "nat (int (length (show_nat n)) - (int d - 2)) = length (show_nat n) - (d - 2)"
    using assms by linarith
  then show ?thesis using take_show_nat [of n "d - 2"] by (simp add: js_substring_0)
qed


text \<open>
  For a token with at least two decimals, converting a decimal amount to Hathor drops the
  surplus digits (rounds down) and returns the nearest double of the quotient; an amount below
  one hundredth of a token is refused, with the first error when no digit is left and the
  second when the digits left spell zero.
\<close>
theorem convertToHathorDecimals_floor:
  assumes "2 \<le> d"
  shows "convertToHathorDecimals (show_nat n) (int d) =
    (if n < 10 ^ (d - 2)
     then Inl (HathorException
       ((if 2 < d then ''Unable to convert amount to Hathor amount. '' @ show_nat n @ '' is invalid.''
         else ''Invalid amount. '' @ show_nat n @ '' is NaN or 0.'')) NoMsg)
     else Inr (js_double (int (n div 10 ^ (d - 2)))))"
proof -
  have "n div 10 ^ (d - 2) = 0 \<longleftrightarrow> n < 10 ^ (d - 2)"
    by (simp add: div_eq_0_iff)
  then show ?thesis
    using assms
    by (auto simp: convertToHathorDecimals_def Let_def convertToHathorDecimals_parts parse_int_show_nat)
qed

theorem convertToHathorDecimals_floor_witness:
  "(2::nat) \<le> 6 \<and> convertToHathorDecimals (show_nat 18990000) 6 = Inr 1899"
proof -
  have h: "(2::nat) \<le> 6" by simp
  show ?thesis
    using convertToHathorDecimals_floor [OF h, of 18990000] by (simp add: js_double_exact)
qed

text \<open>
  An amount sent from Hathor to an 18-decimal EVM token converts back to itself, for every
  positive amount below 2^53.
\<close>
theorem decimals_roundtrip:
  assumes "0 < n" and "n < 2 ^ 53"
  shows "convertToEvmDecimals (Some (int n)) = Some (int (n * 10 ^ 16))
    \<and> convertToHathorDecimals (show_int (int (n * 10 ^ 16))) 18 = Inr (int n)"
proof -
  have "convertToHathorDecimals (show_nat (n * 10 ^ 16)) (int 18) = Inr (js_double (int n))"
    using assms(1) by (subst convertToHathorDecimals_floor) auto
  moreover have "js_double (int n) = int n"
    using assms(2) by (simp add: js_double_exact)
  moreover have "show_int (int (n * 10 ^ 16)) = show_nat (n * 10 ^ 16)"
    by (rule show_int_of_nat)
  ultimately show ?thesis by (simp add: convertToEvmDecimals_def)
qed

theorem decimals_roundtrip_witness:
  "convertToEvmDecimals (Some 153) = Some 1530000000000000000
    \<and> convertToHathorDecimals (show_int 1530000000000000000) 18 = Inr 153"
  using decimals_roundtrip [of 153] by simp

text \<open>
  A token with fewer than two decimals is not scaled at all: every positive amount below
  2^53 is passed on as that many hundredths, so one whole unit of a zero-decimal token becomes
  one hundredth on Hathor.
\<close>
theorem convertToHathorDecimals_few_decimals:
  assumes "d < 2" and "0 < n" and "n < 2 ^ 53"
  shows "convertToHathorDecimals (show_nat n) d = Inr (int n)"
proof -
  have "js_substring (show_nat n) 0 (int (length (show_nat n)) - (d - 2)) = show_nat n"
    using assms(1) by (simp add: js_substring_0)
  then show ?thesis
    using assms by (simp add: convertToHathorDecimals_def Let_def parse_int_show_nat js_double_exact)
qed

theorem convertToHathorDecimals_few_decimals_witness:
  "convertToHathorDecimals (show_nat 7) 0 = Inr 7"
  using convertToHathorDecimals_few_decimals [of 0 7] by simp

text \<open>
  \<open>retryNTimes\<close> cannot retry: given a settled promise it returns exactly that promise's
  outcome, whatever number of attempts is allowed.
\<close>
theorem retryNTimes_only_awaits:
  assumes "\<And>i s. \<exists>t. sleep i s = (Inr (), t)" and "1 \<le> n"
  shows "fst (retryNTimes sleep r n iv s) = r"
  using assms retry_attempts_settled [of sleep 0 n r iv s] by (simp add: retryNTimes_def)

theorem retryNTimes_only_awaits_witness:
  "fst (retryNTimes (\<lambda>i. modify (\<lambda>w. w + i)) (Inl (JsError ''down'')) 3 1000 (0::int))
     = (Inl (JsError ''down'') :: unit res)"
  by (rule retryNTimes_only_awaits) auto

end
