(* ===== verification/Scripts.thy ===== *)
theory Scripts
  imports JsLib
begin

text \<open>
  \<open>utils/opcodes.ts\<close>, \<open>utils/script_data.ts\<close> and \<open>utils/scripts.ts\<close>: reading the data output
  of a Hathor transaction. A Buffer is a list of bytes; \<open>slice\<close> clamps, as in Node. A decoded
  string is kept by the bytes of its encoding, one character per byte.
\<close>

type_synonym bytes = "8 word list"

section \<open>Opcodes\<close>

definition isHexa :: "string \<Rightarrow> bool" where
  "isHexa value = list_all (is_digit 16) value"

fun hex_bytes :: "string \<Rightarrow> bytes" where
  "hex_bytes (a # b # s) = of_nat (read_digits 16 [a, b]) # hex_bytes s"
| "hex_bytes s = []"

definition hexToBuffer :: "string \<Rightarrow> bytes res" where
  "hexToBuffer value =
     (if \<not> isHexa value then Inl (JsError ''hexToBuffer: argument must be a strict hex string.'')
      else Inr (hex_bytes value))"

definition OP_PUSHDATA1 :: bytes where "OP_PUSHDATA1 = hex_bytes ''4c''"

definition OP_CHECKSIG :: bytes where "OP_CHECKSIG = hex_bytes ''ac''"

lemma OP_PUSHDATA1_byte [simp]: "hd OP_PUSHDATA1 = 0x4c"
  by (simp add: OP_PUSHDATA1_def read_digits_def digit_val_def)

lemma OP_CHECKSIG_byte [simp]: "hd OP_CHECKSIG = 0xac"
  by (simp add: OP_CHECKSIG_def read_digits_def digit_val_def)

section \<open>Push data\<close>

text \<open>\<open>buf.slice(start, end)\<close> with non-negative ends.\<close>

definition slice :: "nat \<Rightarrow> nat \<Rightarrow> 'a list \<Rightarrow> 'a list" where
  "slice i j xs = take (j - i) (drop i xs)"

text \<open>
  Reading the second byte of a one-byte buffer gives \<open>undefined\<close>; \<open>start + undefined\<close> is NaN,
  which \<open>slice\<close> reads as 0, so the slice is empty.
\<close>

definition getPushData :: "bytes \<Rightarrow> bytes res" where
  "getPushData buff =
     (case buff of
        [] \<Rightarrow> Inl (JsError ''Invalid buffer.'')
      | b # rest \<Rightarrow>
          if 75 < unat b then
            (case rest of [] \<Rightarrow> Inr [] | l # _ \<Rightarrow> Inr (slice 2 (2 + unat l) buff))
          else Inr (slice 1 (1 + unat b) buff))"

definition byte_chars :: "bytes \<Rightarrow> string" where
  "byte_chars bs = map (\<lambda>b. char_of (unat b)) bs"

definition ScriptData :: "string \<Rightarrow> string res" where
  "ScriptData data = (if data = [] then Inl (JsError ''You must provide data.'') else Inr data)"

definition parseScriptData :: "bytes \<Rightarrow> string res" where
  "parseScriptData scriptBuf =
     (if length scriptBuf < 2
      then Inl (JsError ''Invalid output script. Script must have at least 2 bytes.'')
      else let (prefix, dataBytesLen) =
             (if scriptBuf ! 0 = hd OP_PUSHDATA1 then (3, unat (scriptBuf ! 1))
              else (2, unat (scriptBuf ! 0)));
               expectedLen = prefix + dataBytesLen
           in if expectedLen \<noteq> length scriptBuf
              then Inl (JsError (''Invalid output script. Expected len '' @ show_nat expectedLen
                @ '' and received len '' @ show_nat (length scriptBuf) @ ''.''))
              else if scriptBuf ! (expectedLen - 1) \<noteq> hd OP_CHECKSIG
              then Inl (JsError ''Invalid output script. Last byte must be OP_CHECKSIG.'')
              else (case getPushData scriptBuf of
                      Inl e \<Rightarrow> Inl e
                    | Inr data \<Rightarrow> ScriptData (byte_chars data)))"

section \<open>The scripts Hathor wallets write\<close>

text \<open>
  The layout the parser is for: the length, the data, \<open>OP_CHECKSIG\<close>; from 76 bytes on the length
  is preceded by \<open>OP_PUSHDATA1\<close>.
\<close>

definition data_script :: "bytes \<Rightarrow> bytes" where
  "data_script d =
     (if length d \<le> 75 then [of_nat (length d)] else [0x4c, of_nat (length d)]) @ d @ [0xac]"

lemma unat_of_nat_byte: "n < 256 \<Longrightarrow> unat (of_nat n :: 8 word) = n"
  by (simp add: unat_of_nat)

lemma short_length_not_pushdata: "n \<le> 75 \<Longrightarrow> (of_nat n :: 8 word) \<noteq> 0x4c"
proof
  assume "n \<le> 75" and "(of_nat n :: 8 word) = 0x4c"
  then have "unat (of_nat n :: 8 word) = unat (0x4c :: 8 word)" by simp
  with \<open>n \<le> 75\<close> show False by (simp add: unat_of_nat_byte)
qed

lemma slice_prefix: "length p = i \<Longrightarrow> slice i (i + length d) (p @ d @ r) = d"
  by (simp add: slice_def)

lemma getPushData_short:
  "length d \<le> 75 \<Longrightarrow> getPushData (data_script d) = Inr d"
  using slice_prefix [of "[of_nat (length d) :: 8 word]" 1 d "[0xac]"]
  by (simp add: getPushData_def data_script_def unat_of_nat_byte)

lemma getPushData_long:
  "75 < length d \<Longrightarrow> length d < 256 \<Longrightarrow> getPushData (data_script d) = Inr d"
  using slice_prefix [of "[0x4c, of_nat (length d) :: 8 word]" 2 d "[0xac]"]
  by (simp add: getPushData_def data_script_def unat_of_nat_byte)


lemma parse_data_script_lemma:
  assumes "d \<noteq> []" and "length d < 256"
  shows "parseScriptData (data_script d) = Inr (byte_chars d)"
proof (cases "length d \<le> 75")
  case True
  have "data_script d ! 0 \<noteq> hd OP_PUSHDATA1" and "unat (data_script d ! 0) = length d"
    and "data_script d ! (2 + length d - 1) = hd OP_CHECKSIG"
    using True by (simp_all add: data_script_def short_length_not_pushdata unat_of_nat_byte nth_append)
  moreover have "length (data_script d) = 2 + length d"
    using True by (simp add: data_script_def)
  ultimately show ?thesis
    using getPushData_short [OF True] assms(1)
    by (simp add: parseScriptData_def ScriptData_def byte_chars_def)
next
  case False
  have "data_script d ! 0 = hd OP_PUSHDATA1" and "unat (data_script d ! 1) = length d"
    and "data_script d ! (3 + length d - 1) = hd OP_CHECKSIG"
    using False assms(2) by (simp_all add: data_script_def unat_of_nat_byte nth_append)
  moreover have "length (data_script d) = 3 + length d"
    using False by (simp add: data_script_def)
  ultimately show ?thesis
    using getPushData_long [of d] False assms
    by (simp add: parseScriptData_def ScriptData_def byte_chars_def)
qed

text \<open>
  Every data script a wallet writes, for any non-empty data of up to 255 bytes, parses to
  exactly its data, in the short form and in the \<open>OP_PUSHDATA1\<close> form.
\<close>
theorem parse_data_script:
  assumes "d \<noteq> []" and "length d < 256"
  shows "parseScriptData (data_script d) = Inr (byte_chars d)"
  using assms by (rule parse_data_script_lemma)

theorem parse_data_script_witness:
  "parseScriptData (data_script [0x30, 0x78]) = Inr (byte_chars [0x30, 0x78])"
  by (rule parse_data_script) simp_all

lemma snoc_of_length:
  "length b = Suc n \<Longrightarrow> b ! n = x \<Longrightarrow> \<exists>a. b = a @ [x] \<and> length a = n"
  by (metis append_butlast_last_id diff_Suc_1 last_conv_nth length_0_conv length_butlast nat.distinct(1))

text \<open>
  Nothing else is accepted with a length byte up to 75: a script that parses is the data
  script of the data returned, and the data is not empty.
\<close>
theorem parse_only_data_scripts:
  assumes parsed: "parseScriptData b = Inr s" and short: "unat (hd b) \<le> 75"
  shows "\<exists>d. d \<noteq> [] \<and> b = data_script d \<and> s = byte_chars d"
proof -
  obtain v r where b: "b = v # r" and r0: "r \<noteq> []"
    using parsed by (cases b) (auto simp: parseScriptData_def split: if_splits)
  have v: "unat v \<le> 75" "v \<noteq> 0x4c" using short b by auto
  have len: "length r = Suc (unat v)"
    using parsed v b by (auto simp: parseScriptData_def Let_def split: if_splits)
  have "b ! (1 + unat v) = 0xac"
    using parsed v b len by (simp add: parseScriptData_def Let_def split: if_splits)
  then have cs: "r ! unat v = 0xac" using b by simp
  have pd: "getPushData b = Inr (slice 1 (1 + unat v) b)"
    using v b by (simp add: getPushData_def)
  obtain d where d: "r = d @ [0xac]" "length d = unat v"
    using snoc_of_length [OF len cs] by blast
  have "s = byte_chars d" and "d \<noteq> []"
    using parsed v b pd d slice_prefix [of "[v]" 1 d "[0xac]"]
    by (auto simp: parseScriptData_def ScriptData_def byte_chars_def split: if_splits)
  moreover have "v = of_nat (length d)"
    by (simp add: d(2))
  then have "b = data_script d"
    using b d v(1) by (simp add: data_script_def)
  ultimately show ?thesis by blast
qed

theorem parse_only_data_scripts_witness:
  "\<exists>d. d \<noteq> [] \<and> [1, 0x41, 0xac] = data_script d \<and> byte_chars [0x41] = byte_chars d"
  by (rule parse_only_data_scripts) (simp_all add: parseScriptData_def getPushData_def
      ScriptData_def byte_chars_def slice_def)

text \<open>
  The two functions disagree on a length byte above 76: the length check takes the byte as
  the data's length, while \<open>getPushData\<close> takes it for an opcode and the next byte for the
  length, so the data returned starts one byte late and is cut (or runs into the checksig
  opcode) as that byte says.
\<close>
theorem parse_large_length_byte:
  assumes "76 < unat v" and "length rest = unat v" and "0 < unat (hd rest)"
  shows "parseScriptData (v # rest @ [0xac])
    = Inr (byte_chars (take (unat (hd rest)) (tl rest @ [0xac])))"
proof -
  obtain l t where rest: "rest = l # t" using assms by (cases rest) auto
  have "v \<noteq> 0x4c" using assms(1) by auto
  moreover have "(rest @ [0xac]) ! unat v = 0xac" using assms(2) by (simp add: nth_append)
  moreover have "getPushData (v # rest @ [0xac]) = Inr (take (unat l) (t @ [0xac]))"
    using assms(1) by (simp add: getPushData_def rest slice_def)
  moreover have "take (unat l) (t @ [0xac]) \<noteq> []"
    using assms(3) by (simp add: rest)
  ultimately show ?thesis
    using assms(2) by (simp add: parseScriptData_def ScriptData_def byte_chars_def rest)
qed

theorem parse_large_length_byte_witness:
  "parseScriptData (77 # ([1] @ replicate 76 0x41) @ [0xac]) = Inr (byte_chars [0x41])"
proof -
  have "(76::nat) < unat (77 :: 8 word)" and "length ([1] @ replicate 76 (0x41 :: 8 word)) = unat (77 :: 8 word)"
    and "0 < unat (hd ([1] @ replicate 76 (0x41 :: 8 word)))"
    by simp_all
  then have "parseScriptData (77 # ([1] @ replicate 76 0x41) @ [0xac])
    = Inr (byte_chars (take (unat (hd ([1] @ replicate 76 (0x41 :: 8 word))))
        (tl ([1] @ replicate 76 0x41) @ [0xac])))"
    by (rule parse_large_length_byte)
  moreover have "take (unat (hd ([1] @ replicate 76 (0x41 :: 8 word))))
      (tl ([1] @ replicate 76 0x41) @ [0xac]) = [0x41 :: 8 word]"
    by simp
  ultimately show ?thesis by simp
qed

end
