(* ===== verification/HathorTx.thy ===== *)
theory HathorTx
  imports Scripts
begin

text \<open>
  \<open>types/hathorEvent.ts\<close>, \<open>types/HathorUtxo.ts\<close>, \<open>types/HathorTx.ts\<close> and \<open>castDataToTx\<close> of
  \<open>lib/HathorService.ts\<close>: the transactions the wallet reports, the data output that carries the
  EVM destination, and the transfer a transaction asks for. \<open>web3.utils.isAddress\<close> is the
  parameter \<open>isAddress\<close>. An absent or null field is \<open>None\<close>, except the timelock, where the code
  tells null from undefined.
\<close>

section \<open>What the wallet reports\<close>

datatype timelock_field = NoTimelock | NullTimelock | Timelock int

record decoded =
  d_type :: "string option"
  d_address :: "string option"
  d_timelock :: timelock_field

record tx_output =
  o_value :: int
  o_token_data :: int
  o_script :: string
  o_decoded :: decoded
  o_token :: "string option"
  o_spent_by :: "string option"
  o_mine :: "bool option"

record tx_input =
  i_value :: int
  i_token_data :: int
  i_script :: string
  i_decoded :: decoded
  i_token :: "string option"

record tx_data =
  tx_id :: string
  tx_version :: int
  tx_timestamp :: int
  is_voided :: bool
  tx_inputs :: "tx_input list"
  tx_outputs :: "tx_output list"

section \<open>Base64\<close>

text \<open>\<open>Buffer.from(s, 'base64')\<close>: both alphabets, other characters skipped, a last group of one dropped.\<close>

definition b64_val :: "char \<Rightarrow> nat option" where
  "b64_val c =
     (let n = of_char c :: nat
      in if 65 \<le> n \<and> n \<le> 90 then Some (n - 65)
         else if 97 \<le> n \<and> n \<le> 122 then Some (n - 71)
         else if 48 \<le> n \<and> n \<le> 57 then Some (n + 4)
         else if n = 43 \<or> n = 45 then Some 62
         else if n = 47 \<or> n = 95 then Some 63 else None)"

fun b64_bytes :: "nat list \<Rightarrow> bytes" where
  "b64_bytes (a # b # c # d # xs) =
     of_nat (a * 4 + b div 16) # of_nat (b mod 16 * 16 + c div 4) # of_nat (c mod 4 * 64 + d)
       # b64_bytes xs"
| "b64_bytes [a, b, c] = [of_nat (a * 4 + b div 16), of_nat (b mod 16 * 16 + c div 4)]"
| "b64_bytes [a, b] = [of_nat (a * 4 + b div 16)]"
| "b64_bytes _ = []"

definition base64_bytes :: "string \<Rightarrow> bytes" where
  "base64_bytes s = b64_bytes (List.map_filter b64_val s)"

section \<open>Utxos\<close>

record utxo =
  u_script :: string
  u_token :: "string option"
  u_value :: int
  u_decoded :: decoded
  u_spent_by :: "string option"
  customData :: "string option"
  haveCustomData :: bool

text \<open>\<open>CustomUtxoData\<close> keeps the string only when it is an EVM address.\<close>

definition CustomUtxoData :: "(string \<Rightarrow> bool) \<Rightarrow> string \<Rightarrow> string option \<times> bool" where
  "CustomUtxoData isAddress decodedData =
     (if isAddress decodedData then (Some decodedData, True) else (None, False))"

definition decodeScript :: "(string \<Rightarrow> bool) \<Rightarrow> string \<Rightarrow> string option \<times> bool" where
  "decodeScript isAddress scr =
     (case parseScriptData (base64_bytes scr) of
        Inl _ \<Rightarrow> (None, False)
      | Inr decodedData \<Rightarrow> CustomUtxoData isAddress decodedData)"

definition HathorUtxo ::
  "(string \<Rightarrow> bool) \<Rightarrow> string \<Rightarrow> string option \<Rightarrow> int \<Rightarrow> decoded \<Rightarrow> string option \<Rightarrow> utxo" where
  "HathorUtxo isAddress scr tok val dec spent =
     (let (cd, has) = decodeScript isAddress scr
      in \<lparr>u_script = scr, u_token = tok, u_value = val, u_decoded = dec, u_spent_by = spent,
          customData = cd, haveCustomData = has\<rparr>)"

section \<open>Transactions\<close>

record hathor_tx =
  h_tx_id :: string
  h_timestamp :: int
  h_outputs :: "utxo list"
  h_inputs :: "utxo list"

definition castDataToTx :: "(string \<Rightarrow> bool) \<Rightarrow> tx_data \<Rightarrow> hathor_tx" where
  "castDataToTx isAddress d =
     \<lparr>h_tx_id = tx_id d, h_timestamp = tx_timestamp d,
      h_outputs = map (\<lambda>o'. HathorUtxo isAddress (o_script o') (o_token o') (o_value o')
        (o_decoded o') (o_spent_by o')) (tx_outputs d),
      h_inputs = map (\<lambda>i. HathorUtxo isAddress (i_script i) (i_token i) (i_value i)
        (i_decoded i) None) (tx_inputs d)\<rparr>"

definition tx_haveCustomData :: "hathor_tx \<Rightarrow> bool" where
  "tx_haveCustomData tx = list_ex haveCustomData (h_outputs tx)"

definition getCustomData :: "hathor_tx \<Rightarrow> string" where
  "getCustomData tx =
     concat (map (\<lambda>u. the (customData u)) (filter haveCustomData (h_outputs tx)))"

section \<open>The transfer a transaction asks for\<close>

record token_transfer =
  tokenAddress :: string
  senderAddress :: "string option"
  receiverAddress :: "string option"
  amount :: int

text \<open>
  The loop shared by \<open>HathorTx.getCustomTokenData\<close> and \<open>Broker.getCustomTokenData\<close>, over the
  outputs kept (token, address, value) and the inputs (token, address). The first output opens
  the transfer and needs an input of its token; the others must agree with it.
\<close>

definition truthy_string :: "string option \<Rightarrow> bool" where
  "truthy_string x = (x \<noteq> None \<and> x \<noteq> Some [])"

definition add_output ::
  "(string option \<times> string option) list \<Rightarrow> token_transfer option \<Rightarrow> string \<times> string option \<times> int
    \<Rightarrow> token_transfer option res" where
  "add_output inputs acc x =
     (case x of (tok, addr, v) \<Rightarrow>
       (case acc of
          Some t \<Rightarrow>
            (if tokenAddress t \<noteq> tok \<or> receiverAddress t \<noteq> addr
             then Inl (JsError ''Invalid transaction, it has more than one token or destination address.'')
             else Inr (Some (t\<lparr>amount := js_double (amount t + v)\<rparr>)))
        | None \<Rightarrow>
            (case List.find (\<lambda>i. fst i = Some tok) inputs of
               None \<Rightarrow> Inl JsTypeError
             | Some i \<Rightarrow> Inr (Some \<lparr>tokenAddress = tok, senderAddress = snd i,
                 receiverAddress = addr, amount = js_double v\<rparr>))))"

fun add_outputs ::
  "(string option \<times> string option) list \<Rightarrow> token_transfer option \<Rightarrow> (string \<times> string option \<times> int) list
    \<Rightarrow> token_transfer option res" where
  "add_outputs inputs acc [] = Inr acc"
| "add_outputs inputs acc (x # xs) =
     (case add_output inputs acc x of Inl e \<Rightarrow> Inl e | Inr acc' \<Rightarrow> add_outputs inputs acc' xs)"

definition tx_getCustomTokenData :: "hathor_tx \<Rightarrow> token_transfer option res" where
  "tx_getCustomTokenData tx =
     add_outputs (map (\<lambda>i. (u_token i, d_address (u_decoded i))) (h_inputs tx)) None
       (map (\<lambda>u. (the (u_token u), d_address (u_decoded u), u_value u))
         (filter (\<lambda>u. truthy_string (u_token u) \<and> d_type (u_decoded u) = Some ''MultiSig'')
           (h_outputs tx)))"

section \<open>What the loop computes\<close>

text \<open>A run of additions is exact as long as no partial sum needs more than 53 bits.\<close>

lemma js_double_nonneg_exact: "0 \<le> i \<Longrightarrow> i < 2 ^ 53 \<Longrightarrow> js_double i = i"
  by (rule js_double_exact) simp

lemma add_outputs_Some_iff:
  assumes "\<forall>x \<in> set xs. 0 \<le> snd (snd x)" and "0 \<le> amount t"
    and "amount t + (\<Sum>x\<leftarrow>xs. snd (snd x)) < 2 ^ 53"
  shows "add_outputs ins (Some t) xs =
    (if \<forall>x \<in> set xs. fst x = tokenAddress t \<and> fst (snd x) = receiverAddress t
     then Inr (Some (t\<lparr>amount := amount t + (\<Sum>x\<leftarrow>xs. snd (snd x))\<rparr>))
     else Inl (JsError ''Invalid transaction, it has more than one token or destination address.''))"
  using assms
proof (induction xs arbitrary: t)
  case Nil
  then show ?case by simp
next
  case (Cons x xs)
  obtain tok addr v where x: "x = (tok, addr, v)" by (cases x) auto
  have "0 \<le> (\<Sum>x\<leftarrow>xs. snd (snd x))"
    using Cons.prems(1) by (intro sum_list_nonneg) auto
  then have ex: "js_double (amount t + v) = amount t + v"
    using Cons.prems x by (intro js_double_nonneg_exact) auto
  show ?case
  proof (cases "tok = tokenAddress t \<and> addr = receiverAddress t")
    case True
    with Cons.prems x ex show ?thesis
      using Cons.IH [of "t\<lparr>amount := amount t + v\<rparr>"]
      by (auto simp: add_output_def add.assoc)
  next
    case False
    with x show ?thesis by (auto simp: add_output_def)
  qed
qed

lemma add_outputs_None:
  assumes "\<forall>x \<in> set ((tok, addr, v) # xs). 0 \<le> snd (snd x)"
    and "(\<Sum>x\<leftarrow>(tok, addr, v) # xs. snd (snd x)) < 2 ^ 53"
  shows "add_outputs ins None ((tok, addr, v) # xs) =
    (case List.find (\<lambda>i. fst i = Some tok) ins of
       None \<Rightarrow> Inl JsTypeError
     | Some i \<Rightarrow>
        (if \<forall>x \<in> set xs. fst x = tok \<and> fst (snd x) = addr
         then Inr (Some \<lparr>tokenAddress = tok, senderAddress = snd i, receiverAddress = addr,
           amount = (\<Sum>x\<leftarrow>(tok, addr, v) # xs. snd (snd x))\<rparr>)
         else Inl (JsError ''Invalid transaction, it has more than one token or destination address.'')))"
proof -
  have s: "0 \<le> (\<Sum>x\<leftarrow>xs. snd (snd x))"
    using assms(1) by (intro sum_list_nonneg) auto
  then have "js_double v = v"
    using assms by (intro js_double_nonneg_exact) auto
  then show ?thesis
    using assms s by (auto simp: add_output_def add_outputs_Some_iff split: option.splits)
qed

text \<open>
  For non-negative values that stay below 2^53, the transfer of a transaction is read as
  follows. No multisig output with a token: none. Otherwise the first such output's token must
  be spent by an input (else a TypeError), every other multisig output must have the same token
  and address (else the error says so), and the amount is the sum of them all.
\<close>
theorem tx_getCustomTokenData_spec:
  assumes "outs = filter (\<lambda>u. truthy_string (u_token u) \<and> d_type (u_decoded u) = Some ''MultiSig'')
      (h_outputs tx)"
    and "\<forall>u \<in> set outs. 0 \<le> u_value u" and "(\<Sum>u\<leftarrow>outs. u_value u) < 2 ^ 53"
  shows "tx_getCustomTokenData tx =
    (case outs of
       [] \<Rightarrow> Inr None
     | u # us \<Rightarrow>
        (case List.find (\<lambda>i. u_token i = u_token u) (h_inputs tx) of
           None \<Rightarrow> Inl JsTypeError
         | Some i \<Rightarrow>
            (if \<forall>w \<in> set us. u_token w = u_token u \<and> d_address (u_decoded w) = d_address (u_decoded u)
             then Inr (Some \<lparr>tokenAddress = the (u_token u), senderAddress = d_address (u_decoded i),
               receiverAddress = d_address (u_decoded u), amount = (\<Sum>u\<leftarrow>outs. u_value u)\<rparr>)
             else Inl (JsError
               ''Invalid transaction, it has more than one token or destination address.''))))"
proof (cases outs)
  case Nil
  with assms(1) show ?thesis by (simp add: tx_getCustomTokenData_def)
next
  case (Cons u us)
  let ?f = "\<lambda>u. (the (u_token u), d_address (u_decoded u), u_value u)"
  have tok: "\<forall>w \<in> set outs. \<exists>t. u_token w = Some t"
    unfolding assms(1) by (auto simp: truthy_string_def)
  then obtain t where t: "u_token u = Some t" using Cons by auto
  have s: "(\<lambda>x. snd (snd x)) \<circ> ?f = u_value" by (auto simp: fun_eq_iff)
  have fnd: "List.find (\<lambda>i. fst i = Some t) (map (\<lambda>i. (u_token i, d_address (u_decoded i))) xs)
      = map_option (\<lambda>i. (u_token i, d_address (u_decoded i))) (List.find (\<lambda>i. u_token i = Some t) xs)" for xs
    by (induction xs) auto
  have same: "(\<forall>x \<in> set (map ?f us). fst x = t \<and> fst (snd x) = d_address (u_decoded u))
      = (\<forall>w \<in> set us. u_token w = u_token u \<and> d_address (u_decoded w) = d_address (u_decoded u))"
    using tok t Cons by (auto split: option.splits)
  have pos: "\<forall>x \<in> set (map ?f outs). 0 \<le> snd (snd x)" using assms(2) by auto
  have bound: "(\<Sum>x\<leftarrow>map ?f outs. snd (snd x)) < 2 ^ 53" using assms(3) by (simp add: s)
  have m: "map ?f outs = (t, d_address (u_decoded u), u_value u) # map ?f us"
    using Cons t by simp
  show ?thesis
    unfolding tx_getCustomTokenData_def assms(1)[symmetric] m
      add_outputs_None [OF pos [unfolded m] bound [unfolded m]] same fnd
    by (cases "List.find (\<lambda>i. u_token i = Some t) (h_inputs tx)") (simp_all add: Cons t s)
qed

theorem tx_getCustomTokenData_spec_witness:
  "tx_getCustomTokenData
     \<lparr>h_tx_id = ''t'', h_timestamp = 0,
      h_outputs = [\<lparr>u_script = [], u_token = Some ''tk'', u_value = 7,
        u_decoded = \<lparr>d_type = Some ''MultiSig'', d_address = Some ''w'', d_timelock = NullTimelock\<rparr>,
        u_spent_by = None, customData = None, haveCustomData = False\<rparr>],
      h_inputs = [\<lparr>u_script = [], u_token = Some ''tk'', u_value = 9,
        u_decoded = \<lparr>d_type = None, d_address = Some ''h'', d_timelock = NullTimelock\<rparr>,
        u_spent_by = None, customData = None, haveCustomData = False\<rparr>]\<rparr>
   = Inr (Some \<lparr>tokenAddress = ''tk'', senderAddress = Some ''h'', receiverAddress = Some ''w'',
       amount = 7\<rparr>)"
  by (subst tx_getCustomTokenData_spec [OF refl]) (simp_all add: truthy_string_def)

section \<open>The data output end to end\<close>

text \<open>The encoder wallets use, to state that a data output is read back.\<close>

definition b64_char :: "nat \<Rightarrow> char" where
  "b64_char n = char_of (if n < 26 then n + 65 else if n < 52 then n + 71 else if n < 62 then n - 4
     else if n = 62 then 43 else 47)"

fun b64_groups :: "nat list \<Rightarrow> nat list" where
  "b64_groups (a # b # c # xs) =
     a div 4 # (a mod 4 * 16 + b div 16) # (b mod 16 * 4 + c div 64) # c mod 64 # b64_groups xs"
| "b64_groups [a, b] = [a div 4, a mod 4 * 16 + b div 16, b mod 16 * 4]"
| "b64_groups [a] = [a div 4, a mod 4 * 16]"
| "b64_groups [] = []"

definition base64_encode :: "bytes \<Rightarrow> string" where
  "base64_encode bs =
     map b64_char (b64_groups (map unat bs)) @ replicate ((3 - length bs mod 3) mod 3) CHR ''=''"

lemma b64_val_char: "n < 64 \<Longrightarrow> b64_val (b64_char n) = Some n"
  by (auto simp: b64_val_def b64_char_def of_char_of Let_def)

lemma b64_val_pad: "List.map_filter b64_val (replicate k CHR ''='') = []"
  by (induction k) (simp_all add: b64_val_def map_filter_def)

lemma b64_groups_bound: "\<forall>b \<in> set bs. b < 256 \<Longrightarrow> \<forall>n \<in> set (b64_groups bs). n < 64"
  by (induction bs rule: b64_groups.induct) (auto simp: less_mult_imp_div_less)

lemma map_filter_b64: "\<forall>n \<in> set ns. n < 64 \<Longrightarrow> List.map_filter b64_val (map b64_char ns @ r)
    = ns @ List.map_filter b64_val r"
  by (induction ns) (auto simp: b64_val_char map_filter_def)

lemma join_split:
  "r < k \<Longrightarrow> (q * k + r) div k = (q :: nat)"
  "r < k \<Longrightarrow> (q * k + r) mod k = (r :: nat)"
  by simp_all

lemma b64_bytes_groups: "\<forall>b \<in> set bs. b < 256 \<Longrightarrow> b64_bytes (b64_groups bs) = map of_nat bs"
proof (induction bs rule: b64_groups.induct)
  case (1 a b c xs)
  then have "b div 16 < 16" and "c div 64 < 4" by auto
  then have "(a mod 4 * 16 + b div 16) div 16 = a mod 4" "(a mod 4 * 16 + b div 16) mod 16 = b div 16"
    "(b mod 16 * 4 + c div 64) div 4 = b mod 16" "(b mod 16 * 4 + c div 64) mod 4 = c div 64"
    by (simp_all only: join_split)
  with 1 show ?case by simp
next
  case (2 a b)
  then have "b div 16 < 16" by auto
  then have "(a mod 4 * 16 + b div 16) div 16 = a mod 4" "(a mod 4 * 16 + b div 16) mod 16 = b div 16"
    by (simp_all only: join_split)
  then show ?case by simp
qed simp_all

lemma base64_roundtrip: "base64_bytes (base64_encode bs) = bs"
proof -
  have b: "\<forall>b \<in> set (map unat bs). b < 256"
    using unsigned_less [where 'a = nat and 'b = 8] by auto
  have "List.map_filter b64_val (base64_encode bs) = b64_groups (map unat bs)"
    using map_filter_b64 [OF b64_groups_bound [OF b]] b64_val_pad by (simp add: base64_encode_def)
  then show ?thesis
    using b64_bytes_groups [OF b] by (simp add: base64_bytes_def comp_def)
qed

text \<open>
  C39: a data output carrying an EVM address is recognised: when the base64 script is the
  encoding of the data script of at most 255 bytes that spell an address, the utxo has custom
  data and it is that address; when they spell anything else it has none.
\<close>
theorem data_output_recognised:
  assumes "d \<noteq> []" and "length d < 256"
  shows "haveCustomData (HathorUtxo isAddress (base64_encode (data_script d)) tok v dec sp)
      = isAddress (byte_chars d)
    \<and> customData (HathorUtxo isAddress (base64_encode (data_script d)) tok v dec sp)
      = (if isAddress (byte_chars d) then Some (byte_chars d) else None)"
  by (simp add: HathorUtxo_def decodeScript_def base64_roundtrip parse_data_script_lemma [OF assms]
      CustomUtxoData_def)

theorem data_output_recognised_witness:
  "haveCustomData (HathorUtxo (starts_with (byte_chars [0x30, 0x78]))
     (base64_encode (data_script [0x30, 0x78, 0x31])) None 1
     \<lparr>d_type = None, d_address = None, d_timelock = NoTimelock\<rparr> None)"
  using data_output_recognised [of "[0x30, 0x78, 0x31]" "starts_with (byte_chars [0x30, 0x78])" None 1]
  by (simp add: byte_chars_def starts_with_def)

end
