(* ===== verification/TxChecks.thy ===== *)
theory TxChecks
  imports HathorTx
begin

unbundle bit_operations_syntax

text \<open>
  The pure checks of \<open>lib/Broker/Broker.ts\<close>: balances and authorities of a proposal, sums by
  address and token, and the transfer an original transaction asks for. JavaScript objects used
  as tables are maps from the rendered key; numbers are doubles, so every addition rounds.
\<close>

section \<open>Authorities\<close>

definition TOKEN_MELT_MASK :: int where "TOKEN_MELT_MASK = 2"
definition TOKEN_MINT_MASK :: int where "TOKEN_MINT_MASK = 1"
definition TOKEN_AUTHORITY_MASK :: int where "TOKEN_AUTHORITY_MASK = 128"

text \<open>\<open>a & b\<close> converts both operands to 32-bit integers.\<close>

definition js_and :: "int \<Rightarrow> int \<Rightarrow> int" where
  "js_and a b = sint ((word_of_int a :: 32 word) AND word_of_int b)"

definition isAuthority :: "int \<Rightarrow> bool" where
  "isAuthority token_data = (js_and token_data TOKEN_AUTHORITY_MASK > 0)"

definition isMint :: "int \<Rightarrow> int \<Rightarrow> bool" where
  "isMint token_data val = (isAuthority token_data \<and> js_and val TOKEN_MINT_MASK > 0)"

definition isMelt :: "int \<Rightarrow> int \<Rightarrow> bool" where
  "isMelt token_data val = (isAuthority token_data \<and> js_and val TOKEN_MELT_MASK > 0)"

lemma and_bit_word: "(w :: 32 word) AND 2 ^ n = (if bit w n then 2 ^ n else 0)"
  by (rule bit_word_eqI) (auto simp: bit_simps)

lemma isAuthority_bit: "isAuthority d = bit d 7"
  using and_bit_word [of "word_of_int d" 7]
  by (simp add: isAuthority_def js_and_def TOKEN_AUTHORITY_MASK_def bit_simps)

lemma isMint_bit: "isMint d v = (bit d 7 \<and> bit v 0)"
  using and_bit_word [of "word_of_int v" 0]
  by (simp add: isMint_def isAuthority_bit js_and_def TOKEN_MINT_MASK_def bit_simps)

lemma isMelt_bit: "isMelt d v = (bit d 7 \<and> bit v 1)"
  using and_bit_word [of "word_of_int v" 1]
  by (simp add: isMelt_def isAuthority_bit js_and_def TOKEN_MELT_MASK_def bit_simps)

section \<open>Tables of numbers\<close>

text \<open>A key built from an absent field is the word undefined, as string conversion renders it.\<close>

definition js_key :: "string option \<Rightarrow> string" where
  "js_key x = (case x of None \<Rightarrow> ''undefined'' | Some s \<Rightarrow> s)"

type_synonym table = "string \<Rightarrow> int option"

definition table_add :: "table \<Rightarrow> string \<times> int \<Rightarrow> table" where
  "table_add b x =
     b(fst x \<mapsto> js_double ((case b (fst x) of None \<Rightarrow> 0 | Some y \<Rightarrow> y) + snd x))"

definition key_sum :: "string \<Rightarrow> (string \<times> int) list \<Rightarrow> int" where
  "key_sum k xs = (\<Sum>x\<leftarrow>filter (\<lambda>x. fst x = k) xs. snd x)"

definition size_sum :: "(string \<times> int) list \<Rightarrow> int" where
  "size_sum xs = (\<Sum>x\<leftarrow>xs. \<bar>snd x\<bar>)"

lemma key_sum_bound: "\<bar>key_sum k xs\<bar> \<le> size_sum xs"
  by (induction xs) (auto simp: key_sum_def size_sum_def)

lemma table_add_all:
  "size_sum xs < 2 ^ 53 \<Longrightarrow>
    foldl table_add Map.empty xs k = (if k \<in> fst ` set xs then Some (key_sum k xs) else None)"
proof (induction xs rule: rev_induct)
  case Nil
  then show ?case by simp
next
  case (snoc x xs)
  have b: "size_sum xs < 2 ^ 53" and x: "size_sum xs + \<bar>snd x\<bar> < 2 ^ 53"
    using snoc.prems by (auto simp: size_sum_def)
  have "\<bar>key_sum (fst x) xs + snd x\<bar> < 2 ^ 53"
    using key_sum_bound [of "fst x" xs] x by linarith
  then have ex: "js_double (key_sum (fst x) xs + snd x) = key_sum (fst x) xs + snd x"
    by (rule js_double_exact)
  have z: "fst x \<notin> fst ` set xs \<Longrightarrow> key_sum (fst x) xs = 0"
    unfolding key_sum_def by (subst filter_False) (metis image_eqI, simp)
  show ?case
    using snoc.IH [OF b] ex z by (auto simp: table_add_def key_sum_def)
qed

section \<open>Balances and authorities of a proposal\<close>

record tx_info =
  balances :: table
  canMelt :: "string set"
  canMint :: "string set"

definition output_entries :: "tx_data \<Rightarrow> (string \<times> int) list" where
  "output_entries tx =
     map (\<lambda>o'. (js_key (o_token o'), o_value o'))
       (filter (\<lambda>o'. \<not> isAuthority (o_token_data o')) (tx_outputs tx))"

text \<open>One step of the loop over the inputs.\<close>

definition input_step :: "tx_info \<Rightarrow> tx_input \<Rightarrow> tx_info" where
  "input_step info i =
     (if isAuthority (i_token_data i) then
        (if isMint (i_token_data i) (i_value i)
         then info\<lparr>canMint := insert (js_key (i_token i)) (canMint info)\<rparr>
         else if isMelt (i_token_data i) (i_value i)
         then info\<lparr>canMelt := insert (js_key (i_token i)) (canMelt info)\<rparr>
         else info)
      else info\<lparr>balances := table_add (balances info) (js_key (i_token i), - i_value i)\<rparr>)"

definition getTransactionInfo :: "tx_data \<Rightarrow> tx_info" where
  "getTransactionInfo tx =
     foldl input_step
       \<lparr>balances = foldl table_add Map.empty (output_entries tx), canMelt = {}, canMint = {}\<rparr>
       (tx_inputs tx)"

definition input_entries :: "tx_data \<Rightarrow> (string \<times> int) list" where
  "input_entries tx =
     map (\<lambda>i. (js_key (i_token i), - i_value i))
       (filter (\<lambda>i. \<not> isAuthority (i_token_data i)) (tx_inputs tx))"

lemma input_steps:
  "foldl input_step info is =
    \<lparr>balances = foldl table_add (balances info)
       (map (\<lambda>i. (js_key (i_token i), - i_value i)) (filter (\<lambda>i. \<not> isAuthority (i_token_data i)) is)),
     canMelt = canMelt info \<union> {js_key (i_token i) | i. i \<in> set is \<and> \<not> isMint (i_token_data i) (i_value i)
       \<and> isMelt (i_token_data i) (i_value i)},
     canMint = canMint info \<union> {js_key (i_token i) | i. i \<in> set is \<and> isMint (i_token_data i) (i_value i)}\<rparr>"
proof (induction "is" arbitrary: info)
  case Nil
  then show ?case by simp
next
  case (Cons i r)
  show ?case
    unfolding foldl.simps Cons.IH
    by (auto simp: input_step_def isMint_def isMelt_def)
qed

lemma getTransactionInfo_parts:
  "balances (getTransactionInfo tx) = foldl table_add Map.empty (output_entries tx @ input_entries tx)"
  "canMint (getTransactionInfo tx) =
     {js_key (i_token i) | i. i \<in> set (tx_inputs tx) \<and> bit (i_token_data i) 7 \<and> bit (i_value i) 0}"
  "canMelt (getTransactionInfo tx) =
     {js_key (i_token i) | i. i \<in> set (tx_inputs tx) \<and> bit (i_token_data i) 7 \<and> \<not> bit (i_value i) 0
        \<and> bit (i_value i) 1}"
  by (auto simp: getTransactionInfo_def input_steps input_entries_def isMint_bit isMelt_bit)

section \<open>The other checks\<close>

definition sumByAddressAndToken :: "tx_output list \<Rightarrow> table" where
  "sumByAddressAndToken outs =
     foldl table_add Map.empty
       (map (\<lambda>o'. (js_key (d_address (o_decoded o')) @ '':'' @ js_key (o_token o'), o_value o')) outs)"

definition checkOutputs :: "tx_data \<Rightarrow> string \<Rightarrow> string \<Rightarrow> bool" where
  "checkOutputs tx multiSigAddress receiver =
     list_all (\<lambda>o'. d_address (o_decoded o') = Some multiSigAddress
       \<or> d_address (o_decoded o') = Some receiver) (tx_outputs tx)"

definition validateTokensOutput :: "tx_output list \<Rightarrow> string \<Rightarrow> unit res" where
  "validateTokensOutput outs destinationToken =
     (if filter (\<lambda>o'. o_token o' \<noteq> Some destinationToken \<and> o_spent_by o' = None
          \<and> o_mine o' = Some False) outs = []
      then Inr ()
      else Inl (JsError ''Invalid transaction, it has more than one token or destination address.''))"

definition unspent_multisig :: "tx_output \<Rightarrow> bool" where
  "unspent_multisig o' =
     (truthy_string (o_token o') \<and> o_spent_by o' = None
      \<and> d_type (o_decoded o') = Some ''MultiSig'' \<and> d_timelock (o_decoded o') = NullTimelock)"

definition getCustomTokenData :: "tx_input list \<Rightarrow> tx_output list \<Rightarrow> token_transfer option res" where
  "getCustomTokenData ins outs =
     add_outputs (map (\<lambda>i. (i_token i, d_address (i_decoded i))) ins) None
       (map (\<lambda>o'. (the (o_token o'), d_address (o_decoded o'), o_value o'))
         (filter unspent_multisig outs))"

section \<open>What the checks mean\<close>

lemma key_sum_append: "key_sum k (xs @ ys) = key_sum k xs + key_sum k ys"
  by (simp add: key_sum_def)

lemma key_sum_entries:
  "key_sum k (output_entries tx) = (\<Sum>o'\<leftarrow>filter (\<lambda>o'. \<not> bit (o_token_data o') 7
      \<and> js_key (o_token o') = k) (tx_outputs tx). o_value o')"
  "key_sum k (input_entries tx) = - (\<Sum>i\<leftarrow>filter (\<lambda>i. \<not> bit (i_token_data i) 7
      \<and> js_key (i_token i) = k) (tx_inputs tx). i_value i)"
proof -
  show "key_sum k (output_entries tx) = (\<Sum>o'\<leftarrow>filter (\<lambda>o'. \<not> bit (o_token_data o') 7
      \<and> js_key (o_token o') = k) (tx_outputs tx). o_value o')"
    unfolding key_sum_def output_entries_def
    by (induction "tx_outputs tx") (auto simp: isAuthority_bit filter_map comp_def conj_commute)
  have "key_sum k (map (\<lambda>i. (js_key (i_token i), - i_value i)) (filter (\<lambda>i. \<not> isAuthority (i_token_data i)) is))
    = - (\<Sum>i\<leftarrow>filter (\<lambda>i. \<not> bit (i_token_data i) 7 \<and> js_key (i_token i) = k) is. i_value i)" for "is"
    by (induction "is") (auto simp: key_sum_def isAuthority_bit)
  then show "key_sum k (input_entries tx) = - (\<Sum>i\<leftarrow>filter (\<lambda>i. \<not> bit (i_token_data i) 7
      \<and> js_key (i_token i) = k) (tx_inputs tx). i_value i)"
    by (simp add: input_entries_def)
qed

text \<open>
  C38: the balance a proposal has in a token is what its non-authority outputs of the token hold
  minus what its non-authority inputs of the token held, as long as all values together stay
  below 2^53; the token has no balance at all when it does not occur outside authorities.
\<close>
theorem balance_is_outputs_minus_inputs:
  assumes "size_sum (output_entries tx @ input_entries tx) < 2 ^ 53"
  shows "balances (getTransactionInfo tx) k =
    (if k \<in> fst ` set (output_entries tx @ input_entries tx)
     then Some ((\<Sum>o'\<leftarrow>filter (\<lambda>o'. \<not> bit (o_token_data o') 7 \<and> js_key (o_token o') = k)
                  (tx_outputs tx). o_value o')
              - (\<Sum>i\<leftarrow>filter (\<lambda>i. \<not> bit (i_token_data i) 7 \<and> js_key (i_token i) = k)
                  (tx_inputs tx). i_value i))
     else None)"
  using table_add_all [OF assms]
  by (simp add: getTransactionInfo_parts key_sum_append key_sum_entries)

theorem balance_is_outputs_minus_inputs_witness:
  "balances (getTransactionInfo
     \<lparr>tx_id = [], tx_version = 1, tx_timestamp = 0, is_voided = False,
      tx_inputs = [\<lparr>i_value = 9, i_token_data = 1, i_script = [],
         i_decoded = \<lparr>d_type = None, d_address = None, d_timelock = NullTimelock\<rparr>, i_token = Some ''t''\<rparr>],
      tx_outputs = [\<lparr>o_value = 4, o_token_data = 1, o_script = [],
         o_decoded = \<lparr>d_type = None, d_address = None, d_timelock = NullTimelock\<rparr>, o_token = Some ''t'',
         o_spent_by = None, o_mine = None\<rparr>]\<rparr>) ''t'' = Some (- 5)"
  by (subst balance_is_outputs_minus_inputs)
    (simp_all add: size_sum_def output_entries_def input_entries_def isAuthority_bit js_key_def bit_0
      bit_iff_odd)

text \<open>
  An input gives mint authority exactly when it is an authority with the mint bit. It gives
  melt authority only when it has the melt bit and not the mint bit: the branches exclude each
  other, so an authority with both bits never counts for melting.
\<close>
theorem authority_bits:
  "(k \<in> canMint (getTransactionInfo tx) \<longleftrightarrow>
     (\<exists>i \<in> set (tx_inputs tx). js_key (i_token i) = k \<and> bit (i_token_data i) 7 \<and> bit (i_value i) 0))
   \<and> (k \<in> canMelt (getTransactionInfo tx) \<longleftrightarrow>
     (\<exists>i \<in> set (tx_inputs tx). js_key (i_token i) = k \<and> bit (i_token_data i) 7 \<and> bit (i_value i) 1
        \<and> \<not> bit (i_value i) 0))"
  by (auto simp: getTransactionInfo_parts)

end
