(* ===== verification/Config.thy ===== *)
theory Config
  imports Prelude
begin

text \<open>
  \<open>lib/configChain.ts\<close> and \<open>lib/config.ts\<close>: the configuration objects built from the JSON
  configuration, with the defaults of the optional fields (\<open>??\<close> replaces an absent value), and
  the environment variables the federator reads.
\<close>

definition DEFAULT_BLOCK_TIME_MS :: int where "DEFAULT_BLOCK_TIME_MS = 15000"
definition DEFAULT_FROM_BLOCK :: int where "DEFAULT_FROM_BLOCK = 0"
definition DEFAULT_RETRIE_TIMES :: int where "DEFAULT_RETRIE_TIMES = 3"
definition DEFAULT_ENDPOINT_PORT :: int where "DEFAULT_ENDPOINT_PORT = 5000"

definition coalesce :: "'a option \<Rightarrow> 'a \<Rightarrow> 'a" where
  "coalesce x d = (case x of None \<Rightarrow> d | Some y \<Rightarrow> y)"

lemma coalesce_simps [simp]: "coalesce None d = d" "coalesce (Some y) d = y"
  by (simp_all add: coalesce_def)

record ConfigChainParams =
  p_name :: string
  p_chainId :: int
  p_bridge :: "string option"
  p_allowTokens :: "string option"
  p_federation :: "string option"
  p_host :: "string option"
  p_testToken :: "string option"
  p_fromBlock :: "int option"
  p_blockTimeMs :: "int option"
  p_isHathor :: "bool option"
  p_walletUrl :: "string option"
  p_walletKey :: "string option"
  p_singleWalletId :: "string option"
  p_singleSeedKey :: "string option"
  p_multisigWalletId :: "string option"
  p_multisigSeedKey :: "string option"
  p_multisigRequiredSignatures :: "int option"
  p_multisigOrder :: "int option"
  p_minimumConfirmations :: "int option"
  p_eventQueueType :: "string option"
  p_pubsubProjectId :: "string option"

record ConfigChain =
  chain_name :: string
  chainId :: int
  bridge :: "string option"
  allowTokens :: "string option"
  federation :: "string option"
  host :: "string option"
  testToken :: "string option"
  fromBlock :: int
  blockTimeMs :: int
  isHathor :: bool
  walletUrl :: "string option"
  walletKey :: "string option"
  singleWalletId :: "string option"
  singleSeedKey :: "string option"
  multisigWalletId :: "string option"
  multisigSeedKey :: "string option"
  multisigRequiredSignatures :: "int option"
  multisigOrder :: "int option"
  minimumConfirmations :: "int option"
  eventQueueType :: "string option"
  pubsubProjectId :: "string option"

definition new_ConfigChain :: "ConfigChainParams \<Rightarrow> ConfigChain" where
  "new_ConfigChain p =
     \<lparr>chain_name = p_name p, chainId = p_chainId p, bridge = p_bridge p,
      allowTokens = p_allowTokens p, federation = p_federation p, host = p_host p,
      testToken = p_testToken p,
      fromBlock = coalesce (p_fromBlock p) DEFAULT_FROM_BLOCK,
      blockTimeMs = coalesce (p_blockTimeMs p) DEFAULT_BLOCK_TIME_MS,
      isHathor = coalesce (p_isHathor p) False,
      walletUrl = p_walletUrl p, walletKey = p_walletKey p,
      singleWalletId = p_singleWalletId p, singleSeedKey = p_singleSeedKey p,
      multisigWalletId = p_multisigWalletId p, multisigSeedKey = p_multisigSeedKey p,
      multisigRequiredSignatures = p_multisigRequiredSignatures p,
      multisigOrder = p_multisigOrder p, minimumConfirmations = p_minimumConfirmations p,
      eventQueueType = p_eventQueueType p, pubsubProjectId = p_pubsubProjectId p\<rparr>"

text \<open>The side chain may be given as one object or as an array.\<close>

datatype side_config = OneChain ConfigChainParams | ManyChains "ConfigChainParams list"

record JsonConfigParams =
  j_mainchain :: ConfigChainParams
  j_sidechain :: side_config
  j_runEvery :: int
  j_privateKey :: "string option"
  j_storagePath :: "string option"
  j_etherscanApiKey :: "string option"
  j_runHeartbeatEvery :: int
  j_endpointsPort :: "int option"
  j_federatorRetries :: "int option"
  j_checkHttps :: "bool option"
  j_explorer :: "string option"

record ConfigData =
  mainchain :: ConfigChain
  sidechain :: "ConfigChain list"
  runEvery :: int
  privateKey :: "string option"
  storagePath :: string
  etherscanApiKey :: "string option"
  runHeartbeatEvery :: int
  endpointsPort :: int
  federatorRetries :: int
  checkHttps :: bool
  explorer :: "string option"

fun getConfigsAsArray :: "side_config \<Rightarrow> ConfigChain list" where
  "getConfigsAsArray (OneChain c) = [new_ConfigChain c]"
| "getConfigsAsArray (ManyChains cs) = map new_ConfigChain cs"

text \<open>\<open>dirname\<close> stands for the module's directory, the default storage path.\<close>

definition new_Config :: "string \<Rightarrow> JsonConfigParams \<Rightarrow> ConfigData" where
  "new_Config dirname j =
     \<lparr>mainchain = new_ConfigChain (j_mainchain j),
      sidechain = getConfigsAsArray (j_sidechain j),
      runEvery = j_runEvery j, privateKey = j_privateKey j,
      storagePath = coalesce (j_storagePath j) dirname,
      etherscanApiKey = j_etherscanApiKey j, runHeartbeatEvery = j_runHeartbeatEvery j,
      endpointsPort = coalesce (j_endpointsPort j) DEFAULT_ENDPOINT_PORT,
      federatorRetries = coalesce (j_federatorRetries j) DEFAULT_RETRIE_TIMES,
      checkHttps = coalesce (j_checkHttps j) True, explorer = j_explorer j\<rparr>"

definition getConfigs :: "ConfigData \<Rightarrow> ConfigChain list" where
  "getConfigs c = sidechain c @ [mainchain c]"

text \<open>\<open>Config.getInstance\<close>: the first call decides, later arguments are ignored.\<close>

definition Config_getInstance ::
  "string \<Rightarrow> JsonConfigParams \<Rightarrow> ConfigData option \<Rightarrow> ConfigData \<times> ConfigData option" where
  "Config_getInstance dirname j inst =
     (case inst of
        None \<Rightarrow> (let c = new_Config dirname j in (c, Some c))
      | Some c \<Rightarrow> (c, Some c))"

lemma Config_getInstance_singleton:
  "Config_getInstance d' j' (snd (Config_getInstance d j i)) = (fst (Config_getInstance d j i), Some (fst (Config_getInstance d j i)))"
  by (auto simp: Config_getInstance_def Let_def split: option.splits)

text \<open>Environment variables, absent or a string.\<close>

record process_env =
  FEDERATOR_ADDRESS :: "string option"
  HATHOR_STATE_CONTRACT_ADDR :: "string option"
  HATHOR_STATE_CONTRACT_HOST_URL :: "string option"
  HEADLESS_MULTISIG_SEED_DEFAULT_NUM_SIGNATURES :: "string option"
  HATHOR_INPUT_BLOCK_TTL :: "string option"
  FEDERATION_FROM_BLOCK :: "string option"
  FEDERATION_CHAIN :: "string option"
  FEDERATION_CHAIN_ID :: "string option"
  FEDERATION_CONFIRMATION_BLOCKS :: "string option"
  HATHOR_LAST_TIMESTAMP :: "string option"
  BRIDGE_SKIP_HTTPS :: "string option"

end
