(* ===== verification/Runtime.thy ===== *)
theory Runtime
  imports TxChecks Utils Config
begin

text \<open>
  What the components share at run time. The federator's own state is explicit: the requests it
  has issued that change something outside (the trace), the metrics, the files under the storage
  path, the transaction senders and token-limit caches it has created. Everything outside (the
  nodes, the contracts, the wallet, the queue) is the world, of a type \<open>'w\<close> left open: each
  external call is a field of the environment that maps its arguments and the world to a result
  or error and the next world, so other parties may act between any two calls.
\<close>

section \<open>Requests\<close>

datatype tx_type = MELT | MINT | TRANSFER | RETURN

text \<open>Contract calls before ABI encoding; the fields are the arguments in the order of the code.\<close>

datatype abi_call =
    SendTransactionProposal string string string "string option" string tx_type string
  | UpdateSignatureState string string string "string option" string tx_type string bool
  | UpdateTransactionState string string string "string option" string tx_type bool string
  | VoteTransaction string string string "int option" string string int int int
  | EmitHeartbeat string "int list" "int list" "string list"

text \<open>Mutating requests to the headless wallet.\<close>

datatype wallet_request =
    SignAndPush string "string list"
  | GetMySignatures string
  | LockInputs string "string option"
  | MintProposal string int string "string option"
  | TransferProposal string int string "string option"
  | MeltProposal string string "string option"
  | StartWallet string "string option" bool

record raw_tx =
  rt_chainId :: "int option"
  rt_gasPrice :: string
  rt_value :: string
  rt_to :: "string option"
  rt_data :: abi_call
  rt_from :: "string option"
  rt_nonce :: string
  rt_gas :: string
  rt_rs :: bool

datatype event =
    SignedTx "string option" raw_tx
  | PersonalTx "string option" raw_tx
  | EtherscanBroadcast string
  | WalletReq wallet_request

record receipt =
  rc_status :: bool
  rc_hash :: "string option"
  rc_error :: "exn option"

section \<open>The federator's state\<close>

datatype metric =
    EvmRun | HtrRun | SuccessVote | FailedVote | InvalidProposal | Proposal
  | InvalidSigning | Signing | InvalidPushed | Pushed

record tx_sender =
  ts_client :: "string option"
  ts_chainId :: "int option"
  ts_debuggingMode :: bool

record limits =
  lim_min :: int
  lim_allowed :: bool
  lim_mediumAmount :: int
  lim_largeAmount :: int

record wallet_state =
  w_ready :: bool
  w_lastCheck :: int

record vote_params =
  vp_originalTokenAddress :: string
  vp_sender :: string
  vp_receiver :: string
  vp_amount :: "int option"
  vp_blockHash :: string
  vp_transactionHash :: string
  vp_logIndex :: int
  vp_originChainId :: int
  vp_destinationChainId :: int

text \<open>
  The files are kept by path; the file of reverted votes, JSON on disk, is kept as the table it
  holds.
\<close>

record 'w st =
  world :: 'w
  trace :: "event list"
  metrics :: "metric \<Rightarrow> nat"
  files :: "string \<Rightarrow> string option"
  reverted_files :: "string \<Rightarrow> (string \<Rightarrow> vote_params option) option"
  senders :: "tx_sender list"
  limit_caches :: "(string \<Rightarrow> limits option) list"
  wallets :: "string \<Rightarrow> wallet_state option"
  currentChainId :: "int option"

text \<open>\<open>currentChainId\<close> is the chain id the main federator object caches.\<close>

section \<open>Responses and events\<close>

record 'a http_response =
  http_status :: int
  resp_success :: bool
  resp_message :: "string option"
  resp_error :: "string option"
  payload :: 'a

datatype 'e raw_event = EvString string | EvLog 'e

record cross_event =
  ce_transactionHash :: "string option"
  ce_blockHash :: string
  ce_blockNumber :: int
  ce_logIndex :: int
  ce_to :: string
  ce_from :: string
  ce_amount :: int
  ce_tokenAddress :: string
  ce_typeId :: string
  ce_originChainId :: int
  ce_destinationChainId :: int

record fed_event =
  fe_event :: string
  fe_txHex :: string
  fe_originalTokenAddress :: string
  fe_transactionHash :: string
  fe_value :: int
  fe_sender :: string
  fe_receiver :: string
  fe_transactionType :: int

record gas_oracle =
  go_status :: int
  go_ProposeGasPrice :: string
  go_FastGasPrice :: string

section \<open>The environment\<close>

type_synonym ('w, 'a) ext = "'w \<Rightarrow> 'a res \<times> 'w"

text \<open>A contract is reached at a host and an address.\<close>

type_synonym cref = "string option \<times> string option"

record 'w rpc =
  getBlockNumber :: "string option \<Rightarrow> ('w, int) ext"
  isSyncing :: "string option \<Rightarrow> ('w, bool) ext"
  netId :: "string option \<Rightarrow> ('w, int) ext"
  getTransactionCount :: "string option \<Rightarrow> string option \<Rightarrow> ('w, int) ext"
  rpcGasPrice :: "string option \<Rightarrow> ('w, int) ext"
  minimumGasPrice :: "string option \<Rightarrow> ('w, int) ext"
  estimateGas :: "string option \<Rightarrow> raw_tx \<Rightarrow> ('w, int) ext"
  getAccounts :: "string option \<Rightarrow> ('w, string list) ext"
  sendSignedTransaction :: "string option \<Rightarrow> string \<Rightarrow> 'w \<Rightarrow> (string option \<times> receipt res) \<times> 'w"
  sendPersonalTransaction :: "string option \<Rightarrow> raw_tx \<Rightarrow> 'w \<Rightarrow> (string option \<times> receipt res) \<times> 'w"
  evmTransactionBlock :: "string option \<Rightarrow> string \<Rightarrow> ('w, int option) ext"
  gasOracle :: "string option \<Rightarrow> ('w, gas_oracle) ext"
  passTime :: "int \<Rightarrow> 'w \<Rightarrow> 'w"
  clock :: "'w \<Rightarrow> int"

record 'w bridge_api =
  crossEvents :: "cref \<Rightarrow> int \<Rightarrow> int \<Rightarrow> int \<Rightarrow> ('w, cross_event raw_event list option) ext"
  evmToHathorTokenMap :: "cref \<Rightarrow> string \<Rightarrow> ('w, string) ext"
  hathorToEvmTokenMap :: "cref \<Rightarrow> string \<Rightarrow> ('w, string \<times> int) ext"
  sideTokenByOriginal :: "cref \<Rightarrow> int \<Rightarrow> string \<Rightarrow> ('w, string) ext"
  tokenDecimals :: "cref \<Rightarrow> ('w, int) ext"

record 'w federation_api =
  fed_isMember :: "cref \<Rightarrow> string \<Rightarrow> ('w, bool) ext"
  fed_getTransactionId :: "cref \<Rightarrow> vote_params \<Rightarrow> ('w, string) ext"
  fed_transactionWasProcessed :: "cref \<Rightarrow> string \<Rightarrow> ('w, bool) ext"
  fed_hasVoted :: "cref \<Rightarrow> string \<Rightarrow> string option \<Rightarrow> ('w, bool) ext"
  smallAmount :: "cref \<Rightarrow> ('w, int) ext"
  mediumAmount :: "cref \<Rightarrow> ('w, int) ext"
  largeAmount :: "cref \<Rightarrow> ('w, int) ext"
  infoAndLimits :: "cref \<Rightarrow> string \<Rightarrow> ('w, limits) ext"

text \<open>
  The Hathor federation contract. A call can fail while its arguments are encoded, inside the
  code's \<open>try\<close>, or when its promise is rejected; \<open>view_check\<close> is the first kind.
\<close>

datatype hfed_view =
    V_getSignatureCount string
  | V_isProcessed string
  | V_isSigned string "string option"
  | V_isProposed string

record 'w hfed_api =
  view_check :: "hfed_view \<Rightarrow> exn option"
  hf_signatureCount :: "string \<Rightarrow> ('w, int) ext"
  hf_isProcessed :: "string \<Rightarrow> ('w, bool) ext"
  hf_isSigned :: "string \<Rightarrow> string option \<Rightarrow> ('w, bool) ext"
  hf_isProposed :: "string \<Rightarrow> ('w, bool) ext"
  hf_transactionHex :: "string \<Rightarrow> ('w, string) ext"
  hf_transactionSignatures :: "string \<Rightarrow> int \<Rightarrow> ('w, string) ext"
  hf_getTransactionId ::
    "string \<Rightarrow> string \<Rightarrow> string \<Rightarrow> string option \<Rightarrow> string \<Rightarrow> tx_type \<Rightarrow> ('w, string) ext"
  hf_allEvents :: "int \<Rightarrow> int \<Rightarrow> ('w, fed_event raw_event list) ext"
  hf_lockEvents :: "int \<Rightarrow> int \<Rightarrow> ('w, fed_event raw_event list) ext"

record 'w wallet_api =
  w_signAndPush :: "string \<Rightarrow> string list \<Rightarrow> ('w, string http_response) ext"
  w_lockInputs :: "string \<Rightarrow> string option \<Rightarrow> ('w, unit http_response) ext"
  w_confirmations :: "string \<Rightarrow> ('w, int http_response) ext"
  w_transaction :: "string \<Rightarrow> ('w, tx_data http_response option) ext"
  w_decode :: "string \<Rightarrow> ('w, tx_data http_response) ext"
  w_mySignatures :: "string \<Rightarrow> ('w, string http_response) ext"
  w_proposal :: "wallet_request \<Rightarrow> ('w, string http_response) ext"
  w_addressIndex :: "string option \<Rightarrow> ('w, unit http_response) ext"
  w_history :: "('w, tx_data list http_response) ext"
  w_walletStatus :: "string \<Rightarrow> ('w, (int option \<times> string option) http_response) ext"
  w_start :: "string \<Rightarrow> string option \<Rightarrow> bool \<Rightarrow> ('w, unit http_response) ext"

text \<open>Pure functions of web3 and ethereumjs the code calls.\<close>

record crypto =
  isAddress :: "string \<Rightarrow> bool"
  toChecksumAddress :: "string \<Rightarrow> string res"
  keccak256 :: "string \<Rightarrow> string res"
  privateToAddress :: "string \<Rightarrow> string res"
  padLeft :: "string \<Rightarrow> nat \<Rightarrow> string"
  toWei_gwei :: "string \<Rightarrow> string res"
  signTx :: "raw_tx \<Rightarrow> string \<Rightarrow> string res"
  encodeABI :: "abi_call \<Rightarrow> string res"
  lower_case :: "string \<Rightarrow> string"

record 'w env =
  config :: ConfigData
  dirname :: string
  penv :: process_env
  rpc :: "'w rpc"
  bridge_api :: "'w bridge_api"
  federation_api :: "'w federation_api"
  hfed :: "'w hfed_api"
  wallet :: "'w wallet_api"
  crypto :: crypto

section \<open>Steps\<close>

type_synonym ('w, 'a) run = "('w st, 'a) comp"

definition ext_call :: "('w, 'a) ext \<Rightarrow> ('w, 'a) run" where
  "ext_call f s = (case f (world s) of (r, w) \<Rightarrow> (r, s\<lparr>world := w\<rparr>))"

definition emit :: "event \<Rightarrow> ('w, unit) run" where
  "emit e = modify (\<lambda>s. s\<lparr>trace := trace s @ [e]\<rparr>)"

definition inc :: "metric \<Rightarrow> ('w, unit) run" where
  "inc m = modify (\<lambda>s. s\<lparr>metrics := (metrics s)(m := Suc (metrics s m))\<rparr>)"

definition sleep :: "'w env \<Rightarrow> int \<Rightarrow> ('w, unit) run" where
  "sleep E ms = modify (\<lambda>s. s\<lparr>world := passTime (rpc E) ms (world s)\<rparr>)"

text \<open>\<open>fs.writeFileSync\<close> and \<open>fs.readFileSync\<close> of a file under the storage path.\<close>

definition write_file :: "string \<Rightarrow> string \<Rightarrow> ('w, unit) run" where
  "write_file p c = modify (\<lambda>s. s\<lparr>files := (files s)(p := Some c)\<rparr>)"

definition read_file :: "string \<Rightarrow> ('w, string) run" where
  "read_file p s =
     (case files s p of None \<Rightarrow> (Inl (JsError ''ENOENT: no such file or directory''), s)
      | Some c \<Rightarrow> (Inr c, s))"

lemma ext_call_run [m_simps]:
  "f (world s) = (r, w) \<Longrightarrow> ext_call f s = (r, s\<lparr>world := w\<rparr>)"
  by (simp add: ext_call_def)

lemma emit_run [simp, m_simps]: "emit e s = (Inr (), s\<lparr>trace := trace s @ [e]\<rparr>)"
  by (simp add: emit_def)

lemma inc_run [simp, m_simps]:
  "inc m s = (Inr (), s\<lparr>metrics := (metrics s)(m := Suc (metrics s m))\<rparr>)"
  by (simp add: inc_def)

lemma sleep_run [simp, m_simps]: "sleep E ms s = (Inr (), s\<lparr>world := passTime (rpc E) ms (world s)\<rparr>)"
  by (simp add: sleep_def)

lemma write_file_run [simp, m_simps]:
  "write_file p c s = (Inr (), s\<lparr>files := (files s)(p := Some c)\<rparr>)"
  by (simp add: write_file_def)

text \<open>\<open>`${error}`\<close>: the class name is Error for the code's own classes, which do not set one.\<close>

definition error_string :: "exn \<Rightarrow> string" where
  "error_string e = (if e = JsTypeError then ''TypeError: TypeError'' else ''Error: '' @ message_of e)"

text \<open>A promise nobody awaits: its effects happen, its outcome is not seen by the caller.\<close>

definition detach :: "('w, 'a) run \<Rightarrow> ('w, unit) run" where
  "detach m s = (Inr (), snd (m s))"

section \<open>Frame conditions\<close>

text \<open>The trace only grows, and every request added satisfies \<open>P\<close>.\<close>

definition emits :: "(event \<Rightarrow> bool) \<Rightarrow> 'w st \<Rightarrow> 'w st \<Rightarrow> bool" where
  "emits P s t \<longleftrightarrow> (\<exists>es. trace t = trace s @ es \<and> list_all P es)"

definition same_files :: "'w st \<Rightarrow> 'w st \<Rightarrow> bool" where
  "same_files s t \<longleftrightarrow> files t = files s"

interpretation em: step_rel "emits P"
proof
  show "emits P s s" for s by (simp add: emits_def)
next
  fix s t u :: "'w st"
  assume "emits P s t" "emits P t u"
  then obtain xs ys where "trace t = trace s @ xs" "trace u = trace t @ ys"
    "list_all P xs" "list_all P ys" by (auto simp: emits_def)
  then show "emits P s u" by (auto simp: emits_def intro: exI [of _ "xs @ ys"])
qed

interpretation sf: step_rel same_files
  by unfold_locales (simp_all add: same_files_def)

lemma emits_refl [simp]: "emits P s s"
  by (rule em.R_refl)

lemma emits_mono: "emits P s t \<Longrightarrow> (\<And>e. P e \<Longrightarrow> Q e) \<Longrightarrow> emits Q s t"
  by (auto simp: emits_def list_all_iff)

lemma emits_none: "emits (\<lambda>_. False) s t \<longleftrightarrow> trace t = trace s"
  by (auto simp: emits_def list_all_iff)

lemma emits_same_trace: "trace t = trace s \<Longrightarrow> emits P s t"
  by (simp add: emits_def)

lemma runs_ext_call [steps_intros]:
  "runs_in (emits P) (ext_call f)" "runs_in same_files (ext_call f)"
  by (auto simp: runs_in_def ext_call_def emits_same_trace same_files_def split: prod.splits)

lemma runs_emit [steps_intros]: "P e \<Longrightarrow> runs_in (emits P) (emit e)" "runs_in same_files (emit e)"
  by (auto simp: runs_in_def emits_def same_files_def)

lemma runs_inc [steps_intros]: "runs_in (emits P) (inc m)" "runs_in same_files (inc m)"
  by (auto simp: runs_in_def emits_same_trace same_files_def)

lemma runs_sleep [steps_intros]: "runs_in (emits P) (sleep E i)" "runs_in same_files (sleep E i)"
  by (auto simp: runs_in_def emits_same_trace same_files_def)

lemma runs_write_file [steps_intros]: "runs_in (emits P) (write_file p c)"
  by (auto simp: runs_in_def emits_same_trace)

lemma runs_read_file [steps_intros]: "runs_in (emits P) (read_file p)" "runs_in same_files (read_file p)"
  by (auto simp: runs_in_def read_file_def emits_same_trace same_files_def split: option.splits)

lemma runs_detach [steps_intros]: "runs_in R m \<Longrightarrow> runs_in R (detach m)"
  by (simp add: runs_in_def detach_def)

text \<open>Following a run past a step that issues nothing.\<close>

lemma quiet_trace: "(\<And>P. runs_in (emits P) m) \<Longrightarrow> m s = (r, t) \<Longrightarrow> trace t = trace s"
  using runs_inD [of "emits (\<lambda>_. False)" m s r t] by (simp add: emits_none)

lemma peel [consumes 1, case_names quiet err ok]:
  assumes "bnd m f s = (r, t)" and "\<And>P. runs_in (emits P) m"
  obtains e where "r = Inl e" "trace t = trace s"
  | a u where "m s = (Inr a, u)" "trace u = trace s" "f a u = (r, t)"
  using assms(1)
proof (cases rule: bnd_cases)
  case (err e)
  then show ?thesis using that(1) quiet_trace [OF assms(2)] by blast
next
  case (ok a u)
  then show ?thesis using that(2) quiet_trace [OF assms(2)] by blast
qed

end
