(* ===== verification/Sample.thy ===== *)
theory Sample
  imports Runtime
begin

text \<open>
  A concrete configuration, environment and state on which the properties are instantiated: a
  federator on chain 31 whose nodes and wallet answer every request, with one pending proposal.
  The world is a counter of the calls made. Properties vary single fields of it.
\<close>

definition sample_chain :: ConfigChain where
  "sample_chain = new_ConfigChain
     \<lparr>p_name = ''rsk'', p_chainId = 31, p_bridge = Some ''0xb'', p_allowTokens = Some ''0xa'',
      p_federation = Some ''0xf'', p_host = Some ''https://rsk'', p_testToken = None,
      p_fromBlock = None, p_blockTimeMs = None, p_isHathor = None, p_walletUrl = None,
      p_walletKey = None, p_singleWalletId = None, p_singleSeedKey = None,
      p_multisigWalletId = None, p_multisigSeedKey = None, p_multisigRequiredSignatures = None,
      p_multisigOrder = Some 1, p_minimumConfirmations = Some 3, p_eventQueueType = None,
      p_pubsubProjectId = None\<rparr>"

definition sample_config :: ConfigData where
  "sample_config =
     \<lparr>mainchain = sample_chain, sidechain = [sample_chain\<lparr>chainId := 11\<rparr>], runEvery = 1,
      privateKey = Some ''k'', storagePath = ''/db'', etherscanApiKey = None, runHeartbeatEvery = 1,
      endpointsPort = 5000, federatorRetries = 3, checkHttps = True, explorer = None\<rparr>"

definition sample_penv :: process_env where
  "sample_penv =
     \<lparr>FEDERATOR_ADDRESS = Some ''0xme'', HATHOR_STATE_CONTRACT_ADDR = Some ''0xstate'',
      HATHOR_STATE_CONTRACT_HOST_URL = Some ''https://state'',
      HEADLESS_MULTISIG_SEED_DEFAULT_NUM_SIGNATURES = Some ''2'',
      HATHOR_INPUT_BLOCK_TTL = Some ''60'', FEDERATION_FROM_BLOCK = Some ''0'',
      FEDERATION_CHAIN = Some ''31'', FEDERATION_CHAIN_ID = Some ''31'',
      FEDERATION_CONFIRMATION_BLOCKS = Some ''0'', HATHOR_LAST_TIMESTAMP = Some ''1'',
      BRIDGE_SKIP_HTTPS = None\<rparr>"

definition answer :: "'a \<Rightarrow> (nat, 'a) ext" where
  "answer a w = (Inr a, Suc w)"

lemma ext_call_answer [simp]: "ext_call (answer a) s = (Inr a, s\<lparr>world := Suc (world s)\<rparr>)"
  by (simp add: ext_call_def answer_def)

definition sample_receipt :: receipt where
  "sample_receipt = \<lparr>rc_status = True, rc_hash = Some ''0xh'', rc_error = None\<rparr>"

definition sample_rpc :: "nat rpc" where
  "sample_rpc =
     \<lparr>getBlockNumber = (\<lambda>h. answer 1000), isSyncing = (\<lambda>h. answer False),
      netId = (\<lambda>h. answer 31), getTransactionCount = (\<lambda>h a. answer 7),
      rpcGasPrice = (\<lambda>h. answer 100), minimumGasPrice = (\<lambda>h. answer 100),
      estimateGas = (\<lambda>h tx. answer 21000), getAccounts = (\<lambda>h. answer [''0xme'']),
      sendSignedTransaction = (\<lambda>h ser w. ((Some ''0xh'', Inr sample_receipt), Suc w)),
      sendPersonalTransaction = (\<lambda>h tx w. ((Some ''0xh'', Inr sample_receipt), Suc w)),
      evmTransactionBlock = (\<lambda>h tx. answer (Some 900)),
      gasOracle = (\<lambda>k. answer \<lparr>go_status = 1, go_ProposeGasPrice = ''1'', go_FastGasPrice = ''1''\<rparr>),
      passTime = (\<lambda>ms w. w), clock = (\<lambda>w. int w)\<rparr>"

definition sample_event :: cross_event where
  "sample_event =
     \<lparr>ce_transactionHash = Some ''0xcross'', ce_blockHash = ''0xbh'', ce_blockNumber = 900,
      ce_logIndex = 1, ce_to = ''Hdest'', ce_from = ''0xfrom'', ce_amount = 1530000000000000000,
      ce_tokenAddress = ''0xtoken'', ce_typeId = ''0'', ce_originChainId = 31,
      ce_destinationChainId = 11\<rparr>"

definition sample_bridge :: "nat bridge_api" where
  "sample_bridge =
     \<lparr>crossEvents = (\<lambda>c d a b. answer (Some [EvLog sample_event])),
      evmToHathorTokenMap = (\<lambda>c t. answer ''ht''),
      hathorToEvmTokenMap = (\<lambda>c t. answer (''0xtoken'', 31)),
      sideTokenByOriginal = (\<lambda>c o' t. answer ''0xside''), tokenDecimals = (\<lambda>c. answer 18)\<rparr>"

definition sample_limits :: limits where
  "sample_limits = \<lparr>lim_min = 1, lim_allowed = True, lim_mediumAmount = 100, lim_largeAmount = 1000\<rparr>"

definition sample_federation :: "nat federation_api" where
  "sample_federation =
     \<lparr>fed_isMember = (\<lambda>c a. answer True), fed_getTransactionId = (\<lambda>c p. answer ''0xvote''),
      fed_transactionWasProcessed = (\<lambda>c t. answer False), fed_hasVoted = (\<lambda>c t a. answer False),
      smallAmount = (\<lambda>c. answer 1), mediumAmount = (\<lambda>c. answer 10), largeAmount = (\<lambda>c. answer 100),
      infoAndLimits = (\<lambda>c t. answer sample_limits)\<rparr>"

definition sample_hfed :: "nat hfed_api" where
  "sample_hfed =
     \<lparr>view_check = (\<lambda>v. None), hf_signatureCount = (\<lambda>t. answer 2), hf_isProcessed = (\<lambda>t. answer False),
      hf_isSigned = (\<lambda>t a. answer False), hf_isProposed = (\<lambda>t. answer False),
      hf_transactionHex = (\<lambda>t. answer ''0xcafe''), hf_transactionSignatures = (\<lambda>t i. answer ''sig''),
      hf_getTransactionId = (\<lambda>a b c d e f. answer ''0xid''), hf_allEvents = (\<lambda>a b. answer []),
      hf_lockEvents = (\<lambda>a b. answer [])\<rparr>"

definition ok_response :: "'a \<Rightarrow> 'a http_response" where
  "ok_response a = \<lparr>http_status = 200, resp_success = True, resp_message = None, resp_error = None, payload = a\<rparr>"

definition multisig_decoded :: decoded where
  "multisig_decoded = \<lparr>d_type = Some ''MultiSig'', d_address = Some ''wMultisig'', d_timelock = NullTimelock\<rparr>"

text \<open>A mint proposal: 1.53 of the Hathor token to the receiver, with a mint authority spent.\<close>

definition sample_proposal :: tx_data where
  "sample_proposal =
     \<lparr>tx_id = ''p'', tx_version = 1, tx_timestamp = 10, is_voided = False,
      tx_inputs = [\<lparr>i_value = 1, i_token_data = 129, i_script = [], i_decoded = multisig_decoded,
        i_token = Some ''ht''\<rparr>],
      tx_outputs = [\<lparr>o_value = 153, o_token_data = 1, o_script = [],
        o_decoded = \<lparr>d_type = Some ''P2PKH'', d_address = Some ''Hdest'', d_timelock = NullTimelock\<rparr>,
        o_token = Some ''ht'', o_spent_by = None, o_mine = Some False\<rparr>]\<rparr>"

definition sample_wallet :: "nat wallet_api" where
  "sample_wallet =
     \<lparr>w_signAndPush = (\<lambda>t s. answer (ok_response ''hash'')), w_lockInputs = (\<lambda>t l. answer (ok_response ())),
      w_confirmations = (\<lambda>t. answer (ok_response 5)),
      w_transaction = (\<lambda>t. answer (Some (ok_response sample_proposal))),
      w_decode = (\<lambda>t. answer (ok_response sample_proposal)),
      w_mySignatures = (\<lambda>t. answer (ok_response ''mysig'')),
      w_proposal = (\<lambda>r. answer (ok_response ''beef'')),
      w_addressIndex = (\<lambda>a. answer (ok_response ())), w_history = answer (ok_response []),
      w_walletStatus = (\<lambda>i. answer (ok_response (Some 3, None))),
      w_start = (\<lambda>i k m. answer (ok_response ()))\<rparr>"

definition sample_crypto :: crypto where
  "sample_crypto =
     \<lparr>isAddress = starts_with ''0x'', toChecksumAddress = Inr, keccak256 = (\<lambda>s. Inr (''0x'' @ s)),
      privateToAddress = (\<lambda>k. Inr ''0xme''), padLeft = (\<lambda>s n. s), toWei_gwei = Inr,
      signTx = (\<lambda>tx k. Inr ''0xsigned''), encodeABI = (\<lambda>c. Inr ''0xdata''), lower_case = (\<lambda>s. s)\<rparr>"

definition sample_env :: "nat env" where
  "sample_env =
     \<lparr>config = sample_config, dirname = ''/app'', penv = sample_penv, rpc = sample_rpc,
      bridge_api = sample_bridge, federation_api = sample_federation, hfed = sample_hfed,
      wallet = sample_wallet, crypto = sample_crypto\<rparr>"

definition sample_state :: "nat st" where
  "sample_state =
     \<lparr>world = 0, trace = [], metrics = (\<lambda>m. 0), files = (\<lambda>p. None),
      reverted_files = (\<lambda>p. None), senders = [], limit_caches = [],
      wallets = (\<lambda>w. None), currentChainId = None\<rparr>"

lemmas sample_simps =
  sample_env_def sample_config_def sample_chain_def sample_penv_def sample_rpc_def sample_bridge_def
  sample_federation_def sample_hfed_def sample_wallet_def sample_crypto_def sample_state_def
  sample_receipt_def sample_limits_def ok_response_def new_ConfigChain_def

end
