(* ===== verification/TransactionSender.thy ===== *)
theory TransactionSender
  imports Sample
begin

text \<open>
  \<open>lib/TransactionSender.ts\<close> and \<open>lib/chainId.ts\<close>: gas price and limit, the raw transaction, and
  sending it. A sender is an index into the senders of the state; it caches its chain id. Prices
  are doubles: multiplying by a decimal constant uses the constant's 53-bit significand, and NaN
  is \<open>None\<close>. Signed transactions are recorded with their fields, before serialization.
\<close>

definition ESTIMATED_GAS :: int where "ESTIMATED_GAS = 250000"
definition RSK_TEST_NET_CHAIN_ID :: int where "RSK_TEST_NET_CHAIN_ID = 31"
definition RSK_MAIN_NET_CHAIN_ID :: int where "RSK_MAIN_NET_CHAIN_ID = 30"

text \<open>\<open>new TransactionSender(client, logger, config)\<close>.\<close>

definition new_TransactionSender :: "string option \<Rightarrow> ('w, nat) run" where
  "new_TransactionSender client s =
     (Inr (length (senders s)),
      s\<lparr>senders := senders s @ [\<lparr>ts_client = client, ts_chainId = None, ts_debuggingMode = False\<rparr>]\<rparr>)"

definition sender_client :: "nat \<Rightarrow> 'w st \<Rightarrow> string option" where
  "sender_client i s = ts_client (senders s ! i)"

section \<open>Numbers\<close>

fun show_hex_nat :: "nat \<Rightarrow> string" where
  "show_hex_nat n =
     (let d = (if n mod 16 < 10 then digit_char (n mod 16) else char_of (n mod 16 + 87))
      in if n < 16 then [d] else show_hex_nat (n div 16) @ [d])"

declare show_hex_nat.simps [simp del]

definition show_hex :: "int \<Rightarrow> string" where
  "show_hex i = (if i < 0 then CHR ''-'' # show_hex_nat (nat (- i)) else show_hex_nat (nat i))"

definition numberToHexString :: "int option \<Rightarrow> string" where
  "numberToHexString n =
     (case n of None \<Rightarrow> ''0x0'' | Some i \<Rightarrow> if i = 0 then ''0x0'' else ''0x'' @ show_hex i)"

text \<open>\<open>Math.round(x * c)\<close> and \<open>Math.ceil(x * c)\<close> for the double \<open>c = m / 2^52\<close>.\<close>

definition round_mul :: "int \<Rightarrow> int \<Rightarrow> int" where
  "round_mul m x = (js_double (x * m) + 2 ^ 51) div 2 ^ 52"

definition ceil_mul :: "int \<Rightarrow> int \<Rightarrow> int" where
  "ceil_mul m x = - ((- js_double (x * m)) div 2 ^ 52)"

definition c_1_5 :: int where "c_1_5 = 6755399441055744"
definition c_1_03 :: int where "c_1_03 = 4638707616191611"
definition c_1_013 :: int where "c_1_013 = 4562146422526312"

definition nan_le :: "int option \<Rightarrow> int option \<Rightarrow> bool" where
  "nan_le a b = (case (a, b) of (Some x, Some y) \<Rightarrow> x \<le> y | _ \<Rightarrow> False)"

definition nan_less :: "int option \<Rightarrow> int option \<Rightarrow> bool" where
  "nan_less a b = (case (a, b) of (Some x, Some y) \<Rightarrow> x < y | _ \<Rightarrow> False)"

section \<open>Chain id, gas price and gas limit\<close>

definition getChainId :: "'w env \<Rightarrow> nat \<Rightarrow> ('w, int) run" where
  "getChainId E i =
     bnd (gets (\<lambda>s. senders s ! i)) (\<lambda>t.
     case ts_chainId t of
       Some c \<Rightarrow> ret c
     | None \<Rightarrow>
         bnd (ext_call (netId (rpc E) (ts_client t))) (\<lambda>n.
         bnd (modify (\<lambda>s. s\<lparr>senders := (senders s)[i := (senders s ! i)\<lparr>ts_chainId := Some (js_double n)\<rparr>]\<rparr>)) (\<lambda>_.
         ret (js_double n))))"

definition isRsk :: "'w env \<Rightarrow> nat \<Rightarrow> ('w, bool) run" where
  "isRsk E i = bnd (getChainId E i) (\<lambda>c. ret (c = RSK_TEST_NET_CHAIN_ID \<or> c = RSK_MAIN_NET_CHAIN_ID))"

definition getNonce :: "'w env \<Rightarrow> nat \<Rightarrow> string option \<Rightarrow> ('w, int) run" where
  "getNonce E i a =
     bnd (gets (sender_client i)) (\<lambda>h. ext_call (getTransactionCount (rpc E) h a))"

definition getRskGasPrice :: "'w env \<Rightarrow> nat \<Rightarrow> ('w, int option) run" where
  "getRskGasPrice E i =
     bnd (gets (sender_client i)) (\<lambda>h.
     bnd (ext_call (minimumGasPrice (rpc E) h)) (\<lambda>p.
     let gasPrice = js_double p
     in ret (Some (if gasPrice \<le> 1 then 1 else round_mul c_1_03 gasPrice))))"

text \<open>\<open>useEtherscanApi\<close> for the gas oracle, refused off the two Ethereum chains.\<close>

definition useEtherscanApi :: "'w env \<Rightarrow> nat \<Rightarrow> ('w, gas_oracle) run" where
  "useEtherscanApi E i =
     bnd (getChainId E i) (\<lambda>c.
     if c \<noteq> 1 \<and> c \<noteq> 42 then throw (JsError ''ChainId can't use Etherescan API'')
     else bnd (ext_call (gasOracle (rpc E) (etherscanApiKey (config E)))) (\<lambda>r.
          if go_status r = 0 then throw (JsError ''Etherscan API'') else ret r))"

text \<open>The choice among the node's price and the oracle's, after the oracle answered.\<close>

definition choose_eth_price :: "int \<Rightarrow> int \<Rightarrow> int option \<Rightarrow> int option \<Rightarrow> int option" where
  "choose_eth_price gasPrice useGasPrice proposeGasPrice fastGasPrice =
     (let fastGasPricePlus = map_option (ceil_mul c_1_013) fastGasPrice;
          use = Some useGasPrice; five = Some (js_double (useGasPrice * 5))
      in if nan_le (Some gasPrice) fastGasPrice \<and> nan_le fastGasPrice use then fastGasPricePlus
         else if useGasPrice \<le> 25000000000 then fastGasPricePlus
         else if nan_le (Some gasPrice) proposeGasPrice \<and> nan_le use proposeGasPrice
           \<and> nan_less proposeGasPrice five
         then (if nan_less fastGasPrice five then fastGasPricePlus
               else map_option (\<lambda>p. js_double (p + 5000000000)) proposeGasPrice)
         else use)"

definition getEthGasPrice :: "'w env \<Rightarrow> nat \<Rightarrow> ('w, int option) run" where
  "getEthGasPrice E i =
     bnd (getChainId E i) (\<lambda>c.
     bnd (gets (sender_client i)) (\<lambda>h.
     bnd (ext_call (rpcGasPrice (rpc E) h)) (\<lambda>p.
     let gasPrice = js_double p;
         useGasPrice = (if gasPrice \<le> 1 then 1 else round_mul c_1_5 gasPrice)
     in if c = 1 then
          bnd (useEtherscanApi E i) (\<lambda>o'.
          bnd (lift_res (toWei_gwei (crypto E) (go_ProposeGasPrice o'))) (\<lambda>pw.
          bnd (lift_res (toWei_gwei (crypto E) (go_FastGasPrice o'))) (\<lambda>fw.
          ret (choose_eth_price gasPrice useGasPrice (parse_int pw) (parse_int fw)))))
        else ret (Some useGasPrice))))"

definition getGasPrice :: "'w env \<Rightarrow> nat \<Rightarrow> ('w, int option) run" where
  "getGasPrice E i = bnd (isRsk E i) (\<lambda>b. if b then getRskGasPrice E i else getEthGasPrice E i)"

definition getGasLimit :: "'w env \<Rightarrow> nat \<Rightarrow> raw_tx \<Rightarrow> ('w, int) run" where
  "getGasLimit E i tx =
     bnd (gets (sender_client i)) (\<lambda>h.
     bnd (ext_call (estimateGas (rpc E) h tx)) (\<lambda>g.
     let estimatedGas = js_double g
     in ret (if estimatedGas < ESTIMATED_GAS then ESTIMATED_GAS else estimatedGas)))"

section \<open>The raw transaction\<close>

definition createRawTransaction ::
  "'w env \<Rightarrow> nat \<Rightarrow> string option \<Rightarrow> string option \<Rightarrow> abi_call \<Rightarrow> int \<Rightarrow> ('w, raw_tx) run" where
  "createRawTransaction E i from to data val =
     bnd (getNonce E i from) (\<lambda>n.
     bnd (getChainId E i) (\<lambda>c.
     bnd (getGasPrice E i) (\<lambda>p.
     bnd (isRsk E i) (\<lambda>rsk.
     let tx = \<lparr>rt_chainId = (if rsk then None else Some c), rt_gasPrice = numberToHexString p,
                rt_value = numberToHexString (Some val), rt_to = to, rt_data = data, rt_from = from,
                rt_nonce = numberToHexString (Some (js_double n)), rt_gas = [], rt_rs = \<not> rsk\<rparr>
     in bnd (getGasLimit E i tx) (\<lambda>g.
        bnd (gets (\<lambda>s. ts_debuggingMode (senders s ! i))) (\<lambda>dbg.
        ret (tx\<lparr>rt_gas := numberToHexString (Some (if dbg then 100 else g))\<rparr>)))))))"

definition getAddress :: "'w env \<Rightarrow> nat \<Rightarrow> string option \<Rightarrow> ('w, string option) run" where
  "getAddress E i pk =
     (if truthy_string pk then bnd (lift_res (privateToAddress (crypto E) (the pk))) (\<lambda>a. ret (Some a))
      else bnd (gets (sender_client i)) (\<lambda>h.
           bnd (ext_call (getAccounts (rpc E) h)) (\<lambda>as.
           ret (case as of [] \<Rightarrow> None | a # _ \<Rightarrow> Some a))))"

section \<open>Sending\<close>

text \<open>
  The call that submits the transaction: the request is on the trace once it is made; the node
  answers with the hash it emitted, if any, and a receipt or an error. On Ethereum the hash event
  also posts the transaction to Etherscan, whose answer nobody awaits.
\<close>

definition submit_signed :: "'w env \<Rightarrow> nat \<Rightarrow> int \<Rightarrow> raw_tx \<Rightarrow> string \<Rightarrow> ('w, string option \<times> receipt res) run" where
  "submit_signed E i c tx ser =
     bnd (gets (sender_client i)) (\<lambda>h.
     bnd (emit (SignedTx h tx)) (\<lambda>_.
     bnd (ext_call (\<lambda>w. case sendSignedTransaction (rpc E) h ser w of (x, w') \<Rightarrow> (Inr x, w'))) (\<lambda>x.
     bnd (if c = 1 \<and> fst x \<noteq> None then emit (EtherscanBroadcast ser) else ret ()) (\<lambda>_.
     ret x))))"

definition submit_personal :: "'w env \<Rightarrow> nat \<Rightarrow> raw_tx \<Rightarrow> ('w, string option \<times> receipt res) run" where
  "submit_personal E i tx =
     bnd (gets (sender_client i)) (\<lambda>h.
     bnd (emit (PersonalTx h tx)) (\<lambda>_.
     ext_call (\<lambda>w. case sendPersonalTransaction (rpc E) h tx w of (x, w') \<Rightarrow> (Inr x, w'))))"

definition build_and_submit ::
  "'w env \<Rightarrow> nat \<Rightarrow> int \<Rightarrow> string option \<Rightarrow> abi_call \<Rightarrow> int \<Rightarrow> string option
    \<Rightarrow> ('w, string option \<times> receipt res) run" where
  "build_and_submit E i c to data val pk =
     bnd (getAddress E i pk) (\<lambda>from.
     bnd (createRawTransaction E i from to data val) (\<lambda>tx.
     if truthy_string pk
     then bnd (lift_res (signTx (crypto E) tx (the pk))) (\<lambda>ser. submit_signed E i c tx ser)
     else submit_personal E i (tx\<lparr>rt_rs := False\<rparr>)))"

definition show_opt :: "string option \<Rightarrow> string" where
  "show_opt x = js_key x"

definition manuallyCheck :: "'w env \<Rightarrow> string" where
  "manuallyCheck E =
     (if storagePath (config E) = [] then dirname E else storagePath (config E)) @ ''/manuallyCheck.txt''"

definition append_file :: "string \<Rightarrow> string \<Rightarrow> ('w, unit) run" where
  "append_file p c =
     modify (\<lambda>s. s\<lparr>files := (files s)(p := Some (coalesce (files s p) [] @ c))\<rparr>)"

text \<open>The \<open>catch\<close> block of \<open>sendTransaction\<close>.\<close>

definition send_failed ::
  "'w env \<Rightarrow> string option \<Rightarrow> abi_call \<Rightarrow> bool \<Rightarrow> string option \<Rightarrow> exn \<Rightarrow> ('w, receipt) run" where
  "send_failed E to data throwOnError txHash err =
     (if throwOnError then throw (CustomError ''Error in sendTransaction'' err)
      else bnd (if index_of ''it might still be mined'' (message_of err) > 0
                then append_file (manuallyCheck E)
                  (''transactionHash:'' @ show_opt txHash @ '' to:'' @ show_opt to @ '' data:''
                   @ (case encodeABI (crypto E) data of Inl _ \<Rightarrow> [] | Inr d \<Rightarrow> d) @ [char_of (10 :: nat)])
                else ret ()) (\<lambda>_.
           ret \<lparr>rc_status = False, rc_hash = txHash, rc_error = Some err\<rparr>))"

definition sendTransaction ::
  "'w env \<Rightarrow> nat \<Rightarrow> string option \<Rightarrow> abi_call \<Rightarrow> int \<Rightarrow> string option \<Rightarrow> bool \<Rightarrow> ('w, receipt) run" where
  "sendTransaction E i to data val pk throwOnError =
     bnd (getChainId E i) (\<lambda>c.
     bnd (settle (build_and_submit E i c to data val pk)) (\<lambda>r.
     case r of
       Inl err \<Rightarrow> send_failed E to data throwOnError None err
     | Inr (h, Inl err) \<Rightarrow> send_failed E to data throwOnError h err
     | Inr (h, Inr rc) \<Rightarrow> ret rc))"

section \<open>What sending guarantees\<close>

lemma runs_modify_senders [steps_intros]:
  "runs_in (emits P) (modify (\<lambda>s. s\<lparr>senders := f s\<rparr>))"
  "runs_in same_files (modify (\<lambda>s. s\<lparr>senders := f s\<rparr>))"
  by (auto simp: runs_in_def emits_same_trace same_files_def)

lemma runs_new_TransactionSender [steps_intros]:
  "runs_in (emits P) (new_TransactionSender c)" "runs_in same_files (new_TransactionSender c)"
  by (auto simp: runs_in_def new_TransactionSender_def emits_same_trace same_files_def)

lemma quiet_getChainId [steps_intros]:
  "runs_in (emits P) (getChainId E i)" "runs_in same_files (getChainId E i)"
  unfolding getChainId_def by (intro steps_intros)+

lemma quiet_isRsk [steps_intros]:
  "runs_in (emits P) (isRsk E i)" "runs_in same_files (isRsk E i)"
  unfolding isRsk_def by (intro steps_intros)+

lemma quiet_getGasPrice [steps_intros]:
  "runs_in (emits P) (getGasPrice E i)" "runs_in same_files (getGasPrice E i)"
  unfolding getGasPrice_def getRskGasPrice_def getEthGasPrice_def useEtherscanApi_def
  by (intro steps_intros)+

lemma quiet_getGasLimit [steps_intros]:
  "runs_in (emits P) (getGasLimit E i tx)" "runs_in same_files (getGasLimit E i tx)"
  unfolding getGasLimit_def by (intro steps_intros)+

lemma quiet_getAddress [steps_intros]:
  "runs_in (emits P) (getAddress E i pk)" "runs_in same_files (getAddress E i pk)"
  unfolding getAddress_def by (intro steps_intros)+

lemma quiet_createRawTransaction [steps_intros]:
  "runs_in (emits P) (createRawTransaction E i from to data val)"
  "runs_in same_files (createRawTransaction E i from to data val)"
  unfolding createRawTransaction_def getNonce_def by (intro steps_intros)+

text \<open>Every raw transaction carries the call asked for and, outside debugging mode, at least 250000 gas.\<close>

definition well_made :: "string option \<Rightarrow> abi_call \<Rightarrow> raw_tx \<Rightarrow> bool" where
  "well_made to data tx \<longleftrightarrow> rt_to tx = to \<and> rt_data tx = data
     \<and> (rt_gas tx = ''0x'' @ show_hex 100 \<or> (\<exists>g \<ge> 250000. rt_gas tx = ''0x'' @ show_hex g))"

lemma getGasLimit_bound: "getGasLimit E i tx s = (Inr g, t) \<Longrightarrow> 250000 \<le> g"
  by (auto simp: getGasLimit_def bnd_eq_iff ESTIMATED_GAS_def Let_def split: if_splits)

lemma createRawTransaction_well_made:
  assumes "createRawTransaction E i from to data val s = (Inr tx, t)"
  shows "well_made to data tx"
proof -
  obtain tx0 g u v dbg where g: "getGasLimit E i tx0 u = (Inr g, v)" and "rt_to tx0 = to"
    and "rt_data tx0 = data" and tx: "tx = tx0\<lparr>rt_gas := numberToHexString (Some (if dbg then 100 else g))\<rparr>"
    using assms unfolding createRawTransaction_def Let_def bnd_eq_Inr_iff ret_run
    by (elim exE conjE) (simp only: prod.inject sum.inject, fastforce)
  moreover have "250000 \<le> g" using g by (rule getGasLimit_bound)
  ultimately show ?thesis by (auto simp: well_made_def numberToHexString_def)
qed

text \<open>
  A run issues nothing, or exactly one transaction with the call asked for (which on Ethereum is
  also posted to Etherscan).
\<close>

definition one_tx :: "string option \<Rightarrow> abi_call \<Rightarrow> 'w st \<Rightarrow> 'w st \<Rightarrow> bool" where
  "one_tx to data s t \<longleftrightarrow> trace t = trace s \<or>
     (\<exists>h tx. well_made to data tx \<and>
        (trace t = trace s @ [PersonalTx h tx] \<or> trace t = trace s @ [SignedTx h tx]
         \<or> (\<exists>ser. trace t = trace s @ [SignedTx h tx, EtherscanBroadcast ser])))"

definition sent :: "string option \<Rightarrow> abi_call \<Rightarrow> event \<Rightarrow> bool" where
  "sent to data e =
     (case e of SignedTx _ tx \<Rightarrow> well_made to data tx | PersonalTx _ tx \<Rightarrow> well_made to data tx
      | EtherscanBroadcast _ \<Rightarrow> True | WalletReq _ \<Rightarrow> False)"

lemma one_tx_emits: "one_tx to data s t \<Longrightarrow> emits (sent to data) s t"
  by (auto simp: one_tx_def emits_def sent_def)

lemma one_tx_quiet: "trace u = trace s \<Longrightarrow> one_tx to data u t = one_tx to data s t"
  by (simp add: one_tx_def)

lemma one_tx_same: "trace t = trace s \<Longrightarrow> one_tx to data s t"
  by (simp add: one_tx_def)

lemma submit_signed_trace:
  "well_made to data tx \<Longrightarrow> submit_signed E i c tx ser s = (r, t) \<Longrightarrow> one_tx to data s t"
  by (auto simp: submit_signed_def bnd_def ext_call_def one_tx_def split: prod.splits if_splits sum.splits)

lemma submit_personal_trace:
  "well_made to data tx \<Longrightarrow> submit_personal E i tx s = (r, t) \<Longrightarrow> one_tx to data s t"
  by (auto simp: submit_personal_def bnd_def ext_call_def one_tx_def split: prod.splits sum.splits)

lemma well_made_rs [simp]: "well_made to data (tx\<lparr>rt_rs := b\<rparr>) = well_made to data tx"
  by (simp add: well_made_def)

lemma build_and_submit_trace:
  assumes "build_and_submit E i c to data val pk s = (r, t)"
  shows "one_tx to data s t"
  using assms unfolding build_and_submit_def
proof (cases rule: bnd_cases)
  case (err e)
  then show ?thesis
    using quiet_trace [OF quiet_getAddress(1)] by (blast intro: one_tx_same)
next
  case (ok frm u)
  then have u: "trace u = trace s" using quiet_trace [OF quiet_getAddress(1)] by blast
  from ok(2) show ?thesis
  proof (cases rule: bnd_cases)
    case (err e)
    then show ?thesis
      using quiet_trace [OF quiet_createRawTransaction(1)] u by (metis one_tx_same)
  next
    case (ok tx v)
    then have v: "trace v = trace s" using quiet_trace [OF quiet_createRawTransaction(1)] u by metis
    have w: "well_made to data tx" using ok(1) by (rule createRawTransaction_well_made)
    show ?thesis
    proof (cases "truthy_string pk")
      case True
      show ?thesis
      proof (cases "signTx (crypto E) tx (the pk)")
        case (Inl e)
        with True ok(2) v show ?thesis by (auto intro: one_tx_same)
      next
        case (Inr ser)
        with True ok(2) have "submit_signed E i c tx ser v = (r, t)" by simp
        then show ?thesis using submit_signed_trace [OF w] one_tx_quiet [OF v] by blast
      qed
    next
      case False
      with ok(2) have "submit_personal E i (tx\<lparr>rt_rs := False\<rparr>) v = (r, t)" by simp
      with w show ?thesis using submit_personal_trace one_tx_quiet [OF v] well_made_rs by blast
    qed
  qed
qed

lemma send_failed_run:
  "\<exists>t. send_failed E to data False h err s = (Inr \<lparr>rc_status = False, rc_hash = h, rc_error = Some err\<rparr>, t)
     \<and> trace t = trace s"
  by (simp add: send_failed_def append_file_def bnd_def)

lemma quiet_send_failed [steps_intros]: "runs_in (emits P) (send_failed E to data b h err)"
  unfolding send_failed_def append_file_def
  by (intro steps_intros) (simp_all add: runs_in_def emits_same_trace)

lemma sendTransaction_one_tx:
  assumes "sendTransaction E i to data val pk b s = (r, t)"
  shows "one_tx to data s t"
  using assms unfolding sendTransaction_def
proof (cases rule: bnd_cases)
  case (err e)
  then show ?thesis
    using quiet_trace [OF quiet_getChainId(1)] by (blast intro: one_tx_same)
next
  case (ok c u)
  then have u: "trace u = trace s" using quiet_trace [OF quiet_getChainId(1)] by blast
  obtain x v where x: "build_and_submit E i c to data val pk u = (x, v)" by fastforce
  have o1: "one_tx to data s v" using build_and_submit_trace [OF x] one_tx_quiet [OF u] by simp
  have "trace t = trace v"
    using ok(2) x quiet_trace [OF quiet_send_failed]
    by (auto simp: bnd_def split: sum.splits prod.splits)
  with o1 show ?thesis by (simp add: one_tx_def)
qed

lemma runs_sendTransaction:
  "(\<And>e. sent to data e \<Longrightarrow> P e) \<Longrightarrow> runs_in (emits P) (sendTransaction E i to data val pk b)"
  by (rule runs_inI) (blast intro: emits_mono one_tx_emits sendTransaction_one_tx)

lemma sendTransaction_returns:
  assumes "fst (getChainId E i s) = Inr c"
  shows "\<exists>rc t. sendTransaction E i to data val pk False s = (Inr rc, t)"
proof -
  obtain u where u: "getChainId E i s = (Inr c, u)" using assms by (cases "getChainId E i s") auto
  obtain x v where x: "build_and_submit E i c to data val pk u = (x, v)" by fastforce
  show ?thesis
    using send_failed_run [of E to data] u x
    by (auto simp: sendTransaction_def bnd_def split: sum.splits prod.splits) (metis prod.inject)+
qed



end
