(* ===== verification/Contracts.thy ===== *)
theory Contracts
  imports TransactionSender
begin

text \<open>
  \<open>contracts/\<close>: the wrappers around the deployed contracts and the factories that create them.
  A contract is its host and address. What a call returns is the environment's; the wrappers add
  the argument padding, the error wrapping, the conversion of confirmations and the cache of
  token limits. An error is wrapped where the code awaits inside its \<open>try\<close>; where it returns the
  promise unawaited only an encoding error is, and a rejection passes unchanged.
\<close>

definition VERSIONS :: "string list" where
  "VERSIONS = [''v4'', ''v3'', ''v2'', ''v1'', ''v0'']"

section \<open>Factories\<close>

text \<open>\<open>ContractFactory\<close>: contracts are cached by chain id and ABI, web3 instances by host.\<close>

record contract_factory =
  contractsByChainIdAndAbi :: "int \<Rightarrow> string \<Rightarrow> cref option"
  web3ByHost :: "string option set"

definition new_ContractFactory :: contract_factory where
  "new_ContractFactory = \<lparr>contractsByChainIdAndAbi = (\<lambda>_ _. None), web3ByHost = {}\<rparr>"

definition factory_getWeb3 :: "string option \<Rightarrow> contract_factory \<Rightarrow> string option \<times> contract_factory" where
  "factory_getWeb3 h f =
     (if h \<in> web3ByHost f then (h, f) else (h, f\<lparr>web3ByHost := insert h (web3ByHost f)\<rparr>))"

definition getContractByAbiAndChainId ::
  "string \<Rightarrow> string option \<Rightarrow> string option \<Rightarrow> int \<Rightarrow> contract_factory \<Rightarrow> cref \<times> contract_factory" where
  "getContractByAbiAndChainId abi address web3 chain f =
     (case contractsByChainIdAndAbi f chain abi of
        Some c \<Rightarrow> (c, f)
      | None \<Rightarrow> let c = (web3, address) in
          (c, f\<lparr>contractsByChainIdAndAbi := (contractsByChainIdAndAbi f)
                (chain := (contractsByChainIdAndAbi f chain)(abi \<mapsto> c))\<rparr>))"

definition createInstance ::
  "string \<Rightarrow> string option \<Rightarrow> ConfigChain \<Rightarrow> contract_factory \<Rightarrow> cref \<times> contract_factory" where
  "createInstance abi address c f =
     (let (w, f1) = factory_getWeb3 (host c) f
      in getContractByAbiAndChainId abi address w (chainId c) f1)"

text \<open>
  Every caller passes the address its configuration holds for the chain, so the cached contract
  is the configured one; the components below use it directly.
\<close>

definition BridgeFactory_createInstance :: "ConfigChain \<Rightarrow> cref" where
  "BridgeFactory_createInstance c = (host c, bridge c)"

definition FederationFactory_createInstance :: "ConfigChain \<Rightarrow> cref" where
  "FederationFactory_createInstance c = (host c, federation c)"

text \<open>A new token factory is made for every query, so its cache never applies.\<close>

definition TokenFactory_createInstance :: "ConfigChain \<Rightarrow> string \<Rightarrow> cref" where
  "TokenFactory_createInstance c tok = (host c, Some tok)"

definition caches :: "string \<Rightarrow> (ConfigChain \<Rightarrow> string option) \<Rightarrow> ConfigChain list \<Rightarrow> contract_factory \<Rightarrow> bool" where
  "caches abi addr cs f \<longleftrightarrow>
     (\<forall>c \<in> set cs. \<forall>r. contractsByChainIdAndAbi f (chainId c) abi = Some r \<longrightarrow> r = (host c, addr c))"

lemma caches_new: "caches abi addr cs new_ContractFactory"
  by (simp add: caches_def new_ContractFactory_def)

lemma factory_getWeb3_simps [simp]:
  "fst (factory_getWeb3 h f) = h"
  "contractsByChainIdAndAbi (snd (factory_getWeb3 h f)) = contractsByChainIdAndAbi f"
  by (simp_all add: factory_getWeb3_def)

lemma createInstance_unfold:
  "createInstance abi a c f =
     getContractByAbiAndChainId abi a (host c) (chainId c) (snd (factory_getWeb3 (host c) f))"
  by (simp add: createInstance_def split_def)

lemma createInstance_configured:
  assumes f: "caches abi addr cs f" and c: "c \<in> set cs"
    and u: "\<And>c d. c \<in> set cs \<Longrightarrow> d \<in> set cs \<Longrightarrow> chainId c = chainId d \<Longrightarrow> host c = host d \<and> addr c = addr d"
  shows "fst (createInstance abi (addr c) c f) = (host c, addr c)
    \<and> caches abi addr cs (snd (createInstance abi (addr c) c f))"
proof (cases "contractsByChainIdAndAbi f (chainId c) abi")
  case None
  then show ?thesis
    using f u [OF c]
    by (auto simp: createInstance_unfold getContractByAbiAndChainId_def caches_def Let_def)
next
  case (Some r)
  with f c have "r = (host c, addr c)" unfolding caches_def by blast
  with f Some show ?thesis
    by (simp add: createInstance_unfold getContractByAbiAndChainId_def caches_def)
qed

definition HathorFederationFactory_createInstance ::
  "'w env \<Rightarrow> ConfigChain option \<Rightarrow> cref option \<Rightarrow> cref" where
  "HathorFederationFactory_createInstance E c cached =
     (case cached of
        Some r \<Rightarrow> r
      | None \<Rightarrow>
         (case c of
            None \<Rightarrow> (HATHOR_STATE_CONTRACT_HOST_URL (penv E), HATHOR_STATE_CONTRACT_ADDR (penv E))
          | Some cc \<Rightarrow>
             (case host cc of None \<Rightarrow> HATHOR_STATE_CONTRACT_HOST_URL (penv E) | Some h \<Rightarrow> Some h,
              case federation cc of None \<Rightarrow> HATHOR_STATE_CONTRACT_ADDR (penv E) | Some a \<Rightarrow> Some a)))"

section \<open>The bridge\<close>

definition bridge_getPastEvents ::
  "'w env \<Rightarrow> cref \<Rightarrow> int \<Rightarrow> int \<Rightarrow> int \<Rightarrow> ('w, cross_event raw_event list option) run" where
  "bridge_getPastEvents E b dest from_block to_block =
     ext_call (crossEvents (bridge_api E) b dest from_block to_block)"

definition bridge_getMappedToken :: "'w env \<Rightarrow> cref \<Rightarrow> int \<Rightarrow> string \<Rightarrow> ('w, string) run" where
  "bridge_getMappedToken E b chain tok = ext_call (sideTokenByOriginal (bridge_api E) b chain tok)"

definition EvmToHathorTokenMap :: "'w env \<Rightarrow> cref \<Rightarrow> string \<Rightarrow> ('w, string) run" where
  "EvmToHathorTokenMap E b tok = ext_call (evmToHathorTokenMap (bridge_api E) b tok)"

definition HathorToEvmTokenMap :: "'w env \<Rightarrow> cref \<Rightarrow> string \<Rightarrow> ('w, string \<times> int) run" where
  "HathorToEvmTokenMap E b tok = ext_call (hathorToEvmTokenMap (bridge_api E) b tok)"

definition sideTokenByOriginalToken :: "'w env \<Rightarrow> cref \<Rightarrow> int \<Rightarrow> string \<Rightarrow> ('w, string) run" where
  "sideTokenByOriginalToken E b chain tok = ext_call (sideTokenByOriginal (bridge_api E) b chain tok)"

definition getDecimals :: "'w env \<Rightarrow> cref \<Rightarrow> ('w, int) run" where
  "getDecimals E t = ext_call (tokenDecimals (bridge_api E) t)"

section \<open>The EVM federation\<close>

definition federation_isMember :: "'w env \<Rightarrow> cref \<Rightarrow> string \<Rightarrow> ('w, bool) run" where
  "federation_isMember E f a = ext_call (fed_isMember (federation_api E) f a)"

definition federation_getTransactionId :: "'w env \<Rightarrow> cref \<Rightarrow> vote_params \<Rightarrow> ('w, string) run" where
  "federation_getTransactionId E f p = ext_call (fed_getTransactionId (federation_api E) f p)"

definition transactionWasProcessed :: "'w env \<Rightarrow> cref \<Rightarrow> string \<Rightarrow> ('w, bool) run" where
  "transactionWasProcessed E f t = ext_call (fed_transactionWasProcessed (federation_api E) f t)"

definition hasVoted :: "'w env \<Rightarrow> cref \<Rightarrow> string \<Rightarrow> string option \<Rightarrow> ('w, bool) run" where
  "hasVoted E f t a = ext_call (fed_hasVoted (federation_api E) f t a)"

definition encode :: "'w env \<Rightarrow> abi_call \<Rightarrow> ('w, abi_call) run" where
  "encode E c = (case encodeABI (crypto E) c of Inl e \<Rightarrow> throw e | Inr _ \<Rightarrow> ret c)"

definition getVoteTransactionABI :: "'w env \<Rightarrow> vote_params \<Rightarrow> ('w, abi_call) run" where
  "getVoteTransactionABI E p =
     encode E (VoteTransaction (vp_originalTokenAddress p) (vp_sender p) (vp_receiver p) (vp_amount p)
       (vp_blockHash p) (vp_transactionHash p) (vp_logIndex p) (vp_originChainId p)
       (vp_destinationChainId p))"

definition emitHeartbeat ::
  "'w env \<Rightarrow> cref \<Rightarrow> nat \<Rightarrow> string option \<Rightarrow> string \<Rightarrow> int list \<Rightarrow> int list \<Rightarrow> string list \<Rightarrow> ('w, receipt) run" where
  "emitHeartbeat E f i pk fedVersion ids blocks infos =
     bnd (encode E (EmitHeartbeat fedVersion ids blocks infos)) (\<lambda>d.
     sendTransaction E i (snd f) d 0 pk False)"

section \<open>Allowed tokens\<close>

record confirmations =
  smallAmountConfirmations :: int
  mediumAmountConfirmations :: int
  largeAmountConfirmations :: int

definition V0_getConfirmations :: "int \<Rightarrow> int \<Rightarrow> confirmations" where
  "V0_getConfirmations chain federatorInstance =
     (let c = (if chain = 31 \<or> chain = 42 then 10 else 0);
          c = (if chain = 1 then 240 else c);
          c = (if chain = 30 then 120 else c);
          c = js_double (c * federatorInstance)
      in \<lparr>smallAmountConfirmations = c, mediumAmountConfirmations = c, largeAmountConfirmations = c\<rparr>)"

text \<open>An \<open>IAllowTokensV1\<close>: the contract, the federator's multiplier and its cache of limits.\<close>

record allow_tokens =
  at_contract :: cref
  at_federatorInstance :: int
  at_cache :: nat

definition AllowTokensFactory_createInstance :: "ConfigChain \<Rightarrow> ('w, allow_tokens) run" where
  "AllowTokensFactory_createInstance c s =
     (Inr \<lparr>at_contract = (host c, allowTokens c), at_federatorInstance = coalesce (multisigOrder c) 1,
           at_cache = length (limit_caches s)\<rparr>,
      s\<lparr>limit_caches := limit_caches s @ [\<lambda>_. None]\<rparr>)"

definition multiplyByFederatorInstance :: "allow_tokens \<Rightarrow> int \<Rightarrow> int" where
  "multiplyByFederatorInstance a confirmation =
     js_double (js_double confirmation * at_federatorInstance a)"

definition getConfirmations :: "'w env \<Rightarrow> allow_tokens \<Rightarrow> ('w, confirmations) run" where
  "getConfirmations E a =
     bnd (ext_call (smallAmount (federation_api E) (at_contract a))) (\<lambda>s.
     bnd (ext_call (mediumAmount (federation_api E) (at_contract a))) (\<lambda>m.
     bnd (ext_call (largeAmount (federation_api E) (at_contract a))) (\<lambda>l.
     ret \<lparr>smallAmountConfirmations = multiplyByFederatorInstance a s,
          mediumAmountConfirmations = multiplyByFederatorInstance a m,
          largeAmountConfirmations = multiplyByFederatorInstance a l\<rparr>)))"

definition getLimits :: "'w env \<Rightarrow> allow_tokens \<Rightarrow> string \<Rightarrow> ('w, limits) run" where
  "getLimits E a tok =
     try_catch
       (bnd (gets (\<lambda>s. (limit_caches s ! at_cache a) tok)) (\<lambda>cached.
        case cached of
          Some r \<Rightarrow> ret r
        | None \<Rightarrow>
            bnd (ext_call (infoAndLimits (federation_api E) (at_contract a) tok)) (\<lambda>r.
            bnd (if lim_allowed r
                 then modify (\<lambda>s. s\<lparr>limit_caches := (limit_caches s)
                   [at_cache a := (limit_caches s ! at_cache a)(tok \<mapsto> r)]\<rparr>)
                 else ret ()) (\<lambda>_.
            ret r))))
       (\<lambda>e. throw (CustomError (''Exception getInfoAndLimits at AllowTokens Contract for '' @ tok) e))"

section \<open>The Hathor federation contract\<close>

definition setPadding :: "'w env \<Rightarrow> string \<Rightarrow> string" where
  "setPadding E param =
     (let result = (if index_of ''0x'' param < 0 then ''0x'' @ param else param)
      in if length param < 64 then padLeft (crypto E) result 64 else result)"

text \<open>
  \<open>getAddress\<close> drops characters from the left until what is left is an address; the first pass of
  the loop is at position 0.
\<close>

function address_loop :: "(string \<Rightarrow> bool) \<Rightarrow> string \<Rightarrow> nat \<Rightarrow> string" where
  "address_loop isAddr address i =
     (let result = ''0x'' @ drop i address
      in if isAddr result \<or> \<not> i < length address then result
         else address_loop isAddr address (Suc i))"
  by pat_completeness auto
termination
  by (relation "measure (\<lambda>(_, a, i). length a - i)") auto

declare address_loop.simps [simp del]

definition hf_getAddress :: "'w env \<Rightarrow> string \<Rightarrow> string res" where
  "hf_getAddress E address =
     toChecksumAddress (crypto E) (address_loop (isAddress (crypto E)) address 0)"

definition hf_call :: "'w env \<Rightarrow> string \<Rightarrow> hfed_view \<Rightarrow> ('w, 'a) ext \<Rightarrow> ('w, 'a) run" where
  "hf_call E msg v f =
     (case view_check (hfed E) v of
        Some e \<Rightarrow> throw (CustomError (''Exception '' @ msg @ '' at hathorFederation Contract'') e)
      | None \<Rightarrow> ext_call f)"

definition getSignatureCount :: "'w env \<Rightarrow> string \<Rightarrow> ('w, int) run" where
  "getSignatureCount E t =
     hf_call E ''getSignatureCount'' (V_getSignatureCount t) (hf_signatureCount (hfed E) t)"

definition isProcessed :: "'w env \<Rightarrow> string \<Rightarrow> ('w, bool) run" where
  "isProcessed E t = hf_call E ''isProcessed'' (V_isProcessed t) (hf_isProcessed (hfed E) t)"

definition isSigned :: "'w env \<Rightarrow> string \<Rightarrow> string option \<Rightarrow> ('w, bool) run" where
  "isSigned E t a = hf_call E ''isSigned'' (V_isSigned t a) (hf_isSigned (hfed E) t a)"

definition isProposed :: "'w env \<Rightarrow> string \<Rightarrow> ('w, bool) run" where
  "isProposed E t = hf_call E ''isProposed'' (V_isProposed t) (hf_isProposed (hfed E) t)"

definition transactionHex :: "'w env \<Rightarrow> string \<Rightarrow> ('w, string) run" where
  "transactionHex E t =
     try_catch (bnd (ext_call (hf_transactionHex (hfed E) t)) (\<lambda>x. ret (js_substring_from x 2)))
       (\<lambda>e. throw (CustomError ''Exception transactionHex at hathorFederation Contract'' e))"

definition transactionSignatures :: "'w env \<Rightarrow> string \<Rightarrow> int \<Rightarrow> ('w, string) run" where
  "transactionSignatures E t i =
     try_catch (ext_call (hf_transactionSignatures (hfed E) t i))
       (\<lambda>e. throw (CustomError ''Exception transactionSignatures at hathorFederation Contract'' e))"

definition getTransactionId ::
  "'w env \<Rightarrow> string \<Rightarrow> string \<Rightarrow> string \<Rightarrow> string option \<Rightarrow> string \<Rightarrow> tx_type \<Rightarrow> ('w, string) run" where
  "getTransactionId E tok hash val sender receiver ty =
     try_catch (ext_call (hf_getTransactionId (hfed E) (setPadding E tok) (setPadding E hash) val
        sender receiver ty))
       (\<lambda>e. throw (CustomError ''Exception getTransactionId at hathorFederation Contract'' e))"

definition getSendTransactionProposalArgs ::
  "'w env \<Rightarrow> string \<Rightarrow> string \<Rightarrow> string \<Rightarrow> string option \<Rightarrow> string \<Rightarrow> tx_type \<Rightarrow> string \<Rightarrow> ('w, abi_call) run" where
  "getSendTransactionProposalArgs E tok hash val sender receiver ty txHex =
     encode E (SendTransactionProposal (setPadding E tok) (setPadding E hash) val sender receiver ty
       (''0x'' @ txHex))"

definition getUpdateSignatureStateArgs ::
  "'w env \<Rightarrow> string \<Rightarrow> string \<Rightarrow> string \<Rightarrow> string option \<Rightarrow> string \<Rightarrow> tx_type \<Rightarrow> string \<Rightarrow> bool
    \<Rightarrow> ('w, abi_call) run" where
  "getUpdateSignatureStateArgs E tok hash val sender receiver ty signature is_signed =
     encode E (UpdateSignatureState (setPadding E tok) (setPadding E hash) val sender receiver ty
       signature is_signed)"

text \<open>The transaction id may be undefined, and is then rendered as that word.\<close>

definition getUpdateTransactionStateArgs ::
  "'w env \<Rightarrow> string \<Rightarrow> string \<Rightarrow> string \<Rightarrow> string option \<Rightarrow> string \<Rightarrow> tx_type \<Rightarrow> bool \<Rightarrow> string option
    \<Rightarrow> ('w, abi_call) run" where
  "getUpdateTransactionStateArgs E tok hash val sender receiver ty sent_ok txId =
     encode E (UpdateTransactionState (setPadding E tok) (setPadding E hash) val sender receiver ty
       sent_ok (''0x'' @ js_key txId))"

section \<open>Frame rules\<close>

lemmas contract_defs =
  bridge_getPastEvents_def bridge_getMappedToken_def EvmToHathorTokenMap_def HathorToEvmTokenMap_def
  sideTokenByOriginalToken_def getDecimals_def federation_isMember_def federation_getTransactionId_def
  transactionWasProcessed_def hasVoted_def encode_def getVoteTransactionABI_def getConfirmations_def
  hf_call_def getSignatureCount_def isProcessed_def isSigned_def isProposed_def transactionHex_def
  transactionSignatures_def getTransactionId_def getSendTransactionProposalArgs_def
  getUpdateSignatureStateArgs_def getUpdateTransactionStateArgs_def

lemma runs_modify_caches [steps_intros]:
  "runs_in (emits P) (modify (\<lambda>s. s\<lparr>limit_caches := f s\<rparr>))"
  "runs_in same_files (modify (\<lambda>s. s\<lparr>limit_caches := f s\<rparr>))"
  by (auto simp: runs_in_def emits_same_trace same_files_def)

lemma quiet_contracts [steps_intros]:
  "runs_in (emits P) (bridge_getPastEvents E b d x y)" "runs_in same_files (bridge_getPastEvents E b d x y)"
  "runs_in (emits P) (bridge_getMappedToken E b c t)" "runs_in same_files (bridge_getMappedToken E b c t)"
  "runs_in (emits P) (EvmToHathorTokenMap E b t)" "runs_in same_files (EvmToHathorTokenMap E b t)"
  "runs_in (emits P) (HathorToEvmTokenMap E b t)" "runs_in same_files (HathorToEvmTokenMap E b t)"
  "runs_in (emits P) (sideTokenByOriginalToken E b c t)" "runs_in same_files (sideTokenByOriginalToken E b c t)"
  "runs_in (emits P) (getDecimals E b)" "runs_in same_files (getDecimals E b)"
  "runs_in (emits P) (federation_getTransactionId E b p)" "runs_in same_files (federation_getTransactionId E b p)"
  "runs_in (emits P) (federation_isMember E b a)" "runs_in same_files (federation_isMember E b a)"
  "runs_in (emits P) (transactionWasProcessed E b t)" "runs_in same_files (transactionWasProcessed E b t)"
  "runs_in (emits P) (hasVoted E b t o')" "runs_in same_files (hasVoted E b t o')"
  "runs_in (emits P) (encode E c')" "runs_in same_files (encode E c')"
  "runs_in (emits P) (getVoteTransactionABI E p)" "runs_in same_files (getVoteTransactionABI E p)"
  "runs_in (emits P) (getConfirmations E a')" "runs_in same_files (getConfirmations E a')"
  unfolding contract_defs by (intro steps_intros; simp?)+

lemma quiet_hfed [steps_intros]:
  "runs_in (emits P) (getSignatureCount E t)" "runs_in same_files (getSignatureCount E t)"
  "runs_in (emits P) (isProcessed E t)" "runs_in same_files (isProcessed E t)"
  "runs_in (emits P) (isSigned E t a)" "runs_in same_files (isSigned E t a)"
  "runs_in (emits P) (isProposed E t)" "runs_in same_files (isProposed E t)"
  "runs_in (emits P) (transactionHex E t)" "runs_in same_files (transactionHex E t)"
  "runs_in (emits P) (transactionSignatures E t i)" "runs_in same_files (transactionSignatures E t i)"
  "runs_in (emits P) (getTransactionId E t h v s r ty)" "runs_in same_files (getTransactionId E t h v s r ty)"
  "runs_in (emits P) (getSendTransactionProposalArgs E t h v s r ty x)"
  "runs_in (emits P) (getUpdateSignatureStateArgs E t h v s r ty x b)"
  "runs_in (emits P) (getUpdateTransactionStateArgs E t h v s r ty b y)"
  unfolding contract_defs by (intro steps_intros; simp?)+

lemma quiet_getLimits [steps_intros]:
  "runs_in (emits P) (getLimits E a t)" "runs_in same_files (getLimits E a t)"
  unfolding getLimits_def by (intro steps_intros)+

lemma quiet_AllowTokensFactory [steps_intros]:
  "runs_in (emits P) (AllowTokensFactory_createInstance c)"
  "runs_in same_files (AllowTokensFactory_createInstance c)"
  by (auto simp: runs_in_def AllowTokensFactory_createInstance_def emits_same_trace same_files_def)

section \<open>What the wrappers guarantee\<close>

lemma index_from_absent: "CHR ''x'' \<notin> set s \<Longrightarrow> index_from i ''0x'' s = -1"
proof (induction s arbitrary: i)
  case Nil
  then show ?case by simp
next
  case (Cons c s)
  then have "\<not> starts_with ''0x'' (c # s)" by (auto simp: starts_with_iff)
  with Cons show ?case by simp
qed

lemma index_of_prefix: "index_of ''0x'' (''0x'' @ s) = 0"
  by (simp add: index_of_def starts_with_def)

text \<open>
  Padding turns every hexadecimal string of at most 61 digits, with or without its prefix,
  and every full 64-digit one into a 32-byte value: the prefix and 64 digits. (With its prefix, a
  value of 62 or 63 digits is already 64 characters long and is left as it is.)
\<close>
theorem setPadding_bytes32:
  assumes pad: "\<And>h. padLeft (crypto E) (''0x'' @ h) 64 = ''0x'' @ replicate (64 - length h) CHR ''0'' @ h"
    and x: "CHR ''x'' \<notin> set h" and len: "length h \<le> 61 \<or> length h = 64"
    and p: "p = h \<or> p = ''0x'' @ h"
  shows "setPadding E p = ''0x'' @ replicate (64 - length h) CHR ''0'' @ h"
proof -
  have "index_of ''0x'' h = -1"
    using x by (simp add: index_of_def index_from_absent)
  then have "(if index_of ''0x'' p < 0 then ''0x'' @ p else p) = ''0x'' @ h"
    using p index_of_prefix [of h] by auto
  moreover have "(length p < 64) = (length h \<le> 61)" using p len by auto
  ultimately show ?thesis
    using len pad [of h] by (auto simp: setPadding_def Let_def)
qed

theorem setPadding_bytes32_witness:
  "setPadding (sample_env\<lparr>crypto := sample_crypto\<lparr>padLeft := (\<lambda>s n. take 2 s @
      replicate (n + 2 - length s) CHR ''0'' @ drop 2 s)\<rparr>\<rparr>) ''0xab''
    = ''0x'' @ replicate 62 CHR ''0'' @ ''ab''"
  using setPadding_bytes32 [of "sample_env\<lparr>crypto := sample_crypto\<lparr>padLeft := (\<lambda>s n. take 2 s @
      replicate (n + 2 - length s) CHR ''0'' @ drop 2 s)\<rparr>\<rparr>" "''ab''" "''0xab''"]
  by simp

lemma address_loop_least:
  assumes "isAddr (''0x'' @ drop k a)" and "i \<le> k" and "k \<le> length a"
    and "\<And>j. i \<le> j \<Longrightarrow> j < k \<Longrightarrow> \<not> isAddr (''0x'' @ drop j a)"
  shows "address_loop isAddr a i = ''0x'' @ drop k a"
  using assms(2) assms(4)
proof (induction rule: inc_induct)
  case base
  then show ?case using assms(1) by (subst address_loop.simps) simp
next
  case (step n)
  then have "\<not> isAddr (''0x'' @ drop n a)" and "n < length a" using assms(3) by auto
  then show ?case
    using step by (subst address_loop.simps) simp
qed

text \<open>
  From a token padded to 32 bytes the address is recovered: the search drops characters from
  the left and stops at the first position from which the rest is an address.
\<close>
theorem getAddress_recovers:
  assumes "isAddress (crypto E) (''0x'' @ h)"
    and "\<And>j. j < length p \<Longrightarrow> \<not> isAddress (crypto E) (''0x'' @ drop j p @ h)"
  shows "hf_getAddress E (p @ h) = toChecksumAddress (crypto E) (''0x'' @ h)"
proof -
  have "address_loop (isAddress (crypto E)) (p @ h) 0 = ''0x'' @ drop (length p) (p @ h)"
    by (rule address_loop_least) (use assms in auto)
  then show ?thesis by (simp add: hf_getAddress_def)
qed

theorem getAddress_recovers_witness:
  "hf_getAddress (sample_env\<lparr>crypto := sample_crypto\<lparr>isAddress := (\<lambda>s. length s = 4)\<rparr>\<rparr>) ''0x00ab''
    = Inr ''0xab''"
  using getAddress_recovers [of "sample_env\<lparr>crypto := sample_crypto\<lparr>isAddress := (\<lambda>s. length s = 4)\<rparr>\<rparr>"
      "''ab''" "''0x00''"]
  by (simp add: sample_crypto_def)

text \<open>
  The factories return the configured contract, in whatever order the chains are asked for:
  as long as two configurations of one chain id agree on host and address, the cache never
  serves a contract of another chain, and asking again keeps it so.
\<close>
theorem factory_returns_configured:
  assumes "caches abi addr cs f" and "c \<in> set cs"
    and "\<And>c d. c \<in> set cs \<Longrightarrow> d \<in> set cs \<Longrightarrow> chainId c = chainId d \<Longrightarrow> host c = host d \<and> addr c = addr d"
  shows "fst (createInstance abi (addr c) c f) = (host c, addr c)
    \<and> caches abi addr cs (snd (createInstance abi (addr c) c f))"
  using assms by (rule createInstance_configured)

theorem factory_returns_configured_witness:
  "fst (createInstance ''Bridge'' (bridge sample_chain) sample_chain new_ContractFactory)
     = (Some ''https://rsk'', Some ''0xb'')"
  using factory_returns_configured [of "''Bridge''" bridge "[sample_chain]" new_ContractFactory sample_chain]
  by (simp add: caches_new) (simp add: sample_chain_def new_ConfigChain_def)

text \<open>
  The cache of limits holds only allowed tokens.
\<close>

definition allowed_cached :: "'w st \<Rightarrow> bool" where
  "allowed_cached s \<longleftrightarrow> (\<forall>c \<in> set (limit_caches s). \<forall>tok r. c tok = Some r \<longrightarrow> lim_allowed r)"

lemma getLimits_cases:
  assumes "getLimits E a tok s = (Inr r, t)"
  obtains "(limit_caches s ! at_cache a) tok = Some r" "t = s"
  | w where "(limit_caches s ! at_cache a) tok = None"
      "infoAndLimits (federation_api E) (at_contract a) tok (world s) = (Inr r, w)"
      "t = (if lim_allowed r then s\<lparr>world := w, limit_caches := (limit_caches s)
              [at_cache a := (limit_caches s ! at_cache a)(tok \<mapsto> r)]\<rparr> else s\<lparr>world := w\<rparr>)"
  using assms
  by (auto simp: getLimits_def try_catch_def bnd_def ext_call_def split: option.splits prod.splits
      sum.splits if_splits)

text \<open>
  Limits are cached only for allowed tokens. A successful query of an allowed token answers
  every later one from the cache, with no call and no change of state; a token not allowed is
  asked again each time, so allowing it later is seen.
\<close>
theorem getLimits_caches_allowed:
  assumes "getLimits E a tok s = (Inr r, t)" and "at_cache a < length (limit_caches s)"
    and "allowed_cached s"
  shows "allowed_cached t
    \<and> (if lim_allowed r then getLimits E a tok t = (Inr r, t) else limit_caches t = limit_caches s)"
  using assms(1)
proof (cases rule: getLimits_cases)
  case 1
  with assms show ?thesis by (force simp: allowed_cached_def)
next
  case (2 w)
  have old: "(limit_caches s ! at_cache a) tok' = Some r' \<Longrightarrow> lim_allowed r'" for tok' r'
    using assms(2,3) nth_mem unfolding allowed_cached_def by blast
  have "allowed_cached t"
    using 2 assms(2,3) old
    by (auto simp: allowed_cached_def dest!: set_update_subset_insert [THEN subsetD] split: if_splits)
  moreover have "getLimits E a tok t = (Inr r, t)" if "lim_allowed r"
    using 2 that assms(2) by (simp add: getLimits_def try_catch_def bnd_def)
  ultimately show ?thesis using 2 by simp
qed

theorem getLimits_caches_allowed_witness:
  "allowed_cached (snd (getLimits sample_env \<lparr>at_contract = (None, None), at_federatorInstance = 1, at_cache = 0\<rparr>
      ''t'' (sample_state\<lparr>limit_caches := [\<lambda>_. None]\<rparr>)))"
proof -
  let ?a = "\<lparr>at_contract = (None, None), at_federatorInstance = 1, at_cache = 0\<rparr>"
  let ?s = "sample_state\<lparr>limit_caches := [\<lambda>_. None]\<rparr>"
  have "getLimits sample_env ?a ''t'' ?s = (Inr sample_limits, snd (getLimits sample_env ?a ''t'' ?s))"
    by (simp add: getLimits_def try_catch_def bnd_def ext_call_def sample_env_def sample_federation_def
        answer_def sample_limits_def)
  then show ?thesis
    using getLimits_caches_allowed [of sample_env ?a "''t''" ?s sample_limits
        "snd (getLimits sample_env ?a ''t'' ?s)"]
    by (simp add: allowed_cached_def)
qed

end
