(* ===== verification/Wallet.thy ===== *)
theory Wallet
  imports Contracts
begin

text \<open>
  \<open>lib/HathorWallet.ts\<close>: requests to the headless wallet and the start-up check that waits for
  the multisig wallet. The wallet table of the singleton is part of the state.
\<close>

definition WALLET_STATUS_CONNECTING :: int where "WALLET_STATUS_CONNECTING = 1"
definition WALLET_STATUS_SYNCING :: int where "WALLET_STATUS_SYNCING = 2"
definition WALLET_STATUS_READY :: int where "WALLET_STATUS_READY = 3"
definition baseDelay :: int where "baseDelay = 10000"

section \<open>Requests\<close>

definition requestWallet :: "('w, 'a) ext \<Rightarrow> ('w, 'a) run" where
  "requestWallet f =
     try_catch (ext_call f)
       (\<lambda>e. throw (JsError (''Fail to request to hathor wallet endpoint: '' @ error_string e)))"

definition putRequestWallet :: "('w, 'a) ext \<Rightarrow> ('w, 'a) run" where
  "putRequestWallet f =
     try_catch (ext_call f)
       (\<lambda>e. throw (JsError (''Fail to PUT request to hathor wallet endpoint: '' @ error_string e)))"

text \<open>A request that changes something in the wallet is recorded when it is made.\<close>

definition wallet_command :: "wallet_request \<Rightarrow> ('w, 'a) ext \<Rightarrow> ('w, 'a) run" where
  "wallet_command q f = bnd (emit (WalletReq q)) (\<lambda>_. requestWallet f)"

section \<open>Readiness\<close>

definition setWalletReady :: "'w env \<Rightarrow> string \<Rightarrow> ('w, unit) run" where
  "setWalletReady E w =
     modify (\<lambda>s. s\<lparr>wallets := (wallets s)(w \<mapsto> \<lparr>w_ready = True, w_lastCheck = clock (rpc E) (world s)\<rparr>)\<rparr>)"

definition wallet_id :: "bool \<Rightarrow> string" where
  "wallet_id multisig = (if multisig then ''multi'' else ''single'')"

definition wallet_start :: "'w env \<Rightarrow> bool \<Rightarrow> ('w, bool) run" where
  "wallet_start E multisig =
     (let chain = hd (sidechain (config E));
          seedKey = (if multisig then multisigSeedKey chain else singleSeedKey chain)
      in try_catch
           (bnd (wallet_command (StartWallet (wallet_id multisig) seedKey multisig)
                  (w_start (wallet E) (wallet_id multisig) seedKey multisig)) (\<lambda>r.
            ret (http_status r = 200 \<and> resp_success r)))
           (\<lambda>e. throw (JsError (''Fail to start wallet: '' @ error_string e))))"

text \<open>
  One attempt: \<open>Some b\<close> when the check is over with result \<open>b\<close> (none when no branch applies),
  \<open>None\<close> when it is to be repeated. The recursive call is returned unawaited, so its errors are
  not caught here.
\<close>

definition ready_attempt :: "'w env \<Rightarrow> bool \<Rightarrow> nat \<Rightarrow> ('w, bool option option) run" where
  "ready_attempt E multisig n =
     try_catch
       (bnd (requestWallet (w_walletStatus (wallet E) (wallet_id multisig))) (\<lambda>r.
        let (code, msg) = payload r
        in if code = Some WALLET_STATUS_READY then
             bnd (setWalletReady E (if multisig then ''multisig'' else ''single'')) (\<lambda>_. ret (Some (Some True)))
           else if code = Some WALLET_STATUS_CONNECTING \<or> code = Some WALLET_STATUS_SYNCING then
             bnd (sleep E (baseDelay * int n)) (\<lambda>_. ret None)
           else if \<not> resp_success r \<and> msg = Some [] then
             bnd (wallet_start E multisig) (\<lambda>_.
             bnd (sleep E (baseDelay * int n)) (\<lambda>_. ret None))
           else ret (Some None)))
       (\<lambda>e. throw (JsError (''Fail to get status of '' @ wallet_id multisig @ '' wallet: '' @ error_string e)))"

function isReady :: "'w env \<Rightarrow> bool \<Rightarrow> nat \<Rightarrow> ('w, bool option) run" where
  "isReady E multisig n =
     (if n > 5 then ret (Some False)
      else bnd (ready_attempt E multisig n) (\<lambda>r.
           case r of Some b \<Rightarrow> ret b | None \<Rightarrow> isReady E multisig (Suc n)))"
  by pat_completeness auto
termination
  by (relation "measure (\<lambda>(_, _, n). 6 - n)") auto

declare isReady.simps [simp del]

definition new_HathorWallet :: "('w, unit) run" where
  "new_HathorWallet =
     modify (\<lambda>s. s\<lparr>wallets := (\<lambda>_. None)(''multisig'' \<mapsto> \<lparr>w_ready = False, w_lastCheck = 0\<rparr>)\<rparr>)"

text \<open>The second component tells whether an emitter to wait on is returned.\<close>

definition areWalletsReady :: "'w env \<Rightarrow> ('w, bool option \<times> bool) run" where
  "areWalletsReady E s =
     (case wallets s ''multisig'' of
        None \<Rightarrow> (Inl JsTypeError, s)
      | Some m \<Rightarrow>
          if w_lastCheck m < clock (rpc E) (world s) - 10 * 60 * 1000
          then bnd (isReady E True 1) (\<lambda>b. ret (b, True)) s
          else if w_ready m then (Inr (Some True, False), s)
          else (Inr (Some False, True), s))"

section \<open>What the check guarantees\<close>

lemma runs_requestWallet [steps_intros]:
  "runs_in (emits P) (requestWallet f)" "runs_in same_files (requestWallet f)"
  "runs_in (emits P) (putRequestWallet f)" "runs_in same_files (putRequestWallet f)"
  unfolding requestWallet_def putRequestWallet_def by (intro steps_intros)+

lemma runs_wallet_command [steps_intros]:
  "P (WalletReq q) \<Longrightarrow> runs_in (emits P) (wallet_command q f)" "runs_in same_files (wallet_command q f)"
  unfolding wallet_command_def by (intro steps_intros; simp)+

lemma runs_modify_wallets [steps_intros]:
  "runs_in (emits P) (modify (\<lambda>s. s\<lparr>wallets := f s\<rparr>))"
  "runs_in same_files (modify (\<lambda>s. s\<lparr>wallets := f s\<rparr>))"
  by (auto simp: runs_in_def emits_same_trace same_files_def)

text \<open>Readiness is only ever answered after the wallet reported it, and is then recorded.\<close>

lemma ready_attempt_True:
  assumes "ready_attempt E m n s = (Inr (Some (Some True)), t)"
  shows "\<exists>w. wallets t (if m then ''multisig'' else ''single'') = Some w \<and> w_ready w"
  using assms
  by (auto simp: ready_attempt_def try_catch_def bnd_def setWalletReady_def Let_def
      split: prod.splits sum.splits if_splits)

lemma isReady_True:
  "isReady E m n s = (Inr (Some True), t) \<Longrightarrow>
     \<exists>w. wallets t (if m then ''multisig'' else ''single'') = Some w \<and> w_ready w"
proof (induction E m n arbitrary: s t rule: isReady.induct)
  case (1 E m n)
  show ?case
  proof (cases "n > 5")
    case True
    with "1.prems" show ?thesis by (simp add: isReady.simps)
  next
    case False
    with "1.prems" obtain x u where a: "ready_attempt E m n s = (Inr x, u)"
      and c: "(case x of Some b \<Rightarrow> ret b | None \<Rightarrow> isReady E m (Suc n)) u = (Inr (Some True), t)"
      by (subst (asm) isReady.simps) (auto simp: bnd_eq_Inr_iff)
    show ?thesis
    proof (cases x)
      case None
      with c "1.IH" [OF False] show ?thesis by auto
    next
      case (Some b)
      with a c have "ready_attempt E m n s = (Inr (Some (Some True)), t)" by simp
      then show ?thesis by (rule ready_attempt_True)
    qed
  qed
qed

text \<open>The number of times the status of a wallet that never gets ready is asked for.\<close>

fun status_asked :: "'w env \<Rightarrow> bool \<Rightarrow> nat \<Rightarrow> nat \<Rightarrow> 'w st \<Rightarrow> bool" where
  "status_asked E m n 0 s = True"
| "status_asked E m n (Suc k) s =
     (case ready_attempt E m n s of (Inr None, t) \<Rightarrow> status_asked E m (Suc n) k t | _ \<Rightarrow> False)"

lemma isReady_gives_up:
  "n + k = 6 \<Longrightarrow> status_asked E m n k s \<Longrightarrow> fst (isReady E m n s) = Inr (Some False)"
proof (induction k arbitrary: n s)
  case 0
  then show ?case by (simp add: isReady.simps)
next
  case (Suc k)
  from Suc.prems(2) obtain t where t: "ready_attempt E m n s = (Inr None, t)"
    and "status_asked E m (Suc n) k t"
    by (auto split: prod.splits sum.splits option.splits)
  with Suc show ?case by (subst isReady.simps) simp
qed

text \<open>
  The start-up check gives up: when the wallet is still not ready after the fifth status
  query (each asking to wait), the check returns false and asks no sixth time.
\<close>
theorem isReady_five_attempts:
  assumes "status_asked E m 1 5 s"
  shows "fst (isReady E m 1 s) = Inr (Some False)"
  using assms isReady_gives_up [of 1 5] by simp

theorem isReady_five_attempts_witness:
  "fst (isReady (sample_env\<lparr>wallet := sample_wallet\<lparr>w_walletStatus :=
      (\<lambda>i. answer (ok_response (Some 2, None)))\<rparr>\<rparr>) True 1 sample_state) = Inr (Some False)"
  by (rule isReady_five_attempts)
    (simp add: numeral_eq_Suc ready_attempt_def requestWallet_def try_catch_def bnd_def ok_response_def
      WALLET_STATUS_CONNECTING_def WALLET_STATUS_SYNCING_def WALLET_STATUS_READY_def)

text \<open>
  The wallets are reported ready only when they are: a check that answers true leaves the
  multisig wallet marked ready, because the wallet itself reported the ready status or a check
  less than ten minutes ago did.
\<close>
theorem wallets_ready_recorded:
  assumes "areWalletsReady E s = (Inr (Some True, b), t)"
  shows "\<exists>w. wallets t ''multisig'' = Some w \<and> w_ready w"
  using assms isReady_True [of E True 1 s t]
  by (auto simp: areWalletsReady_def bnd_eq_Inr_iff split: option.splits if_splits)

theorem wallets_ready_recorded_witness:
  "\<exists>w. wallets (snd (areWalletsReady sample_env (sample_state\<lparr>wallets :=
       [''multisig'' \<mapsto> \<lparr>w_ready = True, w_lastCheck = 0\<rparr>]\<rparr>))) ''multisig'' = Some w \<and> w_ready w"
proof -
  let ?s = "sample_state\<lparr>wallets := [''multisig'' \<mapsto> \<lparr>w_ready = True, w_lastCheck = 0\<rparr>]\<rparr>"
  have "areWalletsReady sample_env ?s = (Inr (Some True, False), ?s)"
    by (simp add: areWalletsReady_def sample_env_def sample_rpc_def sample_state_def)
  then show ?thesis using wallets_ready_recorded [of sample_env ?s False ?s] by simp
qed

end
