(* ===== verification/Broker.thy ===== *)
theory Broker
  imports Wallet
begin

text \<open>
  \<open>lib/Broker/Broker.ts\<close>: the steps both brokers share. A transfer is looked up in the Hathor
  federation contract and then proposed, signed or pushed, according to what the federation has
  recorded. The abstract methods are the fields of \<open>broker_vt\<close>; the sender is an index into the
  senders of the state. The text of an HTTP error (status and JSON body) is shortened to the
  status; its original message, the part the code inspects, is kept.
\<close>

record 'w broker_vt =
  vt_validateTx :: "string \<Rightarrow> string \<Rightarrow> string \<Rightarrow> ('w, bool) run"
  vt_sendEvmNativeTokenProposal :: "string \<Rightarrow> string \<Rightarrow> string \<Rightarrow> ('w, string) run"
  vt_sendHathorNativeTokenProposal :: "string \<Rightarrow> string \<Rightarrow> string \<Rightarrow> ('w, string) run"

text \<open>A transfer, by the arguments every method passes along.\<close>

record transfer =
  t_token :: string
  t_hash :: string
  t_amount :: string
  t_sender :: "string option"
  t_receiver :: string
  t_type :: tx_type

definition chainConfig :: "'w env \<Rightarrow> ConfigChain" where
  "chainConfig E = hd (sidechain (config E))"

definition response_error :: "string option \<Rightarrow> orig_msg" where
  "response_error x = (case x of None \<Rightarrow> NoMsg | Some m \<Rightarrow> StrMsg m)"

definition failed :: "'a http_response \<Rightarrow> bool" where
  "failed r = (http_status r \<noteq> 200 \<or> \<not> resp_success r)"

section \<open>Wallet calls\<close>

definition hathorPushProposal :: "'w env \<Rightarrow> string \<Rightarrow> string list \<Rightarrow> ('w, string) run" where
  "hathorPushProposal E txHex signatures =
     bnd (wallet_command (SignAndPush txHex signatures) (w_signAndPush (wallet E) txHex signatures)) (\<lambda>r.
     if failed r then throw (HathorException (show_int (http_status r)) (response_error (resp_error r)))
     else ret (payload r))"

definition hathorLockProposalInputs :: "'w env \<Rightarrow> string \<Rightarrow> ('w, bool) run" where
  "hathorLockProposalInputs E txHex =
     (let ttl = HATHOR_INPUT_BLOCK_TTL (penv E)
      in bnd (emit (WalletReq (LockInputs txHex ttl))) (\<lambda>_.
         bnd (putRequestWallet (w_lockInputs (wallet E) txHex ttl)) (\<lambda>r.
         if failed r then throw (HathorException (show_int (http_status r)) (response_error (resp_error r)))
         else ret (resp_success r))))"

definition getTransactionConfirmation :: "'w env \<Rightarrow> string \<Rightarrow> ('w, int) run" where
  "getTransactionConfirmation E t =
     try_catch
       (bnd (requestWallet (w_confirmations (wallet E) t)) (\<lambda>r.
        if failed r then throw (JsError (show_int (http_status r))) else ret (payload r)))
       (\<lambda>e. throw (HathorException ''Fail to getTransactionConfirmation'' (ExnMsg e)))"

text \<open>A comparison with an undefined bound is false.\<close>

definition isTxConfirmed :: "'w env \<Rightarrow> string \<Rightarrow> ('w, bool) run" where
  "isTxConfirmed E t =
     bnd (getTransactionConfirmation E t) (\<lambda>c.
     ret (case (minimumConfirmations (chainConfig E), multisigOrder (chainConfig E)) of
            (Some m, Some k) \<Rightarrow> js_double (m * k) \<le> c
          | _ \<Rightarrow> False))"

definition getTransaction :: "'w env \<Rightarrow> string \<Rightarrow> ('w, tx_data option) run" where
  "getTransaction E t =
     try_catch
       (bnd (requestWallet (w_transaction (wallet E) t)) (\<lambda>r.
        ret (case r of
               None \<Rightarrow> None
             | Some x \<Rightarrow>
                 if http_status x \<noteq> 200 \<or> truthy_string (resp_error x) \<or> is_voided (payload x) then None
                 else Some (payload x))))
       (\<lambda>e. throw (HathorException ''Fail to getTransaction'' (ExnMsg e)))"

definition decodeTxHex :: "'w env \<Rightarrow> string \<Rightarrow> ('w, tx_data) run" where
  "decodeTxHex E txHex =
     try_catch
       (bnd (requestWallet (w_decode (wallet E) txHex)) (\<lambda>r.
        if failed r then throw (JsError (show_int (http_status r))) else ret (payload r)))
       (\<lambda>e. throw (JsError (''Error on decodeTxHex: '' @ error_string e)))"

definition getMySignatures :: "'w env \<Rightarrow> string \<Rightarrow> ('w, string) run" where
  "getMySignatures E txHex =
     try_catch
       (bnd (wallet_command (GetMySignatures txHex) (w_mySignatures (wallet E) txHex)) (\<lambda>r.
        if failed r then throw (JsError (show_int (http_status r))) else ret (payload r)))
       (\<lambda>e. throw (JsError (''Fail to getMySignature: '' @ error_string e)))"

definition getTokenDecimals :: "'w env \<Rightarrow> string \<Rightarrow> int \<Rightarrow> ('w, int) run" where
  "getTokenDecimals E tok originalChainId =
     bnd (if originalChainId = chainId (chainConfig E)
          then sideTokenByOriginalToken E (BridgeFactory_createInstance (mainchain (config E))) originalChainId tok
          else ret tok) (\<lambda>a.
     getDecimals E (TokenFactory_createInstance (mainchain (config E)) a))"

definition getSignaturesFromArray :: "'w env \<Rightarrow> string \<Rightarrow> ('w, string list) run" where
  "getSignaturesFromArray E tid =
     bnd (getSignatureCount E tid) (\<lambda>n.
     collect (\<lambda>i. transactionSignatures E tid (int i)) [0..<nat n])"

section \<open>Proposing\<close>

text \<open>\<open>sendTransaction\<close> to the state contract with the federator's key.\<close>

definition send_state :: "'w env \<Rightarrow> nat \<Rightarrow> abi_call \<Rightarrow> ('w, receipt) run" where
  "send_state E i args =
     sendTransaction E i (HATHOR_STATE_CONTRACT_ADDR (penv E)) args 0 (privateKey (config E)) False"

text \<open>
  The result of \<open>sendProposal\<close>: \<open>Some False\<close> for an invalid proposal, undefined (\<open>None\<close>) after
  sending one. A receipt is always an object, so the branch on its absence is dead.
\<close>

definition propose_validated :: "'w env \<Rightarrow> nat \<Rightarrow> transfer \<Rightarrow> string \<Rightarrow> ('w, bool option) run" where
  "propose_validated E i t txHex =
     bnd (getSendTransactionProposalArgs E (t_token t) (t_hash t) (t_amount t) (t_sender t)
            (t_receiver t) (t_type t) txHex) (\<lambda>args.
     bnd (send_state E i args) (\<lambda>receipt.
     bnd (inc Proposal) (\<lambda>_. ret None)))"

definition sendProposal ::
  "'w env \<Rightarrow> nat \<Rightarrow> 'w broker_vt \<Rightarrow> transfer \<Rightarrow> string \<Rightarrow> string \<Rightarrow> ('w, bool option) run" where
  "sendProposal E i vt t txHex tid =
     bnd (vt_validateTx vt txHex (t_hash t) tid) (\<lambda>valid.
     if \<not> valid then bnd (inc InvalidProposal) (\<lambda>_. ret (Some False))
     else propose_validated E i t txHex)"

section \<open>Signing\<close>

definition sign_validated :: "'w env \<Rightarrow> nat \<Rightarrow> transfer \<Rightarrow> string \<Rightarrow> ('w, unit) run" where
  "sign_validated E i t txHex =
     bnd (getMySignatures E txHex) (\<lambda>signature.
     bnd (getUpdateSignatureStateArgs E (t_token t) (t_hash t) (t_amount t) (t_sender t)
            (t_receiver t) (t_type t) signature True) (\<lambda>args.
     bnd (send_state E i args) (\<lambda>receipt.
     bnd (inc Signing) (\<lambda>_.
     if \<not> rc_status receipt then inc InvalidSigning else ret ()))))"

definition signProposal ::
  "'w env \<Rightarrow> nat \<Rightarrow> 'w broker_vt \<Rightarrow> transfer \<Rightarrow> string \<Rightarrow> string \<Rightarrow> ('w, unit) run" where
  "signProposal E i vt t txHex tid =
     bnd (vt_validateTx vt txHex (t_hash t) tid) (\<lambda>valid.
     if \<not> valid then
       bnd (inc InvalidSigning) (\<lambda>_. throw (HathorException ''Invalid tx'' (StrMsg ''Invalid tx'')))
     else sign_validated E i t txHex)"

section \<open>Pushing\<close>

text \<open>
  \<open>StringToBigInt\<close>, used when a bigint is compared with a string: white space is trimmed, the
  empty string is 0, and a string that is not a whole number compares as false.
\<close>

definition js_trim :: "string \<Rightarrow> string" where
  "js_trim s = rev (dropWhile js_space (rev (dropWhile js_space s)))"

definition string_to_bigint :: "string \<Rightarrow> int option" where
  "string_to_bigint s =
     (let t = js_trim s; (neg, u) = split_sign t
      in if t = [] then Some 0
         else if u \<noteq> [] \<and> list_all (is_digit 10) u
         then Some (if neg then - int (read_digits 10 u) else int (read_digits 10 u))
         else if (starts_with ''0x'' t \<or> starts_with ''0X'' t) \<and> length t > 2 \<and> list_all (is_digit 16) (drop 2 t)
         then Some (int (read_digits 16 (drop 2 t)))
         else None)"

definition bigint_less_string :: "int \<Rightarrow> string \<Rightarrow> bool" where
  "bigint_less_string n s = (case string_to_bigint s of None \<Rightarrow> False | Some m \<Rightarrow> n < m)"

text \<open>\<open>xs.slice(0, k)\<close>; a negative end counts from the right, NaN is 0.\<close>

definition slice_to :: "int option \<Rightarrow> 'a list \<Rightarrow> 'a list" where
  "slice_to k xs =
     (case k of
        None \<Rightarrow> []
      | Some n \<Rightarrow> if n < 0 then take (length xs - nat (- n)) xs else take (nat n) xs)"

definition spent_input_message :: string where
  "spent_input_message = ''Invalid transaction. At least one of your inputs has already been spent.''"

definition manual_check_tx :: string where
  "manual_check_tx = ''4d616e75616c20436865636b205472616e73616374696f6e0000000000000000''"

text \<open>The protected block: whether the push succeeded, and the transaction id to record.\<close>

definition try_push :: "'w env \<Rightarrow> string \<Rightarrow> string list \<Rightarrow> ('w, bool \<times> string option) run" where
  "try_push E txHex signatures =
     try_catch (bnd (hathorPushProposal E txHex signatures) (\<lambda>h. ret (True, Some h)))
       (\<lambda>e. bnd (inc InvalidPushed) (\<lambda>_.
            ret (False, if is_hathor_exception e \<and> original_message e = StrMsg spent_input_message
                        then Some manual_check_tx else None)))"

definition push_validated ::
  "'w env \<Rightarrow> nat \<Rightarrow> transfer \<Rightarrow> string \<Rightarrow> string \<Rightarrow> string \<Rightarrow> ('w, unit) run" where
  "push_validated E i t txHex tid maxSignatures =
     bnd (getSignaturesFromArray E tid) (\<lambda>signatures.
     bnd (try_push E txHex (slice_to (parse_int maxSignatures) signatures)) (\<lambda>(txSent, txId).
     bnd (getUpdateTransactionStateArgs E (t_token t) (t_hash t) (t_amount t) (t_sender t)
            (t_receiver t) (t_type t) txSent txId) (\<lambda>args.
     bnd (send_state E i args) (\<lambda>receipt.
     bnd (inc Pushed) (\<lambda>_.
     if \<not> rc_status receipt then inc InvalidPushed else ret ())))))"

definition pushProposal ::
  "'w env \<Rightarrow> nat \<Rightarrow> 'w broker_vt \<Rightarrow> transfer \<Rightarrow> string \<Rightarrow> string \<Rightarrow> ('w, unit) run" where
  "pushProposal E i vt t txHex tid =
     bnd (getSignatureCount E tid) (\<lambda>arrayLength.
     let maxSignatures = HEADLESS_MULTISIG_SEED_DEFAULT_NUM_SIGNATURES (penv E)
     in if \<not> truthy_string maxSignatures then
          throw (HathorException ''Max signatures not set'' (StrMsg ''Max signatures not set''))
        else if bigint_less_string arrayLength (the maxSignatures) then ret ()
        else
          bnd (vt_validateTx vt txHex (t_hash t) tid) (\<lambda>valid.
          if \<not> valid then
            bnd (inc InvalidPushed) (\<lambda>_. throw (HathorException ''Invalid tx'' (StrMsg ''Invalid tx'')))
          else push_validated E i t txHex tid (the maxSignatures)))"

section \<open>Moving a transfer on\<close>

definition Broker_sendTokens ::
  "'w env \<Rightarrow> nat \<Rightarrow> 'w broker_vt \<Rightarrow> transfer \<Rightarrow> bool \<Rightarrow> ('w, bool option) run" where
  "Broker_sendTokens E i vt t isTokenEvmNative =
     bnd (getTransactionId E (t_token t) (t_hash t) (t_amount t) (t_sender t) (t_receiver t) (t_type t)) (\<lambda>tid.
     bnd (isProcessed E tid) (\<lambda>processed.
     if processed then ret (Some True)
     else
       bnd (isSigned E tid (FEDERATOR_ADDRESS (penv E))) (\<lambda>is_signed.
       if is_signed then
         bnd (transactionHex E tid) (\<lambda>txHex.
         bnd (pushProposal E i vt t txHex tid) (\<lambda>_. ret (Some True)))
       else
         bnd (isProposed E tid) (\<lambda>proposed.
         if proposed then
           bnd (transactionHex E tid) (\<lambda>txHex.
           bnd (signProposal E i vt t txHex tid) (\<lambda>_. ret (Some True)))
         else if (case multisigOrder (mainchain (config E)) of None \<Rightarrow> False | Some k \<Rightarrow> k > 1)
         then ret (Some True)
         else
           bnd (if isTokenEvmNative
                then vt_sendEvmNativeTokenProposal vt (t_receiver t) (t_amount t) (t_token t)
                else vt_sendHathorNativeTokenProposal vt (t_receiver t) (t_amount t) (t_token t)) (\<lambda>txHex.
           sendProposal E i vt t txHex tid)))))"

lemma dropWhile_digits: "\<forall>c \<in> set s. is_digit 10 c \<Longrightarrow> dropWhile js_space s = s"
  using digit_not_space by (cases s) auto

lemma string_to_bigint_show_nat: "string_to_bigint (show_nat n) = Some (int n)"
proof -
  have d: "\<forall>c \<in> set (show_nat n). is_digit 10 c" by (rule show_nat_digits)
  then have "js_trim (show_nat n) = show_nat n" by (simp add: js_trim_def dropWhile_digits)
  moreover have "split_sign (show_nat n) = (False, show_nat n)"
    using d digit_not_sign by (auto simp: split_sign_def split: list.splits)
  ultimately show ?thesis
    using d by (simp add: string_to_bigint_def list_all_iff)
qed

section \<open>The contract of the abstract methods\<close>

text \<open>
  What the shared steps rely on: validating issues no request, and making a proposal issues at
  most proposal requests to the wallet.
\<close>

definition proposal_request :: "event \<Rightarrow> bool" where
  "proposal_request e =
     (case e of WalletReq (MintProposal _ _ _ _) \<Rightarrow> True | WalletReq (TransferProposal _ _ _ _) \<Rightarrow> True
      | WalletReq (MeltProposal _ _ _) \<Rightarrow> True | _ \<Rightarrow> False)"

text \<open>The calls of the state contract a transfer can lead to.\<close>

definition proposes :: "'w env \<Rightarrow> transfer \<Rightarrow> abi_call \<Rightarrow> bool" where
  "proposes E t c \<longleftrightarrow> (\<exists>txHex. c = SendTransactionProposal (setPadding E (t_token t)) (setPadding E (t_hash t))
     (t_amount t) (t_sender t) (t_receiver t) (t_type t) (''0x'' @ txHex))"

definition signs :: "'w env \<Rightarrow> transfer \<Rightarrow> string \<Rightarrow> abi_call \<Rightarrow> bool" where
  "signs E t signature c \<longleftrightarrow> c = UpdateSignatureState (setPadding E (t_token t)) (setPadding E (t_hash t))
     (t_amount t) (t_sender t) (t_receiver t) (t_type t) signature True"

definition records_push :: "'w env \<Rightarrow> transfer \<Rightarrow> bool \<Rightarrow> string option \<Rightarrow> abi_call \<Rightarrow> bool" where
  "records_push E t ok txId c \<longleftrightarrow> c = UpdateTransactionState (setPadding E (t_token t)) (setPadding E (t_hash t))
     (t_amount t) (t_sender t) (t_receiver t) (t_type t) ok (''0x'' @ js_key txId)"

definition state_tx :: "'w env \<Rightarrow> (abi_call \<Rightarrow> bool) \<Rightarrow> event \<Rightarrow> bool" where
  "state_tx E Q e =
     (case e of
        SignedTx _ tx \<Rightarrow> well_made (HATHOR_STATE_CONTRACT_ADDR (penv E)) (rt_data tx) tx \<and> Q (rt_data tx)
      | PersonalTx _ tx \<Rightarrow> well_made (HATHOR_STATE_CONTRACT_ADDR (penv E)) (rt_data tx) tx \<and> Q (rt_data tx)
      | EtherscanBroadcast _ \<Rightarrow> True | WalletReq _ \<Rightarrow> False)"

lemma quiet_wallet_reads [steps_intros]:
  "runs_in (emits P) (getTransactionConfirmation E x)" "runs_in same_files (getTransactionConfirmation E x)"
  "runs_in (emits P) (isTxConfirmed E x)" "runs_in same_files (isTxConfirmed E x)"
  "runs_in (emits P) (getTransaction E x)" "runs_in same_files (getTransaction E x)"
  "runs_in (emits P) (decodeTxHex E x)" "runs_in same_files (decodeTxHex E x)"
  "runs_in (emits P) (getTokenDecimals E x c)" "runs_in same_files (getTokenDecimals E x c)"
  "runs_in (emits P) (getSignaturesFromArray E x)" "runs_in same_files (getSignaturesFromArray E x)"
  unfolding getTransactionConfirmation_def isTxConfirmed_def getTransaction_def decodeTxHex_def
    getTokenDecimals_def getSignaturesFromArray_def
  by (intro steps_intros)+

lemma runs_send_state:
  "Q c \<Longrightarrow> runs_in (emits (state_tx E Q)) (send_state E i c)"
  unfolding send_state_def
  by (rule runs_sendTransaction) (auto simp: sent_def state_tx_def well_made_def split: event.splits)

lemma encode_result: "encode E c s = (r, t) \<Longrightarrow> t = s \<and> (r = Inr c \<or> (\<exists>e. r = Inl e))"
  by (auto simp: encode_def split: sum.splits)

lemma encode_peel:
  assumes "bnd (encode E c) f s = (r, t)"
  obtains e where "r = Inl e" "trace t = trace s" | "f c s = (r, t)"
  using assms by (cases "encodeABI (crypto E) c") (auto simp: encode_def)

lemma final_inc: "bnd (inc m) (\<lambda>_. if b then inc m' else ret ()) s = (r, t) \<Longrightarrow> trace t = trace s"
  by (auto simp: bnd_def split: if_splits)

lemma one_tx_trans: "one_tx to d s u \<Longrightarrow> trace t = trace u \<Longrightarrow> one_tx to d s t"
  by (simp add: one_tx_def)

lemma send_state_one_tx:
  "send_state E i c s = (r, t) \<Longrightarrow> one_tx (HATHOR_STATE_CONTRACT_ADDR (penv E)) c s t"
  unfolding send_state_def by (rule sendTransaction_one_tx)

text \<open>Sending an encoded call and counting it: at most that one transaction is issued.\<close>

lemma send_and_count:
  assumes "bnd (encode E c) (\<lambda>args. bnd (send_state E i args) (\<lambda>rc. bnd (inc m) (\<lambda>_. g rc))) s = (r, t)"
    and "\<And>P rc. runs_in (emits P) (g rc)"
  shows "one_tx (HATHOR_STATE_CONTRACT_ADDR (penv E)) c s t"
  using assms(1)
proof (cases rule: encode_peel)
  case (1 e)
  then show ?thesis by (blast intro: one_tx_same)
next
  case 2
  then show ?thesis
  proof (cases rule: bnd_cases)
    case (err e)
    then show ?thesis by (blast intro: send_state_one_tx)
  next
    case (ok rc u)
    have "g rc (u\<lparr>metrics := (metrics u)(m := Suc (metrics u m))\<rparr>) = (r, t)"
      using ok(2) by simp
    then have "trace t = trace u" using quiet_trace [OF assms(2)] by force
    with ok(1) show ?thesis by (blast intro: one_tx_trans send_state_one_tx)
  qed
qed

lemma runs_final_if: "runs_in (emits P) (if b then inc m else ret ())"
  by (intro steps_intros)+

lemma propose_validated_one_tx:
  "propose_validated E i t txHex s = (r, s') \<Longrightarrow>
     one_tx (HATHOR_STATE_CONTRACT_ADDR (penv E))
       (SendTransactionProposal (setPadding E (t_token t)) (setPadding E (t_hash t)) (t_amount t)
         (t_sender t) (t_receiver t) (t_type t) (''0x'' @ txHex)) s s'"
  unfolding propose_validated_def getSendTransactionProposalArgs_def
  by (rule send_and_count [OF _ em.runs_ret])

lemma sign_validated_cases:
  assumes "sign_validated E i t txHex u = (r, s')"
  obtains e where "getMySignatures E txHex u = (Inl e, s')"
  | signature v where "getMySignatures E txHex u = (Inr signature, v)"
      "one_tx (HATHOR_STATE_CONTRACT_ADDR (penv E))
         (UpdateSignatureState (setPadding E (t_token t)) (setPadding E (t_hash t)) (t_amount t)
           (t_sender t) (t_receiver t) (t_type t) signature True) v s'"
  using assms unfolding sign_validated_def getUpdateSignatureStateArgs_def
proof (cases rule: bnd_cases)
  case (err e)
  from that(1) [OF err(1)] show ?thesis .
next
  case (ok signature v)
  from that(2) [OF ok(1) send_and_count [OF ok(2) runs_final_if]] show ?thesis .
qed

lemma try_push_result: "\<exists>pushed txId v. try_push E txHex sigs u = (Inr (pushed, txId), v)"
  by (auto simp: try_push_def try_catch_def bnd_def split: prod.splits sum.splits)

lemma push_validated_cases:
  assumes "push_validated E i t txHex tid m u = (r, s')"
  obtains "trace s' = trace u"
  | sigs u2 pushed txId v where "getSignaturesFromArray E tid u = (Inr sigs, u2)" "trace u2 = trace u"
      "try_push E txHex (slice_to (parse_int m) sigs) u2 = (Inr (pushed, txId), v)"
      "one_tx (HATHOR_STATE_CONTRACT_ADDR (penv E))
         (UpdateTransactionState (setPadding E (t_token t)) (setPadding E (t_hash t)) (t_amount t)
           (t_sender t) (t_receiver t) (t_type t) pushed (''0x'' @ js_key txId)) v s'"
  using assms unfolding push_validated_def getUpdateTransactionStateArgs_def
proof (cases rule: peel)
  case (quiet P)
  show ?case by (rule quiet_wallet_reads)
next
  case (err e)
  from that(1) [OF err(2)] show ?thesis .
next
  case (ok sigs u2)
  obtain pushed txId v where p: "try_push E txHex (slice_to (parse_int m) sigs) u2 = (Inr (pushed, txId), v)"
    using try_push_result by blast
  have "bnd (encode E (UpdateTransactionState (setPadding E (t_token t))
     (setPadding E (t_hash t)) (t_amount t) (t_sender t) (t_receiver t) (t_type t) pushed
     (''0x'' @ js_key txId))) (\<lambda>args. bnd (send_state E i args) (\<lambda>rc. bnd (inc Pushed) (\<lambda>_.
     if \<not> rc_status rc then inc InvalidPushed else ret ()))) v = (r, s')"
    using ok(3) p by simp
  from that(2) [OF ok(1,2) p send_and_count [OF this runs_final_if]] show ?thesis .
qed

lemma one_tx_state:
  assumes "one_tx (HATHOR_STATE_CONTRACT_ADDR (penv E)) c s t" and "Q c"
  shows "emits (state_tx E Q) s t"
  using one_tx_emits [OF assms(1)] assms(2)
  by (elim emits_mono) (auto simp: sent_def state_tx_def well_made_def split: event.splits)

lemma state_tx_mono: "state_tx E Q e \<Longrightarrow> (\<And>c. Q c \<Longrightarrow> R c) \<Longrightarrow> state_tx E R e"
  by (auto simp: state_tx_def split: event.splits)

text \<open>What moving a transfer on can lead to: for the federators after the first, and for the first.\<close>

definition follower_event :: "'w env \<Rightarrow> transfer \<Rightarrow> event \<Rightarrow> bool" where
  "follower_event E t e \<longleftrightarrow>
     (\<exists>x. e = WalletReq (GetMySignatures x)) \<or> (\<exists>x y. e = WalletReq (SignAndPush x y))
     \<or> state_tx E (\<lambda>c. (\<exists>g. signs E t g c) \<or> (\<exists>ok x. records_push E t ok x c)) e"

definition proposer_event :: "'w env \<Rightarrow> transfer \<Rightarrow> event \<Rightarrow> bool" where
  "proposer_event E t e \<longleftrightarrow> follower_event E t e \<or> proposal_request e \<or> state_tx E (proposes E t) e"

lemma follower_event_intros:
  "follower_event E t (WalletReq (GetMySignatures x))"
  "follower_event E t (WalletReq (SignAndPush x y))"
  "state_tx E (signs E t g) e \<Longrightarrow> follower_event E t e"
  "state_tx E (records_push E t ok tx) e \<Longrightarrow> follower_event E t e"
  unfolding follower_event_def by (blast, blast, blast intro: state_tx_mono, blast intro: state_tx_mono)

locale broker_methods =
  fixes vt :: "'w broker_vt"
  assumes validate_quiet: "runs_in (emits P) (vt_validateTx vt x h tid)"
    and propose_evm: "(\<And>e. proposal_request e \<Longrightarrow> P e)
      \<Longrightarrow> runs_in (emits P) (vt_sendEvmNativeTokenProposal vt a b c)"
    and propose_htr: "(\<And>e. proposal_request e \<Longrightarrow> P e)
      \<Longrightarrow> runs_in (emits P) (vt_sendHathorNativeTokenProposal vt a b c)"
begin

lemma sendProposal_after_validation:
  assumes "sendProposal E i vt t txHex tid s = (r, s')"
  shows "trace s' = trace s \<or>
    (\<exists>u. vt_validateTx vt txHex (t_hash t) tid s = (Inr True, u) \<and> trace u = trace s \<and>
      one_tx (HATHOR_STATE_CONTRACT_ADDR (penv E))
        (SendTransactionProposal (setPadding E (t_token t)) (setPadding E (t_hash t)) (t_amount t)
          (t_sender t) (t_receiver t) (t_type t) (''0x'' @ txHex)) u s')"
  using assms unfolding sendProposal_def
proof (cases rule: peel)
  case (quiet P)
  show ?case by (rule validate_quiet)
next
  case (err e)
  then show ?thesis by simp
next
  case (ok valid u)
  show ?thesis
  proof (cases valid)
    case False
    with ok show ?thesis by (auto simp: bnd_def)
  next
    case True
    then have "propose_validated E i t txHex u = (r, s')"
      and "vt_validateTx vt txHex (t_hash t) tid s = (Inr True, u)" using ok(1,3) by simp_all
    then show ?thesis using ok(2) propose_validated_one_tx by blast
  qed
qed

lemma signProposal_after_validation:
  assumes "signProposal E i vt t txHex tid s = (r, s')"
  shows "trace s' = trace s \<or>
    (\<exists>u. vt_validateTx vt txHex (t_hash t) tid s = (Inr True, u) \<and> trace u = trace s \<and>
      ((\<exists>e. getMySignatures E txHex u = (Inl e, s')) \<or>
       (\<exists>signature v. getMySignatures E txHex u = (Inr signature, v) \<and>
          one_tx (HATHOR_STATE_CONTRACT_ADDR (penv E))
            (UpdateSignatureState (setPadding E (t_token t)) (setPadding E (t_hash t)) (t_amount t)
              (t_sender t) (t_receiver t) (t_type t) signature True) v s')))"
  using assms unfolding signProposal_def
proof (cases rule: peel)
  case (quiet P)
  show ?case by (rule validate_quiet)
next
  case (err e)
  then show ?thesis by simp
next
  case (ok valid u)
  show ?thesis
  proof (cases valid)
    case False
    with ok show ?thesis by (auto simp: bnd_def)
  next
    case True
    with ok(1,3) have "sign_validated E i t txHex u = (r, s')"
      and v: "vt_validateTx vt txHex (t_hash t) tid s = (Inr True, u)" by simp_all
    from this(1) show ?thesis using v ok(2) by (cases rule: sign_validated_cases) blast+
  qed
qed

lemma pushProposal_after_validation:
  assumes "pushProposal E i vt t txHex tid s = (r, s')"
  shows "trace s' = trace s \<or>
    (\<exists>n u m u1 sigs u2 pushed txId v.
      getSignatureCount E tid s = (Inr n, u) \<and>
      HEADLESS_MULTISIG_SEED_DEFAULT_NUM_SIGNATURES (penv E) = Some m \<and> \<not> bigint_less_string n m \<and>
      vt_validateTx vt txHex (t_hash t) tid u = (Inr True, u1) \<and>
      getSignaturesFromArray E tid u1 = (Inr sigs, u2) \<and> trace u2 = trace s \<and>
      try_push E txHex (slice_to (parse_int m) sigs) u2 = (Inr (pushed, txId), v) \<and>
      one_tx (HATHOR_STATE_CONTRACT_ADDR (penv E))
        (UpdateTransactionState (setPadding E (t_token t)) (setPadding E (t_hash t)) (t_amount t)
          (t_sender t) (t_receiver t) (t_type t) pushed (''0x'' @ js_key txId)) v s')"
  using assms unfolding pushProposal_def Let_def
proof (cases rule: peel)
  case (quiet P)
  show ?case by (rule quiet_hfed)
next
  case (err e)
  then show ?thesis by simp
next
  case (ok n u)
  note n_ok = ok
  let ?m = "HEADLESS_MULTISIG_SEED_DEFAULT_NUM_SIGNATURES (penv E)"
  show ?thesis
  proof (cases "truthy_string ?m \<and> \<not> bigint_less_string n (the ?m)")
    case False
    with ok show ?thesis by (auto split: if_splits)
  next
    case True
    then obtain m where m: "?m = Some m" "\<not> bigint_less_string n m" by (auto simp: truthy_string_def)
    have "bnd (vt_validateTx vt txHex (t_hash t) tid) (\<lambda>valid. if \<not> valid then
            bnd (inc InvalidPushed) (\<lambda>_. throw (HathorException ''Invalid tx'' (StrMsg ''Invalid tx'')))
          else push_validated E i t txHex tid m) u = (r, s')"
      using ok(3) True m(2) unfolding m(1) option.sel by simp
    then show ?thesis
    proof (cases rule: peel)
      case (quiet P)
      show ?case by (rule validate_quiet)
    next
      case (err e)
      with n_ok show ?thesis by simp
    next
      case (ok valid u1)
      show ?thesis
      proof (cases valid)
        case False
        with ok n_ok show ?thesis by (auto simp: bnd_def)
      next
        case True
        with ok(1,3) have "push_validated E i t txHex tid m u1 = (r, s')"
          and v: "vt_validateTx vt txHex (t_hash t) tid u = (Inr True, u1)" by simp_all
        from this(1) show ?thesis
        proof (cases rule: push_validated_cases)
          case 1
          with ok(2) n_ok(2) show ?thesis by simp
        next
          case (2 sigs u2 pushed txId v)
          moreover have "trace u2 = trace s" using 2(2) ok(2) n_ok(2) by simp
          ultimately show ?thesis using n_ok(1) m v by blast
        qed
      qed
    qed
  qed
qed

lemma runs_sign_validated:
  assumes "\<And>x. P (WalletReq (GetMySignatures x))" and "\<And>e g. state_tx E (signs E t g) e \<Longrightarrow> P e"
  shows "runs_in (emits P) (sign_validated E i t x)"
proof (rule runs_inI)
  fix s r s'
  assume run: "sign_validated E i t x s = (r, s')"
  have g: "runs_in (emits P) (getMySignatures E x)"
    unfolding getMySignatures_def by (intro steps_intros assms(1))+
  have st: "emits P v s'" if "one_tx (HATHOR_STATE_CONTRACT_ADDR (penv E)) c v s'" "signs E t sg c" for v c sg
    using one_tx_state [where Q = "signs E t sg", OF that] assms(2)
    by (rule emits_mono)
  from run show "emits P s s'"
  proof (cases rule: sign_validated_cases)
    case (1 e)
    then show ?thesis using runs_inD [OF g] by blast
  next
    case (2 signature v)
    have "emits P s v" using runs_inD [OF g 2(1)] .
    moreover have "emits P v s'" by (rule st [OF 2(2)]) (simp add: signs_def)
    ultimately show ?thesis by (rule em.R_trans)
  qed
qed

lemma runs_push_validated:
  assumes "\<And>x y. P (WalletReq (SignAndPush x y))" and "\<And>e ok x. state_tx E (records_push E t ok x) e \<Longrightarrow> P e"
  shows "runs_in (emits P) (push_validated E i t x tid m)"
proof (rule runs_inI)
  fix s r s'
  assume run: "push_validated E i t x tid m s = (r, s')"
  have g: "runs_in (emits P) (try_push E x sigs)" for sigs
    unfolding try_push_def hathorPushProposal_def by (intro steps_intros assms(1))+
  have st: "emits P v s'" if "one_tx (HATHOR_STATE_CONTRACT_ADDR (penv E)) c v s'" "records_push E t ok tx c"
    for v c ok tx
    using one_tx_state [where Q = "records_push E t ok tx", OF that] assms(2)
    by (rule emits_mono)
  from run show "emits P s s'"
  proof (cases rule: push_validated_cases)
    case 1
    then show ?thesis by (rule emits_same_trace)
  next
    case (2 sigs u2 pushed txId v)
    have "emits P u2 v" using runs_inD [OF g 2(3)] .
    moreover have "emits P v s'" by (rule st [OF 2(4)]) (simp add: records_push_def)
    moreover have "emits P s u2" using 2(2) by (rule emits_same_trace)
    ultimately show ?thesis by (blast intro: em.R_trans)
  qed
qed

lemma runs_propose_validated:
  assumes "\<And>e. state_tx E (proposes E t) e \<Longrightarrow> P e"
  shows "runs_in (emits P) (propose_validated E i t x)"
proof (rule runs_inI)
  fix s r s'
  assume "propose_validated E i t x s = (r, s')"
  then have "one_tx (HATHOR_STATE_CONTRACT_ADDR (penv E)) (SendTransactionProposal (setPadding E (t_token t))
      (setPadding E (t_hash t)) (t_amount t) (t_sender t) (t_receiver t) (t_type t) (''0x'' @ x)) s s'"
    by (rule propose_validated_one_tx)
  then have "emits (state_tx E (proposes E t)) s s'"
    by (rule one_tx_state) (auto simp: proposes_def)
  then show "emits P s s'" using assms by (rule emits_mono)
qed

lemma runs_signProposal [steps_intros]: "runs_in (emits (follower_event E t)) (signProposal E i vt t x tid)"
  unfolding signProposal_def
  by (intro steps_intros validate_quiet runs_sign_validated follower_event_intros)

lemma runs_pushProposal [steps_intros]: "runs_in (emits (follower_event E t)) (pushProposal E i vt t x tid)"
  unfolding pushProposal_def
  by (intro steps_intros validate_quiet runs_push_validated follower_event_intros)

lemma follower_emits:
  assumes "multisigOrder (mainchain (config E)) = Some k" and "k > 1"
  shows "runs_in (emits (follower_event E t)) (Broker_sendTokens E i vt t b)"
  unfolding Broker_sendTokens_def assms(1) option.case using assms(2)
  by (simp cong: if_cong) (intro steps_intros)

lemma proposer_emits: "runs_in (emits (proposer_event E t)) (Broker_sendTokens E i vt t b)"
proof -
  have f: "runs_in (emits (proposer_event E t)) m" if "runs_in (emits (follower_event E t)) m" for m :: "('w, unit) run"
    using that unfolding runs_in_def by (blast intro: emits_mono [of "follower_event E t"] proposer_event_def [THEN iffD2])
  have p: "proposer_event E t e" if "proposal_request e \<or> state_tx E (proposes E t) e" for e
    using that by (auto simp: proposer_event_def)
  show ?thesis
    unfolding Broker_sendTokens_def sendProposal_def
    by (intro steps_intros f validate_quiet propose_evm propose_htr runs_propose_validated) (auto intro: p)
qed

end

lemma sendTokens_processed:
  assumes "Broker_sendTokens E i vt t b s = (r, s')"
    and "getTransactionId E (t_token t) (t_hash t) (t_amount t) (t_sender t) (t_receiver t) (t_type t) s = (Inr tid, u)"
    and "isProcessed E tid u = (Inr True, v)"
  shows "r = Inr (Some True) \<and> trace s' = trace s"
proof -
  have "trace v = trace s"
    using assms(2,3) quiet_trace [OF quiet_hfed(13)] quiet_trace [OF quiet_hfed(3)] by metis
  with assms show ?thesis by (simp add: Broker_sendTokens_def)
qed

end
