(* ===== verification/EvmBroker.thy ===== *)
theory EvmBroker
  imports Broker
begin

text \<open>
  \<open>lib/Broker/EvmBroker.ts\<close>: transfers from the EVM chain to Hathor. A token native to the EVM
  chain is minted on Hathor, a token native to Hathor is transferred from the multisig wallet.
  The validator compares a proposal with the Cross event of the original EVM transaction.
\<close>

definition evm_bridge :: "'w env \<Rightarrow> cref" where
  "evm_bridge E = BridgeFactory_createInstance (mainchain (config E))"

text \<open>The Hathor token and the chain the token comes from.\<close>

definition Evm_getSideChainTokenAddress :: "'w env \<Rightarrow> string \<Rightarrow> ('w, string \<times> int) run" where
  "Evm_getSideChainTokenAddress E tok =
     bnd (EvmToHathorTokenMap E (evm_bridge E) tok) (\<lambda>hathorTokenAddress.
     bnd (HathorToEvmTokenMap E (evm_bridge E) hathorTokenAddress) (\<lambda>(_, originChainId).
     ret (hathorTokenAddress, originChainId)))"

section \<open>Validation\<close>

definition table_rel :: "(int \<Rightarrow> int \<Rightarrow> bool) \<Rightarrow> bool \<Rightarrow> int option \<Rightarrow> int \<Rightarrow> bool" where
  "table_rel R undef x y = (case x of None \<Rightarrow> undef | Some v \<Rightarrow> R v y)"

text \<open>
  The comparison of a decoded proposal with the event, once token and quantity are known. An
  absent balance is neither positive nor equal to anything.
\<close>

definition check_proposal :: "bool \<Rightarrow> string \<Rightarrow> string \<Rightarrow> int \<Rightarrow> tx_data \<Rightarrow> unit res" where
  "check_proposal isTokenEvmNative dest receiver convertedQuantity proposal =
     (let info = getTransactionInfo proposal; bal = balances info dest
      in case validateTokensOutput (tx_outputs proposal) dest of
           Inl e \<Rightarrow> Inl e
         | Inr _ \<Rightarrow>
           if isTokenEvmNative then
             (if dest \<notin> canMint info then Inl (JsError ''Multisig does not have mint authority.'')
              else if table_rel (\<le>) False bal 0 then Inl (JsError ''Not a mint operation.'')
              else if table_rel (\<noteq>) True bal convertedQuantity
              then Inl (JsError ''Proposal cannot differ amount from original Tx.'')
              else Inr ())
           else
             (if table_rel (\<noteq>) True bal 0 then Inl (JsError ''Not a transfer operation.'')
              else if table_rel (\<noteq>) True
                (sumByAddressAndToken (tx_outputs proposal) (receiver @ '':'' @ dest)) convertedQuantity
              then Inl (JsError ''Proposal cannot differ amount from original Tx.'')
              else Inr ()))"

definition find_event :: "string \<Rightarrow> cross_event raw_event list \<Rightarrow> cross_event option" where
  "find_event txHash events =
     (case List.find (\<lambda>e. case e of EvString _ \<Rightarrow> False | EvLog l \<Rightarrow> ce_transactionHash l = Some txHash) events of
        Some (EvLog l) \<Rightarrow> Some l
      | _ \<Rightarrow> None)"

text \<open>The part of \<open>validateTx\<close> after the event is found.\<close>

definition validate_against :: "'w env \<Rightarrow> tx_data \<Rightarrow> cross_event \<Rightarrow> ('w, bool) run" where
  "validate_against E proposal ev =
     bnd (Evm_getSideChainTokenAddress E (ce_tokenAddress ev)) (\<lambda>(dest, originalChainId).
     bnd (getTokenDecimals E (ce_tokenAddress ev) originalChainId) (\<lambda>tokenDecimals.
     bnd (lift_res (convertToHathorDecimals (show_int (ce_amount ev)) tokenDecimals)) (\<lambda>convertedQuantity.
     bnd (lift_res (check_proposal (originalChainId = chainId (mainchain (config E))) dest (ce_to ev)
            convertedQuantity proposal)) (\<lambda>_.
     ret True))))"

definition Evm_validateTx :: "'w env \<Rightarrow> string \<Rightarrow> string \<Rightarrow> string \<Rightarrow> ('w, bool) run" where
  "Evm_validateTx E txHex txHash contractTxId =
     bnd (decodeTxHex E txHex) (\<lambda>proposal.
     bnd (ext_call (evmTransactionBlock (rpc E) (host (mainchain (config E))) txHash)) (\<lambda>evmTx.
     case evmTx of
       None \<Rightarrow> ret False
     | Some blockNumber \<Rightarrow>
         bnd (bridge_getPastEvents E (evm_bridge E) (chainId (chainConfig E)) blockNumber blockNumber) (\<lambda>events.
         case events of
           None \<Rightarrow> throw JsTypeError
         | Some evs \<Rightarrow>
             (case find_event txHash evs of
                None \<Rightarrow> ret False
              | Some ev \<Rightarrow> validate_against E proposal ev))))"

section \<open>Proposals\<close>

definition proposal_response :: "string http_response \<Rightarrow> ('w, string) run" where
  "proposal_response r =
     (if \<not> failed r then ret (payload r)
      else throw (HathorException (show_int (http_status r))
        (response_error (case resp_message r of None \<Rightarrow> resp_error r | Some m \<Rightarrow> Some m))))"

definition Evm_sendEvmNativeTokenProposal :: "'w env \<Rightarrow> string \<Rightarrow> string \<Rightarrow> string \<Rightarrow> ('w, string) run" where
  "Evm_sendEvmNativeTokenProposal E receiver qtd tok =
     bnd (getTokenDecimals E tok (chainId (mainchain (config E)))) (\<lambda>tokenDecimals.
     bnd (Evm_getSideChainTokenAddress E tok) (\<lambda>(destinationToken, _).
     bnd (lift_res (convertToHathorDecimals qtd tokenDecimals)) (\<lambda>a.
     let q = MintProposal receiver a destinationToken (HATHOR_INPUT_BLOCK_TTL (penv E))
     in bnd (wallet_command q (w_proposal (wallet E) q)) proposal_response)))"

definition Evm_sendHathorNativeTokenProposal :: "'w env \<Rightarrow> string \<Rightarrow> string \<Rightarrow> string \<Rightarrow> ('w, string) run" where
  "Evm_sendHathorNativeTokenProposal E receiver qtd tok =
     bnd (getTokenDecimals E tok (chainId (chainConfig E))) (\<lambda>tokenDecimals.
     bnd (Evm_getSideChainTokenAddress E tok) (\<lambda>(destinationToken, _).
     bnd (lift_res (convertToHathorDecimals qtd tokenDecimals)) (\<lambda>a.
     let q = TransferProposal receiver a destinationToken (HATHOR_INPUT_BLOCK_TTL (penv E))
     in bnd (wallet_command q (w_proposal (wallet E) q)) proposal_response)))"

section \<open>Sending\<close>

definition evm_vt :: "'w env \<Rightarrow> 'w broker_vt" where
  "evm_vt E =
     \<lparr>vt_validateTx = Evm_validateTx E,
      vt_sendEvmNativeTokenProposal = Evm_sendEvmNativeTokenProposal E,
      vt_sendHathorNativeTokenProposal = Evm_sendHathorNativeTokenProposal E\<rparr>"

text \<open>The constructor: every broker has a transaction sender of its own.\<close>

definition new_Broker :: "'w env \<Rightarrow> ('w, nat) run" where
  "new_Broker E = new_TransactionSender (HATHOR_STATE_CONTRACT_HOST_URL (penv E))"

definition evm_transfer :: "string option \<Rightarrow> string \<Rightarrow> string \<Rightarrow> string \<Rightarrow> string \<Rightarrow> bool \<Rightarrow> transfer" where
  "evm_transfer sender receiver a tok txHash isTokenEvmNative =
     \<lparr>t_token = tok, t_hash = txHash, t_amount = a, t_sender = sender, t_receiver = receiver,
      t_type = (if isTokenEvmNative then MINT else TRANSFER)\<rparr>"

definition EvmBroker_sendTokens ::
  "'w env \<Rightarrow> nat \<Rightarrow> string option \<Rightarrow> string \<Rightarrow> string \<Rightarrow> string \<Rightarrow> string \<Rightarrow> ('w, bool option) run" where
  "EvmBroker_sendTokens E i sender receiver a tok txHash =
     bnd (Evm_getSideChainTokenAddress E tok) (\<lambda>(_, originalChainId).
     let isTokenEvmNative = (originalChainId = chainId (mainchain (config E)))
     in Broker_sendTokens E i (evm_vt E) (evm_transfer sender receiver a tok txHash isTokenEvmNative)
          isTokenEvmNative)"

section \<open>The shared steps on this broker\<close>

lemma quiet_Evm [steps_intros]:
  "runs_in (emits P) (Evm_getSideChainTokenAddress E x)"
  "runs_in same_files (Evm_getSideChainTokenAddress E x)"
  "runs_in (emits P) (validate_against E p ev)"
  "runs_in (emits P) (Evm_validateTx E a b c)"
  unfolding Evm_getSideChainTokenAddress_def validate_against_def Evm_validateTx_def
  by (intro steps_intros)+

lemma runs_proposal_response [steps_intros]: "runs_in (emits P) (proposal_response r)"
  unfolding proposal_response_def by (intro steps_intros)

lemma runs_Evm_proposals:
  assumes "\<And>e. proposal_request e \<Longrightarrow> P e"
  shows "runs_in (emits P) (Evm_sendEvmNativeTokenProposal E a b c)"
    and "runs_in (emits P) (Evm_sendHathorNativeTokenProposal E a b c)"
  unfolding Evm_sendEvmNativeTokenProposal_def Evm_sendHathorNativeTokenProposal_def
  by (intro steps_intros assms; simp add: proposal_request_def)+

interpretation evm: broker_methods "evm_vt E"
  by unfold_locales (simp_all add: evm_vt_def quiet_Evm runs_Evm_proposals)

section \<open>The sample transfer\<close>

text \<open>The sample mint proposal is accepted, signed and pushed in the sample environment.\<close>

definition sample_transfer :: transfer where
  "sample_transfer =
     evm_transfer (Some ''0xfrom'') ''Hdest'' ''1530000000000000000'' ''0xtoken'' ''0xcross'' True"

definition sample_broker_state :: "nat st" where
  "sample_broker_state = sample_state\<lparr>senders := [\<lparr>ts_client = Some ''https://state'', ts_chainId = None, ts_debuggingMode = False\<rparr>]\<rparr>"

lemma sample_check: "check_proposal True ''ht'' ''Hdest'' 153 sample_proposal = Inr ()"
  by (simp add: check_proposal_def getTransactionInfo_def output_entries_def sample_proposal_def
      isAuthority_bit isMint_bit input_step_def table_add_def js_key_def js_double_exact bit_0
      bit_iff_odd validateTokensOutput_def table_rel_def Let_def)

lemma sample_amount: "convertToHathorDecimals (show_int 1530000000000000000) 18 = Inr 153"
proof -
  have "show_int 1530000000000000000 = show_nat 1530000000000000000" by (simp add: show_int_def)
  then show ?thesis using convertToHathorDecimals_parts [of 18 1530000000000000000]
    by (simp add: convertToHathorDecimals_def parse_int_show_nat js_double_exact)
qed

lemma sample_validates:
  "\<exists>w. Evm_validateTx sample_env ''beef'' ''0xcross'' ''0xid'' s = (Inr True, s\<lparr>world := w\<rparr>)"
  by (simp add: Evm_validateTx_def decodeTxHex_def requestWallet_def sample_simps answer_def ext_call_def
      try_catch_def bnd_def failed_def bridge_getPastEvents_def find_event_def sample_event_def
      validate_against_def Evm_getSideChainTokenAddress_def EvmToHathorTokenMap_def
      HathorToEvmTokenMap_def getTokenDecimals_def chainConfig_def getDecimals_def sample_check
      sample_amount, blast)

lemmas sample_send_simps =
  sendTransaction_def getChainId_def sample_simps answer_def ext_call_def bnd_def settle_def
  build_and_submit_def getAddress_def truthy_string_def createRawTransaction_def getNonce_def
  sender_client_def js_double_exact getGasPrice_def isRsk_def RSK_TEST_NET_CHAIN_ID_def
  getRskGasPrice_def getGasLimit_def Let_def submit_signed_def send_state_def encode_def
  wallet_command_def requestWallet_def try_catch_def failed_def

lemma sample_signs:
  "trace (snd (sign_validated sample_env 0 sample_transfer ''beef'' (sample_broker_state\<lparr>world := w\<rparr>))) \<noteq> []"
  by (simp add: sign_validated_def getMySignatures_def getUpdateSignatureStateArgs_def
      sample_broker_state_def sample_send_simps)

lemma sample_pushes:
  "trace (snd (push_validated sample_env 0 sample_transfer ''beef'' ''0xid'' ''2''
     (sample_broker_state\<lparr>world := w\<rparr>))) \<noteq> []"
  by (simp add: push_validated_def getSignaturesFromArray_def getSignatureCount_def hf_call_def
      transactionSignatures_def numeral_eq_Suc try_push_def hathorPushProposal_def
      getUpdateTransactionStateArgs_def sample_broker_state_def sample_send_simps)

lemma sample_transfer_hash [simp]: "t_hash sample_transfer = ''0xcross''"
  by (simp add: sample_transfer_def evm_transfer_def)

lemma evm_vt_validate [simp]: "vt_validateTx (evm_vt E) = Evm_validateTx E"
  by (simp add: evm_vt_def)

lemma sample_signProposal:
  "trace (snd (signProposal sample_env 0 (evm_vt sample_env) sample_transfer ''beef'' ''0xid'' sample_broker_state)) \<noteq> []"
proof -
  obtain w where "Evm_validateTx sample_env ''beef'' ''0xcross'' ''0xid'' sample_broker_state
      = (Inr True, sample_broker_state\<lparr>world := w\<rparr>)" using sample_validates by blast
  then show ?thesis using sample_signs [of w] by (simp add: signProposal_def)
qed

lemma show_nat_2: "show_nat 2 = ''2''"
  by code_simp

lemma sample_pushProposal:
  "trace (snd (pushProposal sample_env 0 (evm_vt sample_env) sample_transfer ''beef'' ''0xid'' sample_broker_state)) \<noteq> []"
proof -
  obtain v where c: "getSignatureCount sample_env ''0xid'' sample_broker_state = (Inr 2, sample_broker_state\<lparr>world := v\<rparr>)"
    by (simp add: getSignatureCount_def hf_call_def sample_simps sample_broker_state_def answer_def ext_call_def)
  obtain w where "Evm_validateTx sample_env ''beef'' ''0xcross'' ''0xid'' (sample_broker_state\<lparr>world := v\<rparr>)
      = (Inr True, sample_broker_state\<lparr>world := w\<rparr>)"
    using sample_validates [of "sample_broker_state\<lparr>world := v\<rparr>"] by auto
  moreover have "HEADLESS_MULTISIG_SEED_DEFAULT_NUM_SIGNATURES (penv sample_env) = Some ''2''"
    by (simp add: sample_env_def sample_penv_def)
  moreover have "\<not> bigint_less_string 2 ''2''"
    using string_to_bigint_show_nat [of 2] by (simp add: bigint_less_string_def show_nat_2)
  ultimately show ?thesis using sample_pushes [of w] c by (simp add: pushProposal_def truthy_string_def)
qed

section \<open>What the broker guarantees\<close>

lemma validateTokensOutput_ok:
  "validateTokensOutput outs dest = Inr x \<longleftrightarrow>
     (\<forall>o' \<in> set outs. o_spent_by o' = None \<longrightarrow> o_mine o' = Some False \<longrightarrow> o_token o' = Some dest)"
  by (auto simp: validateTokensOutput_def filter_empty_conv)

lemma check_proposal_ok:
  assumes "check_proposal native dest receiver q p = Inr x"
  shows "(\<forall>o' \<in> set (tx_outputs p). o_spent_by o' = None \<longrightarrow> o_mine o' = Some False \<longrightarrow> o_token o' = Some dest)
    \<and> (if native then dest \<in> canMint (getTransactionInfo p) \<and> balances (getTransactionInfo p) dest = Some q \<and> 0 < q
       else balances (getTransactionInfo p) dest = Some 0
         \<and> sumByAddressAndToken (tx_outputs p) (receiver @ '':'' @ dest) = Some q)"
proof -
  have "validateTokensOutput (tx_outputs p) dest = Inr ()"
    using assms by (auto simp: check_proposal_def Let_def split: sum.splits)
  then show ?thesis
    using assms validateTokensOutput_ok [of "tx_outputs p" dest "()"]
    by (simp add: check_proposal_def Let_def table_rel_def split: if_splits option.splits)
qed

lemma find_Some_in: "List.find P xs = Some x \<Longrightarrow> x \<in> set xs \<and> P x"
  by (induction xs) (auto split: if_splits)

lemma find_event_Some:
  assumes "find_event h evs = Some ev"
  shows "EvLog ev \<in> set evs \<and> ce_transactionHash ev = Some h"
proof -
  let ?P = "\<lambda>e. case e of EvString _ \<Rightarrow> False | EvLog l \<Rightarrow> ce_transactionHash l = Some h"
  have "List.find ?P evs = Some (EvLog ev)"
    using assms by (auto simp: find_event_def split: option.splits raw_event.splits)
  from find_Some_in [OF this] show ?thesis by simp
qed

lemma validate_against_True:
  assumes "validate_against E p ev w = (Inr b, t)"
  shows "\<exists>dest orig dec q v1 v2.
      Evm_getSideChainTokenAddress E (ce_tokenAddress ev) w = (Inr (dest, orig), v1)
    \<and> getTokenDecimals E (ce_tokenAddress ev) orig v1 = (Inr dec, v2)
    \<and> convertToHathorDecimals (show_int (ce_amount ev)) dec = Inr q
    \<and> check_proposal (orig = chainId (mainchain (config E))) dest (ce_to ev) q p = Inr ()"
  using assms unfolding validate_against_def
  by (auto simp: bnd_eq_Inr_iff split: prod.splits)

lemma Evm_validateTx_True:
  assumes "Evm_validateTx E txHex txHash tid s = (Inr True, t)"
  obtains p u b w evs w1 ev where "decodeTxHex E txHex s = (Inr p, u)"
    "bridge_getPastEvents E (evm_bridge E) (chainId (chainConfig E)) b b w = (Inr (Some evs), w1)"
    "find_event txHash evs = Some ev" "validate_against E p ev w1 = (Inr True, t)"
  using assms unfolding Evm_validateTx_def
proof (cases rule: bnd_cases)
  case (ok p u)
  note d = ok(1)
  from ok(2) show ?thesis
  proof (cases rule: bnd_cases)
    case (ok blk w)
    then obtain b where "bnd (bridge_getPastEvents E (evm_bridge E) (chainId (chainConfig E)) b b) (\<lambda>events.
         case events of None \<Rightarrow> throw JsTypeError
         | Some evs \<Rightarrow> (case find_event txHash evs of None \<Rightarrow> ret False
              | Some ev \<Rightarrow> validate_against E p ev)) w = (Inr True, t)"
      by (cases blk) auto
    then show ?thesis
    proof (cases rule: bnd_cases)
      case (ok evs w1)
      then show ?thesis using that [OF d] by (auto split: option.splits)
    qed simp
  qed simp
qed simp

text \<open>
  C2: a proposal the EVM broker accepts matches the original transaction. There is a Cross event
  with the transaction's hash in its block, and for the Hathor token of the event and the
  event's amount in Hathor units: outputs that leave the wallet unspent are of that token only;
  for an EVM-native token the proposal spends a mint authority and mints exactly the amount; for
  a Hathor-native one it creates none of it and the event's receiver gets exactly the amount.
\<close>
theorem Evm_validateTx_sound:
  assumes "Evm_validateTx E txHex txHash tid s = (Inr True, t)"
  shows "\<exists>p u ev dest orig dec q b evs w w1 w2 w3.
      decodeTxHex E txHex s = (Inr p, u)
    \<and> bridge_getPastEvents E (evm_bridge E) (chainId (chainConfig E)) b b w = (Inr (Some evs), w1)
    \<and> EvLog ev \<in> set evs \<and> ce_transactionHash ev = Some txHash
    \<and> Evm_getSideChainTokenAddress E (ce_tokenAddress ev) w1 = (Inr (dest, orig), w2)
    \<and> getTokenDecimals E (ce_tokenAddress ev) orig w2 = (Inr dec, w3)
    \<and> convertToHathorDecimals (show_int (ce_amount ev)) dec = Inr q
    \<and> (\<forall>o' \<in> set (tx_outputs p). o_spent_by o' = None \<longrightarrow> o_mine o' = Some False \<longrightarrow> o_token o' = Some dest)
    \<and> (if orig = chainId (mainchain (config E))
       then dest \<in> canMint (getTransactionInfo p) \<and> balances (getTransactionInfo p) dest = Some q \<and> 0 < q
       else balances (getTransactionInfo p) dest = Some 0
         \<and> sumByAddressAndToken (tx_outputs p) (ce_to ev @ '':'' @ dest) = Some q)"
proof -
  from assms obtain p u b w evs w1 ev where d: "decodeTxHex E txHex s = (Inr p, u)"
    and g: "bridge_getPastEvents E (evm_bridge E) (chainId (chainConfig E)) b b w = (Inr (Some evs), w1)"
    and f: "find_event txHash evs = Some ev" and v: "validate_against E p ev w1 = (Inr True, t)"
    by (rule Evm_validateTx_True)
  from validate_against_True [OF v] obtain dest orig dec q v1 v2
    where m: "Evm_getSideChainTokenAddress E (ce_tokenAddress ev) w1 = (Inr (dest, orig), v1)"
      "getTokenDecimals E (ce_tokenAddress ev) orig v1 = (Inr dec, v2)"
      "convertToHathorDecimals (show_int (ce_amount ev)) dec = Inr q"
    and c: "check_proposal (orig = chainId (mainchain (config E))) dest (ce_to ev) q p = Inr ()"
    by blast
  from d g find_event_Some [OF f] m check_proposal_ok [OF c] show ?thesis by blast
qed

theorem Evm_validateTx_sound_witness:
  "\<exists>p u. decodeTxHex sample_env ''beef'' sample_state = (Inr p, u)
     \<and> (\<exists>dest q. dest \<in> canMint (getTransactionInfo p) \<and> balances (getTransactionInfo p) dest = Some q \<and> 0 < q
         \<or> balances (getTransactionInfo p) dest = Some 0)"
proof -
  obtain w where "Evm_validateTx sample_env ''beef'' ''0xcross'' ''0xid'' sample_state
      = (Inr True, sample_state\<lparr>world := w\<rparr>)" using sample_validates by blast
  from Evm_validateTx_sound [OF this] show ?thesis by (smt (verit) if_split)
qed

text \<open>
  C34: the minting branch does not look at the addresses: a mint proposal that is accepted stays
  accepted when every output is redirected, whoever the event's receiver is. (The helper
  \<open>checkOutputs\<close> that would compare them is never called.)
\<close>
theorem mint_ignores_receiver:
  "check_proposal True dest receiver q
     (p\<lparr>tx_outputs := map (\<lambda>o'. o'\<lparr>o_decoded := redirect o'\<rparr>) (tx_outputs p)\<rparr>)
   = check_proposal True dest receiver' q p"
proof -
  let ?p = "p\<lparr>tx_outputs := map (\<lambda>o'. o'\<lparr>o_decoded := redirect o'\<rparr>) (tx_outputs p)\<rparr>"
  have "output_entries ?p = output_entries p"
    by (simp add: output_entries_def filter_map comp_def)
  then have "getTransactionInfo ?p = getTransactionInfo p"
    by (simp add: getTransactionInfo_def)
  moreover have "validateTokensOutput (tx_outputs ?p) dest = validateTokensOutput (tx_outputs p) dest"
    by (simp add: validateTokensOutput_def filter_map comp_def)
  ultimately show ?thesis unfolding check_proposal_def Let_def by simp
qed

text \<open>
  C5: this broker signs nothing unvalidated. A signing step that issues any request has first
  accepted the very transaction hex it signs; the signature it then publishes, in one
  transaction to the state contract for this transfer, is the one its own wallet returned.
\<close>
theorem Evm_signs_validated:
  assumes "signProposal E i (evm_vt E) t txHex tid s = (r, s')" and "trace s' \<noteq> trace s"
  shows "\<exists>u. Evm_validateTx E txHex (t_hash t) tid s = (Inr True, u) \<and> trace u = trace s \<and>
      ((\<exists>e. getMySignatures E txHex u = (Inl e, s')) \<or>
       (\<exists>signature v. getMySignatures E txHex u = (Inr signature, v) \<and>
          one_tx (HATHOR_STATE_CONTRACT_ADDR (penv E))
            (UpdateSignatureState (setPadding E (t_token t)) (setPadding E (t_hash t)) (t_amount t)
              (t_sender t) (t_receiver t) (t_type t) signature True) v s'))"
  using evm.signProposal_after_validation [OF assms(1)] assms(2) by (simp add: evm_vt_def)

theorem Evm_signs_validated_witness:
  "\<exists>u. Evm_validateTx sample_env ''beef'' ''0xcross'' ''0xid'' sample_broker_state = (Inr True, u)"
proof -
  have "trace sample_broker_state = []" by (simp add: sample_broker_state_def sample_state_def)
  then show ?thesis
    using Evm_signs_validated [OF prod.collapse [symmetric], of sample_env 0 sample_transfer "''beef''" "''0xid''"
        sample_broker_state] sample_signProposal
    by auto
qed



text \<open>
  A federator that is not the first in the multisig order never proposes: whatever the chain
  and the wallet answer, moving a transfer on makes it issue only signature and push requests
  and the transactions that report them, all for this very transfer.
\<close>
theorem Evm_follower_never_proposes:
  assumes "multisigOrder (mainchain (config E)) = Some k" and "k > 1"
    and "EvmBroker_sendTokens E i sender receiver a tok txHash s = (r, s')"
  shows "\<exists>b. emits (follower_event E (evm_transfer sender receiver a tok txHash b)) s s'"
  using assms(3) unfolding EvmBroker_sendTokens_def
proof (cases rule: peel)
  case (quiet P)
  show ?case by (rule quiet_Evm)
next
  case (err e)
  then show ?thesis by (auto intro: emits_same_trace)
next
  case (ok x u)
  let ?b = "snd x = chainId (mainchain (config E))"
  have "Broker_sendTokens E i (evm_vt E) (evm_transfer sender receiver a tok txHash ?b) ?b u = (r, s')"
    using ok(3) by (simp add: split_def Let_def)
  then have "emits (follower_event E (evm_transfer sender receiver a tok txHash ?b)) u s'"
    using runs_inD [OF evm.follower_emits [OF assms(1,2)]] by blast
  then show ?thesis
    using ok(2) by (auto simp: emits_def)
qed

definition follower_env :: "nat env" where
  "follower_env = sample_env\<lparr>config := sample_config\<lparr>mainchain := sample_chain\<lparr>multisigOrder := Some 2\<rparr>\<rparr>\<rparr>"

theorem Evm_follower_never_proposes_witness:
  "\<exists>b. emits (follower_event follower_env (evm_transfer None ''Hdest'' ''1'' ''0xtoken'' ''0xcross'' b))
     sample_broker_state
     (snd (EvmBroker_sendTokens follower_env 0 None ''Hdest'' ''1'' ''0xtoken'' ''0xcross'' sample_broker_state))"
  by (rule Evm_follower_never_proposes [where k = 2, OF _ _ prod.collapse [symmetric]])
    (simp_all add: follower_env_def)

text \<open>
  A transfer the federation has processed is left alone: the broker answers true and issues
  no request at all, whatever else is recorded about it.
\<close>
theorem Evm_processed_is_final:
  assumes "Evm_getSideChainTokenAddress E tok s = (Inr (dest, orig), s1)"
    and "t = evm_transfer sender receiver a tok txHash (orig = chainId (mainchain (config E)))"
    and "getTransactionId E tok txHash a sender receiver (t_type t) s1 = (Inr tid, s2)"
    and "isProcessed E tid s2 = (Inr True, s3)"
  shows "fst (EvmBroker_sendTokens E i sender receiver a tok txHash s) = Inr (Some True)
    \<and> trace (snd (EvmBroker_sendTokens E i sender receiver a tok txHash s)) = trace s"
proof -
  obtain r s' where run: "Broker_sendTokens E i (evm_vt E) t (orig = chainId (mainchain (config E))) s1 = (r, s')"
    by fastforce
  have "getTransactionId E (t_token t) (t_hash t) (t_amount t) (t_sender t) (t_receiver t) (t_type t) s1 = (Inr tid, s2)"
    using assms(2,3) by (simp add: evm_transfer_def)
  from sendTokens_processed [OF run this assms(4)] have "r = Inr (Some True)" "trace s' = trace s1" by simp_all
  moreover have "trace s1 = trace s" using quiet_trace [OF quiet_Evm(1) assms(1)] .
  moreover have "EvmBroker_sendTokens E i sender receiver a tok txHash s = (r, s')"
    using assms(1,2) run by (simp add: EvmBroker_sendTokens_def Let_def)
  ultimately show ?thesis by simp
qed

theorem Evm_processed_is_final_witness:
  "trace (snd (EvmBroker_sendTokens (sample_env\<lparr>hfed := sample_hfed\<lparr>hf_isProcessed := (\<lambda>t. answer True)\<rparr>\<rparr>) 0
     None ''Hdest'' ''1'' ''0xtoken'' ''0xcross'' sample_state)) = []"
proof -
  let ?E = "sample_env\<lparr>hfed := sample_hfed\<lparr>hf_isProcessed := (\<lambda>t. answer True)\<rparr>\<rparr>"
  have 1: "Evm_getSideChainTokenAddress ?E ''0xtoken'' sample_state
      = (Inr (''ht'', 31), sample_state\<lparr>world := 2\<rparr>)"
    by (simp add: Evm_getSideChainTokenAddress_def EvmToHathorTokenMap_def HathorToEvmTokenMap_def
        sample_simps answer_def ext_call_def bnd_def)
  have 2: "getTransactionId ?E ''0xtoken'' ''0xcross'' ''1'' None ''Hdest''
      (t_type (evm_transfer None ''Hdest'' ''1'' ''0xtoken'' ''0xcross'' (31 = chainId (mainchain (config ?E)))))
      (sample_state\<lparr>world := 2\<rparr>) = (Inr ''0xid'', sample_state\<lparr>world := 3\<rparr>)"
    by (simp add: getTransactionId_def sample_simps answer_def ext_call_def try_catch_def)
  have 3: "isProcessed ?E ''0xid'' (sample_state\<lparr>world := 3\<rparr>) = (Inr True, sample_state\<lparr>world := 4\<rparr>)"
    by (simp add: isProcessed_def hf_call_def sample_simps answer_def ext_call_def)
  show ?thesis
    using Evm_processed_is_final [OF 1 refl 2 3, of 0] by (simp add: sample_state_def)
qed

end
