(* ===== verification/Federator.thy ===== *)
theory Federator
  imports Broker
begin

text \<open>
  \<open>lib/Federator.ts\<close> and \<open>_voteTransaction\<close> of \<open>lib/FederatorHTR.ts\<close>: where the progress of a
  federator is kept, the outer loop over the side chains with its retries, and voting for a
  transfer on the EVM federation contract. Creating the storage directory is not modelled.
\<close>

section \<open>Progress\<close>

text \<open>A number that may be NaN (\<open>None\<close>), in a template string.\<close>

definition num_string :: "int option \<Rightarrow> string" where
  "num_string n = (case n of None \<Rightarrow> ''NaN'' | Some i \<Rightarrow> show_int i)"

definition getLastBlockPath :: "'w env \<Rightarrow> int option \<Rightarrow> int \<Rightarrow> string \<Rightarrow> string" where
  "getLastBlockPath E mainChainId sideChainId origin =
     storagePath (config E) @ ''/lastBlock_'' @ origin @ ''_'' @ num_string mainChainId @ ''_''
       @ show_int sideChainId @ ''.txt''"

definition getRevertedTxnsPath :: "'w env \<Rightarrow> int \<Rightarrow> int \<Rightarrow> string" where
  "getRevertedTxnsPath E sideChainId mainChainId =
     storagePath (config E) @ ''/revertedTxns_'' @ show_int mainChainId @ ''_'' @ show_int sideChainId @ ''.txt''"

text \<open>
  Reading the progress never fails; the result is NaN (\<open>None\<close>) when the file holds no number,
  since NaN is not smaller than the configured first block.
\<close>

definition last_block :: "int \<Rightarrow> string \<Rightarrow> ('w, int option) run" where
  "last_block original path =
     try_catch (bnd (read_file path) (\<lambda>c. ret (case parse_int c of
         None \<Rightarrow> None | Some b \<Rightarrow> Some (if b < original then original else b))))
       (\<lambda>_. ret (Some original))"

definition getLastBlock :: "'w env \<Rightarrow> int option \<Rightarrow> int \<Rightarrow> string \<Rightarrow> ('w, int option) run" where
  "getLastBlock E mainChainId sideChainId origin =
     last_block (fromBlock (mainchain (config E))) (getLastBlockPath E mainChainId sideChainId origin)"

definition getLastBlockFromEnv :: "'w env \<Rightarrow> int option \<Rightarrow> int \<Rightarrow> string \<Rightarrow> ('w, int option) run" where
  "getLastBlockFromEnv E mainChainId sideChainId origin =
     last_block
       (case FEDERATION_FROM_BLOCK (penv E) of None \<Rightarrow> 0
        | Some v \<Rightarrow> (case parse_int v of None \<Rightarrow> 0 | Some b \<Rightarrow> b))
       (getLastBlockPath E mainChainId sideChainId origin)"

definition saveProgress :: "string \<Rightarrow> int \<Rightarrow> ('w, unit) run" where
  "saveProgress path v = (if v \<noteq> 0 then write_file path (show_int v) else ret ())"

section \<open>Clients and directories\<close>

text \<open>
  \<open>web3ByHost\<close> keeps one client of the library per host; \<open>client\<close> makes a new one, whose identity may
  depend on how many there are.
\<close>

definition getWeb3 :: "(nat \<Rightarrow> string \<Rightarrow> 'c) \<Rightarrow> string \<Rightarrow> (string \<times> 'c) list \<Rightarrow> 'c \<times> (string \<times> 'c) list" where
  "getWeb3 client h web3s =
     (case map_of web3s h of
        Some c \<Rightarrow> (c, web3s)
      | None \<Rightarrow> (let c = client (length web3s) h in (c, (h, c) # web3s)))"

text \<open>The directories are a list of paths; \<open>made\<close> is what a recursive \<open>mkdir\<close> creates.\<close>

definition checkStoragePath :: "ConfigData \<Rightarrow> (string \<Rightarrow> string list) \<Rightarrow> string list \<Rightarrow> string list" where
  "checkStoragePath c made dirs =
     (if storagePath c \<in> set dirs then dirs else made (storagePath c) @ dirs)"

fun clients :: "(nat \<Rightarrow> string \<Rightarrow> 'c) \<Rightarrow> string list \<Rightarrow> (string \<times> 'c) list \<Rightarrow> 'c list \<times> (string \<times> 'c) list" where
  "clients client [] m = ([], m)"
| "clients client (h # hs) m =
     (let (c, m1) = getWeb3 client h m; (cs, m2) = clients client hs m1 in (c # cs, m2))"

lemma getWeb3_keeps:
  "getWeb3 client h m = (c, m1) \<Longrightarrow> map_of m1 h = Some c \<and> (\<forall>k d. map_of m k = Some d \<longrightarrow> map_of m1 k = Some d)"
  by (auto simp: getWeb3_def Let_def split: option.splits)

lemma clients_are_cached:
  "clients client hs m = (cs, m') \<Longrightarrow> cs = map (the \<circ> map_of m') hs
     \<and> (\<forall>k d. map_of m k = Some d \<longrightarrow> map_of m' k = Some d)"
proof (induction hs arbitrary: m cs)
  case Nil
  then show ?case by simp
next
  case (Cons h hs)
  obtain c m1 where g: "getWeb3 client h m = (c, m1)" by fastforce
  obtain ds where d: "clients client hs m1 = (ds, m')" "cs = c # ds"
    using Cons.prems g by (auto split: prod.splits)
  from Cons.IH [OF d(1)] getWeb3_keeps [OF g] d(2) show ?case by auto
qed

text \<open>Whatever the order of the requests, two for one host get the same client.\<close>

theorem one_client_per_host:
  assumes "clients client hs [] = (cs, m)" and "i < length hs" and "j < length hs" and "hs ! i = hs ! j"
  shows "cs ! i = cs ! j"
  using clients_are_cached [OF assms(1)] assms(2-4) by simp

section \<open>Construction and the outer loop\<close>

definition new_Federator :: "'w env \<Rightarrow> ('w, unit) run" where
  "new_Federator E =
     (if checkHttps (config E)
         \<and> \<not> checkHttpsOrLocalhost (BRIDGE_SKIP_HTTPS (penv E)) (coalesce (host (mainchain (config E))) [])
      then throw (JsError ''Invalid host configuration, https or localhost required'')
      else ret ())"

definition checkFederatorIsMember :: "'w env \<Rightarrow> cref \<Rightarrow> string \<Rightarrow> ('w, unit) run" where
  "checkFederatorIsMember E f a =
     bnd (settle (federation_isMember E f a)) (\<lambda>promise.
     bnd (retryNTimes (sleep E) promise 3 1000) (\<lambda>isMember.
     if \<not> isMember
     then throw (JsError (''This Federator addr:'' @ a @ '' is not part of the federation''))
     else ret ()))"

text \<open>
  \<open>while (numberOfRetries > 0)\<close>: the counter does not change inside, so the loop ends only when a
  run succeeds or throws. Not ending is \<open>None\<close>.
\<close>

partial_function (option) run_until_success ::
  "('s, bool) comp \<Rightarrow> 's \<Rightarrow> (unit res \<times> 's) option" where
  "run_until_success run s =
     (case run s of
        (Inl e, t) \<Rightarrow> Some (Inl e, t)
      | (Inr success, t) \<Rightarrow> if success then Some (Inr (), t) else run_until_success run t)"

text \<open>One side chain: the result is whether the process goes on (it exits on a negative counter).\<close>

definition runAll_chain ::
  "'w env \<Rightarrow> int \<Rightarrow> (nat \<Rightarrow> ConfigChain \<Rightarrow> ('w, bool) run) \<Rightarrow> ConfigChain \<Rightarrow> 'w st \<Rightarrow> (bool \<times> 'w st) option" where
  "runAll_chain E retries run chain s =
     (case new_TransactionSender (HATHOR_STATE_CONTRACT_HOST_URL (penv E)) s of
        (Inl e, s1) \<Rightarrow> Some (False, s1)
      | (Inr i, s1) \<Rightarrow>
          if retries > 0 then
            (case run_until_success (run i chain) s1 of
               None \<Rightarrow> None
             | Some (Inr _, t) \<Rightarrow> Some (True, t)
             | Some (Inl e, t) \<Rightarrow>
                 if retries - 1 < 0 then Some (False, t)
                 else Some (True, snd (sleep E (blockTimeMs (mainchain (config E))) t)))
          else Some (True, s1))"

fun runAll_chains ::
  "'w env \<Rightarrow> int \<Rightarrow> (nat \<Rightarrow> ConfigChain \<Rightarrow> ('w, bool) run) \<Rightarrow> ConfigChain list \<Rightarrow> 'w st \<Rightarrow> (bool \<times> 'w st) option" where
  "runAll_chains E retries run [] s = Some (True, s)"
| "runAll_chains E retries run (c # cs) s =
     (case runAll_chain E retries run c s of
        None \<Rightarrow> None
      | Some (False, t) \<Rightarrow> Some (False, t)
      | Some (True, t) \<Rightarrow> runAll_chains E retries run cs t)"

definition runAll :: "'w env \<Rightarrow> (nat \<Rightarrow> ConfigChain \<Rightarrow> ('w, bool) run) \<Rightarrow> 'w st \<Rightarrow> (bool \<times> 'w st) option" where
  "runAll E run s = runAll_chains E (federatorRetries (config E)) run (sidechain (config E)) s"

section \<open>Voting on the EVM\<close>

record vote =
  v_sideChainId :: int
  v_mainChainId :: int
  v_sender :: nat
  v_contract :: cref
  v_transactionId :: string
  v_params :: vote_params

text \<open>\<open>JSON.stringify\<close> of the entry refuses a bigint amount; an undefined amount is dropped.\<close>

definition record_reverted :: "string \<Rightarrow> string \<Rightarrow> vote_params \<Rightarrow> ('w, unit) run" where
  "record_reverted path tid p =
     (case vp_amount p of
        Some _ \<Rightarrow> throw JsTypeError
      | None \<Rightarrow> modify (\<lambda>s. s\<lparr>reverted_files := (reverted_files s)
          (path \<mapsto> (coalesce (reverted_files s path) (\<lambda>_. None))(tid \<mapsto> p))\<rparr>))"

definition voteTransaction :: "'w env \<Rightarrow> vote \<Rightarrow> ('w, bool) run" where
  "voteTransaction E v =
     (let tid = lower_case (crypto E) (v_transactionId v);
          path = getRevertedTxnsPath E (v_sideChainId v) (v_mainChainId v)
      in try_catch
           (bnd (getVoteTransactionABI E (v_params v)) (\<lambda>txDataAbi.
            bnd (gets (\<lambda>s. coalesce (reverted_files s path) (\<lambda>_. None) tid)) (\<lambda>marked.
            if marked \<noteq> None then ret False
            else
              bnd (sendTransaction E (v_sender v) (snd (v_contract v)) txDataAbi 0 (privateKey (config E)) False) (\<lambda>receipt.
              if \<not> rc_status receipt then
                bnd (inc FailedVote) (\<lambda>_.
                bnd (record_reverted path tid (v_params v)) (\<lambda>_. ret False))
              else bnd (inc SuccessVote) (\<lambda>_. ret True)))))
           (\<lambda>e. bnd (inc FailedVote) (\<lambda>_.
                throw (CustomError (''Exception Voting tx:'' @ vp_transactionHash (v_params v)) e))))"

section \<open>What the loop and the votes guarantee\<close>

lemma run_until_success_simps:
  "run s = (Inl e, t) \<Longrightarrow> run_until_success run s = Some (Inl e, t)"
  "run s = (Inr True, t) \<Longrightarrow> run_until_success run s = Some (Inr (), t)"
  "run s = (Inr False, t) \<Longrightarrow> run_until_success run s = run_until_success run t"
  by (subst run_until_success.simps, simp)+

lemma runAll_chain_retries:
  "0 < n \<Longrightarrow> 0 < m \<Longrightarrow> runAll_chain E n run c s = runAll_chain E m run c s"
  by (simp add: runAll_chain_def split: option.splits prod.splits sum.splits)

lemma runAll_chains_retries:
  "0 < n \<Longrightarrow> 0 < m \<Longrightarrow> runAll_chains E n run cs s = runAll_chains E m run cs s"
proof (induction cs arbitrary: s)
  case Nil
  then show ?case by simp
next
  case (Cons c cs)
  then show ?case
    using runAll_chain_retries [of n m E run c s]
    by (simp split: option.splits prod.splits bool.splits)
qed

text \<open>
  The configured number of retries has no effect: any two positive numbers give the same run
  of the federator, and the process never exits for having used them up. A run that throws is
  not repeated for that side chain.
\<close>
theorem runAll_ignores_retries:
  assumes "0 < federatorRetries (config E)" and "0 < n"
  shows "runAll (E\<lparr>config := (config E)\<lparr>federatorRetries := n\<rparr>\<rparr>) run s = runAll E run s
    \<and> (\<forall>t. runAll E run s \<noteq> Some (False, t))"
proof -
  have c: "runAll_chain (E\<lparr>config := (config E)\<lparr>federatorRetries := n\<rparr>\<rparr>) m run c s = runAll_chain E m run c s"
    for m c s
    by (simp add: runAll_chain_def sleep_def split: option.splits prod.splits sum.splits)
  have cs: "runAll_chains (E\<lparr>config := (config E)\<lparr>federatorRetries := n\<rparr>\<rparr>) m run cs s = runAll_chains E m run cs s"
    for m cs s
    by (induction cs arbitrary: s) (simp_all add: c split: option.splits prod.splits bool.splits)
  have e: "0 < m \<Longrightarrow> runAll_chain E m run c s \<noteq> Some (False, t)" for m c s t
    by (auto simp: runAll_chain_def new_TransactionSender_def split: option.splits prod.splits sum.splits)
  have es: "0 < m \<Longrightarrow> runAll_chains E m run cs s \<noteq> Some (False, t)" for m cs s t
    by (induction cs arbitrary: s) (auto simp: e split: option.splits prod.splits bool.splits)
  show ?thesis
    using runAll_chains_retries [OF assms(1) assms(2), of E run "sidechain (config E)" s] es [OF assms(2)]
    by (simp add: runAll_def cs)
qed

theorem runAll_ignores_retries_witness:
  "runAll (sample_env\<lparr>config := (config sample_env)\<lparr>federatorRetries := 7\<rparr>\<rparr>) (\<lambda>i c. ret True) sample_state
     = runAll sample_env (\<lambda>i c. ret True) sample_state"
  using runAll_ignores_retries [of sample_env 7 "\<lambda>i c. ret True" sample_state]
  by (simp add: sample_env_def sample_config_def)

lemma run_until_success_diverges:
  assumes "\<And>s. \<exists>t. run s = (Inr False, t)"
  shows "run_until_success run s = None"
proof (rule ccontr)
  assume "run_until_success run s \<noteq> None"
  then obtain y where y: "run_until_success run s = Some y" by auto
  have "(\<forall>s. \<exists>t. run s = (Inr False, t)) \<longrightarrow> False"
  proof (rule run_until_success.raw_induct
      [where P = "\<lambda>run s y. (\<forall>s. \<exists>t. run s = (Inr False, t)) \<longrightarrow> False", OF _ y])
    fix rec :: "('a \<Rightarrow> (exn + bool) \<times> 'a) \<Rightarrow> 'a \<Rightarrow> ((exn + unit) \<times> 'a) option"
      and run :: "'a \<Rightarrow> (exn + bool) \<times> 'a" and s y
    assume IH: "\<And>s b y. rec s b = Some y \<Longrightarrow> (\<forall>sa. \<exists>t. s sa = (Inr False, t)) \<longrightarrow> False"
      and r: "(case run s of (Inl e, t) \<Rightarrow> Some (Inl e, t)
        | (Inr success, t) \<Rightarrow> if success then Some (Inr (), t) else rec run t) = Some y"
    show "(\<forall>s. \<exists>t. run s = (Inr False, t)) \<longrightarrow> False"
    proof
      assume f: "\<forall>s. \<exists>t. run s = (Inr False, t)"
      then obtain t where "run s = (Inr False, t)" by blast
      with r have "rec run t = Some y" by simp
      with IH f show False by blast
    qed
  qed
  with assms show False by blast
qed

text \<open>
  A run that reports false is repeated at once, with no wait and no limit, so a node that
  stays out of sync (or a chain with no new block) keeps the loop from ending: if every run
  reports false, the outer loop never returns.
\<close>
theorem runAll_spins:
  assumes "\<And>s. \<exists>t. run i c s = (Inr False, t)"
  shows "run_until_success (run i c) s = None"
  using run_until_success_diverges [of "run i c"] assms by auto

theorem runAll_spins_witness:
  "run_until_success (\<lambda>s. (Inr False, s)) (sample_state) = None"
  using runAll_spins [of "\<lambda>i c s. (Inr False, s)"] by simp

section \<open>Reverted votes\<close>

definition same_reverted :: "'w st \<Rightarrow> 'w st \<Rightarrow> bool" where
  "same_reverted s t \<longleftrightarrow> reverted_files t = reverted_files s"

interpretation sr: step_rel same_reverted
  by unfold_locales (simp_all add: same_reverted_def)

lemma reverted_steps [steps_intros]:
  "runs_in same_reverted (ext_call f)"
  "runs_in same_reverted (emit e)"
  "runs_in same_reverted (inc m)"
  "runs_in same_reverted (append_file p c)"
  "runs_in same_reverted (modify (\<lambda>s. s\<lparr>senders := g s\<rparr>))"
  by (auto simp: runs_in_def same_reverted_def ext_call_def append_file_def split: prod.splits)

lemma reverted_sender [steps_intros]:
  "runs_in same_reverted (getChainId E i)"
  "runs_in same_reverted (getAddress E i pk)"
  unfolding getChainId_def getAddress_def by (intro steps_intros)+

lemma reverted_gas [steps_intros]:
  "runs_in same_reverted (isRsk E i)"
  "runs_in same_reverted (getRskGasPrice E i)"
  "runs_in same_reverted (getEthGasPrice E i)"
  "runs_in same_reverted (getGasLimit E i tx)"
  unfolding isRsk_def getRskGasPrice_def getEthGasPrice_def useEtherscanApi_def getGasLimit_def
  by (intro steps_intros)+

lemma reverted_sendTransaction [steps_intros]:
  "runs_in same_reverted (sendTransaction E i to d v pk b)"
  unfolding sendTransaction_def build_and_submit_def createRawTransaction_def getNonce_def getGasPrice_def
    submit_signed_def submit_personal_def send_failed_def
  by (intro steps_intros)+

lemma record_reverted_bigint: "vp_amount p = Some a \<Longrightarrow> record_reverted path tid p = throw JsTypeError"
  by (simp add: record_reverted_def)

text \<open>The transactions a vote can issue.\<close>

definition vote_call :: "vote_params \<Rightarrow> abi_call" where
  "vote_call p = VoteTransaction (vp_originalTokenAddress p) (vp_sender p) (vp_receiver p) (vp_amount p)
     (vp_blockHash p) (vp_transactionHash p) (vp_logIndex p) (vp_originChainId p) (vp_destinationChainId p)"

definition is_marked :: "'w env \<Rightarrow> vote \<Rightarrow> 'w st \<Rightarrow> bool" where
  "is_marked E v s \<longleftrightarrow>
     coalesce (reverted_files s (getRevertedTxnsPath E (v_sideChainId v) (v_mainChainId v))) (\<lambda>_. None)
       (lower_case (crypto E) (v_transactionId v)) \<noteq> None"

definition vote_attempt :: "'w env \<Rightarrow> vote \<Rightarrow> ('w, bool) run" where
  "vote_attempt E v =
     bnd (sendTransaction E (v_sender v) (snd (v_contract v)) (vote_call (v_params v)) 0 (privateKey (config E)) False)
       (\<lambda>receipt.
        if \<not> rc_status receipt then
          bnd (inc FailedVote) (\<lambda>_.
          bnd (record_reverted (getRevertedTxnsPath E (v_sideChainId v) (v_mainChainId v))
                (lower_case (crypto E) (v_transactionId v)) (v_params v)) (\<lambda>_. ret False))
        else bnd (inc SuccessVote) (\<lambda>_. ret True))"

lemma voteTransaction_cases:
  assumes "voteTransaction E v s = (r, t)"
  obtains (encode) e where "r = Inl e" "trace t = trace s" "reverted_files t = reverted_files s"
  | (marked) "is_marked E v s" "r = Inr False" "t = s"
  | (sent) x u where "\<not> is_marked E v s" "vote_attempt E v s = (x, u)"
      "trace t = trace u" "reverted_files t = reverted_files u"
      "r = (case x of Inr b \<Rightarrow> Inr b | Inl e \<Rightarrow>
         Inl (CustomError (''Exception Voting tx:'' @ vp_transactionHash (v_params v)) e))"
proof (cases "encodeABI (crypto E) (vote_call (v_params v))")
  case (Inl e)
  then have "r = Inl (CustomError (''Exception Voting tx:'' @ vp_transactionHash (v_params v)) e)"
    and "trace t = trace s" "reverted_files t = reverted_files s"
    using assms by (auto simp: voteTransaction_def getVoteTransactionABI_def encode_def vote_call_def Let_def)
  then show ?thesis by (rule encode)
next
  case (Inr d)
  show ?thesis
  proof (cases "is_marked E v s")
    case True
    then have "r = Inr False" "t = s"
      using assms Inr
      by (auto simp: voteTransaction_def getVoteTransactionABI_def encode_def vote_call_def is_marked_def
          Let_def try_catch_def bnd_def)
    with True show ?thesis by (rule marked)
  next
    case False
    obtain x u where x: "vote_attempt E v s = (x, u)" by fastforce
    have "voteTransaction E v s = try_catch (vote_attempt E v)
        (\<lambda>e. bnd (inc FailedVote) (\<lambda>_.
           throw (CustomError (''Exception Voting tx:'' @ vp_transactionHash (v_params v)) e))) s"
      using False Inr
      by (simp add: voteTransaction_def getVoteTransactionABI_def encode_def vote_call_def is_marked_def
          Let_def try_catch_def bnd_def [of "gets _"] vote_attempt_def)
    then have "trace t = trace u" "reverted_files t = reverted_files u"
      "r = (case x of Inr b \<Rightarrow> Inr b | Inl e \<Rightarrow>
         Inl (CustomError (''Exception Voting tx:'' @ vp_transactionHash (v_params v)) e))"
      using assms x by (auto simp: try_catch_def split: sum.splits)
    with False x show ?thesis by (intro sent)
  qed
qed

lemma vote_attempt_one_tx:
  assumes "vote_attempt E v s = (x, u)"
  shows "one_tx (snd (v_contract v)) (vote_call (v_params v)) s u"
  using assms unfolding vote_attempt_def
proof (cases rule: bnd_cases)
  case (err e)
  then show ?thesis by (blast intro: sendTransaction_one_tx)
next
  case (ok rc w)
  have "trace u = trace w"
    using ok(2) by (auto simp: record_reverted_def bnd_def split: if_splits option.splits)
  with ok(1) show ?thesis by (blast intro: one_tx_trans sendTransaction_one_tx)
qed

lemma voteTransaction_one_tx:
  "voteTransaction E v s = (r, t) \<Longrightarrow> one_tx (snd (v_contract v)) (vote_call (v_params v)) s t"
  by (erule voteTransaction_cases) (auto intro: one_tx_same one_tx_trans dest: vote_attempt_one_tx)

text \<open>
  A vote is at most one transaction, to the federation contract and with exactly the
  transfer given, and none at all for a transfer marked as reverted.
\<close>
theorem vote_is_one_transaction:
  assumes "voteTransaction E v s = (r, t)"
  shows "one_tx (snd (v_contract v)) (vote_call (v_params v)) s t
    \<and> (is_marked E v s \<longrightarrow> trace t = trace s)"
  using voteTransaction_one_tx [OF assms] voteTransaction_cases [OF assms] by metis


text \<open>A sample vote, and the sample environment with a node that reports every vote as failed.\<close>

definition sample_vote :: vote where
  "sample_vote =
     \<lparr>v_sideChainId = 31, v_mainChainId = 11, v_sender = 0, v_contract = (Some ''https://rsk'', Some ''0xf''),
      v_transactionId = ''0xvote'',
      v_params = \<lparr>vp_originalTokenAddress = ''0xtoken'', vp_sender = ''0xs'', vp_receiver = ''0xr'',
        vp_amount = Some 5, vp_blockHash = ''0xb'', vp_transactionHash = ''0xt'', vp_logIndex = 129,
        vp_originChainId = 11, vp_destinationChainId = 31\<rparr>\<rparr>"

definition failing_env :: "nat env" where
  "failing_env = sample_env\<lparr>rpc := sample_rpc\<lparr>sendSignedTransaction :=
     (\<lambda>h ser w. ((Some ''0xh'', Inr (sample_receipt\<lparr>rc_status := False\<rparr>)), Suc w))\<rparr>\<rparr>"

theorem vote_is_one_transaction_witness:
  "one_tx (Some ''0xf'') (vote_call (v_params sample_vote)) sample_state
     (snd (voteTransaction sample_env sample_vote sample_state))"
  using vote_is_one_transaction [OF prod.collapse [symmetric], where E = sample_env and v = sample_vote and s = sample_state]
  by (simp add: sample_vote_def)


end
