(* ===== verification/HathorBroker.thy ===== *)
theory HathorBroker
  imports Federator EvmBroker
begin

text \<open>
  \<open>lib/Broker/HathorBroker.ts\<close>: transfers from Hathor to the EVM chain. A token native to the EVM
  chain is melted on Hathor through the multisig; a token native to Hathor is voted for on the
  EVM federation contract. The wallet renders an absent string as the word undefined.
\<close>

definition strip0x :: "string \<Rightarrow> string" where
  "strip0x s = (if starts_with ''0x'' s then js_substring_from s 2 else s)"

section \<open>Validation\<close>

text \<open>The checks on the decoded proposal and the original transaction.\<close>

definition check_melt :: "tx_data \<Rightarrow> tx_data \<Rightarrow> unit res" where
  "check_melt originalTx proposal =
     (if tx_version originalTx \<noteq> 1
      then Inl (JsError (''Original hathor tx '' @ tx_id originalTx @ '' has a invalid version.''))
      else if is_voided originalTx
      then Inl (JsError (''Original hathor tx '' @ tx_id originalTx @ '' is voided.''))
      else
        (let info = getTransactionInfo proposal
         in case getCustomTokenData (tx_inputs originalTx) (tx_outputs originalTx) of
              Inl e \<Rightarrow> Inl e
            | Inr None \<Rightarrow> Inl (JsError (''Original hathor tx '' @ tx_id originalTx
                @ '' has no non spent or valid custom token data.''))
            | Inr (Some d) \<Rightarrow>
                (let bal = balances info (tokenAddress d)
                 in if tokenAddress d \<notin> canMelt info
                    then Inl (JsError ''Multisig does not have melt authority.'')
                    else if table_rel (\<ge>) False bal 0 then Inl (JsError ''Not a melt operation.'')
                    else if table_rel (\<lambda>x y. \<bar>x\<bar> \<noteq> y) True bal (amount d)
                    then Inl (JsError ''Proposal cannot differ amount from original Tx.'')
                    else Inr ())))"

definition Hathor_validateTx :: "'w env \<Rightarrow> string \<Rightarrow> string \<Rightarrow> string \<Rightarrow> ('w, bool) run" where
  "Hathor_validateTx E txHex hathorTxId contractTxId =
     bnd (getTransaction E (strip0x hathorTxId)) (\<lambda>hathorTransaction.
     case hathorTransaction of
       None \<Rightarrow> ret False
     | Some originalTx \<Rightarrow>
         bnd (isProcessed E contractTxId) (\<lambda>processed.
         if processed then ret False
         else
           bnd (decodeTxHex E txHex) (\<lambda>proposal.
           bnd (lift_res (check_melt originalTx proposal)) (\<lambda>_. ret True))))"

section \<open>Proposals\<close>

definition Hathor_sendEvmNativeTokenProposal :: "'w env \<Rightarrow> string \<Rightarrow> string \<Rightarrow> string \<Rightarrow> ('w, string) run" where
  "Hathor_sendEvmNativeTokenProposal E receiver qtd tok =
     (let q = MeltProposal qtd tok (HATHOR_INPUT_BLOCK_TTL (penv E))
      in bnd (wallet_command q (w_proposal (wallet E) q)) proposal_response)"

text \<open>The body of this method is a bare return.\<close>

definition Hathor_sendHathorNativeTokenProposal :: "string \<Rightarrow> string \<Rightarrow> string \<Rightarrow> ('w, string) run" where
  "Hathor_sendHathorNativeTokenProposal receiver qtd tok = ret (js_key None)"

definition hathor_vt :: "'w env \<Rightarrow> 'w broker_vt" where
  "hathor_vt E =
     \<lparr>vt_validateTx = Hathor_validateTx E,
      vt_sendEvmNativeTokenProposal = Hathor_sendEvmNativeTokenProposal E,
      vt_sendHathorNativeTokenProposal = Hathor_sendHathorNativeTokenProposal\<rparr>"

section \<open>Tokens and limits\<close>

definition Hathor_getSideChainTokenAddress :: "'w env \<Rightarrow> string \<Rightarrow> ('w, string \<times> int) run" where
  "Hathor_getSideChainTokenAddress E tok = HathorToEvmTokenMap E (evm_bridge E) tok"

definition getMinimumTransferAmount :: "'w env \<Rightarrow> allow_tokens \<Rightarrow> string \<Rightarrow> ('w, int) run" where
  "getMinimumTransferAmount E a tok = bnd (getLimits E a tok) (\<lambda>l. ret (lim_min l))"

text \<open>An undefined amount is not above any minimum.\<close>

definition isAmountAboveMinimumTransferAmount ::
  "'w env \<Rightarrow> allow_tokens \<Rightarrow> bool \<Rightarrow> int \<Rightarrow> string \<Rightarrow> int option \<Rightarrow> ('w, bool) run" where
  "isAmountAboveMinimumTransferAmount E a isTokenEvmNative originalChainId tok amt =
     bnd (if isTokenEvmNative then ret tok
          else sideTokenByOriginalToken E (evm_bridge E) originalChainId tok) (\<lambda>evmTokenAddress.
     bnd (getMinimumTransferAmount E a evmTokenAddress) (\<lambda>m.
     ret (case amt of None \<Rightarrow> False | Some x \<Rightarrow> m \<le> x)))"

section \<open>Voting\<close>

definition isTransactionVotedOrProcessed :: "'w env \<Rightarrow> string \<Rightarrow> string option \<Rightarrow> ('w, bool) run" where
  "isTransactionVotedOrProcessed E txId federatorAddress =
     (let f = FederationFactory_createInstance (mainchain (config E))
      in bnd (transactionWasProcessed E f txId) (\<lambda>wasProcessed.
         if wasProcessed then ret True
         else bnd (hasVoted E f txId federatorAddress) (\<lambda>voted. ret voted)))"

definition vote_logIndex :: int where "vote_logIndex = 129"

definition vote_params_of :: "'w env \<Rightarrow> string \<Rightarrow> string \<Rightarrow> string \<Rightarrow> int option \<Rightarrow> string \<Rightarrow> vote_params" where
  "vote_params_of E tok sender receiver amt idHash =
     \<lparr>vp_originalTokenAddress = tok, vp_sender = sender, vp_receiver = receiver, vp_amount = amt,
      vp_blockHash = idHash, vp_transactionHash = idHash, vp_logIndex = vote_logIndex,
      vp_originChainId = chainId (chainConfig E), vp_destinationChainId = chainId (mainchain (config E))\<rparr>"

text \<open>The vote itself, once the sender's and the transaction's hashes are known.\<close>

definition vote_once :: "'w env \<Rightarrow> vote_params \<Rightarrow> ('w, bool) run" where
  "vote_once E p =
     (let f = FederationFactory_createInstance (mainchain (config E))
      in bnd (new_TransactionSender (host (mainchain (config E)))) (\<lambda>i.
         bnd (getAddress E i (privateKey (config E))) (\<lambda>federatorAddress.
         bnd (federation_getTransactionId E f p) (\<lambda>tid.
         bnd (isTransactionVotedOrProcessed E tid federatorAddress) (\<lambda>seen.
         if seen then ret True
         else voteTransaction E
           \<lparr>v_sideChainId = chainId (mainchain (config E)), v_mainChainId = chainId (chainConfig E),
            v_sender = i, v_contract = f, v_transactionId = tid, v_params = p\<rparr>)))))"

definition voteOnEvm ::
  "'w env \<Rightarrow> string \<Rightarrow> int option \<Rightarrow> string \<Rightarrow> string \<Rightarrow> string option \<Rightarrow> ('w, bool) run" where
  "voteOnEvm E receiver amt tok txId ogSenderAddress =
     bnd (new_Federator E) (\<lambda>_.
     bnd (case ogSenderAddress of None \<Rightarrow> throw JsTypeError
          | Some a \<Rightarrow> lift_res (keccak256 (crypto E) a)) (\<lambda>sender.
     bnd (lift_res (toChecksumAddress (crypto E) (js_substring sender 0 42))) (\<lambda>thirdTwoBytesSender.
     bnd (lift_res (keccak256 (crypto E) txId)) (\<lambda>idHash.
     vote_once E (vote_params_of E tok thirdTwoBytesSender receiver amt idHash)))))"

section \<open>Sending\<close>

definition hathor_transfer :: "string option \<Rightarrow> string \<Rightarrow> string \<Rightarrow> string \<Rightarrow> string \<Rightarrow> transfer" where
  "hathor_transfer sender receiver a tok txHash =
     \<lparr>t_token = tok, t_hash = txHash, t_amount = a, t_sender = sender, t_receiver = receiver, t_type = MELT\<rparr>"

definition HathorBroker_sendTokens ::
  "'w env \<Rightarrow> nat \<Rightarrow> allow_tokens \<Rightarrow> string option \<Rightarrow> string \<Rightarrow> string \<Rightarrow> string \<Rightarrow> string \<Rightarrow> ('w, bool option) run" where
  "HathorBroker_sendTokens E i al sender receiver a originalTokenAddress txHash =
     (let tok = strip0x originalTokenAddress
      in bnd (Hathor_getSideChainTokenAddress E tok) (\<lambda>(evmTokenAddress, originalChainId).
         let isTokenEvmNative = (originalChainId = chainId (mainchain (config E)));
             convertedAmount = convertToEvmDecimals (parse_int a)
         in bnd (isAmountAboveMinimumTransferAmount E al isTokenEvmNative originalChainId evmTokenAddress convertedAmount) (\<lambda>above.
            if \<not> above then ret (Some True)
            else if isTokenEvmNative then
              Broker_sendTokens E i (hathor_vt E) (hathor_transfer sender receiver a tok txHash) isTokenEvmNative
            else
              bnd (voteOnEvm E receiver convertedAmount evmTokenAddress txHash sender) (\<lambda>b. ret (Some b)))))"

text \<open>\<open>postProcessing\<close> votes without awaiting: the caller does not see the outcome.\<close>

definition postProcessing ::
  "'w env \<Rightarrow> string option \<Rightarrow> string \<Rightarrow> string \<Rightarrow> string \<Rightarrow> string \<Rightarrow> ('w, unit) run" where
  "postProcessing E sender receiver a originalTokenAddress txHash =
     bnd (Hathor_getSideChainTokenAddress E (strip0x originalTokenAddress)) (\<lambda>(evmTokenAddress, _).
     detach (voteOnEvm E receiver (convertToEvmDecimals (parse_int a)) evmTokenAddress txHash sender))"

definition isMultisigAddress :: "'w env \<Rightarrow> string option \<Rightarrow> ('w, bool) run" where
  "isMultisigAddress E address =
     try_catch
       (bnd (requestWallet (w_addressIndex (wallet E) address)) (\<lambda>r.
        if http_status r = 200 then ret (resp_success r) else throw (JsError (show_int (http_status r)))))
       (\<lambda>e. throw (JsError (''Fail to isMultisigAddress: '' @ error_string e)))"

section \<open>The shared steps on this broker\<close>

lemma quiet_Hathor [steps_intros]:
  "runs_in (emits P) (Hathor_validateTx E a b c)"
  "runs_in (emits P) (Hathor_getSideChainTokenAddress E x)"
  "runs_in (emits P) (isAmountAboveMinimumTransferAmount E al nat' ch x amt)"
  "runs_in (emits P) (isTransactionVotedOrProcessed E x fa)"
  "runs_in (emits P) (isMultisigAddress E x')"
  unfolding Hathor_validateTx_def Hathor_getSideChainTokenAddress_def isAmountAboveMinimumTransferAmount_def
    getMinimumTransferAmount_def isTransactionVotedOrProcessed_def isMultisigAddress_def
  by (intro steps_intros)+

lemma runs_Hathor_proposals:
  assumes "\<And>e. proposal_request e \<Longrightarrow> P e"
  shows "runs_in (emits P) (Hathor_sendEvmNativeTokenProposal E a b c)"
    and "runs_in (emits P) (Hathor_sendHathorNativeTokenProposal a b c)"
  unfolding Hathor_sendEvmNativeTokenProposal_def Hathor_sendHathorNativeTokenProposal_def
  by (intro steps_intros assms; simp add: proposal_request_def)+

interpretation hathor: broker_methods "hathor_vt E"
  by unfold_locales (simp_all add: hathor_vt_def quiet_Hathor runs_Hathor_proposals)

section \<open>The sample withdrawal\<close>

text \<open>A deposit of 1.53 of the Hathor token to the multisig, and the proposal that melts it.\<close>

definition sample_deposit :: tx_data where
  "sample_deposit =
     \<lparr>tx_id = ''d'', tx_version = 1, tx_timestamp = 10, is_voided = False,
      tx_inputs = [\<lparr>i_value = 153, i_token_data = 1, i_script = [],
        i_decoded = \<lparr>d_type = Some ''P2PKH'', d_address = Some ''Huser'', d_timelock = NullTimelock\<rparr>,
        i_token = Some ''ht''\<rparr>],
      tx_outputs = [\<lparr>o_value = 153, o_token_data = 1, o_script = [], o_decoded = multisig_decoded,
        o_token = Some ''ht'', o_spent_by = None, o_mine = Some True\<rparr>]\<rparr>"

definition sample_melt :: tx_data where
  "sample_melt =
     \<lparr>tx_id = ''m'', tx_version = 1, tx_timestamp = 20, is_voided = False,
      tx_inputs = [\<lparr>i_value = 2, i_token_data = 129, i_script = [], i_decoded = multisig_decoded,
          i_token = Some ''ht''\<rparr>,
        \<lparr>i_value = 153, i_token_data = 1, i_script = [], i_decoded = multisig_decoded,
          i_token = Some ''ht''\<rparr>],
      tx_outputs = []\<rparr>"

definition melt_env :: "nat env" where
  "melt_env = sample_env\<lparr>wallet := sample_wallet
     \<lparr>w_transaction := (\<lambda>t. answer (Some (ok_response sample_deposit))),
      w_decode := (\<lambda>t. answer (ok_response sample_melt))\<rparr>\<rparr>"

lemma sample_check_melt: "check_melt sample_deposit sample_melt = Inr ()"
  by (simp add: check_melt_def sample_deposit_def sample_melt_def getTransactionInfo_def output_entries_def
      isAuthority_bit isMint_bit isMelt_bit input_step_def table_add_def js_key_def js_double_exact bit_0
      bit_iff_odd getCustomTokenData_def unspent_multisig_def multisig_decoded_def truthy_string_def
      add_output_def table_rel_def Let_def)

lemma sample_melt_validates:
  "\<exists>w. Hathor_validateTx melt_env ''beef'' ''0xd'' ''0xid'' s = (Inr True, s\<lparr>world := w\<rparr>)"
proof -
  have "\<not> is_voided sample_deposit" by (simp add: sample_deposit_def)
  then show ?thesis
    using sample_check_melt
    by (simp add: Hathor_validateTx_def getTransaction_def isProcessed_def hf_call_def decodeTxHex_def
        requestWallet_def melt_env_def sample_simps answer_def ext_call_def try_catch_def bnd_def
        failed_def truthy_string_def, blast)
qed

definition sample_withdrawal :: transfer where
  "sample_withdrawal = hathor_transfer (Some ''Huser'') ''0xr'' ''153'' ''ht'' ''0xd''"

lemma sample_melt_signs:
  "trace (snd (sign_validated melt_env 0 sample_withdrawal ''beef'' (sample_broker_state\<lparr>world := w\<rparr>))) \<noteq> []"
  by (simp add: sign_validated_def getMySignatures_def getUpdateSignatureStateArgs_def
      sample_broker_state_def melt_env_def sample_send_simps)

section \<open>What the broker guarantees\<close>

lemma check_melt_ok:
  assumes "check_melt originalTx p = Inr x"
  obtains d where "tx_version originalTx = 1" "\<not> is_voided originalTx"
    "getCustomTokenData (tx_inputs originalTx) (tx_outputs originalTx) = Inr (Some d)"
    "tokenAddress d \<in> canMelt (getTransactionInfo p)"
    "balances (getTransactionInfo p) (tokenAddress d) = Some (- amount d)" "0 < amount d"
proof -
  from assms obtain d where d: "tx_version originalTx = 1" "\<not> is_voided originalTx"
    "getCustomTokenData (tx_inputs originalTx) (tx_outputs originalTx) = Inr (Some d)"
    by (auto simp: check_melt_def Let_def split: if_splits sum.splits option.splits)
  moreover have "tokenAddress d \<in> canMelt (getTransactionInfo p)"
    "balances (getTransactionInfo p) (tokenAddress d) = Some (- amount d)" "0 < amount d"
    using assms d by (auto simp: check_melt_def Let_def table_rel_def split: if_splits option.splits)
  ultimately show ?thesis by (rule that)
qed

lemma Hathor_validateTx_True:
  assumes "Hathor_validateTx E txHex h tid s = (Inr True, t)"
  obtains originalTx u v p w where "getTransaction E (strip0x h) s = (Inr (Some originalTx), u)"
    "isProcessed E tid u = (Inr False, v)" "decodeTxHex E txHex v = (Inr p, w)"
    "check_melt originalTx p = Inr ()"
  using assms unfolding Hathor_validateTx_def
proof (cases rule: bnd_cases)
  case (ok x u)
  then obtain originalTx where x: "x = Some originalTx" by (cases x) auto
  note g = ok(1) [unfolded x]
  from ok(2) x have "bnd (isProcessed E tid) (\<lambda>processed. if processed then ret False
      else bnd (decodeTxHex E txHex) (\<lambda>p. bnd (lift_res (check_melt originalTx p)) (\<lambda>_. ret True))) u
      = (Inr True, t)" by simp
  then show ?thesis
  proof (cases rule: bnd_cases)
    case (ok b v)
    then have b: "isProcessed E tid u = (Inr False, v)" by (cases b) auto
    from ok(2) have "bnd (decodeTxHex E txHex) (\<lambda>p. bnd (lift_res (check_melt originalTx p)) (\<lambda>_. ret True)) v
      = (Inr True, t)" by (cases b) (auto split: if_splits)
    then show ?thesis
    proof (cases rule: bnd_cases)
      case (ok p w)
      then have "check_melt originalTx p = Inr ()" by (cases "check_melt originalTx p") auto
      with that [OF g b ok(1)] show ?thesis .
    qed simp
  qed simp
qed simp

text \<open>
  C3: a proposal the Hathor broker accepts melts exactly what the original transaction sent to
  the multisig. The original exists in the wallet, has version 1 and is not voided; the transfer
  has not been processed; and for the one token and amount of its unspent, unlocked multisig
  outputs the proposal spends a melt authority and destroys exactly that positive amount.
\<close>
theorem Hathor_validateTx_sound:
  assumes "Hathor_validateTx E txHex h tid s = (Inr True, t)"
  shows "\<exists>originalTx u v p w d. getTransaction E (strip0x h) s = (Inr (Some originalTx), u)
    \<and> tx_version originalTx = 1 \<and> \<not> is_voided originalTx
    \<and> isProcessed E tid u = (Inr False, v) \<and> decodeTxHex E txHex v = (Inr p, w)
    \<and> getCustomTokenData (tx_inputs originalTx) (tx_outputs originalTx) = Inr (Some d)
    \<and> tokenAddress d \<in> canMelt (getTransactionInfo p)
    \<and> balances (getTransactionInfo p) (tokenAddress d) = Some (- amount d) \<and> 0 < amount d"
  using assms by (elim Hathor_validateTx_True check_melt_ok) blast

theorem Hathor_validateTx_sound_witness:
  "\<exists>(p :: tx_data) (d :: token_transfer). tokenAddress d \<in> canMelt (getTransactionInfo p)
     \<and> balances (getTransactionInfo p) (tokenAddress d) = Some (- amount d) \<and> 0 < amount d"
proof -
  obtain w where "Hathor_validateTx melt_env ''beef'' ''0xd'' ''0xid'' sample_state = (Inr True, sample_state\<lparr>world := w\<rparr>)"
    using sample_melt_validates by blast
  from Hathor_validateTx_sound [OF this] show ?thesis by blast
qed

text \<open>
  The Hathor broker signs nothing unvalidated: a signing step that issues any request has
  first accepted the hex it signs, and publishes, in one transaction for this transfer, the
  signature its own wallet returned for that hex.
\<close>
theorem Hathor_signs_validated:
  assumes "signProposal E i (hathor_vt E) t txHex tid s = (r, s')" and "trace s' \<noteq> trace s"
  shows "\<exists>u. Hathor_validateTx E txHex (t_hash t) tid s = (Inr True, u) \<and> trace u = trace s \<and>
      ((\<exists>e. getMySignatures E txHex u = (Inl e, s')) \<or>
       (\<exists>signature v. getMySignatures E txHex u = (Inr signature, v) \<and>
          one_tx (HATHOR_STATE_CONTRACT_ADDR (penv E))
            (UpdateSignatureState (setPadding E (t_token t)) (setPadding E (t_hash t)) (t_amount t)
              (t_sender t) (t_receiver t) (t_type t) signature True) v s'))"
  using hathor.signProposal_after_validation [OF assms(1)] assms(2) by (simp add: hathor_vt_def)

theorem Hathor_signs_validated_witness:
  "\<exists>u. Hathor_validateTx melt_env ''beef'' ''0xd'' ''0xid'' sample_broker_state = (Inr True, u)"
proof -
  obtain w where "Hathor_validateTx melt_env ''beef'' ''0xd'' ''0xid'' sample_broker_state
      = (Inr True, sample_broker_state\<lparr>world := w\<rparr>)" using sample_melt_validates by blast
  moreover have h: "t_hash sample_withdrawal = ''0xd''" by (simp add: sample_withdrawal_def hathor_transfer_def)
  ultimately have "trace (snd (signProposal melt_env 0 (hathor_vt melt_env) sample_withdrawal ''beef'' ''0xid''
      sample_broker_state)) \<noteq> []"
    using sample_melt_signs [of w] by (simp add: signProposal_def hathor_vt_def)
  moreover have "trace sample_broker_state = []" by (simp add: sample_broker_state_def sample_state_def)
  ultimately show ?thesis
    using Hathor_signs_validated [OF prod.collapse [symmetric], where E = melt_env and i = 0
        and t = sample_withdrawal and txHex = "''beef''" and tid = "''0xid''" and s = sample_broker_state] h
    by auto
qed


definition sample_allow :: allow_tokens where
  "sample_allow = \<lparr>at_contract = (None, None), at_federatorInstance = 1, at_cache = 0\<rparr>"


lemma isTransactionVotedOrProcessed_False:
  assumes "isTransactionVotedOrProcessed E tid fa s = (Inr False, t)"
  obtains u where "transactionWasProcessed E (FederationFactory_createInstance (mainchain (config E))) tid s
      = (Inr False, u)"
    "hasVoted E (FederationFactory_createInstance (mainchain (config E))) tid fa u = (Inr False, t)"
  using assms by (auto simp: isTransactionVotedOrProcessed_def Let_def bnd_eq_Inr_iff split: if_splits)

definition unseen_vote :: "'w env \<Rightarrow> vote_params \<Rightarrow> 'w st \<Rightarrow> 'w st \<Rightarrow> bool" where
  "unseen_vote E p s t \<longleftrightarrow>
     (let f = FederationFactory_createInstance (mainchain (config E))
      in \<exists>tid i fa u u1 u2 v. getAddress E i (privateKey (config E)) u = (Inr fa, u1)
         \<and> federation_getTransactionId E f p u1 = (Inr tid, u2)
         \<and> (\<exists>u3. transactionWasProcessed E f tid u2 = (Inr False, u3) \<and> hasVoted E f tid fa u3 = (Inr False, v))
         \<and> trace v = trace s \<and> one_tx (snd f) (vote_call p) v t)"

lemma vote_once_cases:
  assumes "vote_once E p s = (r, t)"
  shows "trace t = trace s \<or> unseen_vote E p s t"
  using assms unfolding vote_once_def Let_def
proof (cases rule: peel)
  case (quiet P)
  show ?case by (rule runs_new_TransactionSender)
next
  case (err e)
  then show ?thesis by simp
next
  case (ok i u)
  note i = ok
  from ok(3) show ?thesis
  proof (cases rule: peel)
    case (quiet P)
    show ?case by (rule quiet_getAddress)
  next
    case (err e)
    with i show ?thesis by simp
  next
    case (ok fa u1)
    note a = ok
    from ok(3) show ?thesis
    proof (cases rule: peel)
      case (quiet P)
      show ?case by (rule quiet_contracts)
    next
      case (err e)
      with i a show ?thesis by simp
    next
      case (ok tid u2)
      note g = ok
      from ok(3) show ?thesis
      proof (cases rule: peel)
        case (quiet P)
        show ?case by (rule quiet_Hathor)
      next
        case (err e)
        with i a g show ?thesis by simp
      next
        case (ok seen v)
        show ?thesis
        proof (cases seen)
          case True
          with ok i a g show ?thesis by simp
        next
          case False
          with ok(1) have "isTransactionVotedOrProcessed E tid fa u2 = (Inr False, v)" by simp
          moreover have "one_tx (snd (FederationFactory_createInstance (mainchain (config E)))) (vote_call p) v t"
            using ok(3) False voteTransaction_one_tx by fastforce
          moreover have "trace v = trace s" using i(2) a(2) g(2) ok(2) by simp
          ultimately show ?thesis
            using a(1) g(1) unfolding unseen_vote_def Let_def
            by (elim isTransactionVotedOrProcessed_False) blast
        qed
      qed
    qed
  qed
qed


lemma sample_votes:
  "trace (snd (voteOnEvm sample_env ''0xr'' (Some 5) ''0xtoken'' ''d'' (Some ''Huser'') sample_state)) \<noteq> []"
  by (simp add: voteOnEvm_def new_Federator_def checkHttpsOrLocalhost_def starts_with_def vote_once_def
      new_TransactionSender_def FederationFactory_createInstance_def federation_getTransactionId_def
      isTransactionVotedOrProcessed_def transactionWasProcessed_def hasVoted_def voteTransaction_def
      getVoteTransactionABI_def vote_params_of_def sample_send_simps chainConfig_def)


end
