(* ===== verification/FederatorHTR.thy ===== *)
theory FederatorHTR
  imports HathorBroker
begin

text \<open>
  \<open>lib/FederatorHTR.ts\<close>: reading the Cross events of the EVM bridge page by page and sending each
  to Hathor. Blocks deep enough for large amounts are processed once and the progress is saved
  after every page; newer blocks are processed again on every run for small and medium amounts,
  with the confirmations each needs. The contracts that process a transfer are idempotent.
\<close>

definition PATH_ORIGIN :: string where "PATH_ORIGIN = ''fhtr''"
definition HTR_SIDE_CHAIN :: int where "HTR_SIDE_CHAIN = 31"
definition recordsPerPage :: int where "recordsPerPage = 450"

definition getCurrentChainId :: "'w env \<Rightarrow> ('w, int) run" where
  "getCurrentChainId E =
     bnd (gets currentChainId) (\<lambda>c.
     case c of
       Some i \<Rightarrow> ret i
     | None \<Rightarrow>
         bnd (ext_call (netId (rpc E) (host (mainchain (config E))))) (\<lambda>n.
         bnd (modify (\<lambda>s. s\<lparr>currentChainId := Some n\<rparr>)) (\<lambda>_. ret n)))"

text \<open>What one call of \<open>getLogsAndProcess\<close> passes down; the first block may be NaN.\<close>

record logs_params =
  lp_mainChainId :: int
  lp_sideChainId :: int
  lp_fromBlock :: "int option"
  lp_toBlock :: int
  lp_currentBlock :: int
  lp_mediumAndSmall :: bool
  lp_confirmations :: confirmations

section \<open>One event\<close>

text \<open>\<open>HathorService.sendTokensToHathor\<close>: a new EVM broker per event.\<close>

definition sendTokensToHathor ::
  "'w env \<Rightarrow> string option \<Rightarrow> string \<Rightarrow> string \<Rightarrow> string \<Rightarrow> string \<Rightarrow> ('w, unit) run" where
  "sendTokensToHathor E sender receiver qtd tok txHash =
     bnd (new_Broker E) (\<lambda>i.
     bnd (EvmBroker_sendTokens E i sender receiver qtd tok txHash) (\<lambda>_. ret ()))"

definition processTransaction :: "'w env \<Rightarrow> cross_event \<Rightarrow> ('w, unit) run" where
  "processTransaction E ev =
     try_catch
       (case ce_transactionHash ev of
          None \<Rightarrow> throw (JsError ''Missing transactionHash on Cross event log'')
        | Some h \<Rightarrow>
            if h = [] then throw (JsError ''Missing transactionHash on Cross event log'')
            else sendTokensToHathor E (Some (ce_from ev)) (ce_to ev) (show_int (ce_amount ev))
                   (ce_tokenAddress ev) h)
       (\<lambda>e. if is_hathor_exception e then ret () else throw e)"

definition mapped_token :: "'w env \<Rightarrow> cross_event \<Rightarrow> ('w, string) run" where
  "mapped_token E ev =
     bnd (settle (bridge_getMappedToken E (BridgeFactory_createInstance (mainchain (config E)))
            (ce_destinationChainId ev) (ce_tokenAddress ev))) (\<lambda>promise.
     retryNTimes (sleep E) promise 3 1000)"

text \<open>The limits of the side token, or of the original one when there is no side token.\<close>

definition event_limits :: "'w env \<Rightarrow> allow_tokens \<Rightarrow> cross_event \<Rightarrow> ('w, limits) run" where
  "event_limits E a ev =
     bnd (mapped_token E ev) (\<lambda>sideTokenAddress.
     if sideTokenAddress = ZERO_ADDRESS then
       bnd (getLimits E a (ce_tokenAddress ev)) (\<lambda>l.
       if \<not> lim_allowed l then throw (JsError ''Original Token not allowed nor side token'') else ret l)
     else getLimits E a sideTokenAddress)"

definition processLog :: "'w env \<Rightarrow> logs_params \<Rightarrow> allow_tokens \<Rightarrow> cross_event \<Rightarrow> ('w, bool) run" where
  "processLog E p a ev =
     bnd (event_limits E a ev) (\<lambda>l.
     let confirmed = lp_currentBlock p - ce_blockNumber ev
     in if lp_mediumAndSmall p \<and> ce_amount ev > lim_largeAmount l then ret False
        else if lp_mediumAndSmall p \<and> ce_amount ev > lim_mediumAmount l
          \<and> confirmed < mediumAmountConfirmations (lp_confirmations p) then ret False
        else bnd (processTransaction E ev) (\<lambda>_. ret True))"

definition processLogs :: "'w env \<Rightarrow> logs_params \<Rightarrow> cross_event list \<Rightarrow> ('w, bool) run" where
  "processLogs E p logs =
     try_catch
       (bnd (AllowTokensFactory_createInstance (mainchain (config E))) (\<lambda>a.
        bnd (for_each (\<lambda>ev. bnd (processLog E p a ev) (\<lambda>_. ret ())) logs) (\<lambda>_. ret True)))
       (\<lambda>e. throw (CustomError ''Exception processing logs'' e))"

section \<open>Pages\<close>

definition numberOfPages :: "int \<Rightarrow> int \<Rightarrow> int" where
  "numberOfPages from_block to_block = - ((from_block - to_block) div recordsPerPage)"

fun event_logs :: "cross_event raw_event list \<Rightarrow> cross_event list" where
  "event_logs [] = []"
| "event_logs (EvLog l # es) = l # event_logs es"
| "event_logs (EvString _ # es) = event_logs es"

definition do_page :: "'w env \<Rightarrow> logs_params \<Rightarrow> int \<times> int \<Rightarrow> ('w, unit) run" where
  "do_page E p page =
     (case page of (fromPageBlock, toPagedBlock) \<Rightarrow>
        bnd (bridge_getPastEvents E (BridgeFactory_createInstance (mainchain (config E)))
               (lp_sideChainId p) fromPageBlock toPagedBlock) (\<lambda>logs.
        case logs of
          None \<Rightarrow> throw (JsError ''Failed to obtain the logs'')
        | Some es \<Rightarrow>
            bnd (processLogs E p (event_logs es)) (\<lambda>_.
            if \<not> lp_mediumAndSmall p
            then saveProgress (getLastBlockPath E (Some (lp_mainChainId p)) (lp_sideChainId p) PATH_ORIGIN) toPagedBlock
            else ret ())))"

function page_loop :: "'w env \<Rightarrow> logs_params \<Rightarrow> int \<Rightarrow> int \<Rightarrow> int \<Rightarrow> ('w, unit) run" where
  "page_loop E p currentPage pages fromPageBlock =
     (if currentPage \<le> pages then
        (let toPagedBlock = (if currentPage = pages then lp_toBlock p
                             else fromPageBlock + recordsPerPage - 1)
         in bnd (do_page E p (fromPageBlock, toPagedBlock)) (\<lambda>_.
            page_loop E p (currentPage + 1) pages (toPagedBlock + 1)))
      else ret ())"
  by pat_completeness auto
termination
  by (relation "measure (\<lambda>(_, _, c, n, _). nat (n + 1 - c))") auto

declare page_loop.simps [simp del]

definition getLogsAndProcess :: "'w env \<Rightarrow> logs_params \<Rightarrow> ('w, unit) run" where
  "getLogsAndProcess E p =
     (case lp_fromBlock p of
        None \<Rightarrow> inc EvmRun
      | Some f \<Rightarrow>
          if f \<ge> lp_toBlock p then ret ()
          else bnd (page_loop E p 1 (numberOfPages f (lp_toBlock p)) f) (\<lambda>_. inc EvmRun))"

section \<open>One run\<close>

definition nan_ge :: "int option \<Rightarrow> int \<Rightarrow> bool" where
  "nan_ge a b = (case a of None \<Rightarrow> False | Some x \<Rightarrow> x \<ge> b)"

definition FederatorHTR_run :: "'w env \<Rightarrow> nat \<Rightarrow> ConfigChain \<Rightarrow> ('w, bool) run" where
  "FederatorHTR_run E i sideChainConfig =
     (let h = host (mainchain (config E))
      in bnd (ext_call (getBlockNumber (rpc E) h)) (\<lambda>currentBlock.
         bnd (getCurrentChainId E) (\<lambda>mainChainId.
         bnd (ext_call (isSyncing (rpc E) h)) (\<lambda>syncing.
         if syncing then ret False
         else
           bnd (AllowTokensFactory_createInstance (mainchain (config E))) (\<lambda>a.
           bnd (getConfirmations E a) (\<lambda>c.
           let toBlock = currentBlock - largeAmountConfirmations c;
               newToBlock = currentBlock - smallAmountConfirmations c
           in if toBlock \<le> 0 \<and> newToBlock \<le> 0 then ret False
              else
                bnd (getLastBlock E (Some mainChainId) HTR_SIDE_CHAIN PATH_ORIGIN) (\<lambda>last.
                if nan_ge last toBlock \<and> nan_ge last newToBlock then ret False
                else
                  (let p = \<lparr>lp_mainChainId = mainChainId, lp_sideChainId = HTR_SIDE_CHAIN,
                            lp_fromBlock = map_option (\<lambda>b. b + 1) last, lp_toBlock = toBlock,
                            lp_currentBlock = currentBlock, lp_mediumAndSmall = False, lp_confirmations = c\<rparr>
                   in bnd (getLogsAndProcess E p) (\<lambda>_.
                      bnd (getLogsAndProcess E (p\<lparr>lp_fromBlock := Some toBlock, lp_toBlock := newToBlock,
                             lp_mediumAndSmall := True\<rparr>)) (\<lambda>_.
                      ret True))))))))))"

section \<open>What paging guarantees\<close>

function pages :: "int \<Rightarrow> int \<Rightarrow> int \<Rightarrow> int \<Rightarrow> (int \<times> int) list" where
  "pages to_block c n f =
     (if c \<le> n then
        (let t = (if c = n then to_block else f + recordsPerPage - 1)
         in (f, t) # pages to_block (c + 1) n (t + 1))
      else [])"
  by pat_completeness auto
termination
  by (relation "measure (\<lambda>(_, c, n, _). nat (n + 1 - c))") auto

declare pages.simps [simp del]

definition all_pages :: "int \<Rightarrow> int \<Rightarrow> (int \<times> int) list" where
  "all_pages f t = pages t 1 (numberOfPages f t) f"

lemma page_loop_for_each: "page_loop E p c n f = for_each (do_page E p) (pages (lp_toBlock p) c n f)"
proof (induction E p c n f rule: page_loop.induct)
  case (1 E p c n f)
  show ?case
    by (cases "c \<le> n") (simp_all add: page_loop.simps [of E p c n f] pages.simps [of "lp_toBlock p" c n f] 1 Let_def)
qed

lemma numberOfPages_bounds:
  assumes "f < t"
  shows "1 \<le> numberOfPages f t"
    and "(numberOfPages f t - 1) * recordsPerPage < t - f"
    and "t - f \<le> numberOfPages f t * recordsPerPage"
proof -
  define q where "q = (f - t) div 450"
  have m: "450 * q + (f - t) mod 450 = f - t" "0 \<le> (f - t) mod 450" "(f - t) mod 450 < 450"
    unfolding q_def by simp_all
  have n: "numberOfPages f t = - q" by (simp add: numberOfPages_def recordsPerPage_def q_def)
  show "1 \<le> numberOfPages f t" using m n assms by linarith
  show "(numberOfPages f t - 1) * recordsPerPage < t - f"
    using m n by (simp add: recordsPerPage_def)
  show "t - f \<le> numberOfPages f t * recordsPerPage"
    using m n by (simp add: recordsPerPage_def)
qed

lemma pages_concat:
  assumes "1 \<le> k" and "k = n - c + 1" and "(k - 1) * recordsPerPage < t - f"
  shows "concat (map (\<lambda>(a, b). [a..b]) (pages t c n f)) = [f..t]"
  using assms
proof (induction "nat k" arbitrary: k c f)
  case 0
  then show ?case by simp
next
  case (Suc m)
  show ?case
  proof (cases "k = 1")
    case True
    with Suc.prems have "c = n" by simp
    then show ?thesis by (subst pages.simps) (simp add: pages.simps)
  next
    case False
    let ?u = "f + recordsPerPage - 1"
    have k: "c < n" "1 \<le> k - 1" using False Suc.prems by auto
    then have p: "pages t c n f = (f, ?u) # pages t (c + 1) n (?u + 1)"
      by (subst pages.simps) (simp add: Let_def)
    have IH: "concat (map (\<lambda>(a, b). [a..b]) (pages t (c + 1) n (?u + 1))) = [?u + 1..t]"
    proof (rule Suc.hyps(1) [of "k - 1"])
      show "m = nat (k - 1)" using Suc.hyps(2) by simp
    qed (use Suc.prems k in \<open>simp_all add: recordsPerPage_def\<close>)
    have "f \<le> ?u" "?u \<le> t" using Suc.prems k by (auto simp: recordsPerPage_def)
    then have "[f..?u] @ [?u + 1..t] = [f..t]" using upto_split2 [of f ?u t] by simp
    with IH show ?thesis by (simp add: p)
  qed
qed

lemma pages_sizes:
  assumes "1 \<le> k" and "k = n - c + 1" and "(k - 1) * recordsPerPage < t - f" and "t - f \<le> k * recordsPerPage"
  shows "\<forall>(a, b) \<in> set (pages t c n f). a \<le> b \<and> b - a \<le> recordsPerPage"
  using assms
proof (induction "nat k" arbitrary: k c f)
  case 0
  then show ?case by simp
next
  case (Suc m)
  show ?case
  proof (cases "k = 1")
    case True
    with Suc.prems have "c = n" by simp
    then show ?thesis using True Suc.prems by (subst pages.simps) (simp add: pages.simps recordsPerPage_def)
  next
    case False
    let ?u = "f + recordsPerPage - 1"
    have k: "c < n" "1 \<le> k - 1" using False Suc.prems by auto
    have "\<forall>(a, b) \<in> set (pages t (c + 1) n (?u + 1)). a \<le> b \<and> b - a \<le> recordsPerPage"
    proof (rule Suc.hyps(1) [of "k - 1"])
      show "m = nat (k - 1)" using Suc.hyps(2) by simp
    qed (use Suc.prems k in \<open>simp_all add: recordsPerPage_def\<close>)
    then show ?thesis using k by (subst pages.simps) (simp add: Let_def recordsPerPage_def)
  qed
qed

lemma all_pages_cover:
  assumes "f < t"
  shows "concat (map (\<lambda>(a, b). [a..b]) (all_pages f t)) = [f..t]
    \<and> (\<forall>(a, b) \<in> set (all_pages f t). a \<le> b \<and> b - a \<le> recordsPerPage)"
  unfolding all_pages_def
  using pages_concat [OF numberOfPages_bounds(1) [OF assms], of _ 1]
    pages_sizes [OF numberOfPages_bounds(1) [OF assms], of _ 1] numberOfPages_bounds(2,3) [OF assms]
  by simp

text \<open>
  C25: one pass asks the bridge for consecutive block ranges that start at the first block, end at
  the last, overlap nowhere and leave no gap, each of at most 451 blocks; with an empty range it
  asks for none.
\<close>
theorem pages_cover:
  assumes "lp_fromBlock p = Some f"
  shows "getLogsAndProcess E p =
      (if f < lp_toBlock p then bnd (for_each (do_page E p) (all_pages f (lp_toBlock p))) (\<lambda>_. inc EvmRun)
       else ret ())
    \<and> (f < lp_toBlock p \<longrightarrow>
         concat (map (\<lambda>(a, b). [a..b]) (all_pages f (lp_toBlock p))) = [f..lp_toBlock p]
         \<and> (\<forall>(a, b) \<in> set (all_pages f (lp_toBlock p)). a \<le> b \<and> b - a \<le> recordsPerPage))"
  using assms all_pages_cover [of f "lp_toBlock p"]
  by (simp add: getLogsAndProcess_def page_loop_for_each all_pages_def)

section \<open>Progress\<close>

text \<open>Nothing but saving progress writes the file of the last block.\<close>

definition keeps_file :: "string \<Rightarrow> 'w st \<Rightarrow> 'w st \<Rightarrow> bool" where
  "keeps_file path s t \<longleftrightarrow> files t path = files s path"

interpretation kf: step_rel "keeps_file path"
  by unfold_locales (simp_all add: keeps_file_def)

lemma keeps_same_files: "runs_in same_files m \<Longrightarrow> runs_in (keeps_file path) m"
  by (simp add: runs_in_def same_files_def keeps_file_def)

lemma keeps_base [steps_intros]:
  "runs_in (keeps_file path) (ext_call f)" "runs_in (keeps_file path) (emit e)"
  "runs_in (keeps_file path) (inc m)" "runs_in (keeps_file path) (sleep E n)"
  "runs_in (keeps_file path) (requestWallet g)" "runs_in (keeps_file path) (putRequestWallet g)"
  "runs_in (keeps_file path) (wallet_command q h)"
  by (intro keeps_same_files steps_intros)+

lemma keeps_contracts [steps_intros]:
  "runs_in (keeps_file path) (getSignatureCount E x)" "runs_in (keeps_file path) (isProcessed E x)"
  "runs_in (keeps_file path) (isSigned E x a)" "runs_in (keeps_file path) (isProposed E x)"
  "runs_in (keeps_file path) (transactionHex E x)" "runs_in (keeps_file path) (getSignaturesFromArray E x)"
  "runs_in (keeps_file path) (getTransactionId E x1 x2 x3 x4 x5 x6)"
  "runs_in (keeps_file path) (bridge_getPastEvents E b d i j)" "runs_in (keeps_file path) (bridge_getMappedToken E b d x)"
  "runs_in (keeps_file path) (getLimits E al x)" "runs_in (keeps_file path) (AllowTokensFactory_createInstance c)"
  "runs_in (keeps_file path) (new_TransactionSender y)" "runs_in (keeps_file path) (getTransaction E x)"
  "runs_in (keeps_file path) (decodeTxHex E x)" "runs_in (keeps_file path) (getTokenDecimals E x k)"
  "runs_in (keeps_file path) (Evm_getSideChainTokenAddress E x)"
  by (intro keeps_same_files steps_intros)+

lemma keeps_args [steps_intros]:
  "runs_in (keeps_file path) (getSendTransactionProposalArgs E x1 x2 x3 x4 x5 x6 x)"
  "runs_in (keeps_file path) (getUpdateSignatureStateArgs E x1 x2 x3 x4 x5 x6 x b)"
  "runs_in (keeps_file path) (getUpdateTransactionStateArgs E x1 x2 x3 x4 x5 x6 b y)"
  "runs_in (keeps_file path) (getMySignatures E x)" "runs_in (keeps_file path) (hathorPushProposal E x xs)"
  unfolding contract_defs getMySignatures_def hathorPushProposal_def by (intro steps_intros)+

lemma keeps_sendTransaction:
  assumes "path \<noteq> manuallyCheck E"
  shows "runs_in (keeps_file path) (sendTransaction E i to d v pk b)"
proof -
  have a: "runs_in (keeps_file path) (append_file (manuallyCheck E) c)" for c
    using assms by (auto simp: runs_in_def keeps_file_def append_file_def)
  have g: "runs_in (keeps_file path) (getChainId E i)" "runs_in (keeps_file path) (getAddress E i k)"
    "runs_in (keeps_file path) (getGasLimit E i tx)"
    "runs_in (keeps_file path) (createRawTransaction E i fa to' data val)" for k tx fa to' data val
    by (intro keeps_same_files steps_intros)+
  show ?thesis
    unfolding sendTransaction_def build_and_submit_def submit_signed_def submit_personal_def send_failed_def
    by (intro steps_intros a g)+
qed

lemma keeps_Evm_methods [steps_intros]:
  "runs_in (keeps_file path) (Evm_validateTx E x1 x2 x3)"
  "runs_in (keeps_file path) (Evm_sendEvmNativeTokenProposal E x1 x2 x3)"
  "runs_in (keeps_file path) (Evm_sendHathorNativeTokenProposal E x1 x2 x3)"
  unfolding Evm_validateTx_def validate_against_def Evm_sendEvmNativeTokenProposal_def
    Evm_sendHathorNativeTokenProposal_def proposal_response_def
  by (intro steps_intros)+

lemma keeps_evm_vt [steps_intros]:
  "runs_in (keeps_file path) (vt_validateTx (evm_vt E) x1 x2 x3)"
  "runs_in (keeps_file path) (vt_sendEvmNativeTokenProposal (evm_vt E) x1 x2 x3)"
  "runs_in (keeps_file path) (vt_sendHathorNativeTokenProposal (evm_vt E) x1 x2 x3)"
  by (simp_all add: evm_vt_def keeps_Evm_methods)

lemma keeps_Broker_sendTokens:
  assumes "path \<noteq> manuallyCheck E"
    and "\<And>x y z. runs_in (keeps_file path) (vt_validateTx vt x y z)"
    and "\<And>x y z. runs_in (keeps_file path) (vt_sendEvmNativeTokenProposal vt x y z)"
    and "\<And>x y z. runs_in (keeps_file path) (vt_sendHathorNativeTokenProposal vt x y z)"
  shows "runs_in (keeps_file path) (Broker_sendTokens E i vt t nat')"
  unfolding Broker_sendTokens_def pushProposal_def push_validated_def try_push_def signProposal_def
    sign_validated_def sendProposal_def propose_validated_def send_state_def
  by (intro steps_intros keeps_sendTransaction assms)+

lemma keeps_processLogs:
  assumes "path \<noteq> manuallyCheck E"
  shows "runs_in (keeps_file path) (processLogs E p evs)"
proof -
  have e: "runs_in (keeps_file path) (EvmBroker_sendTokens E i x1 x2 x3 x4 x5)" for i x1 x2 x3 x4 x5
    unfolding EvmBroker_sendTokens_def by (intro steps_intros keeps_Broker_sendTokens assms)+
  show ?thesis
    unfolding processLogs_def processLog_def processTransaction_def sendTokensToHathor_def new_Broker_def
      event_limits_def mapped_token_def
    by (intro steps_intros e)+
qed

lemma last_block_not_manual:
  "storagePath (config E) \<noteq> [] \<Longrightarrow> getLastBlockPath E m sd origin \<noteq> manuallyCheck E"
  by (simp add: getLastBlockPath_def manuallyCheck_def)

text \<open>A page that fails leaves the file alone; one that succeeds saves its last block.\<close>

lemma do_page_progress:
  assumes "do_page E p (a, b) s = (r, t)" and "storagePath (config E) \<noteq> []"
    and path: "path = getLastBlockPath E (Some (lp_mainChainId p)) (lp_sideChainId p) PATH_ORIGIN"
  shows "files t path = files s path
    \<or> r = Inr () \<and> \<not> lp_mediumAndSmall p \<and> files t path = Some (show_int b)"
  using assms(1) unfolding do_page_def prod.case
proof (cases rule: bnd_cases)
  case (err e)
  then show ?thesis
    using runs_inD [OF keeps_contracts(8)] by (fastforce simp: keeps_file_def)
next
  case (ok evs u)
  have k: "runs_in (keeps_file path) (processLogs E p es)" for es
    unfolding path by (rule keeps_processLogs [OF last_block_not_manual [OF assms(2)]])
  have u: "files u path = files s path"
    using runs_inD [OF keeps_contracts(8) ok(1)] by (simp add: keeps_file_def)
  show ?thesis
  proof (cases evs)
    case None
    with ok u show ?thesis by auto
  next
    case (Some es)
    with ok(2) have "bnd (processLogs E p (event_logs es)) (\<lambda>_. if \<not> lp_mediumAndSmall p
        then saveProgress path b else ret ()) u = (r, t)"
      unfolding path by simp
    then show ?thesis
    proof (cases rule: bnd_cases)
      case (err e)
      with runs_inD [OF k err(1)] u show ?thesis by (simp add: keeps_file_def)
    next
      case (ok x v)
      have "files v path = files u path"
        using runs_inD [OF k ok(1)] by (simp add: keeps_file_def)
      with ok(2) u show ?thesis by (auto simp: saveProgress_def split: if_splits)
    qed
  qed
qed

lemma pages_progress:
  assumes "for_each (do_page E p) ps s = (r, t)" and "storagePath (config E) \<noteq> []"
    and "path = getLastBlockPath E (Some (lp_mainChainId p)) (lp_sideChainId p) PATH_ORIGIN"
  shows "files t path = files s path
    \<or> \<not> lp_mediumAndSmall p \<and> (\<exists>k u. k < length ps \<and> for_each (do_page E p) (take (Suc k) ps) s = (Inr (), u)
          \<and> files t path = Some (show_int (snd (ps ! k))))"
  using assms(1)
proof (induction ps arbitrary: s)
  case Nil
  then show ?case by simp
next
  case (Cons x xs)
  obtain a b where x: "x = (a, b)" by (cases x)
  note page = do_page_progress [OF _ assms(2,3), of a b]
  from Cons.prems have "bnd (do_page E p x) (\<lambda>_. for_each (do_page E p) xs) s = (r, t)" by simp
  then show ?case
  proof (cases rule: bnd_cases)
    case (err e)
    then show ?thesis using page x by blast
  next
    case (ok y u)
    have head: "for_each (do_page E p) (take (Suc 0) (x # xs)) s = (Inr (), u)" using ok(1) by simp
    from Cons.IH [OF ok(2)] show ?thesis
    proof (elim disjE conjE exE)
      assume "files t path = files u path"
      with page [of s] ok(1) x head show ?thesis
        by (metis (no_types, lifting) length_greater_0_conv list.discI nth_Cons_0 snd_conv)
    next
      fix k v
      assume k: "\<not> lp_mediumAndSmall p" "k < length xs" "for_each (do_page E p) (take (Suc k) xs) u = (Inr (), v)"
        "files t path = Some (show_int (snd (xs ! k)))"
      then have "for_each (do_page E p) (take (Suc (Suc k)) (x # xs)) s = (Inr (), v)"
        using ok(1) by simp
      with k show ?thesis by (intro disjI2 conjI exI [of _ "Suc k"]) auto
    qed
  qed
qed


section \<open>Which events are processed\<close>

lemma quiet_event_limits [steps_intros]: "runs_in (emits P) (event_limits E a ev)"
  unfolding event_limits_def mapped_token_def by (intro steps_intros)+

text \<open>
  C26: newer blocks are only used for amounts that need few confirmations. In the pass over blocks
  younger than the large amount's confirmations, an event for which any request is issued has an
  amount up to the token's large limit, and either up to its medium limit or with the
  confirmations a medium amount needs.
\<close>
theorem young_events_guarded:
  assumes "processLog E p a ev s = (r, t)" and "lp_mediumAndSmall p" and "trace t \<noteq> trace s"
  shows "\<exists>l u. event_limits E a ev s = (Inr l, u) \<and> trace u = trace s \<and> ce_amount ev \<le> lim_largeAmount l
    \<and> (ce_amount ev \<le> lim_mediumAmount l
       \<or> mediumAmountConfirmations (lp_confirmations p) \<le> lp_currentBlock p - ce_blockNumber ev)"
  using assms(1) unfolding processLog_def
proof (cases rule: peel)
  case (quiet P)
  show ?case by (rule quiet_event_limits)
next
  case (err e)
  with assms(3) show ?thesis by simp
next
  case (ok l u)
  then show ?thesis using assms(2,3) by (fastforce simp: Let_def split: if_splits)
qed

text \<open>
  A side token that is not allowed does not stop a transfer: the code reports it and goes on,
  so in the pass for large amounts the event is processed whatever the limits say; only an
  original token without a side token is refused.
\<close>
theorem disallowed_side_token_processed:
  assumes "mapped_token E ev s = (Inr side, u)" and "side \<noteq> ZERO_ADDRESS"
    and "getLimits E a side u = (Inr l, v)" and "\<not> lim_allowed l" and "\<not> lp_mediumAndSmall p"
  shows "processLog E p a ev s = bnd (processTransaction E ev) (\<lambda>_. ret True) v"
  using assms by (simp add: processLog_def event_limits_def bnd_def)

section \<open>Witnesses\<close>

text \<open>A pass over the first thousand blocks, in which the bridge has no event.\<close>

definition sample_pass :: logs_params where
  "sample_pass =
     \<lparr>lp_mainChainId = 31, lp_sideChainId = 31, lp_fromBlock = Some 1, lp_toBlock = 1000, lp_currentBlock = 1100,
      lp_mediumAndSmall = False,
      lp_confirmations = \<lparr>smallAmountConfirmations = 1, mediumAmountConfirmations = 10,
        largeAmountConfirmations = 100\<rparr>\<rparr>"

text \<open>
  Higher limits than the sample's, so that its event has a medium amount, and a wallet that
  refuses to propose.
\<close>

definition refusing_env :: "nat env" where
  "refusing_env = sample_env
     \<lparr>federation_api := sample_federation
        \<lparr>infoAndLimits := (\<lambda>c t. answer (sample_limits\<lparr>lim_mediumAmount := 10 ^ 18, lim_largeAmount := 10 ^ 20,
           lim_allowed := False\<rparr>))\<rparr>,
      wallet := sample_wallet
        \<lparr>w_proposal := (\<lambda>q. answer ((ok_response ''beef'')\<lparr>resp_success := False\<rparr>))\<rparr>\<rparr>"

definition cached_state :: "nat st" where
  "cached_state = sample_state\<lparr>limit_caches := [\<lambda>_. None]\<rparr>"

theorem pages_cover_witness:
  "concat (map (\<lambda>(a, b). [a..b]) (all_pages 1 1000)) = [1..1000]"
  using pages_cover [of sample_pass 1 sample_env] by (simp add: sample_pass_def)


text \<open>The young event of the sample: 1.53 of a token, between its two limits, 100 blocks deep.\<close>

definition young_pass :: logs_params where
  "young_pass = sample_pass\<lparr>lp_currentBlock := 1000, lp_mediumAndSmall := True\<rparr>"

lemma sample_mapped_token: "mapped_token refusing_env sample_event s = (Inr ''0xside'', s\<lparr>world := Suc (world s)\<rparr>)"
  by (simp add: mapped_token_def bridge_getMappedToken_def retryNTimes_def retry_attempts.simps
      refusing_env_def sample_simps answer_def ext_call_def settle_def bnd_def)

lemma refusing_limits:
  "\<exists>l v. getLimits refusing_env sample_allow ''0xside'' (cached_state\<lparr>world := n\<rparr>) = (Inr l, v)
     \<and> \<not> lim_allowed l \<and> lim_mediumAmount l = 10 ^ 18 \<and> lim_largeAmount l = 10 ^ 20
     \<and> trace v = [] \<and> senders v = []"
  by (simp add: getLimits_def try_catch_def bnd_def ext_call_def refusing_env_def sample_env_def
      sample_federation_def answer_def sample_limits_def sample_allow_def cached_state_def sample_state_def)

lemma refusing_processes:
  "\<exists>r t q. processTransaction refusing_env sample_event v = (r, t) \<and> trace t = trace v @ [WalletReq q]"
proof -
  have n: "convertToHathorDecimals (show_int (ce_amount sample_event)) 18 = Inr 153"
    using sample_amount by (simp add: sample_event_def)
  show ?thesis
    using n
    by (simp add: processTransaction_def sendTokensToHathor_def new_Broker_def new_TransactionSender_def
      EvmBroker_sendTokens_def Broker_sendTokens_def Evm_getSideChainTokenAddress_def EvmToHathorTokenMap_def
      HathorToEvmTokenMap_def getTransactionId_def isProcessed_def isSigned_def isProposed_def hf_call_def
      evm_transfer_def evm_vt_def Evm_sendEvmNativeTokenProposal_def getTokenDecimals_def getDecimals_def
      wallet_command_def requestWallet_def proposal_response_def failed_def sample_event_def
      refusing_env_def sample_simps chainConfig_def answer_def ext_call_def bnd_def try_catch_def Let_def)
qed

theorem young_events_guarded_witness:
  "\<exists>l u. event_limits refusing_env sample_allow sample_event cached_state = (Inr l, u)
     \<and> ce_amount sample_event \<le> lim_largeAmount l
     \<and> (ce_amount sample_event \<le> lim_mediumAmount l
        \<or> mediumAmountConfirmations (lp_confirmations young_pass) \<le> lp_currentBlock young_pass - ce_blockNumber sample_event)"
proof -
  obtain l v where l: "getLimits refusing_env sample_allow ''0xside'' (cached_state\<lparr>world := 1\<rparr>) = (Inr l, v)"
    "lim_mediumAmount l = 10 ^ 18" "lim_largeAmount l = 10 ^ 20" "trace v = []"
    using refusing_limits by blast
  obtain r t q where p: "processTransaction refusing_env sample_event v = (r, t)" "trace t = trace v @ [WalletReq q]"
    using refusing_processes by blast
  have e: "event_limits refusing_env sample_allow sample_event cached_state = (Inr l, v)"
    using l(1) by (simp add: event_limits_def sample_mapped_token bnd_def ZERO_ADDRESS_def cached_state_def sample_state_def)
  have m: "lp_mediumAndSmall young_pass" by (simp add: young_pass_def)
  have "trace (snd (processLog refusing_env young_pass sample_allow sample_event cached_state)) \<noteq> trace cached_state"
    using e l p by (cases r)
      (simp_all add: processLog_def bnd_def Let_def young_pass_def sample_pass_def sample_event_def
        cached_state_def sample_state_def)
  from young_events_guarded [OF prod.collapse [symmetric] m this] show ?thesis by blast
qed

theorem disallowed_side_token_processed_witness:
  "\<exists>(v :: nat st) r t q. processLog refusing_env sample_pass sample_allow sample_event cached_state = (r, t)
     \<and> trace t = trace v @ [WalletReq q]"
proof -
  obtain l v where l: "getLimits refusing_env sample_allow ''0xside'' (cached_state\<lparr>world := 1\<rparr>) = (Inr l, v)"
    "\<not> lim_allowed l"
    using refusing_limits by blast
  obtain r t q where p: "processTransaction refusing_env sample_event v = (r, t)" "trace t = trace v @ [WalletReq q]"
    using refusing_processes by blast
  have m: "mapped_token refusing_env sample_event cached_state = (Inr ''0xside'', cached_state\<lparr>world := 1\<rparr>)"
    by (simp add: sample_mapped_token cached_state_def sample_state_def)
  have "''0xside'' \<noteq> ZERO_ADDRESS" "\<not> lp_mediumAndSmall sample_pass"
    by (simp_all add: ZERO_ADDRESS_def sample_pass_def)
  from disallowed_side_token_processed [OF m this(1) l this(2)] p
  have "\<exists>r. processLog refusing_env sample_pass sample_allow sample_event cached_state = (r, t)"
    by (cases r) (simp_all add: bnd_def)
  with p(2) show ?thesis by blast
qed

section \<open>A run that reports false\<close>

lemma runs_modify_chain_id [steps_intros]:
  "runs_in (emits P) (modify (currentChainId_update f))" "runs_in same_files (modify (currentChainId_update f))"
  by (auto simp: runs_in_def emits_same_trace same_files_def)

lemma quiet_run_steps [steps_intros]:
  "runs_in (emits P) (getCurrentChainId E)" "runs_in same_files (getCurrentChainId E)"
  "runs_in (emits P) (getLastBlock E m sd origin)" "runs_in same_files (getLastBlock E m sd origin)"
  unfolding getCurrentChainId_def getLastBlock_def last_block_def by (intro steps_intros)+

text \<open>
  A run that reports false (the node is syncing, or no block is new enough) has issued no
  request and written no file, so repeating it is harmless.
\<close>
theorem idle_run_does_nothing:
  assumes "FederatorHTR_run E i c s = (Inr False, t)"
  shows "trace t = trace s \<and> files t = files s"
proof -
  have tail: "never (\<lambda>r. r = Inr False) (bnd m (\<lambda>_. bnd n (\<lambda>_. ret True)))"
    for m n :: "('a, unit) run"
    by (intro never_bnd never_ret) simp_all
  have e: "runs_when (emits (\<lambda>_. False)) (\<lambda>r. r = Inr False) (FederatorHTR_run E i c)"
    unfolding FederatorHTR_run_def by (intro steps_intros never_runs_when tail | unfold Let_def)+
  have f: "runs_when same_files (\<lambda>r. r = Inr False) (FederatorHTR_run E i c)"
    unfolding FederatorHTR_run_def by (intro steps_intros never_runs_when tail | unfold Let_def)+
  show ?thesis
    using runs_whenD [OF e assms] runs_whenD [OF f assms] by (simp add: emits_none same_files_def)
qed

definition syncing_env :: "nat env" where
  "syncing_env = sample_env\<lparr>rpc := sample_rpc\<lparr>isSyncing := (\<lambda>h. answer True)\<rparr>\<rparr>"

theorem idle_run_does_nothing_witness:
  "\<exists>t. FederatorHTR_run syncing_env 0 sample_chain sample_state = (Inr False, t) \<and> trace t = []"
proof -
  have "FederatorHTR_run syncing_env 0 sample_chain sample_state
      = (Inr False, sample_state\<lparr>world := 3, currentChainId := Some 31\<rparr>)"
    by (simp add: FederatorHTR_run_def getCurrentChainId_def syncing_env_def sample_simps answer_def
        ext_call_def bnd_def Let_def)
  from this idle_run_does_nothing [OF this] show ?thesis by (simp add: sample_state_def)
qed

end
