(* ===== verification/HathorService.thy ===== *)
theory HathorService
  imports FederatorHTR
begin

text \<open>
  \<open>lib/HathorService.ts\<close>, \<open>lib/HathorHistorySync.ts\<close> and \<open>utils/fileManagement.ts\<close>: transactions the
  Hathor wallet reports, over a message queue or as its history, are sent to the EVM chain. A
  message is acknowledged, rejected or left without an answer; rejected ones go to the queue's
  dead letters. Connecting to the queues is not modelled. A message is the outcome of parsing its
  JSON, with the two fields the code reads.
\<close>

section \<open>The time stamp of the last transfer\<close>

definition getLastTimestamp :: "'w env \<Rightarrow> string" where
  "getLastTimestamp E = storagePath (config E) @ ''/lastHathorTimestamp.txt''"

text \<open>A zero or unreadable setting falls back to the clock; a file without a number gives NaN.\<close>

definition getLastTimestampFromEnv :: "'w env \<Rightarrow> ('w, int option) run" where
  "getLastTimestampFromEnv E =
     bnd (gets (\<lambda>s. case HATHOR_LAST_TIMESTAMP (penv E) of
            None \<Rightarrow> clock (rpc E) (world s)
          | Some v \<Rightarrow> (case parse_int v of
                None \<Rightarrow> clock (rpc E) (world s)
              | Some n \<Rightarrow> if n = 0 then clock (rpc E) (world s) else n))) (\<lambda>original.
     last_block original (getLastTimestamp E))"

section \<open>Sending a transaction of the wallet\<close>

definition sendTokensToEvm :: "'w env \<Rightarrow> allow_tokens \<Rightarrow> hathor_tx \<Rightarrow> ('w, bool option) run" where
  "sendTokensToEvm E al tx =
     bnd (new_Broker E) (\<lambda>i.
     bnd (isTxConfirmed E (h_tx_id tx)) (\<lambda>confirmed.
     if \<not> confirmed then ret (Some False)
     else
       bnd (lift_res (tx_getCustomTokenData tx)) (\<lambda>tok.
       case tok of
         None \<Rightarrow> ret (Some True)
       | Some d \<Rightarrow>
           bnd (isMultisigAddress E (receiverAddress d)) (\<lambda>multisig.
           if \<not> multisig then throw (JsError ''Not a multisig address.'')
           else
             bnd (HathorBroker_sendTokens E i al (senderAddress d) (getCustomData tx) (show_int (amount d))
                    (tokenAddress d) (h_tx_id tx)) (\<lambda>result.
             bnd (if result = Some True then saveProgress (getLastTimestamp E) (h_timestamp tx) else ret ())
               (\<lambda>_. ret result))))))"

section \<open>The event queue\<close>

record hathor_event =
  ev_type :: "string option"
  ev_data :: tx_data

definition parseHathorLogs :: "'w env \<Rightarrow> allow_tokens \<Rightarrow> hathor_event \<Rightarrow> ('w, bool option) run" where
  "parseHathorLogs E al e =
     (if ev_type e \<noteq> Some ''wallet:new-tx'' then ret (Some True)
      else
        (let tx = castDataToTx (isAddress (crypto E)) (ev_data e)
         in if tx_haveCustomData tx then sendTokensToEvm E al tx else ret (Some True)))"

text \<open>
  \<open>String.match\<close> with the patterns below: they hold no special character but the dot, which
  stands for any character that does not end a line.
\<close>

fun match_here :: "string \<Rightarrow> string \<Rightarrow> bool" where
  "match_here [] s = True"
| "match_here (p # ps) [] = False"
| "match_here (p # ps) (c # cs) =
     ((if p = CHR ''.'' then c \<noteq> CHR 0x0A \<and> c \<noteq> CHR 0x0D else p = c) \<and> match_here ps cs)"

fun match_any :: "string \<Rightarrow> string \<Rightarrow> bool" where
  "match_any p [] = match_here p []"
| "match_any p (c # cs) = (match_here p (c # cs) \<or> match_any p cs)"

definition nonRetriableErrors :: "string list" where
  "nonRetriableErrors =
     [''Invalid transaction. At least one of your inputs has already been spent.'',
      ''Transaction already exists'', ''Invalid tx'']"

definition isNonRetriableError :: "orig_msg \<Rightarrow> bool" where
  "isNonRetriableError m =
     (case m of StrMsg e \<Rightarrow> e \<noteq> [] \<and> list_ex (\<lambda>p. match_any p e) nonRetriableErrors | _ \<Rightarrow> False)"

datatype verdict = Ack | Reject | Nack | NoAnswer

text \<open>The protected block both consumers share: \<open>no\<close> is what they answer when it failed.\<close>

definition consume :: "'w env \<Rightarrow> allow_tokens \<Rightarrow> verdict \<Rightarrow> hathor_event res \<Rightarrow> ('w, verdict) run" where
  "consume E al no content =
     try_catch
       (bnd (lift_res content) (\<lambda>e.
        bnd (parseHathorLogs E al e) (\<lambda>response. ret (if response = Some True then Ack else no))))
       (\<lambda>e. ret (if is_hathor_exception e \<and> isNonRetriableError (original_message e) then Ack else no))"

definition rabbitConsume :: "'w env \<Rightarrow> allow_tokens \<Rightarrow> hathor_event res option \<Rightarrow> ('w, verdict) run" where
  "rabbitConsume E al message =
     (case message of None \<Rightarrow> ret NoAnswer | Some content \<Rightarrow> consume E al Reject content)"

definition pubSubConsume :: "'w env \<Rightarrow> allow_tokens \<Rightarrow> hathor_event res \<Rightarrow> ('w, verdict) run" where
  "pubSubConsume E al content = consume E al Nack content"

text \<open>Which queue a configuration asks for, and what is done about the subscription.\<close>

datatype queue = PubSubQueue | RabbitQueue | NotImplemented | NoQueue

definition listenToEventQueue :: "ConfigChain \<Rightarrow> queue" where
  "listenToEventQueue c =
     (case eventQueueType c of
        None \<Rightarrow> NoQueue
      | Some q \<Rightarrow>
          if q = ''pubsub'' then PubSubQueue else if q = ''rabbitmq'' then RabbitQueue
          else if q = ''sqs'' \<or> q = ''asb'' then NotImplemented else NoQueue)"

record subscription =
  sub_name :: string
  sub_topic :: bool

datatype sub_action = UseSub string | DeleteSub string | CreateSub string string

definition sub_prefix :: "ConfigChain \<Rightarrow> string" where
  "sub_prefix c = ''projects/'' @ js_key (pubsubProjectId c)"

definition sub_id :: "ConfigChain \<Rightarrow> string" where
  "sub_id c = ''hathor-federator-'' @ (case multisigOrder c of None \<Rightarrow> ''undefined'' | Some k \<Rightarrow> show_int k)"

definition getOrCreateSubscription :: "ConfigChain \<Rightarrow> subscription list \<Rightarrow> sub_action list" where
  "getOrCreateSubscription c subs =
     (let name = sub_prefix c @ ''/subscriptions/'' @ sub_id c @ ''-sub'';
          create = CreateSub (sub_prefix c @ ''/topics/'' @ sub_id c) name
      in case List.find (\<lambda>s. sub_name s = name) subs of
           None \<Rightarrow> [create]
         | Some s \<Rightarrow> if sub_topic s then [UseSub name] else [DeleteSub name, create])"

text \<open>
  \<open>listenToRabbitMQEventQueue\<close>: the requests to the library in their order, and whether messages are
  consumed in the end. The first three are its answers: whether there is a connection, or an error,
  which is logged and ends the attempt.
\<close>

datatype rabbit_step = RabbitConnect "string option" | CreateChannel | AssertQueue string string string | Consume string

definition listenToRabbitMQEventQueue ::
    "string option \<Rightarrow> bool res \<Rightarrow> unit res \<Rightarrow> unit res \<Rightarrow> rabbit_step list \<times> bool" where
  "listenToRabbitMQEventQueue url connect createChannel assertQueue =
     (case connect of
        Inr True \<Rightarrow>
          (case createChannel of
             Inl e \<Rightarrow> ([RabbitConnect url, CreateChannel], False)
           | Inr _ \<Rightarrow>
               (case assertQueue of
                  Inl e \<Rightarrow> ([RabbitConnect url, CreateChannel, AssertQueue ''main_queue'' ''dlx_exchange'' ''dlq_queue''], False)
                | Inr _ \<Rightarrow> ([RabbitConnect url, CreateChannel, AssertQueue ''main_queue'' ''dlx_exchange'' ''dlq_queue'',
                             Consume ''main_queue''], True)))
      | _ \<Rightarrow> ([RabbitConnect url], False))"

text \<open>
  \<open>listenToPubSubEventQueue\<close> takes the subscription and registers the two handlers; it is not awaited
  by its caller, so that an error before that leaves no handler.
\<close>

datatype pubsub_event = OnMessage | OnError

definition listenToPubSubEventQueue :: "ConfigChain \<Rightarrow> subscription list res \<Rightarrow> (sub_action list \<times> pubsub_event list) res" where
  "listenToPubSubEventQueue c subscriptions =
     (case subscriptions of
        Inl e \<Rightarrow> Inl e
      | Inr subs \<Rightarrow> Inr (getOrCreateSubscription c subs, [OnMessage, OnError]))"

section \<open>The history\<close>

definition getHistory :: "'w env \<Rightarrow> ('w, tx_data list) run" where
  "getHistory E =
     try_catch
       (bnd (requestWallet (w_history (wallet E))) (\<lambda>r.
        if http_status r = 200 then ret (payload r) else throw (JsError (show_int (http_status r)))))
       (\<lambda>e. throw (JsError (''Fail to getHistory: '' @ error_string e)))"

definition history_txs :: "'w env \<Rightarrow> int option \<Rightarrow> tx_data list \<Rightarrow> hathor_tx list" where
  "history_txs E since history =
     filter tx_haveCustomData (map (castDataToTx (isAddress (crypto E)))
       (sort_key tx_timestamp
         (filter (\<lambda>h. case since of None \<Rightarrow> False | Some b \<Rightarrow> tx_timestamp h \<ge> b) history)))"

definition processHistory :: "'w env \<Rightarrow> allow_tokens \<Rightarrow> ('w, unit) run" where
  "processHistory E al =
     try_catch
       (bnd (getHistory E) (\<lambda>history.
        bnd (getLastTimestampFromEnv E) (\<lambda>since.
        for_each (\<lambda>tx. try_catch (bnd (sendTokensToEvm E al tx) (\<lambda>_. ret ())) (\<lambda>_. ret ()))
          (history_txs E since history))))
       (\<lambda>_. ret ())"

section \<open>The file of the time stamp\<close>

lemma keeps_record_reverted [steps_intros]: "runs_in (keeps_file path) (record_reverted q tid p)"
  by (auto simp: record_reverted_def runs_in_def keeps_file_def split: option.splits)

lemma keeps_Hathor_reads [steps_intros]:
  "runs_in (keeps_file path) (isTxConfirmed E x)" "runs_in (keeps_file path) (getAddress E i k)"
  "runs_in (keeps_file path) (Hathor_getSideChainTokenAddress E x)"
  "runs_in (keeps_file path) (isTransactionVotedOrProcessed E x y)"
  "runs_in (keeps_file path) (federation_getTransactionId E f p)"
  "runs_in (keeps_file path) (getVoteTransactionABI E p)"
  unfolding Hathor_getSideChainTokenAddress_def isTransactionVotedOrProcessed_def Let_def
  by (intro keeps_same_files steps_intros)+

lemma keeps_Hathor_methods [steps_intros]:
  "runs_in (keeps_file path) (isMultisigAddress E y)"
  "runs_in (keeps_file path) (isAmountAboveMinimumTransferAmount E al b c x amt)"
  "runs_in (keeps_file path) (Hathor_validateTx E x1 x2 x3)"
  "runs_in (keeps_file path) (Hathor_sendEvmNativeTokenProposal E x1 x2 x3)"
  "runs_in (keeps_file path) (Hathor_sendHathorNativeTokenProposal x1 x2 x3)"
proof -
  have b: "runs_in (keeps_file path) (sideTokenByOriginalToken E br c x)" for br c x
    by (intro keeps_same_files steps_intros)
  show "runs_in (keeps_file path) (isMultisigAddress E y)"
    "runs_in (keeps_file path) (isAmountAboveMinimumTransferAmount E al b c x amt)"
    "runs_in (keeps_file path) (Hathor_validateTx E x1 x2 x3)"
    "runs_in (keeps_file path) (Hathor_sendEvmNativeTokenProposal E x1 x2 x3)"
    "runs_in (keeps_file path) (Hathor_sendHathorNativeTokenProposal x1 x2 x3)"
    unfolding isMultisigAddress_def isAmountAboveMinimumTransferAmount_def getMinimumTransferAmount_def
      Hathor_validateTx_def Hathor_sendEvmNativeTokenProposal_def Hathor_sendHathorNativeTokenProposal_def
      proposal_response_def
    by (intro steps_intros b)+
qed

lemma keeps_hathor_vt [steps_intros]:
  "runs_in (keeps_file path) (vt_validateTx (hathor_vt E) x1 x2 x3)"
  "runs_in (keeps_file path) (vt_sendEvmNativeTokenProposal (hathor_vt E) x1 x2 x3)"
  "runs_in (keeps_file path) (vt_sendHathorNativeTokenProposal (hathor_vt E) x1 x2 x3)"
  by (simp_all add: hathor_vt_def keeps_Hathor_methods)

lemma keeps_voteOnEvm:
  assumes "path \<noteq> manuallyCheck E"
  shows "runs_in (keeps_file path) (voteOnEvm E r a tok x o')"
  unfolding voteOnEvm_def new_Federator_def vote_once_def voteTransaction_def
  by (intro steps_intros keeps_sendTransaction assms)+

lemma keeps_HathorBroker_sendTokens:
  assumes "path \<noteq> manuallyCheck E"
  shows "runs_in (keeps_file path) (HathorBroker_sendTokens E i al sender r a tok h)"
  unfolding HathorBroker_sendTokens_def
  by (intro steps_intros keeps_Broker_sendTokens keeps_voteOnEvm assms)+

section \<open>What the service guarantees\<close>

lemma timestamp_not_manual: "storagePath (config E) \<noteq> [] \<Longrightarrow> getLastTimestamp E \<noteq> manuallyCheck E"
  by (simp add: getLastTimestamp_def manuallyCheck_def)

text \<open>What a successful answer went through.\<close>

definition sent_to_evm :: "'w env \<Rightarrow> allow_tokens \<Rightarrow> hathor_tx \<Rightarrow> 'w st \<Rightarrow> bool" where
  "sent_to_evm E al tx s \<longleftrightarrow>
     (\<exists>i s1 s2 d s3 v. new_Broker E s = (Inr i, s1) \<and> isTxConfirmed E (h_tx_id tx) s1 = (Inr True, s2)
        \<and> tx_getCustomTokenData tx = Inr (Some d) \<and> isMultisigAddress E (receiverAddress d) s2 = (Inr True, s3)
        \<and> HathorBroker_sendTokens E i al (senderAddress d) (getCustomData tx) (show_int (amount d))
            (tokenAddress d) (h_tx_id tx) s3 = (Inr (Some True), v))"

lemma sendTokensToEvm_cases:
  assumes "sendTokensToEvm E al tx s = (r, t)" and "storagePath (config E) \<noteq> []"
  shows "files t (getLastTimestamp E) = files s (getLastTimestamp E) \<and> (r = Inr (Some True) \<longrightarrow>
       tx_getCustomTokenData tx = Inr None \<or> h_timestamp tx = 0 \<or> sent_to_evm E al tx s)
    \<or> r = Inr (Some True) \<and> sent_to_evm E al tx s
       \<and> files t (getLastTimestamp E) = Some (show_int (h_timestamp tx))"
proof -
  let ?p = "getLastTimestamp E"
  have m: "?p \<noteq> manuallyCheck E" by (rule timestamp_not_manual [OF assms(2)])
  have keep: "files t ?p = files s ?p" if "runs_in (keeps_file ?p) m" "m s = (r, t)" for m :: "('a, 'b) run" and s r t
    using runs_inD [OF that] by (simp add: keeps_file_def)
  obtain i s1 where i: "new_Broker E s = (Inr i, s1)" and f1: "files s1 = files s"
    by (simp add: new_Broker_def new_TransactionSender_def)
  obtain rc s2 where c: "isTxConfirmed E (h_tx_id tx) s1 = (rc, s2)" by fastforce
  then have f2: "files s2 ?p = files s1 ?p" by (rule keep [OF keeps_Hathor_reads(1)])
  show ?thesis
  proof (cases "rc = Inr True \<and> (\<exists>d. tx_getCustomTokenData tx = Inr (Some d))")
    case False
    then have "t = s2 \<and> (r = Inr (Some True) \<longrightarrow> tx_getCustomTokenData tx = Inr None)"
      using assms(1) i c
      by (auto simp: sendTokensToEvm_def bnd_def split: sum.splits option.splits if_splits)
    with f1 f2 show ?thesis by simp
  next
    case True
    then obtain d where rc: "rc = Inr True" and d: "tx_getCustomTokenData tx = Inr (Some d)" by blast
    obtain rm s3 where ma: "isMultisigAddress E (receiverAddress d) s2 = (rm, s3)" by fastforce
    then have f3: "files s3 ?p = files s2 ?p" by (rule keep [OF keeps_Hathor_methods(1)])
    obtain rh s4 where h: "HathorBroker_sendTokens E i al (senderAddress d) (getCustomData tx)
        (show_int (amount d)) (tokenAddress d) (h_tx_id tx) s3 = (rh, s4)" by fastforce
    then have f4: "files s4 ?p = files s3 ?p" by (rule keep [OF keeps_HathorBroker_sendTokens [OF m]])
    have "rm = Inr True \<Longrightarrow> rh = Inr (Some True) \<Longrightarrow> sent_to_evm E al tx s"
      unfolding sent_to_evm_def using i c rc d ma h by blast
    then show ?thesis
      using assms(1) i c rc d ma h f1 f2 f3 f4
      by (auto simp: sendTokensToEvm_def bnd_def saveProgress_def split: sum.splits option.splits if_splits)
  qed
qed

text \<open>
  C27: the time stamp the history resumes from only follows success: after a transaction was
  handled, the file is as before, or the broker answered true for this very transaction and the
  file holds its time stamp.
\<close>
theorem timestamp_follows_success:
  assumes "sendTokensToEvm E al tx s = (r, t)" and "storagePath (config E) \<noteq> []"
  shows "files t (getLastTimestamp E) = files s (getLastTimestamp E)
    \<or> r = Inr (Some True) \<and> sent_to_evm E al tx s
       \<and> files t (getLastTimestamp E) = Some (show_int (h_timestamp tx))"
  using sendTokensToEvm_cases [OF assms] by blast

lemma rabbitConsume_tx:
  assumes "ev_type e = Some ''wallet:new-tx''" and "tx = castDataToTx (isAddress (crypto E)) (ev_data e)"
    and "tx_haveCustomData tx"
  shows "rabbitConsume E al (Some (Inr e)) s =
    (case sendTokensToEvm E al tx s of
       (Inr b, t) \<Rightarrow> (Inr (if b = Some True then Ack else Reject), t)
     | (Inl err, t) \<Rightarrow>
         (Inr (if is_hathor_exception err \<and> isNonRetriableError (original_message err) then Ack else Reject), t))"
proof -
  have "parseHathorLogs E al e = sendTokensToEvm E al tx"
    using assms by (simp add: parseHathorLogs_def)
  then show ?thesis
    by (simp add: rabbitConsume_def consume_def try_catch_def bnd_def split: prod.splits sum.splits)
qed


text \<open>
  An unconfirmed transaction is put aside untouched: the message is rejected, no request is
  issued and no file is written.
\<close>
theorem unconfirmed_is_rejected:
  assumes "ev_type e = Some ''wallet:new-tx''" and "tx = castDataToTx (isAddress (crypto E)) (ev_data e)"
    and "tx_haveCustomData tx" and "new_Broker E s = (Inr i, s1)"
    and "isTxConfirmed E (h_tx_id tx) s1 = (Inr False, s2)"
  shows "fst (rabbitConsume E al (Some (Inr e)) s) = Inr Reject
    \<and> trace (snd (rabbitConsume E al (Some (Inr e)) s)) = trace s
    \<and> files (snd (rabbitConsume E al (Some (Inr e)) s)) = files s"
proof -
  have "sendTokensToEvm E al tx s = (Inr (Some False), s2)"
    using assms(4,5) by (simp add: sendTokensToEvm_def bnd_def)
  then have "rabbitConsume E al (Some (Inr e)) s = (Inr Reject, s2)"
    by (simp add: rabbitConsume_tx [OF assms(1-3)])
  moreover have "trace s1 = trace s" "files s1 = files s"
    using assms(4) by (auto simp: new_Broker_def new_TransactionSender_def)
  moreover have "trace s2 = trace s1" using quiet_trace [OF quiet_wallet_reads(3) assms(5)] .
  moreover have "files s2 = files s1"
    using runs_inD [OF quiet_wallet_reads(4) assms(5)] by (simp add: same_files_def)
  ultimately show ?thesis by simp
qed

text \<open>
  Reading the history never fails, and what it resends is exactly the transactions with an EVM
  destination at or after the saved time stamp, oldest first; one that fails does not keep the
  others from being sent. Without a number to resume from nothing is sent.
\<close>
theorem history_resends_in_order:
  shows "fst (processHistory E al s) = Inr ()
    \<and> history_txs E None hs = []
    \<and> sorted (map h_timestamp (history_txs E (Some b) hs))
    \<and> set (history_txs E (Some b) hs)
        = {castDataToTx (isAddress (crypto E)) h |h. h \<in> set hs \<and> b \<le> tx_timestamp h
             \<and> tx_haveCustomData (castDataToTx (isAddress (crypto E)) h)}"
proof -
  have 1: "fst (processHistory E al s) = Inr ()"
    by (simp add: processHistory_def try_catch_def split: prod.splits sum.splits)
  have 2: "h_timestamp \<circ> castDataToTx f = tx_timestamp" for f
    by (auto simp: castDataToTx_def fun_eq_iff)
  have 3: "sorted (map h_timestamp (filter P xs))" if "sorted (map h_timestamp xs)" for P and xs :: "hathor_tx list"
    using that by (rule sorted_filter)
  have "sorted (map h_timestamp (history_txs E (Some b) hs))"
    unfolding history_txs_def by (rule 3) (simp add: 2)
  moreover have "history_txs E None hs = []" by (simp add: history_txs_def)
  ultimately show ?thesis using 1 by (auto simp: history_txs_def)
qed

text \<open>
  A transaction older than the last success is lost to the history: once the file holds the
  time stamp of a success, whatever happened to an older transaction (its message may have been
  rejected), reading the history after that does not send it.
\<close>
theorem older_history_skipped:
  assumes "files s (getLastTimestamp E) = Some (show_int n)" and "0 \<le> n" and "n < 2 ^ 53"
    and "tx_timestamp h < n"
  shows "\<exists>b. getLastTimestampFromEnv E s = (Inr (Some b), s)
    \<and> castDataToTx f h \<notin> set (history_txs E (Some b) hs)"
proof -
  obtain k where k: "n = int k" using assms(2) nonneg_int_cases by blast
  have "parse_int (show_int n) = Some n"
    using assms(3) parse_int_show_nat [of k] by (simp add: k show_int_def js_double_exact)
  then have "\<exists>b. getLastTimestampFromEnv E s = (Inr (Some b), s) \<and> n \<le> b"
    using assms(1) by (auto simp: getLastTimestampFromEnv_def last_block_def bnd_def read_file_def try_catch_def)
  then obtain b where b: "getLastTimestampFromEnv E s = (Inr (Some b), s)" "n \<le> b" by blast
  have "castDataToTx f h \<notin> set (history_txs E (Some b) hs)"
  proof
    assume "castDataToTx f h \<in> set (history_txs E (Some b) hs)"
    then obtain h' where h': "b \<le> tx_timestamp h'" "h_timestamp (castDataToTx f h) = h_timestamp (castDataToTx (isAddress (crypto E)) h')"
      by (auto simp: history_txs_def)
    then show False using assms(4) b(2) by (simp add: castDataToTx_def)
  qed
  with b(1) show ?thesis by blast
qed


section \<open>Witnesses\<close>

text \<open>A wallet transaction whose only output is the data script of an address.\<close>

definition sample_address :: bytes where
  "sample_address = [0x30, 0x78, 0x72]"

definition data_tx :: tx_data where
  "data_tx =
     \<lparr>tx_id = ''w'', tx_version = 1, tx_timestamp = 50, is_voided = False, tx_inputs = [],
      tx_outputs = [\<lparr>o_value = 1, o_token_data = 0, o_script = base64_encode (data_script sample_address),
        o_decoded = \<lparr>d_type = None, d_address = None, d_timelock = NullTimelock\<rparr>,
        o_token = Some ''00'', o_spent_by = None, o_mine = Some False\<rparr>]\<rparr>"

definition data_event :: hathor_event where
  "data_event = \<lparr>ev_type = Some ''wallet:new-tx'', ev_data = data_tx\<rparr>"

abbreviation data_htx :: hathor_tx where
  "data_htx \<equiv> castDataToTx (isAddress (crypto sample_env)) data_tx"

lemma sample_address_chars: "byte_chars [0x30, 0x78, 0x72] = ''0xr''"
  by code_simp

lemma data_tx_has_data: "tx_haveCustomData data_htx"
proof -
  have "decodeScript (isAddress sample_crypto) (base64_encode (data_script sample_address))
      = (Some (byte_chars sample_address), True)"
    using parse_data_script_lemma [of sample_address] sample_address_chars
    by (simp add: decodeScript_def base64_roundtrip CustomUtxoData_def sample_crypto_def sample_address_def
        starts_with_def)
  then show ?thesis
    by (simp add: tx_haveCustomData_def castDataToTx_def data_tx_def HathorUtxo_def sample_env_def)
qed

lemma data_tx_no_token: "tx_getCustomTokenData data_htx = Inr None"
  by (simp add: tx_getCustomTokenData_def castDataToTx_def data_tx_def HathorUtxo_def Let_def
      split: prod.splits)

lemma sample_storage: "storagePath (config sample_env) \<noteq> []"
  by (simp add: sample_env_def sample_config_def)

lemma sample_confirmed: "isTxConfirmed sample_env h s = (Inr True, s\<lparr>world := Suc (world s)\<rparr>)"
  by (simp add: isTxConfirmed_def getTransactionConfirmation_def requestWallet_def failed_def chainConfig_def
      sample_simps js_double_exact answer_def ext_call_def bnd_def try_catch_def)

theorem timestamp_follows_success_witness:
  "files (snd (sendTokensToEvm sample_env sample_allow data_htx sample_state)) (getLastTimestamp sample_env)
     \<in> {None, Some (show_int (h_timestamp data_htx))}"
  using timestamp_follows_success [OF prod.collapse [symmetric] sample_storage, of sample_allow data_htx sample_state]
  by (auto simp: sample_state_def)

lemma sample_ack: "fst (rabbitConsume sample_env sample_allow (Some (Inr data_event)) sample_state) = Inr Ack"
proof -
  have "fst (sendTokensToEvm sample_env sample_allow data_htx sample_state) = Inr (Some True)"
    by (simp add: sendTokensToEvm_def new_Broker_def new_TransactionSender_def bnd_def sample_confirmed data_tx_no_token)
  then show ?thesis
    using rabbitConsume_tx [of data_event data_htx sample_env sample_allow sample_state] data_tx_has_data
    by (simp add: data_event_def split: prod.splits sum.splits)
qed


definition unconfirmed_env :: "nat env" where
  "unconfirmed_env = sample_env\<lparr>wallet := sample_wallet\<lparr>w_confirmations := (\<lambda>t. answer (ok_response 2))\<rparr>\<rparr>"

theorem unconfirmed_is_rejected_witness:
  "fst (rabbitConsume unconfirmed_env sample_allow (Some (Inr data_event)) sample_state) = Inr Reject"
proof -
  have e: "ev_type data_event = Some ''wallet:new-tx''"
    "data_htx = castDataToTx (isAddress (crypto unconfirmed_env)) (ev_data data_event)"
    by (simp_all add: data_event_def unconfirmed_env_def)
  have n: "new_Broker unconfirmed_env sample_state
      = (Inr 0, snd (new_Broker unconfirmed_env sample_state))"
    by (simp add: new_Broker_def new_TransactionSender_def sample_state_def)
  have c: "isTxConfirmed unconfirmed_env (h_tx_id data_htx) s = (Inr False, s\<lparr>world := Suc (world s)\<rparr>)" for s
    by (simp add: isTxConfirmed_def getTransactionConfirmation_def requestWallet_def failed_def chainConfig_def
        unconfirmed_env_def sample_simps js_double_exact answer_def ext_call_def bnd_def try_catch_def)
  from unconfirmed_is_rejected [OF e data_tx_has_data n c] show ?thesis by simp
qed

theorem older_history_skipped_witness:
  "\<exists>b. castDataToTx (isAddress (crypto sample_env)) data_tx \<notin> set (history_txs sample_env (Some b) [data_tx])"
proof -
  have f: "files (sample_state\<lparr>files := (\<lambda>p. Some (show_int 100))\<rparr>) (getLastTimestamp sample_env) = Some (show_int 100)"
    by simp
  have t: "tx_timestamp data_tx < 100" by (simp add: data_tx_def)
  from older_history_skipped [OF f _ _ t] show ?thesis by auto
qed


end
