(* ===== verification/MultisigManager.thy ===== *)
theory MultisigManager
  imports HathorService
begin

text \<open>
  \<open>lib/HathorMultisigManager.ts\<close> and \<open>lib/HathorFederationLogsReader.ts\<close>: following the events of the
  Hathor federation contract. New blocks are read page by page and batch by batch, first for the
  inputs to lock, then for proposals, signatures and failures, each of which makes the broker of
  its transfer take the next step. The batch size is the only one the manager passes, 450. The
  step after a sent melt is not awaited by the code; the model runs it to its end at that point.
\<close>

section \<open>One event\<close>

text \<open>The numbers of \<open>TransactionTypes\<close>.\<close>

fun type_number :: "tx_type \<Rightarrow> int" where
  "type_number MELT = 0"
| "type_number MINT = 1"
| "type_number TRANSFER = 2"
| "type_number RETURN = 3"

text \<open>Only a melt names a Hathor token; the others name a padded EVM address.\<close>

definition plain_token :: "'w env \<Rightarrow> fed_event \<Rightarrow> fed_event res" where
  "plain_token E e =
     (if fe_transactionType e \<noteq> type_number MELT
      then (case hf_getAddress E (fe_originalTokenAddress e) of
              Inl x \<Rightarrow> Inl x | Inr a \<Rightarrow> Inr (e\<lparr>fe_originalTokenAddress := a\<rparr>))
      else Inr e)"

definition handleProposalSigned :: "'w env \<Rightarrow> fed_event \<Rightarrow> fed_event res" where
  "handleProposalSigned E e = plain_token E e"

definition handleProposalSent :: "'w env \<Rightarrow> fed_event \<Rightarrow> fed_event res" where
  "handleProposalSent E e = plain_token E e"

definition handleTransactionFailed :: "'w env \<Rightarrow> fed_event \<Rightarrow> fed_event res" where
  "handleTransactionFailed E e = plain_token E e"

definition handleTransactionProposed :: "'w env \<Rightarrow> fed_event \<Rightarrow> fed_event res" where
  "handleTransactionProposed E e =
     (case plain_token E e of Inl x \<Rightarrow> Inl x
      | Inr e' \<Rightarrow> Inr (e'\<lparr>fe_txHex := js_substring_from (fe_txHex e') 2\<rparr>))"

text \<open>The broker of the transfer's type takes the next step; another type has no broker.\<close>

definition resume :: "'w env \<Rightarrow> allow_tokens \<Rightarrow> fed_event \<Rightarrow> ('w, unit) run" where
  "resume E al r =
     (if fe_transactionType r = type_number MINT \<or> fe_transactionType r = type_number TRANSFER then
        bnd (new_Broker E) (\<lambda>i.
        bnd (EvmBroker_sendTokens E i (Some (fe_sender r)) (fe_receiver r) (show_int (fe_value r))
               (fe_originalTokenAddress r) (fe_transactionHash r)) (\<lambda>_. ret ()))
      else if fe_transactionType r = type_number MELT then
        bnd (new_Broker E) (\<lambda>i.
        bnd (HathorBroker_sendTokens E i al (Some (fe_sender r)) (fe_receiver r) (show_int (fe_value r))
               (fe_originalTokenAddress r) (fe_transactionHash r)) (\<lambda>_. ret ()))
      else throw JsTypeError)"

definition after_sent :: "'w env \<Rightarrow> fed_event \<Rightarrow> ('w, unit) run" where
  "after_sent E r =
     (if fe_transactionType r = type_number MELT then
        bnd (new_Broker E) (\<lambda>_.
        detach (postProcessing E (Some (fe_sender r)) (fe_receiver r) (show_int (fe_value r))
          (fe_originalTokenAddress r) (fe_transactionHash r)))
      else ret ())"

definition handleEvent :: "'w env \<Rightarrow> allow_tokens \<Rightarrow> fed_event raw_event \<Rightarrow> ('w, unit) run" where
  "handleEvent E al ev =
     (case ev of
        EvString _ \<Rightarrow> ret ()
      | EvLog e \<Rightarrow>
          if fe_event e = ''ProposalSigned'' then
            bnd (lift_res (handleProposalSigned E e)) (resume E al)
          else if fe_event e = ''ProposalSent'' then
            bnd (lift_res (handleProposalSent E e)) (after_sent E)
          else if fe_event e = ''TransactionFailed'' then
            bnd (lift_res (handleTransactionFailed E e)) (resume E al)
          else if fe_event e = ''TransactionProposed'' then
            bnd (lift_res (handleTransactionProposed E e)) (resume E al)
          else ret ())"

definition handleLockEvent :: "'w env \<Rightarrow> fed_event raw_event \<Rightarrow> ('w, unit) run" where
  "handleLockEvent E ev =
     (case ev of
        EvString _ \<Rightarrow> throw JsTypeError
      | EvLog e \<Rightarrow>
          bnd (new_Broker E) (\<lambda>_.
          bnd (hathorLockProposalInputs E (js_substring_from (fe_txHex e) 2)) (\<lambda>_. ret ())))"

section \<open>Batches\<close>

text \<open>A batch that fails is reported and left; the next one goes on.\<close>

definition events_batch :: "'w env \<Rightarrow> allow_tokens \<Rightarrow> int \<Rightarrow> int \<Rightarrow> ('w, unit) run" where
  "events_batch E al a b =
     try_catch (bnd (ext_call (hf_allEvents (hfed E) a b)) (for_each (handleEvent E al))) (\<lambda>_. ret ())"

definition lock_batch :: "'w env \<Rightarrow> int \<Rightarrow> int \<Rightarrow> ('w, unit) run" where
  "lock_batch E a b =
     try_catch (bnd (ext_call (hf_lockEvents (hfed E) a b)) (for_each (handleLockEvent E))) (\<lambda>_. ret ())"

function fetchEventsInBatches :: "'w env \<Rightarrow> allow_tokens \<Rightarrow> int \<Rightarrow> int \<Rightarrow> ('w, unit) run" where
  "fetchEventsInBatches E al currentBlock endBlock =
     (if currentBlock \<le> endBlock then
        bnd (events_batch E al currentBlock (min (currentBlock + recordsPerPage - 1) endBlock)) (\<lambda>_.
        fetchEventsInBatches E al (currentBlock + recordsPerPage) endBlock)
      else ret ())"
  by pat_completeness auto
termination
  by (relation "measure (\<lambda>(_, _, c, e). nat (e + 1 - c))") (auto simp: recordsPerPage_def)

function fetchLockEventsInBatches :: "'w env \<Rightarrow> int \<Rightarrow> int \<Rightarrow> ('w, unit) run" where
  "fetchLockEventsInBatches E currentBlock endBlock =
     (if currentBlock \<le> endBlock then
        bnd (lock_batch E currentBlock (min (currentBlock + recordsPerPage - 1) endBlock)) (\<lambda>_.
        fetchLockEventsInBatches E (currentBlock + recordsPerPage) endBlock)
      else ret ())"
  by pat_completeness auto
termination
  by (relation "measure (\<lambda>(_, c, e). nat (e + 1 - c))") (auto simp: recordsPerPage_def)

declare fetchEventsInBatches.simps [simp del] fetchLockEventsInBatches.simps [simp del]

section \<open>The manager\<close>

text \<open>\<open>runFetchEvents\<close> with either of the reader's two methods: the next page's first block.\<close>

definition runFetchEvents :: "(int \<Rightarrow> int \<Rightarrow> ('w, unit) run) \<Rightarrow> int \<Rightarrow> int \<Rightarrow> ('w, int) run" where
  "runFetchEvents fetch fromPageBlock toPagedBlock =
     bnd (fetch fromPageBlock toPagedBlock) (\<lambda>_. ret (toPagedBlock + 1))"

function fetch_pages ::
  "(int \<Rightarrow> int \<Rightarrow> ('w, unit) run) \<Rightarrow> int \<Rightarrow> int \<Rightarrow> int \<Rightarrow> int \<Rightarrow> ('w, int) run" where
  "fetch_pages fetch lastBlock currentPage n fromPageBlock =
     (if currentPage \<le> n then
        bnd (runFetchEvents fetch fromPageBlock
               (if currentPage = n then lastBlock else fromPageBlock + recordsPerPage - 1)) (\<lambda>next_block.
        fetch_pages fetch lastBlock (currentPage + 1) n next_block)
      else ret fromPageBlock)"
  by pat_completeness auto
termination
  by (relation "measure (\<lambda>(_, _, c, n, _). nat (n + 1 - c))") auto

declare fetch_pages.simps [simp del]

text \<open>
  The blocks may be NaN, when no comparison holds and there is no page. The lock events of the
  last page are read up to the current block.
\<close>

definition hmm_getLogsAndProcess :: "'w env \<Rightarrow> int \<Rightarrow> int option \<Rightarrow> int option \<Rightarrow> ('w, unit) run" where
  "hmm_getLogsAndProcess E currentBlock first_block last_block' =
     (case (first_block, last_block') of
        (Some f, Some t) \<Rightarrow>
          if f \<ge> t then ret ()
          else
            bnd (AllowTokensFactory_createInstance (mainchain (config E))) (\<lambda>al.
            bnd (fetch_pages (fetchLockEventsInBatches E) currentBlock 1 (numberOfPages f t) f) (\<lambda>_.
            bnd (fetch_pages (fetchEventsInBatches E al) t 1 (numberOfPages f t) f) (\<lambda>_.
            ret ())))
      | _ \<Rightarrow> bnd (AllowTokensFactory_createInstance (mainchain (config E))) (\<lambda>_. ret ()))"

definition HMM_ORIGIN :: string where "HMM_ORIGIN = ''hmm''"

definition env_number :: "string option \<Rightarrow> int option" where
  "env_number v = (case v of None \<Rightarrow> None | Some x \<Rightarrow> parse_int x)"

definition hmm_path :: "'w env \<Rightarrow> string" where
  "hmm_path E = getLastBlockPath E (env_number (FEDERATION_CHAIN_ID (penv E))) HTR_SIDE_CHAIN HMM_ORIGIN"

definition HathorMultisigManager_run :: "'w env \<Rightarrow> nat \<Rightarrow> ConfigChain \<Rightarrow> ('w, bool) run" where
  "HathorMultisigManager_run E i sideChainConfig =
     (let h = HATHOR_STATE_CONTRACT_HOST_URL (penv E);
          mainChainId = env_number (FEDERATION_CHAIN_ID (penv E))
      in bnd (ext_call (getBlockNumber (rpc E) h)) (\<lambda>currentBlock.
         bnd (ext_call (isSyncing (rpc E) h)) (\<lambda>syncing.
         if syncing then ret False
         else
           (let toBlock = map_option (\<lambda>k. currentBlock - k) (env_number (FEDERATION_CONFIRMATION_BLOCKS (penv E)))
            in if (case toBlock of None \<Rightarrow> False | Some t \<Rightarrow> t \<le> 0) then ret False
               else
                 bnd (getLastBlockFromEnv E mainChainId HTR_SIDE_CHAIN HMM_ORIGIN) (\<lambda>last.
                 if (case toBlock of None \<Rightarrow> False | Some t \<Rightarrow> nan_ge last t) then ret False
                 else
                   bnd (hmm_getLogsAndProcess E currentBlock (map_option (\<lambda>b. b + 1) last) toBlock) (\<lambda>_.
                   bnd (inc HtrRun) (\<lambda>_.
                   bnd (case toBlock of None \<Rightarrow> ret () | Some t \<Rightarrow> saveProgress (hmm_path E) t) (\<lambda>_.
                   ret True))))))))"

section \<open>Which blocks are read\<close>

function batches :: "int \<Rightarrow> int \<Rightarrow> (int \<times> int) list" where
  "batches a b =
     (if a \<le> b then (a, min (a + recordsPerPage - 1) b) # batches (a + recordsPerPage) b else [])"
  by pat_completeness auto
termination
  by (relation "measure (\<lambda>(c, e). nat (e + 1 - c))") (auto simp: recordsPerPage_def)

declare batches.simps [simp del]

lemma fetchEvents_for_each:
  "fetchEventsInBatches E al a b = for_each (\<lambda>(x, y). events_batch E al x y) (batches a b)"
proof (induction E al a b rule: fetchEventsInBatches.induct)
  case (1 E al a b)
  then show ?case
    by (cases "a \<le> b") (simp_all add: fetchEventsInBatches.simps [of E al a b] batches.simps [of a b])
qed

lemma fetchLockEvents_for_each:
  "fetchLockEventsInBatches E a b = for_each (\<lambda>(x, y). lock_batch E x y) (batches a b)"
proof (induction E a b rule: fetchLockEventsInBatches.induct)
  case (1 E a b)
  then show ?case
    by (cases "a \<le> b") (simp_all add: fetchLockEventsInBatches.simps [of E a b] batches.simps [of a b])
qed

lemma batches_cover: "concat (map (\<lambda>(x, y). [x..y]) (batches a b)) = [a..b]"
proof (induction a b rule: batches.induct)
  case (1 a b)
  show ?case
  proof (cases "a \<le> b")
    case False
    then show ?thesis by (simp add: batches.simps [of a b])
  next
    case True
    note IH = 1 [OF True]
    show ?thesis
    proof (cases "a + recordsPerPage \<le> b")
      case True
      moreover have "0 < recordsPerPage" by (simp add: recordsPerPage_def)
      ultimately have "[a..b] = [a..a + recordsPerPage - 1] @ [a + recordsPerPage..b]"
        using upto_split2 [of a "a + recordsPerPage - 1" b] by simp
      then show ?thesis using True \<open>a \<le> b\<close> IH by (simp add: batches.simps [of a b] add.commute)
    next
      case False
      then show ?thesis
        using \<open>a \<le> b\<close> by (simp add: batches.simps [of a b] batches.simps [of "a + recordsPerPage" b])
    qed
  qed
qed

lemma fetch_pages_for_each:
  "fetch_pages fetch lb c n f = bnd (for_each (\<lambda>(a, b). fetch a b) (pages lb c n f))
     (\<lambda>_. ret (if c \<le> n then lb + 1 else f))"
proof (induction fetch lb c n f rule: fetch_pages.induct)
  case (1 fetch lb c n f)
  show ?case
  proof (cases "c \<le> n")
    case False
    then show ?thesis by (simp add: fetch_pages.simps [of fetch lb c n f] pages.simps [of lb c n f])
  next
    case True
    let ?t = "if c = n then lb else f + recordsPerPage - 1"
    have "fetch_pages fetch lb c n f = bnd (fetch f ?t) (\<lambda>_. fetch_pages fetch lb (c + 1) n (?t + 1))"
      using True by (simp add: fetch_pages.simps [of fetch lb c n f] runFetchEvents_def bnd_assoc)
    also have "\<dots> = bnd (fetch f ?t) (\<lambda>_. bnd (for_each (\<lambda>(a, b). fetch a b) (pages lb (c + 1) n (?t + 1)))
        (\<lambda>_. ret (lb + 1)))"
      unfolding 1 [OF True, of "?t + 1"] using True by (cases "c = n") simp_all
    finally show ?thesis
      using True by (simp add: pages.simps [of lb c n f] Let_def bnd_assoc del: ret_run)
  qed
qed

lemma for_each_concat: "for_each g (concat xss) = for_each (for_each g) xss"
  by (induction xss) (simp_all add: for_each_append)

lemma for_each_map: "for_each g (map h xs) = for_each (\<lambda>x. g (h x)) xs"
  by (induction xs) simp_all

text \<open>The batches of one pass over the pages.\<close>

definition pass_batches :: "int \<Rightarrow> int \<Rightarrow> int \<Rightarrow> (int \<times> int) list" where
  "pass_batches lb f t = concat (map (\<lambda>(a, b). batches a b) (pages lb 1 (numberOfPages f t) f))"

lemma pass_events:
  "bnd (fetch_pages (fetchEventsInBatches E al) lb 1 (numberOfPages f t) f) (\<lambda>_. k)
     = bnd (for_each (\<lambda>(x, y). events_batch E al x y) (pass_batches lb f t)) (\<lambda>_. k)"
  by (simp add: fetch_pages_for_each fetchEvents_for_each pass_batches_def for_each_concat for_each_map
      bnd_assoc split_def)

lemma pass_locks:
  "bnd (fetch_pages (fetchLockEventsInBatches E) lb 1 (numberOfPages f t) f) (\<lambda>_. k)
     = bnd (for_each (\<lambda>(x, y). lock_batch E x y) (pass_batches lb f t)) (\<lambda>_. k)"
  by (simp add: fetch_pages_for_each fetchLockEvents_for_each pass_batches_def for_each_concat for_each_map
      bnd_assoc split_def)

lemma pages_cover_beyond:
  assumes "f < t" and "t \<le> lb"
  shows "concat (map (\<lambda>(a, b). [a..b]) (pages lb 1 (numberOfPages f t) f)) = [f..lb]"
proof (rule pages_concat [OF numberOfPages_bounds(1) [OF assms(1)]])
  show "(numberOfPages f t - 1) * recordsPerPage < lb - f"
    using numberOfPages_bounds(2) [OF assms(1)] assms(2) by simp
qed simp

section \<open>What the manager guarantees\<close>

lemma pass_batches_cover:
  assumes "f < t" and "t \<le> lb"
  shows "concat (map (\<lambda>(x, y). [x..y]) (pass_batches lb f t)) = [f..lb]"
proof -
  have "concat (map (\<lambda>(x, y). [x..y]) (concat (map (\<lambda>(a, b). batches a b) ps)))
      = concat (map (\<lambda>(a, b). [a..b]) ps)" for ps
    by (induction ps) (auto simp: batches_cover)
  with pages_cover_beyond [OF assms] show ?thesis by (simp add: pass_batches_def)
qed

text \<open>
  C29: each pass of the manager reads every block once. With at least two new blocks it first reads
  the lock events in consecutive batches from the first new block to the current one, then all
  events in consecutive batches from the first new block to the last confirmed one.
\<close>
theorem manager_covers_blocks:
  assumes "f < t" and "t \<le> currentBlock"
  shows "hmm_getLogsAndProcess E currentBlock (Some f) (Some t) =
      bnd (AllowTokensFactory_createInstance (mainchain (config E))) (\<lambda>al.
      bnd (for_each (\<lambda>(x, y). lock_batch E x y) (pass_batches currentBlock f t)) (\<lambda>_.
      bnd (for_each (\<lambda>(x, y). events_batch E al x y) (pass_batches t f t)) (\<lambda>_.
      ret ())))
    \<and> concat (map (\<lambda>(x, y). [x..y]) (pass_batches currentBlock f t)) = [f..currentBlock]
    \<and> concat (map (\<lambda>(x, y). [x..y]) (pass_batches t f t)) = [f..t]"
  using assms pass_batches_cover [OF assms] pass_batches_cover [OF assms(1), of t]
  by (simp add: hmm_getLogsAndProcess_def pass_events pass_locks)

theorem manager_covers_blocks_witness:
  "concat (map (\<lambda>(x, y). [x..y]) (pass_batches 1010 1 1000)) = [1..1010]"
  using manager_covers_blocks [of 1 1000 1010 sample_env] by simp

text \<open>
  A single new block is never read. When exactly one confirmed block follows the saved one, the
  run reports true and saves that block as processed, having asked the contract for no event at
  all: the only calls made are the ones for the block number and the sync state.
\<close>
theorem single_block_skipped:
  assumes "getBlockNumber (rpc E) (HATHOR_STATE_CONTRACT_HOST_URL (penv E)) (world s) = (Inr cur, w1)"
    and "isSyncing (rpc E) (HATHOR_STATE_CONTRACT_HOST_URL (penv E)) w1 = (Inr False, w2)"
    and "env_number (FEDERATION_CONFIRMATION_BLOCKS (penv E)) = Some k" and "0 < cur - k"
    and "getLastBlockFromEnv E (env_number (FEDERATION_CHAIN_ID (penv E))) HTR_SIDE_CHAIN HMM_ORIGIN (s\<lparr>world := w2\<rparr>)
      = (Inr (Some (cur - k - 1)), s\<lparr>world := w2\<rparr>)"
  shows "HathorMultisigManager_run E i c s =
    (Inr True, s\<lparr>world := w2, metrics := (metrics s)(HtrRun := Suc (metrics s HtrRun)),
       files := (files s)(hmm_path E := Some (show_int (cur - k)))\<rparr>)"
  using assms
  by (simp add: HathorMultisigManager_run_def ext_call_def bnd_def Let_def nan_ge_def hmm_getLogsAndProcess_def
      saveProgress_def)

text \<open>A loop whose every step returns, returns.\<close>

lemma for_each_returns:
  assumes "\<And>x s. fst (f x s) = Inr ()"
  shows "fst (for_each f xs s) = Inr ()"
proof (induction xs arbitrary: s)
  case Nil
  then show ?case by simp
next
  case (Cons x xs)
  obtain t where "f x s = (Inr (), t)" using assms [of x s] by (metis prod.collapse)
  then show ?case using Cons by simp
qed

lemma batches_return:
  "fst (for_each (\<lambda>(x, y). events_batch E al x y) xs s) = Inr ()"
  "fst (for_each (\<lambda>(x, y). lock_batch E x y) xs s) = Inr ()"
  by (rule for_each_returns;
      simp add: events_batch_def lock_batch_def try_catch_def split_def split: prod.splits sum.splits)+

lemma hmm_getLogsAndProcess_returns:
  "fst (hmm_getLogsAndProcess E cur (Some f) (Some t) s) = Inr ()"
proof (cases "f < t")
  case False
  then show ?thesis by (simp add: hmm_getLogsAndProcess_def)
next
  case True
  obtain al s1 where a: "AllowTokensFactory_createInstance (mainchain (config E)) s = (Inr al, s1)"
    by (simp add: AllowTokensFactory_createInstance_def)
  obtain s2 where l: "for_each (\<lambda>(x, y). lock_batch E x y) (pass_batches cur f t) s1 = (Inr (), s2)"
    using batches_return(2) by (metis prod.collapse)
  obtain s3 where e: "for_each (\<lambda>(x, y). events_batch E al x y) (pass_batches t f t) s2 = (Inr (), s3)"
    using batches_return(1) by (metis prod.collapse)
  show ?thesis
    using True a l e by (simp add: hmm_getLogsAndProcess_def pass_events pass_locks)
qed


definition is_lock :: "event \<Rightarrow> bool" where
  "is_lock e = (case e of WalletReq (LockInputs _ _) \<Rightarrow> True | _ \<Rightarrow> False)"

text \<open>
  The first pass only locks: reading the lock events issues no request but the one to the
  wallet that locks a proposal's inputs.
\<close>
theorem lock_pass_only_locks:
  assumes "fetchLockEventsInBatches E a b s = (r, t)"
  shows "emits is_lock s t \<and> r = Inr ()"
proof -
  have "runs_in (emits is_lock) (hathorLockProposalInputs E x)" for x
    unfolding hathorLockProposalInputs_def by (intro steps_intros) (simp add: is_lock_def)
  then have "runs_in (emits is_lock) (handleLockEvent E ev)" for ev
    unfolding handleLockEvent_def new_Broker_def by (cases ev) (simp_all, (intro steps_intros)+)
  then have "runs_in (emits is_lock) (for_each (\<lambda>(x, y). lock_batch E x y) (batches a b))"
    unfolding lock_batch_def by (intro steps_intros)
  then show ?thesis
    using assms batches_return(2) [of E "batches a b" s] runs_inD
    by (fastforce simp: fetchLockEvents_for_each)
qed

section \<open>Witnesses\<close>

text \<open>The state contract's chain is at block 1000; 999 has been processed, or 500.\<close>

definition saved_state :: "int \<Rightarrow> nat st" where
  "saved_state n = sample_state\<lparr>files := (\<lambda>p. Some (show_int n))\<rparr>"

lemma parse_zero: "parse_int ''0'' = Some 0"
proof -
  have "show_nat 0 = ''0''" by code_simp
  then show ?thesis using parse_int_show_nat [of 0] by (simp add: js_double_exact)
qed

lemma saved_block:
  assumes "0 \<le> n" and "n < 2 ^ 53"
  shows "getLastBlockFromEnv sample_env m HTR_SIDE_CHAIN HMM_ORIGIN ((saved_state n)\<lparr>world := w\<rparr>)
    = (Inr (Some n), (saved_state n)\<lparr>world := w\<rparr>)"
proof -
  obtain k where k: "n = int k" using assms(1) nonneg_int_cases by blast
  have "parse_int (show_int n) = Some n"
    using assms(2) parse_int_show_nat [of k] by (simp add: k show_int_def js_double_exact)
  then show ?thesis
    using assms(1) parse_zero
    by (simp add: getLastBlockFromEnv_def last_block_def read_file_def bnd_def saved_state_def sample_simps)
qed

lemma sample_confirmation_blocks: "env_number (FEDERATION_CONFIRMATION_BLOCKS (penv sample_env)) = Some 0"
  using parse_zero by (simp add: env_number_def sample_simps)

lemma sample_node:
  "getBlockNumber (rpc sample_env) h 0 = (Inr 1000, 1)" "isSyncing (rpc sample_env) h 1 = (Inr False, 2)"
  by (simp_all add: sample_simps answer_def)

theorem single_block_skipped_witness:
  "files (snd (HathorMultisigManager_run sample_env 0 sample_chain (saved_state 999))) (hmm_path sample_env)
    = Some (show_int 1000)"
  using single_block_skipped [of sample_env "saved_state 999" 1000 1 2 0 0 sample_chain]
    sample_node sample_confirmation_blocks saved_block [of 999]
  by (simp add: saved_state_def sample_state_def)


theorem lock_pass_only_locks_witness:
  "emits is_lock sample_state (snd (fetchLockEventsInBatches sample_env 1 1000 sample_state))"
  using lock_pass_only_locks [OF prod.collapse [symmetric], where E = sample_env and a = 1 and b = 1000
      and s = sample_state] by simp

end
