(* ===== verification/Service.thy ===== *)
theory Service
  imports MultisigManager
begin

text \<open>
  \<open>services/Scheduler.ts\<close> and \<open>main.ts\<close>: the polling scheduler as a state machine, and the processes
  the federator starts once its wallets are ready. The HTTP endpoint and the signal handlers are
  not modelled; timers are the step \<open>Fire\<close>, the end of a poll is \<open>Done\<close> or \<open>Failed\<close>.
\<close>

section \<open>The scheduler\<close>

record scheduler =
  pollingInterval :: int
  sc_running :: bool
  sc_timer :: bool
  sc_inflight :: nat
  sc_polls :: nat

definition DEFAULT_POLLING_INTERVAL_MS :: int where
  "DEFAULT_POLLING_INTERVAL_MS = 1000 * 60 * 60"

definition new_Scheduler :: "int option \<Rightarrow> scheduler" where
  "new_Scheduler iv =
     \<lparr>pollingInterval = (case iv of None \<Rightarrow> DEFAULT_POLLING_INTERVAL_MS | Some i \<Rightarrow> i),
      sc_running = False, sc_timer = False, sc_inflight = 0, sc_polls = 0\<rparr>"

text \<open>\<open>poll\<close> up to the service's run, and the two ways that run ends.\<close>

definition poll :: "scheduler \<Rightarrow> scheduler" where
  "poll s =
     (if sc_running s
      then s\<lparr>sc_timer := False, sc_inflight := Suc (sc_inflight s), sc_polls := Suc (sc_polls s)\<rparr>
      else s)"

definition poll_done :: "scheduler \<Rightarrow> scheduler" where
  "poll_done s = s\<lparr>sc_inflight := sc_inflight s - 1, sc_timer := True\<rparr>"

definition poll_failed :: "scheduler \<Rightarrow> scheduler" where
  "poll_failed s = s\<lparr>sc_inflight := sc_inflight s - 1\<rparr>"

definition start_scheduler :: "scheduler \<Rightarrow> scheduler res" where
  "start_scheduler s =
     (if sc_running s then Inl (JsError ''scheduler service already started'')
      else Inr (poll (s\<lparr>sc_running := True\<rparr>)))"

definition stop :: "scheduler \<Rightarrow> scheduler" where
  "stop s = (if sc_running s then s\<lparr>sc_timer := False\<rparr> else s)"

datatype sched_label = Start | Fire | Done | Failed | Stop

inductive sched_step :: "scheduler \<Rightarrow> sched_label \<Rightarrow> scheduler \<Rightarrow> bool" where
  start: "start_scheduler s = Inr t \<Longrightarrow> sched_step s Start t"
| start_again: "start_scheduler s = Inl e \<Longrightarrow> sched_step s Start s"
| fire: "sc_timer s \<Longrightarrow> sched_step s Fire (poll s)"
| ended: "0 < sc_inflight s \<Longrightarrow> sched_step s Done (poll_done s)"
| failed: "0 < sc_inflight s \<Longrightarrow> sched_step s Failed (poll_failed s)"
| stop: "sched_step s Stop (stop s)"

inductive sched_run :: "scheduler \<Rightarrow> sched_label list \<Rightarrow> scheduler \<Rightarrow> bool" where
  none: "sched_run s [] s"
| more: "sched_step s l t \<Longrightarrow> sched_run t ls u \<Longrightarrow> sched_run s (l # ls) u"

inductive_cases sched_stepE: "sched_step s l t"
inductive_simps sched_run_simps: "sched_run s [] u" "sched_run s (l # ls) u"

lemmas sched_defs = start_scheduler_def poll_def poll_done_def poll_failed_def stop_def

lemma sched_step_one_poll:
  assumes "sched_step s l t" and "sc_inflight s + of_bool (sc_timer s) \<le> 1"
    and "sc_running s \<or> sc_inflight s = 0 \<and> \<not> sc_timer s"
  shows "sc_inflight t + of_bool (sc_timer t) \<le> 1 \<and> (sc_running t \<or> sc_inflight t = 0 \<and> \<not> sc_timer t)"
  using assms by (cases rule: sched_stepE) (auto simp: sched_defs split: if_splits)

lemma sched_run_one_poll:
  assumes "sched_run s ls t" and "sc_inflight s + of_bool (sc_timer s) \<le> 1"
    and "sc_running s \<or> sc_inflight s = 0 \<and> \<not> sc_timer s"
  shows "sc_inflight t + of_bool (sc_timer t) \<le> 1"
  using assms
proof (induction rule: sched_run.induct)
  case (none s)
  then show ?case by simp
next
  case (more s l t ls u)
  from sched_step_one_poll [OF more.hyps(1) more.prems] show ?case by (intro more.IH) auto
qed

text \<open>
  Polls never overlap: whatever starts, stops, timers and results follow each other, a scheduler
  has at most one of a running poll and a timer for the next one.
\<close>
theorem polls_never_overlap:
  assumes "sched_run (new_Scheduler iv) ls t"
  shows "sc_inflight t \<le> 1 \<and> (sc_timer t \<longrightarrow> sc_inflight t = 0)"
  using sched_run_one_poll [OF assms] by (auto simp: new_Scheduler_def of_bool_def split: if_splits)

lemma sample_sched_run:
  "sched_run (new_Scheduler None) [Start, Done, Fire, Stop, Start] (stop (poll (poll_done (poll ((new_Scheduler None)\<lparr>sc_running := True\<rparr>)))))"
proof -
  let ?a = "poll ((new_Scheduler None)\<lparr>sc_running := True\<rparr>)"
  have "sched_step (new_Scheduler None) Start ?a"
    by (rule sched_step.start) (simp add: start_scheduler_def new_Scheduler_def)
  moreover have "sched_step ?a Done (poll_done ?a)"
    by (rule sched_step.ended) (simp add: poll_def)
  moreover have "sched_step (poll_done ?a) Fire (poll (poll_done ?a))"
    by (rule sched_step.fire) (simp add: poll_done_def)
  moreover have "sched_step (poll (poll_done ?a)) Stop (stop (poll (poll_done ?a)))"
    by (rule sched_step.stop)
  moreover have "sched_step (stop (poll (poll_done ?a))) Start (stop (poll (poll_done ?a)))"
    by (rule sched_step.start_again) (simp add: sched_defs)
  ultimately show ?thesis by (auto simp: sched_run_simps)
qed

theorem polls_never_overlap_witness:
  "sc_inflight (stop (poll (poll_done (poll ((new_Scheduler None)\<lparr>sc_running := True\<rparr>))))) \<le> 1"
  using polls_never_overlap [OF sample_sched_run] by simp

lemma stopped_for_good:
  assumes "sched_run s ls t" and "sc_running s" and "\<not> sc_timer s" and "sc_inflight s = 0"
  shows "sc_polls t = sc_polls s \<and> sc_running t"
  using assms
proof (induction rule: sched_run.induct)
  case (none s)
  then show ?case by simp
next
  case (more s l t ls u)
  then have "sc_polls t = sc_polls s \<and> sc_running t \<and> \<not> sc_timer t \<and> sc_inflight t = 0"
    by (cases rule: sched_stepE) (auto simp: sched_defs)
  then show ?case using more.IH by simp
qed

text \<open>
  What stopping does. Stopped between two polls, a scheduler never polls again and cannot be
  started again either, since it still counts as running. Stopped while a poll is in flight, it
  goes on: when that poll ends a timer is set, and the next poll follows.
\<close>
theorem stop_semantics:
  assumes "sc_running s"
  shows "(sc_inflight s = 0 \<longrightarrow> sched_run (stop s) ls t \<longrightarrow> sc_polls t = sc_polls s \<and> sc_running t)
    \<and> (0 < sc_inflight s \<longrightarrow> (\<exists>t. sched_run s [Stop, Done, Fire] t \<and> sc_polls t = Suc (sc_polls s)))"
proof (intro conjI impI)
  assume "sc_inflight s = 0" "sched_run (stop s) ls t"
  then show "sc_polls t = sc_polls s" "sc_running t"
    using stopped_for_good [of "stop s" ls t] assms by (auto simp: stop_def)
next
  assume i: "0 < sc_inflight s"
  have "sched_step s Stop (stop s)" by (rule sched_step.stop)
  moreover have "sched_step (stop s) Done (poll_done (stop s))"
    using i assms by (intro sched_step.ended) (simp add: stop_def)
  moreover have "sched_step (poll_done (stop s)) Fire (poll (poll_done (stop s)))"
    by (rule sched_step.fire) (simp add: poll_done_def)
  ultimately have "sched_run s [Stop, Done, Fire] (poll (poll_done (stop s)))"
    by (auto simp: sched_run_simps)
  moreover have "sc_polls (poll (poll_done (stop s))) = Suc (sc_polls s)"
    using assms by (simp add: sched_defs)
  ultimately show "\<exists>t. sched_run s [Stop, Done, Fire] t \<and> sc_polls t = Suc (sc_polls s)" by blast
qed

theorem stop_semantics_witness:
  "\<exists>t. sched_run (poll ((new_Scheduler None)\<lparr>sc_running := True\<rparr>)) [Stop, Done, Fire] t \<and> sc_polls t = 2"
proof -
  have "sc_running (poll ((new_Scheduler None)\<lparr>sc_running := True\<rparr>))" by (simp add: poll_def)
  from stop_semantics [OF this, of "[]"] show ?thesis by (simp add: poll_def new_Scheduler_def numeral_2_eq_2)
qed

section \<open>The main process\<close>

datatype process = ListenToHathor | FederatorProcess | HathorFederationProcess

text \<open>The processes started at once; none means waiting for the wallets' event.\<close>

definition main_start :: "'w env \<Rightarrow> ('w, process list) run" where
  "main_start E =
     bnd (areWalletsReady E) (\<lambda>(ready, emitter).
     if ready = Some True then ret [ListenToHathor, FederatorProcess, HathorFederationProcess]
     else if emitter then ret []
     else throw JsTypeError)"

text \<open>The service listens with the AllowTokens instance made here.\<close>

definition listenToHathorTransactions :: "'w env \<Rightarrow> ('w, allow_tokens \<times> queue) run" where
  "listenToHathorTransactions E =
     bnd (AllowTokensFactory_createInstance (mainchain (config E))) (\<lambda>al.
     bnd (new_TransactionSender (host (mainchain (config E)))) (\<lambda>_.
     bnd (processHistory E al) (\<lambda>_.
     ret (al, listenToEventQueue (chainConfig E)))))"

definition federatorPollingInterval :: "ConfigData \<Rightarrow> int" where
  "federatorPollingInterval c = runEvery c * 1000 * 60"

definition runFederator :: "'w env \<Rightarrow> 'w st \<Rightarrow> (bool \<times> 'w st) option" where
  "runFederator E s = runAll E (FederatorHTR_run E) s"

definition runHathorFederation :: "'w env \<Rightarrow> 'w st \<Rightarrow> (bool \<times> 'w st) option" where
  "runHathorFederation E s = runAll E (HathorMultisigManager_run E) s"

definition other_chain_config :: "ConfigData \<Rightarrow> ConfigChain \<Rightarrow> ConfigData" where
  "other_chain_config c side = c\<lparr>mainchain := side, sidechain := [mainchain c]\<rparr>"

lemma FederatorHTR_run_syncing:
  assumes "\<And>w. \<exists>n v. getBlockNumber (rpc E) (host (mainchain (config E))) w = (Inr n, v)"
    and "\<And>w. \<exists>n v. netId (rpc E) (host (mainchain (config E))) w = (Inr n, v)"
    and "\<And>w. \<exists>v. isSyncing (rpc E) (host (mainchain (config E))) w = (Inr True, v)"
  shows "\<exists>t. FederatorHTR_run E i c s = (Inr False, t)"
proof -
  obtain n v where 1: "ext_call (getBlockNumber (rpc E) (host (mainchain (config E)))) s = (Inr n, v)"
    using assms(1) [of "world s"] by (auto simp: ext_call_def)
  obtain m u where 2: "getCurrentChainId E v = (Inr m, u)"
    using assms(2) [of "world v"] by (cases "currentChainId v") (auto simp: getCurrentChainId_def bnd_def ext_call_def)
  obtain w where 3: "ext_call (isSyncing (rpc E) (host (mainchain (config E)))) u = (Inr True, w)"
    using assms(3) [of "world u"] by (auto simp: ext_call_def)
  from 1 2 3 show ?thesis by (simp add: FederatorHTR_run_def Let_def bnd_def)
qed

text \<open>
  C31: a node that stays out of sync hangs the federator's process. The run reports false, which the
  outer loop repeats at once and without limit: as long as the node answers that it is syncing,
  one poll of the scheduler never returns, so no later poll is ever set.
\<close>
theorem syncing_node_hangs:
  assumes "\<And>w. \<exists>n v. getBlockNumber (rpc E) (host (mainchain (config E))) w = (Inr n, v)"
    and "\<And>w. \<exists>n v. netId (rpc E) (host (mainchain (config E))) w = (Inr n, v)"
    and "\<And>w. \<exists>v. isSyncing (rpc E) (host (mainchain (config E))) w = (Inr True, v)"
    and "0 < federatorRetries (config E)" and "sidechain (config E) \<noteq> []"
  shows "runFederator E s = None"
proof -
  obtain c cs where c: "sidechain (config E) = c # cs" using assms(5) by (cases "sidechain (config E)") auto
  have "run_until_success (FederatorHTR_run E i c) u = None" for i u
    by (rule run_until_success_diverges) (rule FederatorHTR_run_syncing [OF assms(1-3)])
  then show ?thesis
    using assms(4) by (simp add: runFederator_def runAll_def c runAll_chain_def new_TransactionSender_def)
qed

theorem syncing_node_hangs_witness: "runFederator syncing_env sample_state = None"
  by (rule syncing_node_hangs) (simp_all add: syncing_env_def sample_simps answer_def)

text \<open>
  Nothing runs before the wallets do: the processes are started only when the multisig wallet
  is recorded ready.
\<close>
theorem starts_when_ready:
  assumes "main_start E s = (Inr ps, t)" and "ps \<noteq> []"
  shows "\<exists>w. wallets t ''multisig'' = Some w \<and> w_ready w"
proof -
  obtain b where "areWalletsReady E s = (Inr (Some True, b), t)"
    using assms by (auto simp: main_start_def bnd_eq_Inr_iff split: if_splits)
  then show ?thesis
    using isReady_True [of E True 1 s t]
    by (auto simp: areWalletsReady_def bnd_eq_Inr_iff split: option.splits if_splits)
qed

theorem starts_when_ready_witness:
  "\<exists>w. wallets (snd (main_start sample_env (sample_state\<lparr>wallets :=
       [''multisig'' \<mapsto> \<lparr>w_ready = True, w_lastCheck = 0\<rparr>]\<rparr>))) ''multisig'' = Some w \<and> w_ready w"
proof -
  let ?s = "sample_state\<lparr>wallets := [''multisig'' \<mapsto> \<lparr>w_ready = True, w_lastCheck = 0\<rparr>]\<rparr>"
  have "main_start sample_env ?s = (Inr [ListenToHathor, FederatorProcess, HathorFederationProcess], ?s)"
    by (simp add: main_start_def areWalletsReady_def sample_env_def sample_rpc_def sample_state_def bnd_def)
  then show ?thesis using starts_when_ready [of sample_env ?s _ ?s] by simp
qed

end
