(* ===== verification/Protocol.thy ===== *)
theory Protocol
  imports HathorBroker
begin

text \<open>
  The federation's protocol, stated apart from the code: what the state contract records about one
  transfer, and when a member may propose, sign or report a push. Every step of either broker
  obeys it, so a federation whose members run this code keeps the protocol's invariants although
  its contract need not check anything. The contract is not part of the repository: how it answers
  and what it records are hypotheses (\<open>reflects\<close>, \<open>contract_laws\<close>).
\<close>

section \<open>The protocol\<close>

record tstatus =
  ts_proposed :: bool
  ts_signers :: "string list"
  ts_processed :: bool

definition fresh :: tstatus where
  "fresh = \<lparr>ts_proposed = False, ts_signers = [], ts_processed = False\<rparr>"

text \<open>Whether member \<open>me\<close> may send a call when the contract records \<open>a\<close>; \<open>k\<close> signatures are needed.\<close>

fun enabled :: "nat \<Rightarrow> string \<Rightarrow> tstatus \<Rightarrow> abi_call \<Rightarrow> bool" where
  "enabled k me a (SendTransactionProposal _ _ _ _ _ _ _) = (\<not> ts_processed a \<and> \<not> ts_proposed a)"
| "enabled k me a (UpdateSignatureState _ _ _ _ _ _ _ _) =
     (\<not> ts_processed a \<and> ts_proposed a \<and> me \<notin> set (ts_signers a))"
| "enabled k me a (UpdateTransactionState _ _ _ _ _ _ _ _) =
     (\<not> ts_processed a \<and> me \<in> set (ts_signers a) \<and> k \<le> length (ts_signers a))"
| "enabled k me a _ = False"

fun call_of :: "event \<Rightarrow> abi_call option" where
  "call_of (SignedTx _ tx) = Some (rt_data tx)"
| "call_of (PersonalTx _ tx) = Some (rt_data tx)"
| "call_of (EtherscanBroadcast _) = None"
| "call_of (WalletReq _) = None"

definition guarded :: "nat \<Rightarrow> string \<Rightarrow> tstatus \<Rightarrow> event \<Rightarrow> bool" where
  "guarded k me a e = (case call_of e of None \<Rightarrow> True | Some c \<Rightarrow> enabled k me a c)"

text \<open>The contract answers the member's questions about transfer \<open>tid\<close> according to \<open>a\<close>.\<close>

definition reflects :: "'w env \<Rightarrow> string \<Rightarrow> string \<Rightarrow> tstatus \<Rightarrow> bool" where
  "reflects E tid me a \<longleftrightarrow>
     (\<forall>u. (\<exists>v. isProcessed E tid u = (Inr (ts_processed a), v))
        \<and> (\<exists>v. isSigned E tid (Some me) u = (Inr (me \<in> set (ts_signers a)), v))
        \<and> (\<exists>v. isProposed E tid u = (Inr (ts_proposed a), v))
        \<and> (\<exists>v. getSignatureCount E tid u = (Inr (int (length (ts_signers a))), v)))"

text \<open>A member's environment: its address, the threshold, and a contract that answers for \<open>a\<close>.\<close>

definition member_env :: "nat \<Rightarrow> transfer \<Rightarrow> string \<Rightarrow> tstatus \<Rightarrow> 'w env \<Rightarrow> bool" where
  "member_env k t me a E \<longleftrightarrow>
     FEDERATOR_ADDRESS (penv E) = Some me
     \<and> HEADLESS_MULTISIG_SEED_DEFAULT_NUM_SIGNATURES (penv E) = Some (show_nat k)
     \<and> (\<forall>s tid u. getTransactionId E (t_token t) (t_hash t) (t_amount t) (t_sender t) (t_receiver t) (t_type t) s
          = (Inr tid, u) \<longrightarrow> reflects E tid me a)"

section \<open>Both brokers obey it\<close>

lemma guarded_wallet [simp]: "guarded k me a (WalletReq q)" "guarded k me a (EtherscanBroadcast x)"
  by (simp_all add: guarded_def)

lemma guardedD: "guarded k me a e \<Longrightarrow> call_of e = Some c \<Longrightarrow> enabled k me a c"
  by (simp add: guarded_def)

lemma guarded_state_tx:
  "state_tx E Q e \<Longrightarrow> (\<And>c. Q c \<Longrightarrow> enabled k me a c) \<Longrightarrow> guarded k me a e"
  by (auto simp: state_tx_def guarded_def split: event.splits)

lemma guarded_signs: "enabled k me a (UpdateSignatureState x1 x2 x3 x4 x5 x6 x7 x8) \<Longrightarrow>
    state_tx E (signs E t g) e \<Longrightarrow> guarded k me a e"
  by (erule guarded_state_tx) (auto simp: signs_def)

lemma guarded_pushes: "enabled k me a (UpdateTransactionState x1 x2 x3 x4 x5 x6 x7 x8) \<Longrightarrow>
    state_tx E (records_push E t ok x) e \<Longrightarrow> guarded k me a e"
  by (erule guarded_state_tx) (auto simp: records_push_def)

lemma guarded_proposes: "enabled k me a (SendTransactionProposal x1 x2 x3 x4 x5 x6 x7) \<Longrightarrow>
    state_tx E (proposes E t) e \<Longrightarrow> guarded k me a e"
  by (erule guarded_state_tx) (auto simp: proposes_def)

lemma guarded_proposal_request: "proposal_request e \<Longrightarrow> guarded k me a e"
  by (cases e) (simp_all add: proposal_request_def)

context broker_methods
begin

lemma pushProposal_guarded:
  assumes "member_env k t me a E" and "reflects E tid me a" and "\<not> ts_processed a"
    and "me \<in> set (ts_signers a)"
  shows "runs_in (emits (guarded k me a)) (pushProposal E i vt t x tid)"
proof (rule runs_inI)
  fix s r s'
  assume run: "pushProposal E i vt t x tid s = (r, s')"
  let ?m = "HEADLESS_MULTISIG_SEED_DEFAULT_NUM_SIGNATURES (penv E)"
  have m: "?m = Some (show_nat k)" using assms(1) by (simp add: member_env_def)
  have ne: "show_nat k \<noteq> []" by simp
  obtain u where c: "getSignatureCount E tid s = (Inr (int (length (ts_signers a))), u)"
    using assms(2) by (auto simp: reflects_def)
  have tr: "trace u = trace s" by (rule quiet_trace [OF quiet_hfed(1) c])
  have b: "bigint_less_string (int (length (ts_signers a))) (show_nat k) = (length (ts_signers a) < k)"
    by (simp add: bigint_less_string_def string_to_bigint_show_nat)
  show "emits (guarded k me a) s s'"
  proof (cases "k \<le> length (ts_signers a)")
    case False
    with run c m b ne have "s' = u" by (simp add: pushProposal_def truthy_string_def)
    with tr show ?thesis by (simp add: emits_same_trace)
  next
    case True
    with assms(3,4) have en: "enabled k me a (UpdateTransactionState [] [] [] None [] MINT True [])" by simp
    have "runs_in (emits (guarded k me a)) (push_validated E i t x tid z)" for z
      by (rule runs_push_validated) (simp_all add: guarded_pushes [OF en])
    then have "runs_in (emits (guarded k me a)) (bnd (vt_validateTx vt x (t_hash t) tid) (\<lambda>valid.
        if \<not> valid then bnd (inc InvalidPushed) (\<lambda>_. throw (HathorException ''Invalid tx'' (StrMsg ''Invalid tx'')))
        else push_validated E i t x tid (show_nat k)))"
      by (intro steps_intros validate_quiet)
    moreover have "bnd (vt_validateTx vt x (t_hash t) tid) (\<lambda>valid.
        if \<not> valid then bnd (inc InvalidPushed) (\<lambda>_. throw (HathorException ''Invalid tx'' (StrMsg ''Invalid tx'')))
        else push_validated E i t x tid (show_nat k)) u = (r, s')"
      using run True c ne b unfolding pushProposal_def Let_def m option.sel bnd_Inr [where m = "getSignatureCount E tid", OF c]
      by (simp add: truthy_string_def)
    ultimately have "emits (guarded k me a) u s'" by (rule runs_inD)
    with tr show ?thesis by (simp add: emits_def)
  qed
qed

lemma signProposal_guarded:
  assumes "\<not> ts_processed a" and "ts_proposed a" and "me \<notin> set (ts_signers a)"
  shows "runs_in (emits (guarded k me a)) (signProposal E i vt t x tid)"
proof -
  have en: "enabled k me a (UpdateSignatureState [] [] [] None [] MINT [] True)" using assms by simp
  have "runs_in (emits (guarded k me a)) (sign_validated E i t x)"
    by (rule runs_sign_validated) (simp_all add: guarded_signs [OF en])
  then show ?thesis unfolding signProposal_def by (intro steps_intros validate_quiet)
qed

lemma propose_guarded:
  assumes "\<not> ts_processed a" and "\<not> ts_proposed a"
  shows "runs_in (emits (guarded k me a))
    (bnd (if b then vt_sendEvmNativeTokenProposal vt x y z else vt_sendHathorNativeTokenProposal vt x y z)
      (\<lambda>h. sendProposal E i vt t h tid))"
proof -
  have en: "enabled k me a (SendTransactionProposal [] [] [] None [] MINT [])" using assms by simp
  have "runs_in (emits (guarded k me a)) (propose_validated E i t h)" for h
    by (rule runs_propose_validated) (simp add: guarded_proposes [OF en])
  then show ?thesis
    unfolding sendProposal_def
    by (intro steps_intros validate_quiet propose_evm propose_htr) (simp_all add: guarded_proposal_request)
qed

lemma sendTokens_guarded:
  assumes "member_env k t me a E" and "Broker_sendTokens E i vt t b s = (r, s')"
  shows "emits (guarded k me a) s s'"
  using assms(2) unfolding Broker_sendTokens_def
proof (cases rule: peel)
  case (quiet P)
  show ?case by (rule quiet_hfed)
next
  case (err e)
  then show ?thesis by (simp add: emits_same_trace)
next
  case (ok tid u)
  have R: "reflects E tid me a" and me: "FEDERATOR_ADDRESS (penv E) = Some me"
    using assms(1) ok(1) by (auto simp: member_env_def)
  obtain u1 where p: "isProcessed E tid u = (Inr (ts_processed a), u1)" using R by (auto simp: reflects_def)
  obtain u2 where g: "isSigned E tid (Some me) u1 = (Inr (me \<in> set (ts_signers a)), u2)"
    using R by (auto simp: reflects_def)
  obtain u3 where q: "isProposed E tid u2 = (Inr (ts_proposed a), u3)" using R by (auto simp: reflects_def)
  have tr: "trace u1 = trace s" "trace u2 = trace s" "trace u3 = trace s"
    using ok(2) quiet_trace [OF quiet_hfed(3) p] quiet_trace [OF quiet_hfed(5) g] quiet_trace [OF quiet_hfed(7) q]
    by simp_all
  have from_state: "emits (guarded k me a) s s'"
    if "runs_in (emits (guarded k me a)) m" "m v = (r, s')" "trace v = trace s" for m :: "('w, bool option) run" and v
    using runs_inD [OF that(1,2)] that(3) by (simp add: emits_def)
  note run = ok(3) [unfolded me bnd_Inr [where m = "isProcessed E tid", OF p]]
  show ?thesis
  proof (cases "ts_processed a")
    case True
    with run tr show ?thesis by (simp add: emits_same_trace)
  next
    case np: False
    note run1 = run [simplified np if_False, unfolded bnd_Inr [where m = "isSigned E tid (Some me)", OF g]]
    show ?thesis
    proof (cases "me \<in> set (ts_signers a)")
      case True
      have "runs_in (emits (guarded k me a)) (bnd (transactionHex E tid) (\<lambda>x. bnd (pushProposal E i vt t x tid)
          (\<lambda>_. ret (Some True))))"
        by (intro steps_intros pushProposal_guarded [OF assms(1) R np True])
      then show ?thesis by (rule from_state [where v = u2]) (use run1 True tr in auto)
    next
      case ns: False
      note run2 = run1 [simplified ns if_False, unfolded bnd_Inr [where m = "isProposed E tid", OF q]]
      show ?thesis
      proof (cases "ts_proposed a")
        case True
        have "runs_in (emits (guarded k me a)) (bnd (transactionHex E tid) (\<lambda>x. bnd (signProposal E i vt t x tid)
            (\<lambda>_. ret (Some True))))"
          by (intro steps_intros signProposal_guarded [OF np True ns])
        then show ?thesis by (rule from_state [where v = u3]) (use run2 True tr in auto)
      next
        case False
        have "runs_in (emits (guarded k me a)) (if case multisigOrder (mainchain (config E)) of None \<Rightarrow> False | Some n \<Rightarrow> n > 1
            then ret (Some True)
            else bnd (if b then vt_sendEvmNativeTokenProposal vt (t_receiver t) (t_amount t) (t_token t)
              else vt_sendHathorNativeTokenProposal vt (t_receiver t) (t_amount t) (t_token t))
              (\<lambda>h. sendProposal E i vt t h tid))"
          by (intro steps_intros propose_guarded [OF np False])
        then show ?thesis by (rule from_state [where v = u3]) (use run2 False tr in auto)
      qed
    qed
  qed
qed

end

lemma brokers_guarded:
  assumes "member_env k t me a E"
    and "Broker_sendTokens E i (evm_vt E) t b s = (r, s') \<or> Broker_sendTokens E i (hathor_vt E) t b s = (r, s')"
  shows "emits (guarded k me a) s s'"
  using assms(2)
proof
  assume "Broker_sendTokens E i (evm_vt E) t b s = (r, s')"
  then show ?thesis by (rule evm.sendTokens_guarded [OF assms(1)])
next
  assume "Broker_sendTokens E i (hathor_vt E) t b s = (r, s')"
  then show ?thesis by (rule hathor.sendTokens_guarded [OF assms(1)])
qed

text \<open>
  C4: both brokers refine the federation's protocol. When the state contract answers this member
  according to what it records about the transfer, every call the member then sends to it is one
  the protocol allows in that situation: proposing only what is new, signing only what is proposed
  and once, reporting a push only as a signer and with enough signatures.
\<close>
theorem brokers_refine_protocol:
  assumes "member_env k t me a E"
    and "Broker_sendTokens E i (evm_vt E) t b s = (r, s') \<or> Broker_sendTokens E i (hathor_vt E) t b s = (r, s')"
  shows "\<exists>es. trace s' = trace s @ es \<and> (\<forall>e \<in> set es. \<forall>c. call_of e = Some c \<longrightarrow> enabled k me a c)"
  using brokers_guarded [OF assms] by (auto simp: emits_def list_all_iff dest: guardedD)

section \<open>A federation of members that run the code\<close>

text \<open>What the contract records for a call of a member.\<close>

definition contract_laws :: "(string \<Rightarrow> abi_call \<Rightarrow> tstatus \<Rightarrow> tstatus) \<Rightarrow> bool" where
  "contract_laws eff \<longleftrightarrow>
     (\<forall>me a x1 x2 x3 x4 x5 x6 x7. eff me (SendTransactionProposal x1 x2 x3 x4 x5 x6 x7) a = a\<lparr>ts_proposed := True\<rparr>)
   \<and> (\<forall>me a x1 x2 x3 x4 x5 x6 x7 x8. eff me (UpdateSignatureState x1 x2 x3 x4 x5 x6 x7 x8) a
        = a\<lparr>ts_signers := ts_signers a @ [me]\<rparr>)
   \<and> (\<forall>me a x1 x2 x3 x4 x5 x6 x7 x8. eff me (UpdateTransactionState x1 x2 x3 x4 x5 x6 x7 x8) a
        = a\<lparr>ts_processed := ts_processed a \<or> x7\<rparr>)"

text \<open>
  What can be recorded: starting fresh, a member whose environment is \<open>Env me a\<close> when the contract
  records \<open>a\<close> takes a step with either broker, and the contract records a call of that step.
\<close>

inductive federation ::
  "(string \<Rightarrow> tstatus \<Rightarrow> 'w env) \<Rightarrow> (string \<Rightarrow> abi_call \<Rightarrow> tstatus \<Rightarrow> tstatus) \<Rightarrow> transfer \<Rightarrow> tstatus \<Rightarrow> bool"
  for Env :: "string \<Rightarrow> tstatus \<Rightarrow> 'w env" and eff :: "string \<Rightarrow> abi_call \<Rightarrow> tstatus \<Rightarrow> tstatus" and t :: transfer
where
  start: "federation Env eff t fresh"
| evm_step: "federation Env eff t a \<Longrightarrow> Broker_sendTokens (Env me a) i (evm_vt (Env me a)) t b s = (r, s')
    \<Longrightarrow> trace s' = trace s @ es \<Longrightarrow> e \<in> set es \<Longrightarrow> call_of e = Some c \<Longrightarrow> federation Env eff t (eff me c a)"
| hathor_step: "federation Env eff t a \<Longrightarrow> Broker_sendTokens (Env me a) i (hathor_vt (Env me a)) t b s = (r, s')
    \<Longrightarrow> trace s' = trace s @ es \<Longrightarrow> e \<in> set es \<Longrightarrow> call_of e = Some c \<Longrightarrow> federation Env eff t (eff me c a)"

definition protocol_inv :: "nat \<Rightarrow> tstatus \<Rightarrow> bool" where
  "protocol_inv k a \<longleftrightarrow> distinct (ts_signers a) \<and> (ts_signers a \<noteq> [] \<longrightarrow> ts_proposed a)
     \<and> (ts_processed a \<longrightarrow> k \<le> length (ts_signers a))"

lemma protocol_inv_step:
  assumes "contract_laws eff" and "enabled k me a c" and "protocol_inv k a"
  shows "protocol_inv k (eff me c a)"
  using assms by (cases c) (auto simp: contract_laws_def protocol_inv_def)

lemma sendTokens_enabled:
  assumes "Broker_sendTokens E i (evm_vt E) t b s = (r, s') \<or> Broker_sendTokens E i (hathor_vt E) t b s = (r, s')"
    and "member_env k t me a E" and "trace s' = trace s @ es" and "e \<in> set es" and "call_of e = Some c"
  shows "enabled k me a c"
  using brokers_guarded [OF assms(2,1)] assms(3-5) by (auto simp: emits_def list_all_iff dest: guardedD)

text \<open>
  C1: the federation is safe by its members' own discipline. However the members' steps follow each
  other, a transfer is recorded as processed only with the signatures of at least \<open>k\<close> different
  members, and nobody's signature is recorded before a proposal; the contract is only assumed to
  record what it is sent.
\<close>
theorem federation_safety:
  assumes "federation Env eff t a" and "contract_laws eff" and "\<And>me a. member_env k t me a (Env me a)"
  shows "distinct (ts_signers a) \<and> (ts_signers a \<noteq> [] \<longrightarrow> ts_proposed a)
    \<and> (ts_processed a \<longrightarrow> k \<le> card (set (ts_signers a)))"
proof -
  have "protocol_inv k a"
    using assms(1)
  proof (induction rule: federation.induct)
    case start
    show ?case by (simp add: protocol_inv_def fresh_def)
  next
    case (evm_step a me i b s r s' es e c)
    then show ?case
      by (intro protocol_inv_step [OF assms(2)]) (use sendTokens_enabled [OF disjI1 assms(3)] in blast)+
  next
    case (hathor_step a me i b s r s' es e c)
    then show ?case
      by (intro protocol_inv_step [OF assms(2)]) (use sendTokens_enabled [OF disjI2 assms(3)] in blast)+
  qed
  then show ?thesis by (simp add: protocol_inv_def distinct_card)
qed

section \<open>A sample federation\<close>

text \<open>Members whose contract answers for the recorded status, and a contract that keeps its laws.\<close>

definition member :: "string \<Rightarrow> tstatus \<Rightarrow> nat env" where
  "member me a = sample_env
     \<lparr>penv := sample_penv\<lparr>FEDERATOR_ADDRESS := Some me\<rparr>,
      hfed := sample_hfed
        \<lparr>hf_isProcessed := (\<lambda>x. answer (ts_processed a)),
         hf_isSigned := (\<lambda>x y. answer (case y of None \<Rightarrow> False | Some m \<Rightarrow> m \<in> set (ts_signers a))),
         hf_isProposed := (\<lambda>x. answer (ts_proposed a)),
         hf_signatureCount := (\<lambda>x. answer (int (length (ts_signers a))))\<rparr>\<rparr>"

definition ledger :: "string \<Rightarrow> abi_call \<Rightarrow> tstatus \<Rightarrow> tstatus" where
  "ledger me c a =
     (case c of
        SendTransactionProposal _ _ _ _ _ _ _ \<Rightarrow> a\<lparr>ts_proposed := True\<rparr>
      | UpdateSignatureState _ _ _ _ _ _ _ _ \<Rightarrow> a\<lparr>ts_signers := ts_signers a @ [me]\<rparr>
      | UpdateTransactionState _ _ _ _ _ _ ok _ \<Rightarrow> a\<lparr>ts_processed := ts_processed a \<or> ok\<rparr>
      | _ \<Rightarrow> a)"

lemma ledger_laws: "contract_laws ledger"
  by (simp add: contract_laws_def ledger_def)

lemma member_member_env: "member_env 2 t me a (member me a)"
  by (simp add: member_env_def member_def reflects_def sample_penv_def show_nat_2 isProcessed_def isSigned_def
      isProposed_def getSignatureCount_def hf_call_def sample_env_def sample_hfed_def)

lemma member_validates:
  "\<exists>w. Evm_validateTx (member me a) x ''0xcross'' ''0xid'' s = (Inr True, s\<lparr>world := w\<rparr>)"
  by (simp add: member_def Evm_validateTx_def decodeTxHex_def requestWallet_def sample_simps answer_def ext_call_def
      try_catch_def bnd_def failed_def bridge_getPastEvents_def find_event_def sample_event_def
      validate_against_def Evm_getSideChainTokenAddress_def EvmToHathorTokenMap_def
      HathorToEvmTokenMap_def getTokenDecimals_def chainConfig_def getDecimals_def sample_check
      sample_amount, blast)

definition round_transfer :: transfer where
  "round_transfer =
     evm_transfer (Some ''0xfrom'') ''Hdest'' (show_int 1530000000000000000) ''0xtoken'' ''0xcross'' True"

lemma member_proposes:
  "\<exists>h tx. trace (snd (propose_validated (member me a) 0 round_transfer x (sample_broker_state\<lparr>trace := [q'], world := w\<rparr>)))
     = [q', SignedTx h tx] \<and> (\<exists>x1 x2 x3 x4 x5 x6 x7. rt_data tx = SendTransactionProposal x1 x2 x3 x4 x5 x6 x7)"
  by (simp add: propose_validated_def getSendTransactionProposalArgs_def member_def
      sample_broker_state_def sample_send_simps)

lemma member_signs:
  "\<exists>q h tx. trace (snd (sign_validated (member me a) 0 round_transfer x (sample_broker_state\<lparr>world := w\<rparr>)))
     = [q, SignedTx h tx] \<and> (\<exists>x1 x2 x3 x4 x5 x6 x7. rt_data tx = UpdateSignatureState x1 x2 x3 x4 x5 x6 x7 True)"
  by (simp add: sign_validated_def getMySignatures_def getUpdateSignatureStateArgs_def member_def
      sample_broker_state_def sample_send_simps)

lemma member_pushes:
  "\<exists>q h tx. trace (snd (push_validated (member me (a\<lparr>ts_signers := [m1, m2]\<rparr>)) 0 round_transfer x ''0xid'' ''2''
     (sample_broker_state\<lparr>world := w\<rparr>)))
     = [q, SignedTx h tx] \<and> (\<exists>x1 x2 x3 x4 x5 x6 x8. rt_data tx = UpdateTransactionState x1 x2 x3 x4 x5 x6 True x8)"
  by (simp add: push_validated_def getSignaturesFromArray_def getSignatureCount_def hf_call_def
      transactionSignatures_def numeral_eq_Suc try_push_def hathorPushProposal_def member_def
      getUpdateTransactionStateArgs_def sample_broker_state_def sample_send_simps)

text \<open>One step of member \<open>me\<close> in the sample, and a call among the requests it issues.\<close>

definition sends :: "string \<Rightarrow> tstatus \<Rightarrow> (abi_call \<Rightarrow> bool) \<Rightarrow> bool" where
  "sends me a Q \<longleftrightarrow> (\<exists>es e c. trace (snd (Broker_sendTokens (member me a) 0 (evm_vt (member me a)) round_transfer True sample_broker_state)) = es
     \<and> e \<in> set es \<and> call_of e = Some c \<and> Q c)"

lemma sends_step:
  assumes "federation member ledger round_transfer a" and "sends me a Q" and "\<And>c. Q c \<Longrightarrow> ledger me c a = a'"
  shows "federation member ledger round_transfer a'"
proof -
  obtain e c where c: "e \<in> set (trace (snd (Broker_sendTokens (member me a) 0 (evm_vt (member me a)) round_transfer True sample_broker_state)))"
    "call_of e = Some c" "Q c" using assms(2) by (auto simp: sends_def)
  have "federation member ledger round_transfer (ledger me c a)"
    by (rule federation.evm_step [where s = sample_broker_state and i = 0 and b = True,
          OF assms(1) prod.collapse [symmetric] _ c(1,2)])
      (simp add: sample_broker_state_def sample_state_def)
  with assms(3) [OF c(3)] show ?thesis by simp
qed

lemma member_reads:
  "getTransactionId (member me a) x1 x2 x3 x4 x5 x6 s = (Inr ''0xid'', s\<lparr>world := Suc (world s)\<rparr>)"
  "isProcessed (member me a) y s = (Inr (ts_processed a), s\<lparr>world := Suc (world s)\<rparr>)"
  "isSigned (member me a) y (FEDERATOR_ADDRESS (penv (member me a))) s
     = (Inr (me \<in> set (ts_signers a)), s\<lparr>world := Suc (world s)\<rparr>)"
  "isProposed (member me a) y s = (Inr (ts_proposed a), s\<lparr>world := Suc (world s)\<rparr>)"
  "transactionHex (member me a) y s = (Inr ''cafe'', s\<lparr>world := Suc (world s)\<rparr>)"
  "getSignatureCount (member me a) y s = (Inr (int (length (ts_signers a))), s\<lparr>world := Suc (world s)\<rparr>)"
  by (simp_all add: member_def getTransactionId_def isProcessed_def isSigned_def isProposed_def transactionHex_def
      getSignatureCount_def hf_call_def js_substring_from_def clamp_index_def sample_simps answer_def ext_call_def try_catch_def bnd_def)

abbreviation broker_step :: "string \<Rightarrow> tstatus \<Rightarrow> (nat, bool option) run" where
  "broker_step me a \<equiv> Broker_sendTokens (member me a) 0 (evm_vt (member me a)) round_transfer True"

lemmas member_bnd =
  bnd_Inr [OF member_reads(1)] bnd_Inr [OF member_reads(2)] bnd_Inr [OF member_reads(3)]
  bnd_Inr [OF member_reads(4)] bnd_Inr [OF member_reads(5)]

lemma member_push:
  assumes "\<not> ts_processed a" and "me \<in> set (ts_signers a)"
  shows "\<exists>w. broker_step me a s = bnd (pushProposal (member me a) 0 (evm_vt (member me a)) round_transfer ''cafe'' ''0xid'')
    (\<lambda>_. ret (Some True)) (s\<lparr>world := w\<rparr>)"
  using assms by (simp add: Broker_sendTokens_def member_bnd) blast

lemma member_sign:
  assumes "\<not> ts_processed a" and "me \<notin> set (ts_signers a)" and "ts_proposed a"
  shows "\<exists>w. broker_step me a s = bnd (signProposal (member me a) 0 (evm_vt (member me a)) round_transfer ''cafe'' ''0xid'')
    (\<lambda>_. ret (Some True)) (s\<lparr>world := w\<rparr>)"
  using assms by (simp add: Broker_sendTokens_def member_bnd) blast

lemma member_makes_proposal:
  "\<exists>w q. Evm_sendEvmNativeTokenProposal (member me a) (t_receiver round_transfer) (t_amount round_transfer)
      (t_token round_transfer) s = (Inr ''beef'', s\<lparr>trace := trace s @ [q], world := w\<rparr>)"
  using sample_amount
  by (simp add: Evm_sendEvmNativeTokenProposal_def round_transfer_def evm_transfer_def getTokenDecimals_def getDecimals_def
        Evm_getSideChainTokenAddress_def EvmToHathorTokenMap_def HathorToEvmTokenMap_def
        wallet_command_def requestWallet_def proposal_response_def failed_def member_def
        sample_simps chainConfig_def answer_def ext_call_def bnd_def try_catch_def Let_def, blast)

lemma member_propose:
  assumes "\<not> ts_processed a" and "me \<notin> set (ts_signers a)" and "\<not> ts_proposed a"
  shows "\<exists>w q. broker_step me a s
    = sendProposal (member me a) 0 (evm_vt (member me a)) round_transfer ''beef'' ''0xid'' (s\<lparr>trace := trace s @ [q], world := w\<rparr>)"
proof -
  have o: "multisigOrder (mainchain (config (member me a))) = Some 1"
    by (simp add: member_def sample_simps)
  have vt: "vt_sendEvmNativeTokenProposal (evm_vt E) = Evm_sendEvmNativeTokenProposal E" for E :: "nat env"
    by (simp add: evm_vt_def)
  obtain w q where m: "Evm_sendEvmNativeTokenProposal (member me a) (t_receiver round_transfer) (t_amount round_transfer)
      (t_token round_transfer) (s\<lparr>world := Suc (Suc (Suc (Suc (world s))))\<rparr>) = (Inr ''beef'', s\<lparr>trace := trace s @ [q], world := w\<rparr>)"
    using member_makes_proposal [of me a "s\<lparr>world := Suc (Suc (Suc (Suc (world s))))\<rparr>"] by auto
  have "broker_step me a s = sendProposal (member me a) 0 (evm_vt (member me a)) round_transfer ''beef'' ''0xid''
      (s\<lparr>trace := trace s @ [q], world := w\<rparr>)"
    using assms by (simp add: Broker_sendTokens_def member_bnd o vt bnd_Inr [where m = "Evm_sendEvmNativeTokenProposal (member me a) (t_receiver round_transfer)
        (t_amount round_transfer) (t_token round_transfer)", OF m])
  then show ?thesis by blast
qed
lemma round_hash [simp]: "t_hash round_transfer = ''0xcross''"
  by (simp add: round_transfer_def evm_transfer_def)

lemma snd_bnd_ret: "snd (bnd m (\<lambda>_. ret x) s) = snd (m s)"
  by (simp add: bnd_def split: prod.splits sum.splits)

lemma sends_proposal:
  assumes "\<not> ts_processed a" and "me \<notin> set (ts_signers a)" and "\<not> ts_proposed a"
  shows "sends me a (\<lambda>c. \<exists>x1 x2 x3 x4 x5 x6 x7. c = SendTransactionProposal x1 x2 x3 x4 x5 x6 x7)"
proof -
  obtain w q where b: "broker_step me a sample_broker_state
    = sendProposal (member me a) 0 (evm_vt (member me a)) round_transfer ''beef'' ''0xid'' (sample_broker_state\<lparr>trace := [q], world := w\<rparr>)"
    using member_propose [OF assms, of sample_broker_state] by (auto simp: sample_broker_state_def sample_state_def)
  obtain w' where "Evm_validateTx (member me a) ''beef'' ''0xcross'' ''0xid'' (sample_broker_state\<lparr>trace := [q], world := w\<rparr>)
      = (Inr True, sample_broker_state\<lparr>trace := [q], world := w'\<rparr>)"
    using member_validates [of me a "''beef''" "sample_broker_state\<lparr>trace := [q], world := w\<rparr>"] by auto
  with b have "broker_step me a sample_broker_state
      = propose_validated (member me a) 0 round_transfer ''beef'' (sample_broker_state\<lparr>trace := [q], world := w'\<rparr>)"
    by (simp add: sendProposal_def)
  with member_proposes [of me a "''beef''" w' q] show ?thesis
    unfolding sends_def by fastforce
qed

lemma sends_signature:
  assumes "\<not> ts_processed a" and "me \<notin> set (ts_signers a)" and "ts_proposed a"
  shows "sends me a (\<lambda>c. \<exists>x1 x2 x3 x4 x5 x6 x7. c = UpdateSignatureState x1 x2 x3 x4 x5 x6 x7 True)"
proof -
  obtain w where b: "broker_step me a sample_broker_state = bnd (signProposal (member me a) 0 (evm_vt (member me a))
      round_transfer ''cafe'' ''0xid'') (\<lambda>_. ret (Some True)) (sample_broker_state\<lparr>world := w\<rparr>)"
    using member_sign [OF assms] by blast
  obtain w' where "Evm_validateTx (member me a) ''cafe'' ''0xcross'' ''0xid'' (sample_broker_state\<lparr>world := w\<rparr>)
      = (Inr True, sample_broker_state\<lparr>world := w'\<rparr>)"
    using member_validates [of me a "''cafe''" "sample_broker_state\<lparr>world := w\<rparr>"] by auto
  with b have "snd (broker_step me a sample_broker_state)
      = snd (sign_validated (member me a) 0 round_transfer ''cafe'' (sample_broker_state\<lparr>world := w'\<rparr>))"
    by (simp add: signProposal_def snd_bnd_ret)
  with member_signs [of me a "''cafe''" w'] show ?thesis
    unfolding sends_def by fastforce
qed

lemma sends_push:
  assumes "\<not> ts_processed a" and "ts_signers a = [m1, m2]" and "me \<in> set (ts_signers a)"
  shows "sends me a (\<lambda>c. \<exists>x1 x2 x3 x4 x5 x6 x8. c = UpdateTransactionState x1 x2 x3 x4 x5 x6 True x8)"
proof -
  obtain w where b: "broker_step me a sample_broker_state = bnd (pushProposal (member me a) 0 (evm_vt (member me a))
      round_transfer ''cafe'' ''0xid'') (\<lambda>_. ret (Some True)) (sample_broker_state\<lparr>world := w\<rparr>)"
    using member_push [OF assms(1,3)] by blast
  obtain w' where "Evm_validateTx (member me a) ''cafe'' ''0xcross'' ''0xid'' (sample_broker_state\<lparr>world := Suc w\<rparr>)
      = (Inr True, sample_broker_state\<lparr>world := w'\<rparr>)"
    using member_validates [of me a "''cafe''" "sample_broker_state\<lparr>world := Suc w\<rparr>"] by auto
  moreover have "getSignatureCount (member me a) ''0xid'' (sample_broker_state\<lparr>world := w\<rparr>)
      = (Inr 2, sample_broker_state\<lparr>world := Suc w\<rparr>)"
    using member_reads(6) [of me a "''0xid''" "sample_broker_state\<lparr>world := w\<rparr>"] assms(2) by simp
  moreover have "HEADLESS_MULTISIG_SEED_DEFAULT_NUM_SIGNATURES (penv (member me a)) = Some ''2''"
    by (simp add: member_def sample_penv_def)
  moreover have "\<not> bigint_less_string 2 ''2''"
    using string_to_bigint_show_nat [of 2] by (simp add: bigint_less_string_def show_nat_2)
  ultimately have "snd (broker_step me a sample_broker_state)
      = snd (push_validated (member me a) 0 round_transfer ''cafe'' ''0xid'' ''2'' (sample_broker_state\<lparr>world := w'\<rparr>))"
    using b by (simp add: pushProposal_def truthy_string_def snd_bnd_ret)
  moreover have "a\<lparr>ts_signers := [m1, m2]\<rparr> = a" using assms(2) by simp
  ultimately show ?thesis
    using member_pushes [where me = me and a = a and ?m1.0 = m1 and ?m2.0 = m2 and x = "''cafe''" and w = w'] unfolding sends_def by fastforce
qed

text \<open>A whole round: the first member proposes, both sign, and the first one pushes.\<close>

definition settled :: tstatus where
  "settled = \<lparr>ts_proposed = True, ts_signers = [''m1'', ''m2''], ts_processed = True\<rparr>"

lemma sample_round: "federation member ledger round_transfer settled"
proof -
  have "federation member ledger round_transfer fresh" by (rule federation.start)
  then have "federation member ledger round_transfer (fresh\<lparr>ts_proposed := True\<rparr>)"
    by (rule sends_step [OF _ sends_proposal]) (auto simp: fresh_def ledger_def)
  then have "federation member ledger round_transfer (fresh\<lparr>ts_proposed := True, ts_signers := [''m1'']\<rparr>)"
    by (rule sends_step [OF _ sends_signature [where me = "''m1''"]]) (auto simp: fresh_def ledger_def)
  then have "federation member ledger round_transfer (fresh\<lparr>ts_proposed := True, ts_signers := [''m1'', ''m2'']\<rparr>)"
    by (rule sends_step [OF _ sends_signature [where me = "''m2''"]]) (auto simp: fresh_def ledger_def)
  then show ?thesis
    by (rule sends_step [OF _ sends_push [where me = "''m1''"]]) (auto simp: fresh_def ledger_def settled_def)
qed

theorem federation_safety_witness:
  "ts_processed settled \<and> 2 \<le> card (set (ts_signers settled))"
  using federation_safety [OF sample_round ledger_laws member_member_env] by (simp add: settled_def)

theorem brokers_refine_protocol_witness:
  "\<exists>c. enabled 2 ''m1'' fresh c"
proof -
  obtain e c where c: "e \<in> set (trace (snd (broker_step ''m1'' fresh sample_broker_state)))" "call_of e = Some c"
    using sends_proposal [of fresh "''m1''"] by (auto simp: sends_def fresh_def)
  have "trace sample_broker_state = []" by (simp add: sample_broker_state_def sample_state_def)
  moreover obtain es where "trace (snd (broker_step ''m1'' fresh sample_broker_state)) = trace sample_broker_state @ es"
    "\<forall>e \<in> set es. \<forall>c. call_of e = Some c \<longrightarrow> enabled 2 ''m1'' fresh c"
    using brokers_refine_protocol [OF member_member_env disjI1 [OF prod.collapse [symmetric]]] by blast
  ultimately show ?thesis using c by auto
qed

end
