(* ===== verification/AllowTokens.thy ===== *)
theory AllowTokens
  imports Prelude
begin

text \<open>
  The contract AllowTokens.sol, whose limits and confirmations the federator reads (infoAndLimits,
  smallAmount, mediumAmount and largeAmount of the environment) and which the deployment scripts
  initialise. \<open>uint256\<close> and \<open>address\<close> are words; the checked additions of Solidity 0.8 and of
  SafeMath are written out. An external call is a computation over the contract's storage whose
  errors are the reverts; \<open>transact\<close> undoes the changes of a call that reverts. The caller and the
  time of the block are the argument \<open>m\<close>. Events are not modelled: nothing in the contract reads
  them.
\<close>

section \<open>Storage\<close>

type_synonym uint256 = "256 word"
type_synonym address = "160 word"

record type_limits =
  l_min :: uint256
  l_max :: uint256
  l_daily :: uint256
  l_mediumAmount :: uint256
  l_largeAmount :: uint256

record token_info =
  ti_allowed :: bool
  ti_typeId :: uint256
  ti_spentToday :: uint256
  ti_lastDay :: uint256

record type_info =
  description :: string
  info_limits :: type_limits

record allow_tokens =
  at_initialized :: bool
  at_owner :: address
  at_primary :: address
  allowedTokens :: "address \<Rightarrow> token_info"
  typeLimits :: "uint256 \<Rightarrow> type_limits"
  smallAmountConfirmations :: uint256
  mediumAmountConfirmations :: uint256
  largeAmountConfirmations :: uint256
  typeDescriptions :: "string list"

record msg =
  msg_sender :: address
  block_timestamp :: uint256

type_synonym 'a sol = "(allow_tokens, 'a) comp"

definition zero_limits :: type_limits where
  "zero_limits = \<lparr>l_min = 0, l_max = 0, l_daily = 0, l_mediumAmount = 0, l_largeAmount = 0\<rparr>"

definition zero_info :: token_info where
  "zero_info = \<lparr>ti_allowed = False, ti_typeId = 0, ti_spentToday = 0, ti_lastDay = 0\<rparr>"

text \<open>The storage of a contract nobody initialised.\<close>

definition blank_allow_tokens :: allow_tokens where
  "blank_allow_tokens =
     \<lparr>at_initialized = False, at_owner = 0, at_primary = 0, allowedTokens = (\<lambda>_. zero_info),
      typeLimits = (\<lambda>_. zero_limits), smallAmountConfirmations = 0, mediumAmountConfirmations = 0,
      largeAmountConfirmations = 0, typeDescriptions = []\<rparr>"

definition require :: "bool \<Rightarrow> string \<Rightarrow> ('s, unit) comp" where
  "require b e = (if b then ret () else throw (JsError e))"

definition transact :: "('s, 'a) comp \<Rightarrow> 's \<Rightarrow> 'a res \<times> 's" where
  "transact c s = (case c s of (Inl e, t) \<Rightarrow> (Inl e, s) | (Inr a, t) \<Rightarrow> (Inr a, t))"

definition MAX_TYPES :: nat where
  "MAX_TYPES = 250"

definition typeCount :: "allow_tokens \<Rightarrow> uint256" where
  "typeCount s = of_nat (length (typeDescriptions s))"

section \<open>Operations\<close>

definition isOwner :: "msg \<Rightarrow> allow_tokens \<Rightarrow> bool" where
  "isOwner m s \<longleftrightarrow> msg_sender m = at_owner s"

definition onlyOwner :: "msg \<Rightarrow> 'a sol \<Rightarrow> 'a sol" where
  "onlyOwner m c = bnd (gets (isOwner m)) (\<lambda>ok.
     bnd (require ok ''Ownable: caller is not the owner'') (\<lambda>_. c))"

definition onlyPrimary :: "msg \<Rightarrow> 'a sol \<Rightarrow> 'a sol" where
  "onlyPrimary m c = bnd (gets at_primary) (\<lambda>p.
     bnd (require (msg_sender m = p) ''Secondary: caller is not the primary account'') (\<lambda>_. c))"

definition transferOwnership :: "msg \<Rightarrow> address \<Rightarrow> unit sol" where
  "transferOwnership m newOwner = onlyOwner m
     (bnd (require (newOwner \<noteq> 0) ''Ownable: new owner is zero address'') (\<lambda>_.
      modify (\<lambda>s. s\<lparr>at_owner := newOwner\<rparr>)))"

definition renounceOwnership :: "msg \<Rightarrow> unit sol" where
  "renounceOwnership m = onlyOwner m (modify (\<lambda>s. s\<lparr>at_owner := 0\<rparr>))"

definition transferPrimary :: "msg \<Rightarrow> address \<Rightarrow> unit sol" where
  "transferPrimary m recipient = onlyPrimary m
     (bnd (require (recipient \<noteq> 0) ''Secondary: new primary is the zero address'') (\<lambda>_.
      modify (\<lambda>s. s\<lparr>at_primary := recipient\<rparr>)))"

definition setConfirmations_body :: "uint256 \<Rightarrow> uint256 \<Rightarrow> uint256 \<Rightarrow> unit sol" where
  "setConfirmations_body sm me la =
     bnd (require (sm \<le> me) ''AllowTokens: small bigger than medium confirmations'') (\<lambda>_.
     bnd (require (me \<le> la) ''AllowTokens: medium bigger than large confirmations'') (\<lambda>_.
     bnd (require (sm > 11) ''AllowTokens: small confirmations lower than 12'') (\<lambda>_.
     bnd (require (me > 11) ''AllowTokens: medium confirmations lower than 12'') (\<lambda>_.
     bnd (require (la > 11) ''AllowTokens: large confirmations lower than 12'') (\<lambda>_.
     bnd (require (sm \<le> 500) ''AllowTokens: small confirmations bigger than 500'') (\<lambda>_.
     bnd (require (me \<le> 750) ''AllowTokens: medium confirmations bigger than 750'') (\<lambda>_.
     bnd (require (la \<le> 1000) ''AllowTokens: large confirmations bigger than 1000'') (\<lambda>_.
     modify (\<lambda>s. s\<lparr>smallAmountConfirmations := sm, mediumAmountConfirmations := me,
                   largeAmountConfirmations := la\<rparr>)))))))))"

definition setConfirmations :: "msg \<Rightarrow> uint256 \<Rightarrow> uint256 \<Rightarrow> uint256 \<Rightarrow> unit sol" where
  "setConfirmations m sm me la = onlyOwner m (setConfirmations_body sm me la)"

definition setTypeLimits_body :: "uint256 \<Rightarrow> type_limits \<Rightarrow> unit sol" where
  "setTypeLimits_body typeId limits =
     bnd (gets typeCount) (\<lambda>n.
     bnd (require (typeId < n) ''AllowTokens: bigger than typeDescriptions'') (\<lambda>_.
     bnd (require (l_max limits \<ge> l_min limits) ''AllowTokens: maxTokens smaller than minTokens'') (\<lambda>_.
     bnd (require (l_daily limits \<ge> l_max limits) ''AllowTokens: dailyLimit smaller than maxTokens'') (\<lambda>_.
     bnd (require (l_mediumAmount limits > l_min limits)
            ''AllowTokens: limits.mediumAmount smaller than min'') (\<lambda>_.
     bnd (require (l_largeAmount limits > l_mediumAmount limits)
            ''AllowTokens: limits.largeAmount smaller than mediumAmount'') (\<lambda>_.
     modify (\<lambda>s. s\<lparr>typeLimits := (typeLimits s)(typeId := limits)\<rparr>)))))))"

definition setTypeLimits :: "msg \<Rightarrow> uint256 \<Rightarrow> type_limits \<Rightarrow> unit sol" where
  "setTypeLimits m typeId limits = onlyOwner m (setTypeLimits_body typeId limits)"

definition addTokenType_body :: "string \<Rightarrow> type_limits \<Rightarrow> uint256 sol" where
  "addTokenType_body desc limits =
     bnd (require (length desc > 0) ''AllowTokens: Empty description'') (\<lambda>_.
     bnd (gets typeCount) (\<lambda>len.
     bnd (require (len + 1 \<le> of_nat MAX_TYPES) ''AllowTokens: Reached MAX_TYPES'') (\<lambda>_.
     bnd (modify (\<lambda>s. s\<lparr>typeDescriptions := typeDescriptions s @ [desc]\<rparr>)) (\<lambda>_.
     bnd (setTypeLimits_body len limits) (\<lambda>_.
     ret len)))))"

definition addTokenType :: "msg \<Rightarrow> string \<Rightarrow> type_limits \<Rightarrow> uint256 sol" where
  "addTokenType m desc limits = onlyOwner m (addTokenType_body desc limits)"

definition tokenInfo :: "allow_tokens \<Rightarrow> address \<Rightarrow> token_info" where
  "tokenInfo s token = allowedTokens s token"

definition setTokenInfoByTokenAddress :: "msg \<Rightarrow> address \<Rightarrow> token_info \<Rightarrow> unit sol" where
  "setTokenInfoByTokenAddress m token info =
     bnd (gets (\<lambda>s. isOwner m s \<or> msg_sender m = at_primary s)) (\<lambda>ok.
     bnd (require ok ''AllowTokens: unauthorized sender'') (\<lambda>_.
     modify (\<lambda>s. s\<lparr>allowedTokens := (allowedTokens s)(token := info)\<rparr>)))"

definition notNull :: "address \<Rightarrow> 'a sol \<Rightarrow> 'a sol" where
  "notNull a c = bnd (require (a \<noteq> 0) ''AllowTokens: Null Address'') (\<lambda>_. c)"

definition setToken :: "msg \<Rightarrow> address \<Rightarrow> uint256 \<Rightarrow> unit sol" where
  "setToken m token typeId = notNull token
     (bnd (gets (\<lambda>s. isOwner m s \<or> msg_sender m = at_primary s)) (\<lambda>ok.
      bnd (require ok ''AllowTokens: unauthorized sender'') (\<lambda>_.
      bnd (gets typeCount) (\<lambda>n.
      bnd (require (typeId < n) ''AllowTokens: typeId does not exist'') (\<lambda>_.
      bnd (gets (\<lambda>s. tokenInfo s token)) (\<lambda>info.
      setTokenInfoByTokenAddress m token (info\<lparr>ti_allowed := True, ti_typeId := typeId\<rparr>)))))))"

definition setMultipleTokens :: "msg \<Rightarrow> (address \<times> uint256) list \<Rightarrow> unit sol" where
  "setMultipleTokens m tokensAndTypes = onlyOwner m
     (bnd (require (length tokensAndTypes > 0) ''AllowTokens: empty tokens'') (\<lambda>_.
      for_each (\<lambda>(token, typeId). setToken m token typeId) tokensAndTypes))"

definition removeAllowedToken :: "msg \<Rightarrow> address \<Rightarrow> unit sol" where
  "removeAllowedToken m token = notNull token (onlyOwner m
     (bnd (gets (\<lambda>s. tokenInfo s token)) (\<lambda>info.
      bnd (require (ti_allowed info) ''AllowTokens: Not Allowed'') (\<lambda>_.
      setTokenInfoByTokenAddress m token (info\<lparr>ti_allowed := False\<rparr>)))))"

definition getInfoAndLimits :: "allow_tokens \<Rightarrow> address \<Rightarrow> token_info \<times> type_limits" where
  "getInfoAndLimits s token =
     (let info = tokenInfo s token in (info, typeLimits s (ti_typeId info)))"

text \<open>\<open>a + b\<close> with the overflow check of Solidity 0.8 and of SafeMath.\<close>

definition checked_add :: "uint256 \<Rightarrow> uint256 \<Rightarrow> ('s, uint256) comp" where
  "checked_add a b = (if a + b < a then throw (JsError ''overflow'') else ret (a + b))"

definition calcMaxWithdraw_body :: "msg \<Rightarrow> token_info \<Rightarrow> type_limits \<Rightarrow> uint256 sol" where
  "calcMaxWithdraw_body m info limits =
     bnd (checked_add (ti_lastDay info) 86400) (\<lambda>until.
     let spent = (if block_timestamp m > until then 0 else ti_spentToday info)
     in if l_daily limits \<le> spent then ret 0
        else let maxWithdraw = l_daily limits - spent
             in ret (if maxWithdraw > l_max limits then l_max limits else maxWithdraw))"

definition calcMaxWithdraw :: "msg \<Rightarrow> address \<Rightarrow> uint256 sol" where
  "calcMaxWithdraw m token =
     bnd (gets (\<lambda>s. getInfoAndLimits s token)) (\<lambda>(info, limits). calcMaxWithdraw_body m info limits)"

definition updateTokenTransfer :: "msg \<Rightarrow> address \<Rightarrow> uint256 \<Rightarrow> unit sol" where
  "updateTokenTransfer m token amount = onlyPrimary m
     (bnd (gets (\<lambda>s. getInfoAndLimits s token)) (\<lambda>(info, limit).
      notNull token
      (bnd (require (ti_allowed info) ''AllowTokens: Not whitelisted'') (\<lambda>_.
       bnd (require (amount \<ge> l_min limit) ''AllowTokens: Lower than limit'') (\<lambda>_.
       bnd (checked_add (ti_lastDay info) 86400) (\<lambda>until.
       let info = (if block_timestamp m > until
                   then info\<lparr>ti_lastDay := block_timestamp m, ti_spentToday := 0\<rparr> else info)
       in bnd (calcMaxWithdraw_body m info limit) (\<lambda>maxWithdraw.
          bnd (require (amount \<le> maxWithdraw) ''AllowTokens: Exceeded limit'') (\<lambda>_.
          bnd (checked_add (ti_spentToday info) amount) (\<lambda>spent.
          setTokenInfoByTokenAddress m token (info\<lparr>ti_spentToday := spent\<rparr>))))))))))"

definition allow_initialize ::
    "address \<Rightarrow> address \<Rightarrow> uint256 \<Rightarrow> uint256 \<Rightarrow> uint256 \<Rightarrow> type_info list \<Rightarrow> unit sol" where
  "allow_initialize manager prim sm me la typesInfo =
     bnd (gets at_initialized) (\<lambda>done.
     bnd (require (\<not> done) ''Contract instance is already initialized'') (\<lambda>_.
     bnd (modify (\<lambda>s. s\<lparr>at_initialized := True, at_owner := manager, at_primary := prim\<rparr>)) (\<lambda>_.
     bnd (setConfirmations_body sm me la) (\<lambda>_.
     for_each (\<lambda>ti. bnd (addTokenType_body (description ti) (info_limits ti)) (\<lambda>_. ret ()))
       typesInfo))))"

text \<open>
  The initialisers of the base contracts are public too. Called from \<open>allow_initialize\<close> they are
  the two assignments written there, since the outer call has set \<open>initializing\<close>.
\<close>

definition owner_initialize :: "address \<Rightarrow> unit sol" where
  "owner_initialize sender =
     bnd (gets at_initialized) (\<lambda>done.
     bnd (require (\<not> done) ''Contract instance is already initialized'') (\<lambda>_.
     modify (\<lambda>s. s\<lparr>at_initialized := True, at_owner := sender\<rparr>)))"

definition secondary_init :: "address \<Rightarrow> unit sol" where
  "secondary_init sender =
     bnd (gets at_initialized) (\<lambda>done.
     bnd (require (\<not> done) ''Contract instance is already initialized'') (\<lambda>_.
     modify (\<lambda>s. s\<lparr>at_initialized := True, at_primary := sender\<rparr>)))"

section \<open>Every transaction the contract accepts\<close>

datatype allow_call =
    TransferOwnership address
  | RenounceOwnership
  | TransferPrimary address
  | SetConfirmations uint256 uint256 uint256
  | SetTypeLimits uint256 type_limits
  | AddTokenType string type_limits
  | SetToken address uint256
  | SetMultipleTokens "(address \<times> uint256) list"
  | RemoveAllowedToken address
  | UpdateTokenTransfer address uint256
  | Initialize address address uint256 uint256 uint256 "type_info list"
  | OwnerInitialize address
  | SecondaryInit address

fun allow_exec :: "msg \<Rightarrow> allow_call \<Rightarrow> unit sol" where
  "allow_exec m (TransferOwnership a) = transferOwnership m a"
| "allow_exec m RenounceOwnership = renounceOwnership m"
| "allow_exec m (TransferPrimary a) = transferPrimary m a"
| "allow_exec m (SetConfirmations sm me la) = setConfirmations m sm me la"
| "allow_exec m (SetTypeLimits i l) = setTypeLimits m i l"
| "allow_exec m (AddTokenType d l) = bnd (addTokenType m d l) (\<lambda>_. ret ())"
| "allow_exec m (SetToken a i) = setToken m a i"
| "allow_exec m (SetMultipleTokens xs) = setMultipleTokens m xs"
| "allow_exec m (RemoveAllowedToken a) = removeAllowedToken m a"
| "allow_exec m (UpdateTokenTransfer a n) = updateTokenTransfer m a n"
| "allow_exec m (Initialize ow pr sm me la ts) = allow_initialize ow pr sm me la ts"
| "allow_exec m (OwnerInitialize a) = owner_initialize a"
| "allow_exec m (SecondaryInit a) = secondary_init a"

inductive allow_reachable :: "allow_tokens \<Rightarrow> bool" where
  deployed: "allow_reachable blank_allow_tokens"
| call: "allow_reachable s \<Longrightarrow> transact (allow_exec m c) s = (r, t) \<Longrightarrow> allow_reachable t"

section \<open>The invariant\<close>

definition limits_ok :: "type_limits \<Rightarrow> bool" where
  "limits_ok l \<longleftrightarrow> l_min l \<le> l_max l \<and> l_max l \<le> l_daily l
     \<and> l_min l < l_mediumAmount l \<and> l_mediumAmount l < l_largeAmount l"

definition confirmations_ok :: "uint256 \<Rightarrow> uint256 \<Rightarrow> uint256 \<Rightarrow> bool" where
  "confirmations_ok sm me la \<longleftrightarrow>
     11 < sm \<and> sm \<le> me \<and> me \<le> la \<and> sm \<le> 500 \<and> me \<le> 750 \<and> la \<le> 1000"

definition allow_inv :: "allow_tokens \<Rightarrow> bool" where
  "allow_inv s \<longleftrightarrow>
     length (typeDescriptions s) \<le> MAX_TYPES \<and> [] \<notin> set (typeDescriptions s)
     \<and> (\<forall>i < typeCount s. limits_ok (typeLimits s i))
     \<and> (\<forall>a. ti_allowed (allowedTokens s a) \<longrightarrow> a \<noteq> 0 \<and> ti_typeId (allowedTokens s a) < typeCount s)
     \<and> (confirmations_ok (smallAmountConfirmations s) (mediumAmountConfirmations s)
           (largeAmountConfirmations s)
        \<or> smallAmountConfirmations s = 0 \<and> mediumAmountConfirmations s = 0
           \<and> largeAmountConfirmations s = 0)"

section \<open>What a successful call does\<close>

lemma require_run [simp, m_simps]:
  "require b e s = (if b then (Inr (), s) else (Inl (JsError e), s))"
  by (simp add: require_def)

lemma onlyOwner_Inr:
  "onlyOwner m c s = (Inr a, t) \<longleftrightarrow> msg_sender m = at_owner s \<and> c s = (Inr a, t)"
  by (auto simp: onlyOwner_def bnd_eq_Inr_iff isOwner_def)

lemma onlyPrimary_Inr:
  "onlyPrimary m c s = (Inr a, t) \<longleftrightarrow> msg_sender m = at_primary s \<and> c s = (Inr a, t)"
  by (auto simp: onlyPrimary_def bnd_eq_Inr_iff)

lemma notNull_Inr: "notNull a c s = (Inr x, t) \<longleftrightarrow> a \<noteq> 0 \<and> c s = (Inr x, t)"
  by (auto simp: notNull_def bnd_eq_Inr_iff)

lemma setConfirmations_body_Inr:
  "setConfirmations_body sm me la s = (Inr (), t) \<longleftrightarrow>
     confirmations_ok sm me la
     \<and> t = s\<lparr>smallAmountConfirmations := sm, mediumAmountConfirmations := me,
            largeAmountConfirmations := la\<rparr>"
  by (auto simp: setConfirmations_body_def bnd_eq_Inr_iff confirmations_ok_def)

lemma setTypeLimits_body_Inr:
  "setTypeLimits_body i l s = (Inr (), t) \<longleftrightarrow>
     i < typeCount s \<and> limits_ok l \<and> t = s\<lparr>typeLimits := (typeLimits s)(i := l)\<rparr>"
  by (auto simp: setTypeLimits_body_def bnd_eq_Inr_iff limits_ok_def)

lemma setToken_Inr:
  "setToken m a i s = (Inr (), t) \<longleftrightarrow>
     a \<noteq> 0 \<and> (msg_sender m = at_owner s \<or> msg_sender m = at_primary s) \<and> i < typeCount s
     \<and> t = s\<lparr>allowedTokens := (allowedTokens s)
              (a := (allowedTokens s a)\<lparr>ti_allowed := True, ti_typeId := i\<rparr>)\<rparr>"
  by (auto simp: setToken_def notNull_Inr bnd_eq_Inr_iff isOwner_def tokenInfo_def
      setTokenInfoByTokenAddress_def)

lemma removeAllowedToken_Inr:
  "removeAllowedToken m a s = (Inr (), t) \<longleftrightarrow>
     a \<noteq> 0 \<and> msg_sender m = at_owner s \<and> ti_allowed (allowedTokens s a)
     \<and> t = s\<lparr>allowedTokens := (allowedTokens s)(a := (allowedTokens s a)\<lparr>ti_allowed := False\<rparr>)\<rparr>"
  by (auto simp: removeAllowedToken_def notNull_Inr onlyOwner_Inr bnd_eq_Inr_iff isOwner_def
      tokenInfo_def setTokenInfoByTokenAddress_def)

lemma unat_small [simp]: "n \<le> 1000 \<Longrightarrow> unat (of_nat n :: uint256) = n"
  by (simp add: unat_of_nat)

lemma typeCount_less:
  "length ds \<le> MAX_TYPES \<Longrightarrow> (i :: uint256) < of_nat (length ds) \<longleftrightarrow> unat i < length ds"
  by (simp add: word_less_nat_alt MAX_TYPES_def)

lemma typeCount_Suc:
  assumes "length ds < MAX_TYPES"
  shows "(i :: uint256) < of_nat (length (ds @ [d])) \<longleftrightarrow> i < of_nat (length ds) \<or> i = of_nat (length ds)"
proof -
  have "(i = of_nat (length ds)) = (unat i = length ds)"
    using assms by (auto simp: MAX_TYPES_def word_unat_eq_iff)
  with assms show ?thesis
    using typeCount_less [of "ds @ [d]" i] typeCount_less [of ds i] by (auto simp: less_Suc_eq)
qed

lemma addTokenType_body_Inr:
  "addTokenType_body d l s = (Inr n, t) \<longleftrightarrow>
     d \<noteq> [] \<and> n = typeCount s \<and> typeCount s + 1 \<le> of_nat MAX_TYPES \<and> limits_ok l
     \<and> typeCount s < of_nat (Suc (length (typeDescriptions s)))
     \<and> t = s\<lparr>typeDescriptions := typeDescriptions s @ [d],
            typeLimits := (typeLimits s)(typeCount s := l)\<rparr>"
  by (auto simp: addTokenType_body_def bnd_eq_Inr_iff setTypeLimits_body_Inr typeCount_def)

text \<open>Under the invariant the number of types is far from the end of the words.\<close>

lemma addTokenType_room:
  assumes "length ds \<le> MAX_TYPES"
  shows "(of_nat (length ds) + 1 :: uint256) \<le> of_nat MAX_TYPES \<longleftrightarrow> length ds < MAX_TYPES"
proof -
  have "of_nat (length ds) + 1 = (of_nat (Suc (length ds)) :: uint256)" by simp
  then show ?thesis
    using assms by (simp add: word_le_nat_alt MAX_TYPES_def Suc_le_eq del: of_nat_Suc)
qed

lemma allow_inv_blank: "allow_inv blank_allow_tokens"
  by (simp add: allow_inv_def blank_allow_tokens_def typeCount_def zero_info_def)

lemma allow_inv_addTokenType:
  assumes inv: "allow_inv s" and r: "addTokenType_body d l s = (Inr n, t)"
  shows "allow_inv t"
proof -
  let ?ds = "typeDescriptions s"
  from r have d: "d \<noteq> []" and l: "limits_ok l"
    and room: "typeCount s + 1 \<le> of_nat MAX_TYPES"
    and t: "t = s\<lparr>typeDescriptions := ?ds @ [d], typeLimits := (typeLimits s)(typeCount s := l)\<rparr>"
    by (auto simp: addTokenType_body_Inr)
  have len: "length ?ds < MAX_TYPES"
    using inv room by (auto simp: allow_inv_def typeCount_def addTokenType_room)
  have count: "i < typeCount t \<longleftrightarrow> i < typeCount s \<or> i = typeCount s" for i
    using typeCount_Suc [OF len, of i d] by (simp add: typeCount_def t)
  have "i < typeCount t \<Longrightarrow> limits_ok (typeLimits t i)" for i
    using inv l unfolding count by (auto simp: allow_inv_def t)
  moreover have "ti_allowed (allowedTokens t a) \<Longrightarrow> a \<noteq> 0 \<and> ti_typeId (allowedTokens t a) < typeCount t" for a
    using inv unfolding count by (auto simp: allow_inv_def t)
  ultimately show ?thesis
    using inv d len by (auto simp: allow_inv_def t)
qed

lemma allow_inv_for_each:
  assumes "allow_inv s" and "for_each f xs s = (Inr (), t)"
    and "\<And>x s t. x \<in> set xs \<Longrightarrow> allow_inv s \<Longrightarrow> f x s = (Inr (), t) \<Longrightarrow> allow_inv t"
  shows "allow_inv t"
  using assms
proof (induction xs arbitrary: s)
  case Nil
  then show ?case by simp
next
  case (Cons x xs)
  from Cons.prems(2) obtain u where u: "f x s = (Inr (), u)" "for_each f xs u = (Inr (), t)"
    by (auto simp: bnd_eq_Inr_iff)
  have "allow_inv u" using Cons.prems(3) [of x s u] Cons.prems(1) u(1) by simp
  then show ?case
    by (rule Cons.IH [OF _ u(2)]) (rule Cons.prems(3), auto)
qed

lemma allow_inv_setToken: "allow_inv s \<Longrightarrow> setToken m a i s = (Inr (), t) \<Longrightarrow> allow_inv t"
  by (auto simp: setToken_Inr allow_inv_def typeCount_def)

lemma allow_inv_initialize:
  assumes "allow_inv s" and "allow_initialize ow pr sm me la ts s = (Inr (), t)"
  shows "allow_inv t"
proof -
  let ?f = "\<lambda>ti. bnd (addTokenType_body (description ti) (info_limits ti)) (\<lambda>_. ret ())"
  from assms(2) obtain u where
    u: "confirmations_ok sm me la"
      "u = s\<lparr>at_initialized := True, at_owner := ow, at_primary := pr,
             smallAmountConfirmations := sm, mediumAmountConfirmations := me,
             largeAmountConfirmations := la\<rparr>"
      "for_each ?f ts u = (Inr (), t)"
    by (auto simp: allow_initialize_def bnd_eq_Inr_iff setConfirmations_body_Inr split: if_splits)
  have "allow_inv u" using assms(1) u(1) by (simp add: u(2) allow_inv_def typeCount_def)
  then show ?thesis
    by (rule allow_inv_for_each [OF _ u(3)]) (auto simp: bnd_eq_Inr_iff intro: allow_inv_addTokenType)
qed

section \<open>Transfers\<close>

text \<open>The 24 hours of a token's counter are over, and what it has left.\<close>

definition window_over :: "msg \<Rightarrow> token_info \<Rightarrow> bool" where
  "window_over m info \<longleftrightarrow> block_timestamp m > ti_lastDay info + 86400"

definition spent_before :: "msg \<Rightarrow> token_info \<Rightarrow> uint256" where
  "spent_before m info = (if window_over m info then 0 else ti_spentToday info)"

lemma checked_add_Inr:
  "checked_add a b s = (Inr c, t) \<longleftrightarrow> unat a + unat b < 2 ^ 256 \<and> c = a + b \<and> t = s"
proof -
  have "\<not> a + b < a \<longleftrightarrow> unat a + unat b < 2 ^ 256"
    using no_olen_add_nat [of a b] by (auto simp: not_less)
  then show ?thesis by (auto simp: checked_add_def)
qed

lemma if_ret: "(if c then ret a else ret b) = ret (if c then a else b)"
  by simp

lemma calcMaxWithdraw_body_Inr:
  "calcMaxWithdraw_body m info l s = (Inr w, t) \<longleftrightarrow>
     unat (ti_lastDay info) + 86400 < 2 ^ 256 \<and> t = s
     \<and> w = (if l_daily l \<le> spent_before m info then 0
            else if l_daily l - spent_before m info > l_max l then l_max l
            else l_daily l - spent_before m info)"
proof -
  let ?w = "if l_daily l \<le> spent_before m info then 0
            else if l_daily l - spent_before m info > l_max l then l_max l
            else l_daily l - spent_before m info"
  have "calcMaxWithdraw_body m info l s = (Inr w, t) \<longleftrightarrow>
    (\<exists>u v. checked_add (ti_lastDay info) 86400 s = (Inr u, v) \<and>
       ret (if l_daily l \<le> (if block_timestamp m > u then 0 else ti_spentToday info) then 0
            else if l_daily l - (if block_timestamp m > u then 0 else ti_spentToday info) > l_max l
            then l_max l
            else l_daily l - (if block_timestamp m > u then 0 else ti_spentToday info)) v = (Inr w, t))"
    unfolding calcMaxWithdraw_body_def bnd_eq_Inr_iff Let_def if_ret ..
  also have "\<dots> \<longleftrightarrow> unat (ti_lastDay info) + 86400 < 2 ^ 256 \<and> ret ?w s = (Inr w, t)"
    unfolding spent_before_def window_over_def checked_add_Inr by simp
  finally show ?thesis by auto
qed

lemma updateTokenTransfer_Inr:
  assumes "updateTokenTransfer m a x s = (Inr (), t)"
  defines "info \<equiv> allowedTokens s a"
  defines "l \<equiv> typeLimits s (ti_typeId info)"
  defines "sp \<equiv> spent_before m info"
  shows "msg_sender m = at_primary s" and "a \<noteq> 0" and "ti_allowed info" and "l_min l \<le> x"
    and "x \<le> (if l_daily l \<le> sp then 0 else if l_daily l - sp > l_max l then l_max l else l_daily l - sp)"
    and "t = s\<lparr>allowedTokens := (allowedTokens s)(a := info
           \<lparr>ti_lastDay := (if window_over m info then block_timestamp m else ti_lastDay info),
            ti_spentToday := sp + x\<rparr>)\<rparr>"
    and "unat sp + unat x < 2 ^ 256"
proof -
  have "msg_sender m = at_primary s \<and> a \<noteq> 0 \<and> ti_allowed info \<and> l_min l \<le> x
    \<and> x \<le> (if l_daily l \<le> sp then 0 else if l_daily l - sp > l_max l then l_max l else l_daily l - sp)
    \<and> t = s\<lparr>allowedTokens := (allowedTokens s)(a := info
           \<lparr>ti_lastDay := (if window_over m info then block_timestamp m else ti_lastDay info),
            ti_spentToday := sp + x\<rparr>)\<rparr>
    \<and> unat sp + unat x < 2 ^ 256"
    using assms(1) unfolding sp_def spent_before_def window_over_def
    by (simp add: updateTokenTransfer_def onlyPrimary_Inr notNull_Inr bnd_eq_Inr_iff
        checked_add_Inr calcMaxWithdraw_body_Inr Let_def getInfoAndLimits_def tokenInfo_def
        setTokenInfoByTokenAddress_def info_def l_def window_over_def spent_before_def
        split: if_splits)
  then show "msg_sender m = at_primary s" "a \<noteq> 0" "ti_allowed info" "l_min l \<le> x"
    "x \<le> (if l_daily l \<le> sp then 0 else if l_daily l - sp > l_max l then l_max l else l_daily l - sp)"
    "t = s\<lparr>allowedTokens := (allowedTokens s)(a := info
           \<lparr>ti_lastDay := (if window_over m info then block_timestamp m else ti_lastDay info),
            ti_spentToday := sp + x\<rparr>)\<rparr>"
    "unat sp + unat x < 2 ^ 256"
    by blast+
qed

section \<open>Every reachable state\<close>

lemma allow_inv_exec:
  assumes inv: "allow_inv s" and run: "allow_exec m c s = (Inr (), t)"
  shows "allow_inv t"
proof (cases c)
  case (SetMultipleTokens xs)
  then have "for_each (\<lambda>(token, typeId). setToken m token typeId) xs s = (Inr (), t)"
    using run by (auto simp: setMultipleTokens_def onlyOwner_Inr bnd_eq_Inr_iff split: if_splits)
  then show ?thesis
    by (rule allow_inv_for_each [OF inv]) (auto intro: allow_inv_setToken)
next
  case (UpdateTokenTransfer a x)
  then have "updateTokenTransfer m a x s = (Inr (), t)" using run by simp
  from updateTokenTransfer_Inr [OF this] show ?thesis
    using inv by (simp add: allow_inv_def typeCount_def)
next
  case (Initialize ow pr sm me la ts)
  then show ?thesis using run allow_inv_initialize [OF inv] by simp
next
  case (AddTokenType d l)
  then show ?thesis
    using run allow_inv_addTokenType [OF inv] by (auto simp: addTokenType_def onlyOwner_Inr bnd_eq_Inr_iff)
next
  case (SetToken a i)
  then show ?thesis using run allow_inv_setToken [OF inv] by simp
next
  case (SetTypeLimits i l)
  then show ?thesis
    using run inv by (auto simp: setTypeLimits_def onlyOwner_Inr setTypeLimits_body_Inr allow_inv_def typeCount_def)
next
  case (RemoveAllowedToken a)
  then show ?thesis using run inv by (auto simp: removeAllowedToken_Inr allow_inv_def typeCount_def)
next
  case (SetConfirmations sm me la)
  then show ?thesis
    using run inv by (auto simp: setConfirmations_def onlyOwner_Inr setConfirmations_body_Inr allow_inv_def typeCount_def)
qed (use run inv in \<open>auto simp: transferOwnership_def renounceOwnership_def transferPrimary_def
       owner_initialize_def secondary_init_def onlyOwner_Inr onlyPrimary_Inr bnd_eq_Inr_iff
       allow_inv_def typeCount_def split: if_splits\<close>)

lemma allow_inv_transact:
  "allow_inv s \<Longrightarrow> transact (allow_exec m c) s = (r, t) \<Longrightarrow> allow_inv t"
  by (auto simp: transact_def allow_inv_exec split: prod.splits sum.splits)

text \<open>
  C8: in every state the contract can reach, by whatever sequence of transactions of whatever
  senders, accepted or reverted, each type's limits are ordered, each allowed token is not the null
  address and has an existing type, there are at most 250 types, and the numbers of confirmations
  are unset or ordered and in bounds.
\<close>
theorem allow_tokens_invariant: "allow_reachable s \<Longrightarrow> allow_inv s"
  by (induction rule: allow_reachable.induct) (auto simp: allow_inv_blank intro: allow_inv_transact)

definition sample_types :: "type_info list" where
  "sample_types = [\<lparr>description = ''BTC'', info_limits = \<lparr>l_min = 10, l_max = 100, l_daily = 150,
     l_mediumAmount = 20, l_largeAmount = 50\<rparr>\<rparr>]"

definition sample_owner :: msg where
  "sample_owner = \<lparr>msg_sender = 7, block_timestamp = 1000\<rparr>"

definition sample_bridge :: "uint256 \<Rightarrow> msg" where
  "sample_bridge now = \<lparr>msg_sender = 8, block_timestamp = now\<rparr>"

definition sample_fresh :: allow_tokens where
  "sample_fresh = blank_allow_tokens\<lparr>at_initialized := True, at_owner := 7, at_primary := 8,
     smallAmountConfirmations := 12, mediumAmountConfirmations := 24,
     largeAmountConfirmations := 36, typeDescriptions := [''BTC''],
     typeLimits := (\<lambda>_. zero_limits)(0 := \<lparr>l_min = 10, l_max = 100, l_daily = 150,
       l_mediumAmount = 20, l_largeAmount = 50\<rparr>)\<rparr>"

definition sample_allow :: allow_tokens where
  "sample_allow = sample_fresh\<lparr>allowedTokens := (\<lambda>_. zero_info)
     (5 := \<lparr>ti_allowed = True, ti_typeId = 0, ti_spentToday = 0, ti_lastDay = 0\<rparr>)\<rparr>"

lemmas sample_defs = sample_fresh_def sample_allow_def sample_types_def sample_owner_def
  sample_bridge_def blank_allow_tokens_def zero_info_def zero_limits_def typeCount_def

lemma sample_allow_reachable: "allow_reachable sample_allow"
proof -
  have "transact (allow_exec sample_owner (Initialize 7 8 12 24 36 sample_types)) blank_allow_tokens
        = (Inr (), sample_fresh)"
    by (simp add: transact_def allow_initialize_def setConfirmations_body_def addTokenType_body_def
        setTypeLimits_body_def MAX_TYPES_def bnd_def sample_defs)
  then have "allow_reachable sample_fresh" by (rule call [OF deployed])
  moreover have "transact (allow_exec sample_owner (SetToken 5 0)) sample_fresh = (Inr (), sample_allow)"
    by (simp add: transact_def setToken_def notNull_def setTokenInfoByTokenAddress_def isOwner_def
        tokenInfo_def bnd_def sample_defs)
  ultimately show ?thesis by (rule call)
qed

lemma sample_allow_token: "ti_allowed (allowedTokens sample_allow 5)"
  by (simp add: sample_defs)

theorem allow_tokens_invariant_witness:
  "allow_inv sample_allow \<and> ti_allowed (allowedTokens sample_allow 5)"
  using allow_tokens_invariant [OF sample_allow_reachable] sample_allow_token by simp

section \<open>The limits of transfers\<close>

definition transfer_tx :: "msg \<Rightarrow> address \<Rightarrow> uint256 \<Rightarrow> allow_tokens \<Rightarrow> unit res \<times> allow_tokens" where
  "transfer_tx m a x = transact (updateTokenTransfer m a x)"

definition spent_today :: "allow_tokens \<Rightarrow> address \<Rightarrow> nat" where
  "spent_today s a = unat (ti_spentToday (allowedTokens s a))"

definition limits_of :: "allow_tokens \<Rightarrow> address \<Rightarrow> type_limits" where
  "limits_of s a = typeLimits s (ti_typeId (allowedTokens s a))"

lemma transact_Inr: "transact c s = (Inr a, t) \<longleftrightarrow> c s = (Inr a, t)"
  by (auto simp: transact_def split: prod.splits sum.splits)

lemma transfer_spent:
  assumes "transfer_tx m a x s = (Inr (), t)"
  shows "spent_today t a = unat (spent_before m (allowedTokens s a)) + unat x"
    and "x = 0 \<or> spent_today t a \<le> unat (l_daily (limits_of s a))"
    and "x \<le> l_max (limits_of s a)" "l_min (limits_of s a) \<le> x"
proof -
  let ?info = "allowedTokens s a" let ?l = "limits_of s a" let ?sp = "spent_before m ?info"
  from assms have run: "updateTokenTransfer m a x s = (Inr (), t)"
    by (simp add: transfer_tx_def transact_Inr)
  note r = updateTokenTransfer_Inr [OF run, folded limits_of_def]
  show new: "spent_today t a = unat ?sp + unat x"
    using r(7) by (simp add: spent_today_def r(6) unat_word_ariths)
  show "l_min ?l \<le> x" by (rule r(4))
  show "x \<le> l_max ?l" using r(5) by (auto split: if_splits)
  show "x = 0 \<or> spent_today t a \<le> unat (l_daily ?l)"
  proof (cases "l_daily ?l \<le> ?sp")
    case True
    then show ?thesis using r(5) by simp
  next
    case False
    then have "x \<le> l_daily ?l - ?sp" using r(5) by (auto split: if_splits)
    then have "unat x \<le> unat (l_daily ?l - ?sp)" by (simp add: word_le_nat_alt)
    also have "\<dots> = unat (l_daily ?l) - unat ?sp" using False by (simp add: unat_sub)
    finally have "unat x \<le> unat (l_daily ?l) - unat ?sp" .
    moreover have "unat ?sp < unat (l_daily ?l)" using False by (simp add: word_less_nat_alt not_le)
    ultimately show ?thesis unfolding new by linarith
  qed
qed

lemma transfer_frame:
  assumes "transfer_tx m a x s = (Inr (), t)"
  shows "limits_of t b = limits_of s b"
    and "b \<noteq> a \<Longrightarrow> allowedTokens t b = allowedTokens s b"
    and "\<not> window_over m (allowedTokens s a) \<Longrightarrow>
           ti_lastDay (allowedTokens t a) = ti_lastDay (allowedTokens s a)"
  using updateTokenTransfer_Inr(6) [OF assms [unfolded transfer_tx_def transact_Inr]]
  by (simp_all add: limits_of_def)

text \<open>
  A transfer the contract accepts is between the minimum and the maximum of the token's type,
  is requested by the bridge for an allowed token, adds exactly its amount to the day's counter
  (which a finished window resets), and leaves the counter at most the daily limit unless its
  amount is zero.
\<close>
theorem transfer_within_limits:
  assumes "transfer_tx m a x s = (Inr (), t)"
  shows "msg_sender m = at_primary s \<and> ti_allowed (allowedTokens s a)
    \<and> l_min (limits_of s a) \<le> x \<and> x \<le> l_max (limits_of s a)
    \<and> spent_today t a = unat (spent_before m (allowedTokens s a)) + unat x
    \<and> (x = 0 \<or> spent_today t a \<le> unat (l_daily (limits_of s a)))"
  using transfer_spent [OF assms] updateTokenTransfer_Inr(1,3) [OF assms [unfolded transfer_tx_def transact_Inr]]
  by simp

definition sample_after :: "uint256 \<Rightarrow> uint256 \<Rightarrow> allow_tokens" where
  "sample_after now spent = sample_allow\<lparr>allowedTokens := (\<lambda>_. zero_info)
     (5 := \<lparr>ti_allowed = True, ti_typeId = 0, ti_spentToday = spent, ti_lastDay = now\<rparr>)\<rparr>"

lemmas transfer_eval = transfer_tx_def transact_def updateTokenTransfer_def onlyPrimary_def notNull_def
  getInfoAndLimits_def tokenInfo_def checked_add_def calcMaxWithdraw_body_def Let_def
  setTokenInfoByTokenAddress_def isOwner_def bnd_def sample_defs sample_after_def

lemma sample_transfer: "transfer_tx (sample_bridge 90000) 5 60 sample_allow = (Inr (), sample_after 90000 60)"
  by (simp add: transfer_eval)

theorem transfer_within_limits_witness:
  "spent_today (sample_after 90000 60) 5 = 60 \<and> 60 \<le> unat (l_daily (limits_of sample_allow 5))"
  using transfer_within_limits [OF sample_transfer]
  by (simp add: sample_after_def spent_before_def window_over_def sample_defs spent_today_def)

text \<open>Transfers of several tokens, one transaction after another; a reverted one changes nothing.\<close>

fun transfers :: "(msg \<times> address \<times> uint256) list \<Rightarrow> allow_tokens \<Rightarrow> allow_tokens" where
  "transfers [] s = s"
| "transfers ((m, a, x) # xs) s = transfers xs (snd (transfer_tx m a x s))"

fun accepted :: "address \<Rightarrow> (msg \<times> address \<times> uint256) list \<Rightarrow> allow_tokens \<Rightarrow> nat" where
  "accepted a [] s = 0"
| "accepted a ((m, b, x) # xs) s =
     (case transfer_tx m b x s of
        (Inr _, t) \<Rightarrow> (if b = a then unat x else 0) + accepted a xs t
      | (Inl _, t) \<Rightarrow> accepted a xs t)"

lemma transfer_reverts: "transfer_tx m a x s = (Inl e, t) \<Longrightarrow> t = s"
  by (auto simp: transfer_tx_def transact_def split: prod.splits sum.splits)

lemma transfer_other:
  assumes "transfer_tx m b x s = (Inr (), t)" "b \<noteq> a"
  shows "spent_today t a = spent_today s a" "ti_lastDay (allowedTokens t a) = ti_lastDay (allowedTokens s a)"
    "limits_of t a = limits_of s a"
  using transfer_frame(1,2) [OF assms(1)] assms(2) by (auto simp: spent_today_def)

lemma transfer_in_window:
  assumes ok: "transfer_tx m b x s = (Inr (), t)"
    and quiet: "block_timestamp m \<le> ti_lastDay (allowedTokens s a) + 86400"
    and le: "spent_today s a \<le> unat (l_daily (limits_of s a))"
  shows "spent_today t a = spent_today s a + (if b = a then unat x else 0)
    \<and> spent_today t a \<le> unat (l_daily (limits_of s a))
    \<and> ti_lastDay (allowedTokens t a) = ti_lastDay (allowedTokens s a)"
proof (cases "b = a")
  case True
  have w: "\<not> window_over m (allowedTokens s a)"
    using quiet by (simp add: window_over_def not_less)
  then have "spent_today t a = spent_today s a + unat x"
    using transfer_spent(1) [OF ok] by (simp add: True spent_before_def spent_today_def)
  moreover have "x = 0 \<or> spent_today t a \<le> unat (l_daily (limits_of s a))"
    using transfer_spent(2) [OF ok] by (simp add: True)
  ultimately show ?thesis
    using le transfer_frame(3) [OF ok] w True by auto
next
  case False
  then show ?thesis using transfer_other [OF ok] le by simp
qed

text \<open>
  C9: within one window of a token, that is while no transfer comes more than 24 hours after the
  one that opened it, the accepted transfers of the token, mixed with any transfers of others and
  with reverted ones, add up exactly in the day's counter, and their sum stays within the daily
  limit: what was spent before plus what is accepted never exceeds it.
\<close>
theorem window_stays_within_daily_limit:
  assumes "\<forall>(m, b, x) \<in> set xs. block_timestamp m \<le> ti_lastDay (allowedTokens s a) + 86400"
    and "spent_today s a \<le> unat (l_daily (limits_of s a))"
  shows "spent_today (transfers xs s) a = spent_today s a + accepted a xs s
    \<and> spent_today s a + accepted a xs s \<le> unat (l_daily (limits_of s a))"
  using assms
proof (induction xs arbitrary: s)
  case Nil
  then show ?case by simp
next
  case (Cons c xs)
  obtain m b x where c: "c = (m, b, x)" by (cases c)
  obtain r t where rt: "transfer_tx m b x s = (r, t)" by fastforce
  show ?case
  proof (cases r)
    case (Inl e)
    then have "t = s" using rt transfer_reverts by simp
    then show ?thesis using Cons rt Inl by (simp add: c)
  next
    case (Inr u)
    then have ok: "transfer_tx m b x s = (Inr (), t)" using rt by simp
    have step: "spent_today t a = spent_today s a + (if b = a then unat x else 0)
      \<and> spent_today t a \<le> unat (l_daily (limits_of s a))
      \<and> ti_lastDay (allowedTokens t a) = ti_lastDay (allowedTokens s a)"
      by (rule transfer_in_window [OF ok]) (use Cons.prems in \<open>auto simp: c\<close>)
    have "spent_today (transfers xs t) a = spent_today t a + accepted a xs t
      \<and> spent_today t a + accepted a xs t \<le> unat (l_daily (limits_of t a))"
      by (rule Cons.IH) (use Cons.prems(1) step transfer_frame(1) [OF ok] in \<open>auto simp: c\<close>)
    then show ?thesis
      using ok step transfer_frame(1) [OF ok] by (simp add: c)
  qed
qed

lemma sample_transfers:
  "transfer_tx (sample_bridge 1100) 5 100 sample_allow = (Inr (), sample_after 0 100)"
  "transfer_tx (sample_bridge 1200) 5 60 (sample_after 0 100) = (Inl (JsError ''AllowTokens: Exceeded limit''), sample_after 0 100)"
  "transfer_tx (sample_bridge 1300) 5 50 (sample_after 0 100) = (Inr (), sample_after 0 150)"
  by (simp_all add: transfer_eval)

lemma sample_window:
  "spent_today sample_allow 5 = 0" "spent_today (sample_after 0 150) 5 = 150"
  "unat (l_daily (limits_of sample_allow 5)) = 150"
  "ti_lastDay (allowedTokens sample_allow 5) = 0"
  "block_timestamp (sample_bridge now) = now"
  by (simp_all add: sample_defs sample_after_def spent_today_def limits_of_def)

theorem window_stays_within_daily_limit_witness:
  "accepted 5 [(sample_bridge 1100, 5, 100), (sample_bridge 1200, 5, 60), (sample_bridge 1300, 5, 50)]
     sample_allow = 150"
  using window_stays_within_daily_limit [of "[(sample_bridge 1100, 5, 100), (sample_bridge 1200, 5, 60),
      (sample_bridge 1300, 5, 50)]" sample_allow 5]
  by (simp add: sample_transfers sample_window)

end
