(* ===== verification/ChainConfig.thy ===== *)
theory ChainConfig
  imports AllowTokens JsLib
begin

text \<open>
  The tables the deployment of the bridge is driven by: the chains of hardhat/helper/chains.js, the
  networks and named accounts of hardhat.config.js, the tokens of hardhat/helper/tokens.js, the
  confirmations of deployed/*.json and the token types of deploy/09_deploy_allowTokensProxy.js,
  with the functions that read them. The theorems confront them with the contract that receives
  them: which limits, types and confirmations AllowTokens accepts. \<open>web3.utils.toWei\<close> is a
  parameter; what is relied on is its documentation, a decimal number times 10 to the 18.
\<close>

section \<open>Chains and networks\<close>

text \<open>hardhat/helper/chains.js; two of the names are also constants of the federator.\<close>

definition chain_ETHEREUM_MAIN_NET :: int where
  "chain_ETHEREUM_MAIN_NET = 1"

definition chain_RSK_MAIN_NET :: int where
  "chain_RSK_MAIN_NET = 30"

definition chain_RSK_TEST_NET :: int where
  "chain_RSK_TEST_NET = 31"

definition chain_KOVAN_TEST_NET :: int where
  "chain_KOVAN_TEST_NET = 42"

definition chain_RINKEBY_TEST_NET :: int where
  "chain_RINKEBY_TEST_NET = 4"

definition chain_MUMBAI_TEST_NET :: int where
  "chain_MUMBAI_TEST_NET = 80001"

definition chain_AMOY_TEST_NET :: int where
  "chain_AMOY_TEST_NET = 80002"

definition chain_BSC_MAIN_NET :: int where
  "chain_BSC_MAIN_NET = 56"

definition chain_BSC_TEST_NET :: int where
  "chain_BSC_TEST_NET = 97"

definition chain_GANACHE_DEV_MIRROR :: int where
  "chain_GANACHE_DEV_MIRROR = 5776"

definition chain_GANACHE_DEV_NET :: int where
  "chain_GANACHE_DEV_NET = 5777"

definition chain_HARDHAT_TEST_NET :: int where
  "chain_HARDHAT_TEST_NET = 31337"

definition chain_SEPOLIA_TEST_NET :: int where
  "chain_SEPOLIA_TEST_NET = 11155111"

definition chain_SEPOLIA_ARBITRUM_TEST_NET :: int where
  "chain_SEPOLIA_ARBITRUM_TEST_NET = 421614"

definition chain_ARBITRUM_ONE_MAIN_NET :: int where
  "chain_ARBITRUM_ONE_MAIN_NET = 42161"

definition chain_HOLESKY_TEST_NET :: int where
  "chain_HOLESKY_TEST_NET = 17000"

lemmas chain_ids =
  chain_ETHEREUM_MAIN_NET_def
  chain_RSK_MAIN_NET_def
  chain_RSK_TEST_NET_def
  chain_KOVAN_TEST_NET_def
  chain_RINKEBY_TEST_NET_def
  chain_MUMBAI_TEST_NET_def
  chain_AMOY_TEST_NET_def
  chain_BSC_MAIN_NET_def
  chain_BSC_TEST_NET_def
  chain_GANACHE_DEV_MIRROR_def
  chain_GANACHE_DEV_NET_def
  chain_HARDHAT_TEST_NET_def
  chain_SEPOLIA_TEST_NET_def
  chain_SEPOLIA_ARBITRUM_TEST_NET_def
  chain_ARBITRUM_ONE_MAIN_NET_def
  chain_HOLESKY_TEST_NET_def

text \<open>
  What the code reads of a network: its name, \<open>network.live\<close>, \<open>network.config.network_id\<close> and
  \<open>network.config.token_symbol\<close>.
\<close>

record network =
  net_name :: string
  net_live :: bool
  network_id :: int
  net_token_symbol :: "string option"

definition isRSK :: "network \<Rightarrow> bool" where
  "isRSK n \<longleftrightarrow> network_id n \<in> set [chain_RSK_MAIN_NET, chain_RSK_TEST_NET]"

definition tokenSymbol :: "network \<Rightarrow> string" where
  "tokenSymbol n = (case net_token_symbol n of None \<Rightarrow> ''e'' | Some s \<Rightarrow> s)"

definition isMainnet :: "network \<Rightarrow> bool" where
  "isMainnet n \<longleftrightarrow>
     network_id n \<in> set [chain_ETHEREUM_MAIN_NET, chain_RSK_MAIN_NET, chain_BSC_MAIN_NET]"

text \<open>The networks of hardhat.config.js.\<close>

definition networks :: "network list" where
  "networks = [
     \<lparr>net_name = ''hardhat'', net_live = False, network_id = chain_HARDHAT_TEST_NET, net_token_symbol = Some ''h''\<rparr>,
     \<lparr>net_name = ''development'', net_live = False, network_id = chain_GANACHE_DEV_NET, net_token_symbol = Some ''e''\<rparr>,
     \<lparr>net_name = ''mirrorDevelopment'', net_live = False, network_id = chain_GANACHE_DEV_MIRROR, net_token_symbol = Some ''e''\<rparr>,
     \<lparr>net_name = ''rsktestnet'', net_live = True, network_id = chain_RSK_TEST_NET, net_token_symbol = Some ''r''\<rparr>,
     \<lparr>net_name = ''rskmainnet'', net_live = True, network_id = chain_RSK_MAIN_NET, net_token_symbol = Some ''r''\<rparr>,
     \<lparr>net_name = ''kovan'', net_live = True, network_id = chain_KOVAN_TEST_NET, net_token_symbol = Some ''e''\<rparr>,
     \<lparr>net_name = ''sepolia'', net_live = False, network_id = chain_SEPOLIA_TEST_NET, net_token_symbol = Some ''e''\<rparr>,
     \<lparr>net_name = ''arbitrum_mainnet'', net_live = True, network_id = chain_ARBITRUM_ONE_MAIN_NET, net_token_symbol = Some ''e''\<rparr>,
     \<lparr>net_name = ''sepolia_arbitrum'', net_live = False, network_id = chain_SEPOLIA_ARBITRUM_TEST_NET, net_token_symbol = Some ''e''\<rparr>,
     \<lparr>net_name = ''holesky'', net_live = False, network_id = chain_HOLESKY_TEST_NET, net_token_symbol = Some ''e''\<rparr>,
     \<lparr>net_name = ''mumbai'', net_live = False, network_id = chain_MUMBAI_TEST_NET, net_token_symbol = Some ''p''\<rparr>,
     \<lparr>net_name = ''amoy'', net_live = False, network_id = chain_AMOY_TEST_NET, net_token_symbol = Some ''p''\<rparr>,
     \<lparr>net_name = ''rinkeby'', net_live = True, network_id = chain_RINKEBY_TEST_NET, net_token_symbol = Some ''e''\<rparr>,
     \<lparr>net_name = ''ethmainnet'', net_live = True, network_id = chain_ETHEREUM_MAIN_NET, net_token_symbol = Some ''e''\<rparr>]"

text \<open>Their \<open>url\<close>, with the id of the Infura project read from infura.key.\<close>

definition network_urls :: "string \<Rightarrow> string \<rightharpoonup> string" where
  "network_urls infura = map_of [
     (''development'', ''http://127.0.0.1:8545''),
     (''mirrorDevelopment'', ''http://127.0.0.1:8546''),
     (''rsktestnet'', ''https://public-node.testnet.rsk.co''),
     (''rskmainnet'', ''https://public-node.rsk.co''),
     (''kovan'', ''https://kovan.infura.io/v3/'' @ infura),
     (''sepolia'', ''https://sepolia.infura.io/v3/'' @ infura),
     (''arbitrum_mainnet'', ''https://arbitrum-mainnet.infura.io/v3/'' @ infura),
     (''sepolia_arbitrum'', ''https://arbitrum-sepolia.infura.io/v3/'' @ infura),
     (''holesky'', ''https://holesky.infura.io/v3/'' @ infura),
     (''mumbai'', ''https://polygon-mumbai.infura.io/v3/'' @ infura),
     (''amoy'', ''https://polygon-amoy.infura.io/v3/'' @ infura),
     (''rinkeby'', ''https://rinkeby.infura.io/v3/'' @ infura),
     (''ethmainnet'', ''https://mainnet.infura.io/ws/v3/'' @ infura)]"

section \<open>Named accounts\<close>

text \<open>Each object is a table from chain ids to the address hardhat-deploy resolves the name to.\<close>

definition getMultiSigAddressesByChainId :: "int \<rightharpoonup> string" where
  "getMultiSigAddressesByChainId = map_of [
     (chain_ETHEREUM_MAIN_NET, ''0x040007b1804ad78a97f541bebed377dcb60e4138''),
     (chain_RSK_MAIN_NET, ''0x040007b1804ad78a97f541bebed377dcb60e4138''),
     (chain_RSK_TEST_NET, ''0x88f6b2bc66f4c31a3669b9b1359524abf79cfc4a''),
     (chain_KOVAN_TEST_NET, ''0x040007b1804ad78a97f541bebed377dcb60e4138''),
     (chain_BSC_TEST_NET, ''0xE3848f411587C2C8658A0d6F649e7F1E403873a6''),
     (chain_RINKEBY_TEST_NET, ''0x04994d7fF4938c5953A6C8411ad30083C9097348'')]"

definition getWrappedCurrencyAddressesByChainId :: "int \<rightharpoonup> string" where
  "getWrappedCurrencyAddressesByChainId = map_of [
     (chain_ETHEREUM_MAIN_NET, ''0xc02aaa39b223fe8d0a0e5c4f27ead9083c756cc2''),
     (chain_RSK_MAIN_NET, ''0x967f8799af07df1534d48a95a5c9febe92c53ae0''),
     (chain_RSK_TEST_NET, ''0x09b6ca5e4496238a1f176aea6bb607db96c2286e''),
     (chain_KOVAN_TEST_NET, ''0xd0A1E359811322d97991E03f863a0C30C2cF029C''),
     (chain_BSC_TEST_NET, ''0xae13d989dac2f0debff460ac112a837c89baa7cd''),
     (chain_BSC_MAIN_NET, ''0xbb4CdB9CBd36B01bD1cBaEBF2De08d9173bc095c''),
     (chain_RINKEBY_TEST_NET, ''0x1664Bd54e994C04bD0f9F7B7e9Ad7CC45d1537B1'')]"

definition getProxyAdminAddressesByChainId :: "int \<rightharpoonup> string" where
  "getProxyAdminAddressesByChainId = map_of [
     (chain_ETHEREUM_MAIN_NET, ''0xe4d351911a6d599f91a3db1843e2ecb0f851e7e6''),
     (chain_RSK_MAIN_NET, ''0x12ed69359919fc775bc2674860e8fe2d2b6a7b5d''),
     (chain_RSK_TEST_NET, ''0x8c35e166d2dea7a8a28aaea11ad7933cdae4b0ab''),
     (chain_KOVAN_TEST_NET, ''0xe4d351911a6d599f91a3db1843e2ecb0f851e7e6''),
     (chain_BSC_TEST_NET, ''0xb37Bf97A42eee6b995732530595E3d16639D9977''),
     (chain_RINKEBY_TEST_NET, ''0x0b32Ea549AB1F9F7390442B5E9438b58A105cB5f'')]"

definition getAllowTokensProxyAddressesByChainId :: "int \<rightharpoonup> string" where
  "getAllowTokensProxyAddressesByChainId = map_of [
     (chain_ETHEREUM_MAIN_NET, ''0xa3fc98e0a7a979677bc14d541be770b2cb0a15f3''),
     (chain_RSK_MAIN_NET, ''0xcb789036894a83a008a2aa5b3c2dde41d0605a9a''),
     (chain_RSK_TEST_NET, ''0xc65bf0ae75dc1a5fc9e6f4215125692a548c773a''),
     (chain_KOVAN_TEST_NET, ''0x92bf86334583909b60f9b798a9dd7debd899fec4''),
     (chain_BSC_TEST_NET, ''0x9a64fc2416EE2157e19DC2C79B5B22D113a9E0C3''),
     (chain_RINKEBY_TEST_NET, ''0xAE3852306015df037D458a65173BBc7527F4680b'')]"

definition getBridgeProxyAddressesByChainId :: "int \<rightharpoonup> string" where
  "getBridgeProxyAddressesByChainId = map_of [
     (chain_ETHEREUM_MAIN_NET, ''0x12ed69359919fc775bc2674860e8fe2d2b6a7b5d''),
     (chain_RSK_MAIN_NET, ''0x9d11937e2179dc5270aa86a3f8143232d6da0e69''),
     (chain_RSK_TEST_NET, ''0x684a8a976635fb7ad74a0134ace990a6a0fcce84''),
     (chain_KOVAN_TEST_NET, ''0x12ed69359919fc775bc2674860e8fe2d2b6a7b5d''),
     (chain_BSC_TEST_NET, ''0xd9d2f9ee990ddb1147e595ae4f69ec468a0b58d0''),
     (chain_RINKEBY_TEST_NET, ''0x7E339118346364d7D86AB67cb0775CBB808E65F7'')]"

definition getFederationProxyAddressesByChainId :: "int \<rightharpoonup> string" where
  "getFederationProxyAddressesByChainId = map_of [
     (chain_ETHEREUM_MAIN_NET, ''0x5e29c223d99648c88610519f96e85e627b3abe17''),
     (chain_RSK_MAIN_NET, ''0x7ecfda6072942577d36f939ad528b366b020004b''),
     (chain_RSK_TEST_NET, ''0x5d663981d930e8ec108280b9d80885658148ab0f''),
     (chain_KOVAN_TEST_NET, ''0xa347438bc288f56cb6083a79133e70dd2d1f6c2d''),
     (chain_BSC_TEST_NET, ''0xD40F8613173E636D570c47dB3A6Ac57EA9ccac83''),
     (chain_RINKEBY_TEST_NET, ''0xBC383764ceBc13b66c04E1abeb36804a0Caaa5C6'')]"

definition getSideTokenFactoryAddressesByChainId :: "int \<rightharpoonup> string" where
  "getSideTokenFactoryAddressesByChainId = map_of [
     (chain_ETHEREUM_MAIN_NET, ''0xF73C60863BF2930Bde2c69dF4CB8fE700Ae713fB''),
     (chain_RSK_MAIN_NET, ''0x44fcd0854d745efdef4cfe9868efe4d4eb51ecd6''),
     (chain_RSK_TEST_NET, ''0x08C191A7B5Edaa59853705F7eaE95E3E4238D73e''),
     (chain_KOVAN_TEST_NET, ''0x984192ad76A8FFF2edf39C260324d32d8A80512b''),
     (chain_BSC_TEST_NET, ''0xe2EBFC705d473C3dDd52CB49AF0bdE3132E8831e''),
     (chain_RINKEBY_TEST_NET, ''0x1CB41Dc4603612A4da692669916e8F4dEF2994dC'')]"

record named_accounts =
  deployer :: string
  multiSig :: "string option"
  wrappedCurrency :: "string option"
  proxyAdmin :: "string option"
  allowTokensProxy :: "string option"
  bridgeProxy :: "string option"
  federationProxy :: "string option"
  sideTokenFactory :: "string option"

text \<open>The first account of the node is the deployer (DEFAULT_DEPLOYER_ACCOUNT_INDEX is 0).\<close>

definition getNamedAccounts :: "string \<Rightarrow> int \<Rightarrow> named_accounts" where
  "getNamedAccounts account0 chain =
     \<lparr>deployer = account0, multiSig = getMultiSigAddressesByChainId chain,
      wrappedCurrency = getWrappedCurrencyAddressesByChainId chain,
      proxyAdmin = getProxyAdminAddressesByChainId chain,
      allowTokensProxy = getAllowTokensProxyAddressesByChainId chain,
      bridgeProxy = getBridgeProxyAddressesByChainId chain,
      federationProxy = getFederationProxyAddressesByChainId chain,
      sideTokenFactory = getSideTokenFactoryAddressesByChainId chain\<rparr>"

section \<open>Tokens\<close>

record token_entry =
  te_address :: string
  te_typeId :: string
  te_isSideToken :: bool
  te_decimals :: int
  te_symbol :: string

text \<open>Each object in the order of its keys.\<close>

definition tokens_ethereum :: "(string \<times> token_entry) list" where
  "tokens_ethereum = [
     (''WBTC'', \<lparr>te_address = ''0x2260fac5e5542a773aa44fbcfedf7c193bc2c599'', te_typeId = ''0'',
        te_isSideToken = False, te_decimals = 8, te_symbol = ''WBTC''\<rparr>),
     (''renBTC'', \<lparr>te_address = ''0xeb4c2781e4eba804ce9a9803c67d0893436bb27d'', te_typeId = ''0'',
        te_isSideToken = False, te_decimals = 8, te_symbol = ''renBTC''\<rparr>),
     (''WETH'', \<lparr>te_address = ''0xc02aaa39b223fe8d0a0e5c4f27ead9083c756cc2'', te_typeId = ''1'',
        te_isSideToken = False, te_decimals = 18, te_symbol = ''ETH''\<rparr>),
     (''DAI'', \<lparr>te_address = ''0x6b175474e89094c44da98b954eedeac495271d0f'', te_typeId = ''4'',
        te_isSideToken = False, te_decimals = 18, te_symbol = ''DAI''\<rparr>),
     (''USDC'', \<lparr>te_address = ''0xa0b86991c6218b36c1d19d4a2e9eb0ce3606eb48'', te_typeId = ''5'',
        te_isSideToken = False, te_decimals = 6, te_symbol = ''USDC''\<rparr>),
     (''USDT'', \<lparr>te_address = ''0xdac17f958d2ee523a2206206994597c13d831ec7'', te_typeId = ''5'',
        te_isSideToken = False, te_decimals = 6, te_symbol = ''USDT''\<rparr>),
     (''LINK'', \<lparr>te_address = ''0x514910771af9ca656af840dff83e8264ecf986ca'', te_typeId = ''3'',
        te_isSideToken = False, te_decimals = 18, te_symbol = ''LINK''\<rparr>),
     (''BUND'', \<lparr>te_address = ''0x8d3e855f3f55109d473735ab76f753218400fe96'', te_typeId = ''3'',
        te_isSideToken = False, te_decimals = 18, te_symbol = ''BUND''\<rparr>),
     (''FLIXX'', \<lparr>te_address = ''0xf04a8ac553fcedb5ba99a64799155826c136b0be'', te_typeId = ''6'',
        te_isSideToken = False, te_decimals = 18, te_symbol = ''FLIXX''\<rparr>),
     (''RFOX'', \<lparr>te_address = ''0xa1d6Df714F91DeBF4e0802A542E13067f31b8262'', te_typeId = ''6'',
        te_isSideToken = False, te_decimals = 18, te_symbol = ''RFOX''\<rparr>),
     (''AMLT'', \<lparr>te_address = ''0xca0e7269600d353f70b14ad118a49575455c0f2f'', te_typeId = ''6'',
        te_isSideToken = False, te_decimals = 18, te_symbol = ''AMLT''\<rparr>),
     (''eRIF'', \<lparr>te_address = ''0x73c08467E23F7DCB7dDBbc8d05041B74467A498A'', te_typeId = ''5'',
        te_isSideToken = True, te_decimals = 18, te_symbol = ''eRIF''\<rparr>),
     (''eDOC'', \<lparr>te_address = ''0x69f6d4d4813f8e2e618dae7572e04b6d5329e207'', te_typeId = ''4'',
        te_isSideToken = True, te_decimals = 18, te_symbol = ''eDOC''\<rparr>)]"

definition tokens_rskMainnet :: "(string \<times> token_entry) list" where
  "tokens_rskMainnet = [
     (''DOC'', \<lparr>te_address = ''0xe700691da7b9851f2f35f8b8182c69c53ccad9db'', te_typeId = ''5'',
        te_isSideToken = False, te_decimals = 18, te_symbol = ''DOC''\<rparr>),
     (''RIF'', \<lparr>te_address = ''0x2acc95758f8b5f583470ba265eb685a8f45fc9d5'', te_typeId = ''6'',
        te_isSideToken = False, te_decimals = 18, te_symbol = ''RIF''\<rparr>),
     (''rDAI'', \<lparr>te_address = ''0x6b1a73d547f4009a26b8485b63d7015d248ad406'', te_typeId = ''4'',
        te_isSideToken = True, te_decimals = 18, te_symbol = ''rDAI''\<rparr>),
     (''rUSDC'', \<lparr>te_address = ''0x1bda44fda023f2af8280a16fd1b01d1a493ba6c4'', te_typeId = ''4'',
        te_isSideToken = True, te_decimals = 18, te_symbol = ''rUSDC''\<rparr>),
     (''rUSDT'', \<lparr>te_address = ''0xef213441a85df4d7acbdae0cf78004e1e486bb96'', te_typeId = ''4'',
        te_isSideToken = True, te_decimals = 18, te_symbol = ''rUSDT''\<rparr>),
     (''rLINK'', \<lparr>te_address = ''0x14adae34bef7ca957ce2dde5add97ea050123827'', te_typeId = ''3'',
        te_isSideToken = True, te_decimals = 18, te_symbol = ''rLINK''\<rparr>),
     (''rBUND'', \<lparr>te_address = ''0x4991516df6053121121274397a8c1dad608bc95b'', te_typeId = ''3'',
        te_isSideToken = True, te_decimals = 18, te_symbol = ''rBUND''\<rparr>),
     (''rFLIXX'', \<lparr>te_address = ''0x73c08467E23F7DCB7dDBbc8d05041B74467A498A'', te_typeId = ''6'',
        te_isSideToken = True, te_decimals = 18, te_symbol = ''rFLIXX''\<rparr>),
     (''rRFOX'', \<lparr>te_address = ''0x9c3a5f8d686fade293c0ce989a62a34408c4e307'', te_typeId = ''6'',
        te_isSideToken = True, te_decimals = 18, te_symbol = ''rRFOX''\<rparr>),
     (''rAMLT'', \<lparr>te_address = ''0xff9ea341d9ea91cb7c54342354377f5104fd403f'', te_typeId = ''6'',
        te_isSideToken = True, te_decimals = 18, te_symbol = ''rAMLT''\<rparr>)]"

definition tokens_kovan :: "(string \<times> token_entry) list" where
  "tokens_kovan = [
     (''WBTC'', \<lparr>te_address = ''0xd1b98b6607330172f1d991521145a22bce793277'', te_typeId = ''0'',
        te_isSideToken = False, te_decimals = 8, te_symbol = ''WBTC''\<rparr>),
     (''renBTC'', \<lparr>te_address = ''0x0a9add98c076448cbcfacf5e457da12ddbef4a8f'', te_typeId = ''0'',
        te_isSideToken = False, te_decimals = 18, te_symbol = ''renBTC''\<rparr>),
     (''WETH'', \<lparr>te_address = ''0xd0A1E359811322d97991E03f863a0C30C2cF029C'', te_typeId = ''1'',
        te_isSideToken = False, te_decimals = 18, te_symbol = ''ETH''\<rparr>),
     (''SAI'', \<lparr>te_address = ''0xc7cc3413f169a027dccfeffe5208ca4f38ef0c40'', te_typeId = ''4'',
        te_isSideToken = False, te_decimals = 18, te_symbol = ''SAI''\<rparr>),
     (''DAI'', \<lparr>te_address = ''0x4F96Fe3b7A6Cf9725f59d353F723c1bDb64CA6Aa'', te_typeId = ''4'',
        te_isSideToken = False, te_decimals = 18, te_symbol = ''DAI''\<rparr>),
     (''TUSD'', \<lparr>te_address = ''0x0000000000085d4780B73119b644AE5ecd22b376'', te_typeId = ''4'',
        te_isSideToken = False, te_decimals = 18, te_symbol = ''TUSD''\<rparr>),
     (''USDC'', \<lparr>te_address = ''0xe22da380ee6B445bb8273C81944ADEB6E8450422'', te_typeId = ''4'',
        te_isSideToken = False, te_decimals = 6, te_symbol = ''USDC''\<rparr>),
     (''USDT'', \<lparr>te_address = ''0x13512979ade267ab5100878e2e0f485b568328a4'', te_typeId = ''4'',
        te_isSideToken = False, te_decimals = 6, te_symbol = ''USDT''\<rparr>),
     (''LINK'', \<lparr>te_address = ''0xa36085F69e2889c224210F603D836748e7dC0088'', te_typeId = ''3'',
        te_isSideToken = False, te_decimals = 18, te_symbol = ''LINK''\<rparr>),
     (''BUND'', \<lparr>te_address = ''0x8d3e855f3f55109d473735ab76f753218400fe96'', te_typeId = ''3'',
        te_isSideToken = False, te_decimals = 18, te_symbol = ''BUND''\<rparr>),
     (''eRIF'', \<lparr>te_address = ''0x69f6d4d4813f8e2e618dae7572e04b6d5329e207'', te_typeId = ''5'',
        te_isSideToken = True, te_decimals = 18, te_symbol = ''eRIF''\<rparr>),
     (''eDOC'', \<lparr>te_address = ''0x09a8f2041Be23e8eC3c72790C9A92089BC70FbCa'', te_typeId = ''4'',
        te_isSideToken = True, te_decimals = 18, te_symbol = ''eDOC''\<rparr>),
     (''eBPro'', \<lparr>te_address = ''0xB3c9ec8833bfA0d382a183EcED27aBc079520928'', te_typeId = ''0'',
        te_isSideToken = True, te_decimals = 18, te_symbol = ''eBPro''\<rparr>)]"

definition tokens_sepolia :: "(string \<times> token_entry) list" where
  "tokens_sepolia = [
     (''WBTC'', \<lparr>te_address = ''0xf864F011C5A97fD8Da79baEd78ba77b47112935a'', te_typeId = ''0'',
        te_isSideToken = False, te_decimals = 8, te_symbol = ''WBTC''\<rparr>),
     (''WETH'', \<lparr>te_address = ''0xD0dF82dE051244f04BfF3A8bB1f62E1cD39eED92'', te_typeId = ''1'',
        te_isSideToken = False, te_decimals = 18, te_symbol = ''ETH''\<rparr>),
     (''DAI'', \<lparr>te_address = ''0x68194a729C2450ad26072b3D33ADaCbcef39D574'', te_typeId = ''4'',
        te_isSideToken = False, te_decimals = 18, te_symbol = ''DAI''\<rparr>),
     (''USDC'', \<lparr>te_address = ''0xda9d4f9b69ac6C22e444eD9aF0CfC043b7a7f53f'', te_typeId = ''4'',
        te_isSideToken = False, te_decimals = 6, te_symbol = ''USDC''\<rparr>),
     (''USDT'', \<lparr>te_address = ''0x0Bd5F04B456ab34a2aB3e9d556Fe5b3A41A0BC8D'', te_typeId = ''4'',
        te_isSideToken = False, te_decimals = 6, te_symbol = ''USDT''\<rparr>),
     (''LINK'', \<lparr>te_address = ''0x779877A7B0D9E8603169DdbD7836e478b4624789'', te_typeId = ''3'',
        te_isSideToken = False, te_decimals = 18, te_symbol = ''LINK''\<rparr>)]"

definition tokens_rskTestnet :: "(string \<times> token_entry) list" where
  "tokens_rskTestnet = [
     (''DOC'', \<lparr>te_address = ''0xcb46c0ddc60d18efeb0e586c17af6ea36452dae0'', te_typeId = ''5'',
        te_isSideToken = False, te_decimals = 18, te_symbol = ''DOC''\<rparr>),
     (''RIF'', \<lparr>te_address = ''0x19f64674d8a5b4e652319f5e239efd3bc969a1fe'', te_typeId = ''6'',
        te_isSideToken = False, te_decimals = 18, te_symbol = ''RIF''\<rparr>),
     (''BPro'', \<lparr>te_address = ''0x4da7997a819bb46b6758b9102234c289dd2ad3bf'', te_typeId = ''0'',
        te_isSideToken = False, te_decimals = 18, te_symbol = ''BPro''\<rparr>),
     (''rKovWETH'', \<lparr>te_address = ''0xd15cdd74dff1a6a81ca639b038839b126bc01ff9'', te_typeId = ''1'',
        te_isSideToken = True, te_decimals = 18, te_symbol = ''rKovWETH''\<rparr>),
     (''rKovSAI'', \<lparr>te_address = ''0x0d86fca9be034a363cf12c9834af08d54a10451c'', te_typeId = ''4'',
        te_isSideToken = True, te_decimals = 18, te_symbol = ''rKovSAI''\<rparr>),
     (''rKovDAI'', \<lparr>te_address = ''0x7b846216a194c69bb1ea52ea8faa92d314866451'', te_typeId = ''4'',
        te_isSideToken = True, te_decimals = 18, te_symbol = ''rKovDAI''\<rparr>),
     (''rKovTUSD'', \<lparr>te_address = ''0x0a8d098e31a60da2b9c874d97de6e6b385c28e9d'', te_typeId = ''4'',
        te_isSideToken = True, te_decimals = 18, te_symbol = ''rKovTUSD''\<rparr>),
     (''rKovUSDC'', \<lparr>te_address = ''0xed3334adb07a3a5947d268e5a8c67b84f5464963'', te_typeId = ''4'',
        te_isSideToken = True, te_decimals = 18, te_symbol = ''rKovUSDC''\<rparr>),
     (''rKovUSDT'', \<lparr>te_address = ''0x4cfE225cE54c6609a525768b13F7d87432358C57'', te_typeId = ''4'',
        te_isSideToken = True, te_decimals = 18, te_symbol = ''rKovUSDT''\<rparr>),
     (''rKovLINK'', \<lparr>te_address = ''0x8bbbd80981fe76d44854d8df305e8985c19f0e78'', te_typeId = ''3'',
        te_isSideToken = True, te_decimals = 18, te_symbol = ''rKovLINK''\<rparr>),
     (''rKovBUND'', \<lparr>te_address = ''0xe95afdfec031f7b9cd942eb7e60f053fb605dfcd'', te_typeId = ''3'',
        te_isSideToken = True, te_decimals = 18, te_symbol = ''rKovBUND''\<rparr>),
     (''rKovWBTC'', \<lparr>te_address = ''0xb8aE2CB769255359190fBcE89d3aD38687da5e65'', te_typeId = ''0'',
        te_isSideToken = True, te_decimals = 18, te_symbol = ''rKovWBTC''\<rparr>)]"

definition tokensByChainId :: "int \<Rightarrow> (string \<times> token_entry) list" where
  "tokensByChainId chainId =
     (if chainId = chain_RSK_TEST_NET then tokens_rskTestnet
      else if chainId = chain_KOVAN_TEST_NET then tokens_kovan
      else if chainId = chain_SEPOLIA_TEST_NET then tokens_sepolia
      else if chainId = chain_RSK_MAIN_NET then tokens_rskMainnet
      else if chainId = chain_ETHEREUM_MAIN_NET then tokens_ethereum
      else [])"

definition formatToken :: "token_entry \<Rightarrow> string \<times> string" where
  "formatToken token = (te_address token, te_typeId token)"

section \<open>deployed/*.json and deployHelper.js\<close>

text \<open>\<open>toLowerCase\<close> of an ASCII string.\<close>

definition js_lower :: "string \<Rightarrow> string" where
  "js_lower s = map (\<lambda>c. let n = of_char c :: nat
                         in if 65 \<le> n \<and> n \<le> 90 then char_of (n + 32) else c) s"

definition name_isMainnet :: "string \<Rightarrow> bool" where
  "name_isMainnet network \<longleftrightarrow> js_includes ''mainnet'' (js_lower network)"

definition isLocalNetwork :: "string \<Rightarrow> bool" where
  "isLocalNetwork network \<longleftrightarrow> \<not> js_includes ''mainnet'' (js_lower network)
     \<and> \<not> js_includes ''kovan'' (js_lower network) \<and> \<not> js_includes ''testnet'' (js_lower network)"

text \<open>
  What 09_deploy_allowTokensProxy.js reads of the file of a network: its confirmations, absent
  where there is no file.
\<close>

record deployed_json =
  dj_network :: string
  dj_small :: "string option"
  dj_medium :: "string option"
  dj_large :: "string option"

definition deployed_files :: "(string \<times> deployed_json) list" where
  "deployed_files = [
     (''arbitrum_mainnet'', \<lparr>dj_network = ''arbitrum_mainnet'', dj_small = Some ''300'', dj_medium = Some ''600'', dj_large = Some ''900''\<rparr>),
     (''ethmainnet'', \<lparr>dj_network = ''ethmainnet'', dj_small = Some ''120'', dj_medium = Some ''240'', dj_large = Some ''5760''\<rparr>),
     (''kovan'', \<lparr>dj_network = ''kovan'', dj_small = Some ''10'', dj_medium = Some ''20'', dj_large = Some ''40''\<rparr>),
     (''rskmainnet'', \<lparr>dj_network = ''rskmainnet'', dj_small = Some ''60'', dj_medium = Some ''120'', dj_large = Some ''2880''\<rparr>),
     (''rsktestnet'', \<lparr>dj_network = ''rsktestnet'', dj_small = Some ''2'', dj_medium = Some ''4'', dj_large = Some ''10''\<rparr>),
     (''sepolia'', \<lparr>dj_network = ''sepolia'', dj_small = Some ''12'', dj_medium = Some ''24'', dj_large = Some ''36''\<rparr>),
     (''sepolia_arbitrum'', \<lparr>dj_network = ''sepolia_arbitrum'', dj_small = Some ''300'', dj_medium = Some ''600'', dj_large = Some ''900''\<rparr>)]"

definition getDeployed :: "string \<Rightarrow> deployed_json" where
  "getDeployed network =
     (case map_of deployed_files network of
        Some d \<Rightarrow> d
      | None \<Rightarrow> \<lparr>dj_network = network, dj_small = None, dj_medium = None, dj_large = None\<rparr>)"

definition or_zero :: "string option \<Rightarrow> string" where
  "or_zero x = (case x of None \<Rightarrow> ''0'' | Some s \<Rightarrow> s)"

section \<open>Token types\<close>

definition js_limits ::
    "(string \<Rightarrow> nat) \<Rightarrow> string \<Rightarrow> string \<Rightarrow> string \<Rightarrow> string \<Rightarrow> string \<Rightarrow> type_limits" where
  "js_limits toWei mi ma da me la =
     \<lparr>l_min = of_nat (toWei mi), l_max = of_nat (toWei ma), l_daily = of_nat (toWei da),
      l_mediumAmount = of_nat (toWei me), l_largeAmount = of_nat (toWei la)\<rparr>"

definition tokensTypesMainnet :: "(string \<Rightarrow> nat) \<Rightarrow> type_info list" where
  "tokensTypesMainnet toWei = [
     \<lparr>description = ''BTC'', info_limits = js_limits toWei ''0.0001'' ''25'' ''100'' ''0.1'' ''1''\<rparr>,
     \<lparr>description = ''ETH'', info_limits = js_limits toWei ''0.005'' ''750'' ''3000'' ''3'' ''30''\<rparr>,
     \<lparr>description = ''<1000usd'', info_limits = js_limits toWei ''0.01'' ''2500'' ''5000'' ''10'' ''100''\<rparr>,
     \<lparr>description = ''<100usd'', info_limits = js_limits toWei ''0.1'' ''25000'' ''50000'' ''100'' ''1000''\<rparr>,
     \<lparr>description = ''=1usd'', info_limits = js_limits toWei ''10'' ''2500000'' ''5000000'' ''10000'' ''100000''\<rparr>,
     \<lparr>description = ''<1usd'', info_limits = js_limits toWei ''1000'' ''250000000'' ''500000000'' ''1000000'' ''10000000''\<rparr>,
     \<lparr>description = ''<1cent'', info_limits = js_limits toWei ''100000'' ''25000000000'' ''50000000000'' ''100000000'' ''1000000000''\<rparr>]"

definition tokensTypesTestnet :: "(string \<Rightarrow> nat) \<Rightarrow> type_info list" where
  "tokensTypesTestnet toWei = [
     \<lparr>description = ''BTC'', info_limits = js_limits toWei ''0.0001'' ''25'' ''100'' ''0.01'' ''0.1''\<rparr>,
     \<lparr>description = ''ETH'', info_limits = js_limits toWei ''0.0005'' ''750'' ''3000'' ''0.03'' ''0.3''\<rparr>,
     \<lparr>description = ''<1000usd'', info_limits = js_limits toWei ''0.001'' ''2500'' ''5000'' ''0.01'' ''0.1''\<rparr>,
     \<lparr>description = ''<100usd'', info_limits = js_limits toWei ''0.1'' ''25000'' ''50000'' ''1'' ''10''\<rparr>,
     \<lparr>description = ''=1usd'', info_limits = js_limits toWei ''1'' ''2500000'' ''5000000'' ''10'' ''100''\<rparr>,
     \<lparr>description = ''<1usd'', info_limits = js_limits toWei ''10'' ''250000000'' ''500000000'' ''100'' ''1000''\<rparr>,
     \<lparr>description = ''<1cent'', info_limits = js_limits toWei ''10'' ''25000000000'' ''50000000000'' ''100'' ''1000''\<rparr>]"

definition typesInfo :: "(string \<Rightarrow> nat) \<Rightarrow> network \<Rightarrow> type_info list" where
  "typesInfo toWei n = (if isMainnet n then tokensTypesMainnet toWei else tokensTypesTestnet toWei)"

section \<open>What the contract accepts of the tables\<close>

text \<open>
  The documented behaviour of \<open>toWei\<close>: a decimal number with up to 18 digits after the point is
  multiplied by 10 to the 18. The string of digits it returns is kept as the number.
\<close>

definition wei_of :: "string \<Rightarrow> nat option" where
  "wei_of s =
     (let i = takeWhile (\<lambda>c. c \<noteq> CHR ''.'') s; f = drop (Suc (length i)) s
      in if i \<noteq> [] \<and> list_all (is_digit 10) (i @ f) \<and> length f \<le> 18
         then Some (read_digits 10 (i @ f) * 10 ^ (18 - length f)) else None)"

definition toWei_spec :: "(string \<Rightarrow> nat) \<Rightarrow> bool" where
  "toWei_spec toWei \<longleftrightarrow> (\<forall>s n. wei_of s = Some n \<longrightarrow> toWei s = n)"

definition toWei_wei_of :: "string \<Rightarrow> nat" where
  "toWei_wei_of s = (case wei_of s of None \<Rightarrow> 0 | Some n \<Rightarrow> n)"

lemma toWei_spec_wei_of: "toWei_spec toWei_wei_of"
  by (simp add: toWei_spec_def toWei_wei_of_def)

definition type_ok :: "type_info \<Rightarrow> bool" where
  "type_ok ti \<longleftrightarrow> description ti \<noteq> [] \<and> limits_ok (info_limits ti)"

lemma wei_values:
  assumes "toWei_spec toWei"
  shows
    "toWei ''0.0001'' = 10 ^ 14" "toWei ''0.0005'' = 5 * 10 ^ 14" "toWei ''0.001'' = 10 ^ 15"
    "toWei ''0.005'' = 5 * 10 ^ 15" "toWei ''0.01'' = 10 ^ 16" "toWei ''0.03'' = 3 * 10 ^ 16"
    "toWei ''0.1'' = 10 ^ 17" "toWei ''0.3'' = 3 * 10 ^ 17"
    "toWei ''1'' = 10 ^ 18" "toWei ''3'' = 3 * 10 ^ 18" "toWei ''10'' = 10 ^ 19"
    "toWei ''25'' = 25 * 10 ^ 18" "toWei ''30'' = 30 * 10 ^ 18" "toWei ''100'' = 10 ^ 20"
    "toWei ''750'' = 750 * 10 ^ 18" "toWei ''1000'' = 10 ^ 21" "toWei ''2500'' = 2500 * 10 ^ 18"
    "toWei ''3000'' = 3000 * 10 ^ 18" "toWei ''5000'' = 5000 * 10 ^ 18" "toWei ''10000'' = 10 ^ 22"
    "toWei ''25000'' = 25 * 10 ^ 21" "toWei ''50000'' = 50 * 10 ^ 21" "toWei ''100000'' = 10 ^ 23"
    "toWei ''1000000'' = 10 ^ 24" "toWei ''2500000'' = 25 * 10 ^ 23" "toWei ''5000000'' = 5 * 10 ^ 24"
    "toWei ''10000000'' = 10 ^ 25" "toWei ''100000000'' = 10 ^ 26" "toWei ''250000000'' = 25 * 10 ^ 25"
    "toWei ''500000000'' = 5 * 10 ^ 26" "toWei ''1000000000'' = 10 ^ 27"
    "toWei ''25000000000'' = 25 * 10 ^ 27" "toWei ''50000000000'' = 5 * 10 ^ 28"
  by (rule assms [unfolded toWei_spec_def, rule_format],
      simp add: wei_of_def Let_def read_digits_def is_digit_def digit_val_def)+

lemma types_ok:
  assumes "toWei_spec toWei"
  shows "list_all type_ok (typesInfo toWei n)" and "length (typesInfo toWei n) = 7"
  by (simp_all add: typesInfo_def tokensTypesMainnet_def tokensTypesTestnet_def type_ok_def
      js_limits_def limits_ok_def wei_values [OF assms])

text \<open>The initialiser accepts exactly ordered types and confirmations in bounds.\<close>

definition add_type :: "type_info \<Rightarrow> unit sol" where
  "add_type ti = bnd (addTokenType_body (description ti) (info_limits ti)) (\<lambda>_. ret ())"

lemma add_type_ok:
  assumes "length (typeDescriptions s) < MAX_TYPES"
  shows "(\<exists>t. add_type ti s = (Inr (), t)) \<longleftrightarrow> type_ok ti"
    and "add_type ti s = (Inr (), t) \<Longrightarrow> length (typeDescriptions t) = Suc (length (typeDescriptions s))"
proof -
  let ?n = "length (typeDescriptions s)"
  have "(of_nat ?n :: uint256) < of_nat (Suc ?n)"
    using assms by (simp add: word_less_nat_alt MAX_TYPES_def del: of_nat_Suc)
  moreover have "(of_nat ?n + 1 :: uint256) \<le> of_nat MAX_TYPES"
    using assms addTokenType_room [of "typeDescriptions s"] by simp
  ultimately show "(\<exists>t. add_type ti s = (Inr (), t)) \<longleftrightarrow> type_ok ti"
    by (auto simp: add_type_def bnd_eq_Inr_iff addTokenType_body_Inr typeCount_def type_ok_def)
  show "add_type ti s = (Inr (), t) \<Longrightarrow> length (typeDescriptions t) = Suc ?n"
    by (auto simp: add_type_def bnd_eq_Inr_iff addTokenType_body_Inr)
qed

lemma add_types_ok:
  "length (typeDescriptions s) + length ts \<le> MAX_TYPES \<Longrightarrow>
     (\<exists>t. for_each add_type ts s = (Inr (), t)) \<longleftrightarrow> list_all type_ok ts"
proof (induction ts arbitrary: s)
  case Nil
  then show ?case by simp
next
  case (Cons ti ts)
  have room: "length (typeDescriptions s) < MAX_TYPES" using Cons.prems by simp
  have "(\<exists>t. for_each add_type ts u = (Inr (), t)) \<longleftrightarrow> list_all type_ok ts"
    if "add_type ti s = (Inr (), u)" for u
    using Cons.IH [of u] Cons.prems add_type_ok(2) [OF room that] by simp
  then show ?case
    using add_type_ok(1) [OF room, of ti] by (auto simp: bnd_eq_Inr_iff)
qed

lemma add_types_length:
  "for_each add_type ts s = (Inr (), t) \<Longrightarrow> length (typeDescriptions s) + length ts \<le> MAX_TYPES \<Longrightarrow>
     length (typeDescriptions t) = length (typeDescriptions s) + length ts"
proof (induction ts arbitrary: s)
  case Nil
  then show ?case by simp
next
  case (Cons ti ts)
  then obtain u where u: "add_type ti s = (Inr (), u)" "for_each add_type ts u = (Inr (), t)"
    by (auto simp: bnd_eq_Inr_iff)
  have "length (typeDescriptions u) = Suc (length (typeDescriptions s))"
    by (rule add_type_ok(2) [OF _ u(1)]) (use Cons.prems in simp)
  then show ?case using Cons.IH [OF u(2)] Cons.prems by simp
qed

lemma allow_initialize_eq:
  "allow_initialize ow pr sm me la ts blank_allow_tokens = (Inr (), t) \<longleftrightarrow>
     confirmations_ok sm me la
     \<and> for_each add_type ts (blank_allow_tokens\<lparr>at_initialized := True, at_owner := ow,
         at_primary := pr, smallAmountConfirmations := sm, mediumAmountConfirmations := me,
         largeAmountConfirmations := la\<rparr>) = (Inr (), t)"
  by (auto simp: allow_initialize_def add_type_def [abs_def] bnd_eq_Inr_iff setConfirmations_body_Inr
      blank_allow_tokens_def)

lemma blank_types [simp]: "typeDescriptions blank_allow_tokens = []"
  by (simp add: blank_allow_tokens_def)

lemma allow_initialize_accepts:
  assumes "length ts \<le> MAX_TYPES"
  shows "(\<exists>t. allow_initialize ow pr sm me la ts blank_allow_tokens = (Inr (), t)) \<longleftrightarrow>
    confirmations_ok sm me la \<and> list_all type_ok ts"
  using add_types_ok [of "blank_allow_tokens\<lparr>at_initialized := True, at_owner := ow,
         at_primary := pr, smallAmountConfirmations := sm, mediumAmountConfirmations := me,
         largeAmountConfirmations := la\<rparr>" ts] assms
  unfolding allow_initialize_eq by auto

section \<open>The tables against the contract\<close>

text \<open>The call 09_deploy_allowTokensProxy.js encodes into the proxy's constructor.\<close>

definition conf_arg :: "string option \<Rightarrow> uint256" where
  "conf_arg x = of_nat (read_digits 10 (or_zero x))"

definition proxy_initialize :: "(string \<Rightarrow> nat) \<Rightarrow> network \<Rightarrow> address \<Rightarrow> address \<Rightarrow> unit sol" where
  "proxy_initialize toWei n dep bridge =
     (let d = getDeployed (net_name n)
      in allow_initialize dep bridge (conf_arg (dj_small d)) (conf_arg (dj_medium d))
           (conf_arg (dj_large d)) (typesInfo toWei n))"

definition accepted_networks :: "string list" where
  "accepted_networks = [''sepolia'', ''sepolia_arbitrum'', ''arbitrum_mainnet'']"

lemma confirmations_of:
  "n \<in> set networks \<Longrightarrow>
     (let d = getDeployed (net_name n)
      in confirmations_ok (conf_arg (dj_small d)) (conf_arg (dj_medium d)) (conf_arg (dj_large d)))
     \<longleftrightarrow> net_name n \<in> set accepted_networks"
  by (auto simp: networks_def getDeployed_def deployed_files_def conf_arg_def or_zero_def
      confirmations_ok_def accepted_networks_def read_digits_def digit_val_def)

lemma proxy_accepts:
  assumes "toWei_spec toWei" and "n \<in> set networks"
  shows "(\<exists>t. proxy_initialize toWei n dep bridge blank_allow_tokens = (Inr (), t))
    \<longleftrightarrow> net_name n \<in> set accepted_networks"
  using allow_initialize_accepts [of "typesInfo toWei n"] types_ok [OF assms(1), of n]
    confirmations_of [OF assms(2)]
  by (simp add: proxy_initialize_def Let_def MAX_TYPES_def)

text \<open>
  Of the networks of hardhat.config.js, the initialiser of AllowTokens accepts the
  confirmations and token types of the deployment tables exactly for sepolia, sepolia_arbitrum and
  arbitrum_mainnet. For every other network it reverts: where there is no file under deployed/ the
  script passes zeros, below the contract's minimum of 12, and the files of RSK, Ethereum and Kovan
  predate the bounds.
\<close>
theorem initialize_accepted_networks:
  assumes "toWei_spec toWei" and "n \<in> set networks"
  shows "(\<exists>t. proxy_initialize toWei n dep bridge blank_allow_tokens = (Inr (), t))
    \<longleftrightarrow> net_name n \<in> set accepted_networks"
  by (rule proxy_accepts [OF assms])

theorem initialize_accepted_networks_witness:
  "(\<exists>t. proxy_initialize toWei_wei_of (hd networks) 1 2 blank_allow_tokens = (Inr (), t)) = False"
  using initialize_accepted_networks [OF toWei_spec_wei_of, of "hd networks" 1 2]
  by (simp add: networks_def accepted_networks_def)

text \<open>
  Each token is then set with its type. The address words are those the ABI encoder reads from the
  strings of the table.
\<close>

definition tokens_call :: "(string \<Rightarrow> address) \<Rightarrow> int \<Rightarrow> (address \<times> uint256) list" where
  "tokens_call addr chain =
     map (\<lambda>(key, token). case formatToken token of
                             (a, i) \<Rightarrow> (addr a, of_nat (read_digits 10 i)))
       (tokensByChainId chain)"

lemma token_types:
  "list_all (\<lambda>(key, token). te_typeId token \<in> {''0'', ''1'', ''3'', ''4'', ''5'', ''6''}) (tokensByChainId chain)"
proof -
  have "list_all (\<lambda>(key, token). te_typeId token \<in> {''0'', ''1'', ''3'', ''4'', ''5'', ''6''}) ts"
    if "ts = tokens_rskTestnet \<or> ts = tokens_kovan \<or> ts = tokens_sepolia \<or> ts = tokens_rskMainnet
      \<or> ts = tokens_ethereum" for ts
    using that by (elim disjE; simp only:; unfold tokens_rskTestnet_def tokens_kovan_def
        tokens_sepolia_def tokens_rskMainnet_def tokens_ethereum_def;
        simp only: list.pred_inject token_entry.simps prod.case insert_iff HOL.simp_thms)
  then show ?thesis by (simp add: tokensByChainId_def)
qed

lemma token_types_exist: "(a, i) \<in> set (tokens_call addr chain) \<Longrightarrow> i < 7"
  using token_types [of chain]
  by (auto simp: tokens_call_def formatToken_def list_all_iff read_digits_def digit_val_def)

lemma tokens_call_addr: "(a, i) \<in> set (tokens_call addr chain) \<Longrightarrow> \<exists>x. a = addr x"
  by (auto simp: tokens_call_def formatToken_def)

lemma set_tokens:
  assumes "\<forall>(a, i) \<in> set xs. a \<noteq> 0 \<and> i < typeCount s" and "msg_sender m = at_owner s"
  shows "\<exists>t. for_each (\<lambda>(token, typeId). setToken m token typeId) xs s = (Inr (), t)
    \<and> typeCount t = typeCount s
    \<and> (\<forall>a. ti_allowed (allowedTokens t a) \<longleftrightarrow> ti_allowed (allowedTokens s a) \<or> a \<in> fst ` set xs)"
  using assms
proof (induction xs arbitrary: s)
  case Nil
  then show ?case by simp
next
  case (Cons x xs)
  obtain a i where x: "x = (a, i)" by (cases x)
  let ?u = "s\<lparr>allowedTokens := (allowedTokens s)
              (a := (allowedTokens s a)\<lparr>ti_allowed := True, ti_typeId := i\<rparr>)\<rparr>"
  have u: "setToken m a i s = (Inr (), ?u)" using Cons.prems by (auto simp: setToken_Inr x)
  have c: "typeCount ?u = typeCount s" "at_owner ?u = at_owner s" by (simp_all add: typeCount_def)
  have "\<exists>t. for_each (\<lambda>(token, typeId). setToken m token typeId) xs ?u = (Inr (), t)
    \<and> typeCount t = typeCount ?u
    \<and> (\<forall>b. ti_allowed (allowedTokens t b) \<longleftrightarrow> ti_allowed (allowedTokens ?u b) \<or> b \<in> fst ` set xs)"
    by (rule Cons.IH) (use Cons.prems c in \<open>auto\<close>)
  then obtain t where t: "for_each (\<lambda>(token, typeId). setToken m token typeId) xs ?u = (Inr (), t)"
    "typeCount t = typeCount ?u"
    "\<forall>b. ti_allowed (allowedTokens t b) \<longleftrightarrow> ti_allowed (allowedTokens ?u b) \<or> b \<in> fst ` set xs"
    by blast
  have "for_each (\<lambda>(token, typeId). setToken m token typeId) (x # xs) s = (Inr (), t)"
    using bnd_Inr [of "setToken m a i" s "()" ?u] u t(1) by (simp add: x)
  then show ?case using t(2,3) c(1) by (intro exI [of _ t]) (auto simp: x)
qed

lemma initialized_state:
  assumes run: "proxy_initialize toWei n dep bridge blank_allow_tokens = (Inr (), s)"
    and spec: "toWei_spec toWei"
  shows "typeCount s = 7" and "at_owner s = dep"
proof -
  let ?b = "\<lambda>sm me la. blank_allow_tokens\<lparr>at_initialized := True, at_owner := dep,
         at_primary := bridge, smallAmountConfirmations := sm, mediumAmountConfirmations := me,
         largeAmountConfirmations := la\<rparr>"
  from run obtain sm me la where f: "for_each add_type (typesInfo toWei n) (?b sm me la) = (Inr (), s)"
    by (auto simp: proxy_initialize_def Let_def allow_initialize_eq)
  from add_types_length [OF f] have "length (typeDescriptions s) = 7"
    by (simp add: types_ok [OF spec] MAX_TYPES_def)
  then show "typeCount s = 7" by (simp add: typeCount_def)
  have "at_owner t = at_owner u" if "for_each add_type ts u = (Inr (), t)" for ts u t
    using that
  proof (induction ts arbitrary: u)
    case Nil
    then show ?case by simp
  next
    case (Cons x xs)
    then show ?case by (auto simp: bnd_eq_Inr_iff add_type_def addTokenType_body_Inr)
  qed
  from this [OF f] show "at_owner s = dep" by simp
qed

text \<open>
  On a network whose initialiser is accepted, the tokens of its chain are accepted as well: every
  type id of the table exists among the seven types, so after the call that
  10_transfer_setTokens_allowTokens.js sends, exactly the tokens of the table are allowed and the
  contract's invariant holds.
\<close>
theorem deployment_tokens_accepted:
  assumes "toWei_spec toWei" and "n \<in> set networks"
    and "proxy_initialize toWei n dep bridge blank_allow_tokens = (Inr (), s)"
    and "msg_sender m = dep" and "\<forall>x. addr x \<noteq> 0"
    and "tokensByChainId (network_id n) \<noteq> []"
  shows "\<exists>t. setMultipleTokens m (tokens_call addr (network_id n)) s = (Inr (), t) \<and> allow_inv t
    \<and> (\<forall>a. a \<in> fst ` set (tokens_call addr (network_id n)) \<longrightarrow> ti_allowed (allowedTokens t a))"
proof -
  let ?xs = "tokens_call addr (network_id n)"
  note init = initialized_state [OF assms(3,1)]
  have "\<forall>(a, i) \<in> set ?xs. a \<noteq> 0 \<and> i < typeCount s"
  proof (intro ballI case_prodI2)
    fix p a i
    assume "p \<in> set ?xs" "p = (a, i)"
    then have "(a, i) \<in> set ?xs" by simp
    from token_types_exist [OF this] tokens_call_addr [OF this] show "a \<noteq> 0 \<and> i < typeCount s"
      using assms(5) by (auto simp: init(1))
  qed
  from set_tokens [OF this, of m] obtain t where
    t: "for_each (\<lambda>(token, typeId). setToken m token typeId) ?xs s = (Inr (), t)"
      "\<forall>a. ti_allowed (allowedTokens t a) \<longleftrightarrow> ti_allowed (allowedTokens s a) \<or> a \<in> fst ` set ?xs"
    using assms(4) init(2) by auto
  have run: "setMultipleTokens m ?xs s = (Inr (), t)"
    using t(1) assms(4,6) init(2)
    by (simp add: setMultipleTokens_def onlyOwner_Inr bnd_eq_Inr_iff tokens_call_def)
  have "allow_inv s"
    using assms(3) allow_inv_initialize [OF allow_inv_blank] by (simp add: proxy_initialize_def Let_def)
  then have "allow_inv t" using allow_inv_exec [of s m "SetMultipleTokens ?xs" t] run by simp
  then show ?thesis using run t(2) by blast
qed

theorem deployment_tokens_accepted_witness:
  "\<exists>s t. proxy_initialize toWei_wei_of (networks ! 6) 7 8 blank_allow_tokens = (Inr (), s)
    \<and> setMultipleTokens sample_owner (tokens_call (\<lambda>_. 5) (network_id (networks ! 6))) s = (Inr (), t)
    \<and> ti_allowed (allowedTokens t 5)"
proof -
  let ?n = "networks ! 6"
  have n: "?n \<in> set networks" "net_name ?n = ''sepolia''" "network_id ?n = chain_SEPOLIA_TEST_NET"
    by (simp_all add: networks_def)
  have "net_name ?n \<in> set accepted_networks" by (simp add: n accepted_networks_def)
  then obtain s where s: "proxy_initialize toWei_wei_of ?n 7 8 blank_allow_tokens = (Inr (), s)"
    using proxy_accepts [OF toWei_spec_wei_of n(1)] by blast
  have ne: "tokensByChainId (network_id ?n) \<noteq> []"
    by (simp add: n(3) tokensByChainId_def chain_ids tokens_sepolia_def)
  have "5 \<in> fst ` set (tokens_call (\<lambda>_. 5) (network_id ?n))"
    using ne by (cases "tokensByChainId (network_id ?n)") (auto simp: tokens_call_def formatToken_def)
  moreover have "\<exists>t. setMultipleTokens sample_owner (tokens_call (\<lambda>_. 5) (network_id ?n)) s = (Inr (), t)
    \<and> allow_inv t \<and> (\<forall>a. a \<in> fst ` set (tokens_call (\<lambda>_. 5) (network_id ?n)) \<longrightarrow> ti_allowed (allowedTokens t a))"
    by (rule deployment_tokens_accepted [OF toWei_spec_wei_of n(1) s _ _ ne]) (simp_all add: sample_owner_def)
  ultimately show ?thesis using s by blast
qed

section \<open>Names and chain ids\<close>

text \<open>
  The two ways the scripts tell a main network agree on every network of hardhat.config.js but
  arbitrum_mainnet: its name says main network, which decides the federation's members, its chain id
  does not, so its AllowTokens gets the limits of the test networks.
\<close>
theorem arbitrum_gets_testnet_limits:
  assumes "n \<in> set networks"
  shows "((isMainnet n \<longleftrightarrow> name_isMainnet (net_name n)) \<longleftrightarrow> net_name n \<noteq> ''arbitrum_mainnet'')
    \<and> (net_name n = ''arbitrum_mainnet'' \<longrightarrow>
        name_isMainnet (net_name n) \<and> typesInfo toWei n = tokensTypesTestnet toWei)"
  using assms
  by (auto simp: networks_def isMainnet_def chain_ids name_isMainnet_def js_lower_def Let_def
      js_includes_def index_of_def starts_with_def typesInfo_def)

theorem arbitrum_gets_testnet_limits_witness:
  "typesInfo toWei_wei_of (networks ! 7) = tokensTypesTestnet toWei_wei_of"
  using arbitrum_gets_testnet_limits [of "networks ! 7" toWei_wei_of] by (simp add: networks_def)

lemma named_tables:
  "c \<in> dom getMultiSigAddressesByChainId \<longleftrightarrow> c \<in> {1, 30, 31, 42, 97, 4}"
  "c \<in> dom getProxyAdminAddressesByChainId \<longleftrightarrow> c \<in> {1, 30, 31, 42, 97, 4}"
  "c \<in> dom getAllowTokensProxyAddressesByChainId \<longleftrightarrow> c \<in> {1, 30, 31, 42, 97, 4}"
  "c \<in> dom getBridgeProxyAddressesByChainId \<longleftrightarrow> c \<in> {1, 30, 31, 42, 97, 4}"
  "c \<in> dom getFederationProxyAddressesByChainId \<longleftrightarrow> c \<in> {1, 30, 31, 42, 97, 4}"
  "c \<in> dom getSideTokenFactoryAddressesByChainId \<longleftrightarrow> c \<in> {1, 30, 31, 42, 97, 4}"
  by (auto simp: dom_map_of_conv_image_fst chain_ids getMultiSigAddressesByChainId_def
      getProxyAdminAddressesByChainId_def getAllowTokensProxyAddressesByChainId_def
      getBridgeProxyAddressesByChainId_def getFederationProxyAddressesByChainId_def
      getSideTokenFactoryAddressesByChainId_def)

end
