(* ===== verification/Deploy.thy ===== *)
theory Deploy
  imports ChainConfig Runtime "HOL-Library.Sublist"
begin

text \<open>
  The deployment scripts of src/bridge/deploy and the helper hardhat/helper/address.js. hardhat,
  hardhat-deploy and web3 are the environment \<open>'w hardhat\<close>: each of their calls maps its arguments
  and the world to a result or error and the next world. The state is the world, the list of
  requests that change something on the chain or on disk, and the accounts address.js caches.
  \<open>MethodCall\<close> is the form the hand-run scripts of the theory AdminScripts use.
  Contract calls are kept before ABI encoding except where a script encodes them itself. The two
  calls of 07 and 09 and the version calls of 04, 06 and 08 are not awaited: their outcome is not
  seen by the script (that an unhandled rejection may end the process is not modelled).
\<close>

section \<open>State and environment\<close>

datatype script_arg = SStr string | SInt int | SObj "(string \<times> script_arg) list"

datatype ccall =
    BridgeInitialize string string string string
  | FederationInitialize "string list" nat "string option" string
  | AllowTokensInitialize string "string option" string string string "type_info list"
  | SetMultipleTokensCall "(string \<times> string) list"
  | SetTokenCall string string
  | AddTokenTypeCall string type_limits
  | TransferOwnershipCall string
  | ChangeFederation "string option"
  | ChangeAllowTokens "string option"
  | SetWrappedCurrency "string option"
  | InitDomainSeparator
  | AddMember string
  | Upgrade "string option" string
  | SubmitTransaction "string option" nat string
  | MethodCall string "script_arg list"

datatype deploy_arg = StrArg string | StrsArg "string list" | NumArg nat

record deploy_request =
  dr_name :: string
  dr_contract :: "string option"
  dr_from :: string
  dr_args :: "deploy_arg list"

record deploy_result =
  dp_address :: string
  dp_newlyDeployed :: bool

record config_file =
  cf_name :: string
  cf_bridge :: string
  cf_federation :: string
  cf_multiSig :: string
  cf_allowTokens :: string
  cf_chainId :: int
  cf_testToken :: "string option"
  cf_host :: string
  cf_fromBlock :: int

datatype devent =
    Deployed deploy_request
  | Executed string string string string
  | Sent string "string option" ccall
  | Verified string "deploy_arg list"
  | Registry1820
  | WroteConfig string config_file

record 'w dstate =
  dworld :: 'w
  dtrace :: "devent list"
  namedAccountsInstance :: "named_accounts option"

record 'w hardhat =
  hh_network :: network
  hh_infura :: string
  hh_namedAccounts :: "('w, named_accounts) ext"
  dep_get :: "string \<Rightarrow> ('w, string) ext"
  dep_getOrNull :: "string \<Rightarrow> ('w, string option) ext"
  dep_getArtifact :: "string \<Rightarrow> ('w, unit) ext"
  dep_deploy :: "deploy_request \<Rightarrow> ('w, deploy_result) ext"
  dep_execute :: "string \<Rightarrow> string \<Rightarrow> string \<Rightarrow> string \<Rightarrow> ('w, unit) ext"
  run_verify :: "string \<Rightarrow> deploy_arg list \<Rightarrow> ('w, unit) ext"
  run_deploy1820 :: "('w, unit) ext"
  eth_call :: "string option \<Rightarrow> string option \<Rightarrow> ccall \<Rightarrow> ('w, unit) ext"
  eth_view :: "string option \<Rightarrow> string \<Rightarrow> ('w, string) ext"
  eth_send :: "string \<Rightarrow> string option \<Rightarrow> ccall \<Rightarrow> ('w, unit) ext"
  eth_netId :: "('w, int) ext"
  eth_blockNumber :: "('w, int) ext"
  encode_call :: "ccall \<Rightarrow> string res"
  toWei :: "string \<Rightarrow> nat"

type_synonym ('w, 'a) drun = "('w dstate, 'a) comp"

definition dext :: "('w, 'a) ext \<Rightarrow> ('w, 'a) drun" where
  "dext f s = (case f (dworld s) of (r, w) \<Rightarrow> (r, s\<lparr>dworld := w\<rparr>))"

definition demit :: "devent \<Rightarrow> ('w, unit) drun" where
  "demit e = modify (\<lambda>s. s\<lparr>dtrace := dtrace s @ [e]\<rparr>)"

definition unawaited :: "('w, 'a) drun \<Rightarrow> ('w, unit) drun" where
  "unawaited m s = (Inr (), snd (m s))"

definition deploy :: "'w hardhat \<Rightarrow> deploy_request \<Rightarrow> ('w, deploy_result) drun" where
  "deploy H r = bnd (demit (Deployed r)) (\<lambda>_. dext (dep_deploy H r))"

definition execute :: "'w hardhat \<Rightarrow> string \<Rightarrow> string \<Rightarrow> string \<Rightarrow> string \<Rightarrow> ('w, unit) drun" where
  "execute H name acc f arg =
     bnd (demit (Executed name acc f arg)) (\<lambda>_. dext (dep_execute H name acc f arg))"

definition send :: "'w hardhat \<Rightarrow> string \<Rightarrow> string option \<Rightarrow> ccall \<Rightarrow> ('w, unit) drun" where
  "send H acc to c = bnd (demit (Sent acc to c)) (\<lambda>_. dext (eth_send H acc to c))"

definition verify :: "'w hardhat \<Rightarrow> string \<Rightarrow> deploy_arg list \<Rightarrow> ('w, unit) drun" where
  "verify H a args = bnd (demit (Verified a args)) (\<lambda>_. dext (run_verify H a args))"

text \<open>JavaScript's truth of a string or undefined.\<close>

definition truthy :: "string option \<Rightarrow> bool" where
  "truthy x \<longleftrightarrow> (case x of None \<Rightarrow> False | Some s \<Rightarrow> s \<noteq> [])"

section \<open>hardhat/helper/address.js\<close>

definition getNamedAccountsInstance :: "'w hardhat \<Rightarrow> ('w, named_accounts) drun" where
  "getNamedAccountsInstance H =
     bnd (gets namedAccountsInstance) (\<lambda>c.
     case c of
       Some n \<Rightarrow> ret n
     | None \<Rightarrow> bnd (dext (hh_namedAccounts H)) (\<lambda>n.
         bnd (modify (\<lambda>s. s\<lparr>namedAccountsInstance := Some n\<rparr>)) (\<lambda>_. ret n)))"

text \<open>\<open>named ?? (await deployments.get(name)).address\<close>\<close>

definition named_or_get ::
    "'w hardhat \<Rightarrow> (named_accounts \<Rightarrow> string option) \<Rightarrow> string \<Rightarrow> ('w, string) drun" where
  "named_or_get H f name =
     bnd (getNamedAccountsInstance H) (\<lambda>n.
     case f n of Some a \<Rightarrow> ret a | None \<Rightarrow> dext (dep_get H name))"

text \<open>The named account if truthy, else the address of the deployment, else null.\<close>

definition named_or_null ::
    "'w hardhat \<Rightarrow> (named_accounts \<Rightarrow> string option) \<Rightarrow> string \<Rightarrow> ('w, string option) drun" where
  "named_or_null H f name =
     bnd (getNamedAccountsInstance H) (\<lambda>n.
     if truthy (f n) then ret (f n) else dext (dep_getOrNull H name))"

definition getProxyAdminAddress :: "'w hardhat \<Rightarrow> ('w, string) drun" where
  "getProxyAdminAddress H = named_or_get H proxyAdmin ''ProxyAdmin''"

definition getMultiSigAddress :: "'w hardhat \<Rightarrow> ('w, string) drun" where
  "getMultiSigAddress H = named_or_get H multiSig ''MultiSigWallet''"

definition getBridgeProxyAddress :: "'w hardhat \<Rightarrow> ('w, string option) drun" where
  "getBridgeProxyAddress H = named_or_null H bridgeProxy ''BridgeProxy''"

definition getFederationProxyAddress :: "'w hardhat \<Rightarrow> ('w, string option) drun" where
  "getFederationProxyAddress H = named_or_null H federationProxy ''FederationProxy''"

definition getAllowTokensProxyAddress :: "'w hardhat \<Rightarrow> ('w, string option) drun" where
  "getAllowTokensProxyAddress H = named_or_null H allowTokensProxy ''AllowTokensProxy''"

definition getSideTokenFactoryAddress :: "'w hardhat \<Rightarrow> ('w, string) drun" where
  "getSideTokenFactoryAddress H = named_or_get H sideTokenFactory ''SideTokenFactory''"

section \<open>Deployments\<close>

definition plain_deploy :: "string \<Rightarrow> string \<Rightarrow> deploy_arg list \<Rightarrow> deploy_request" where
  "plain_deploy name acc args = \<lparr>dr_name = name, dr_contract = None, dr_from = acc, dr_args = args\<rparr>"

definition proxy_deploy :: "string \<Rightarrow> string \<Rightarrow> deploy_arg list \<Rightarrow> deploy_request" where
  "proxy_deploy name acc args =
     \<lparr>dr_name = name, dr_contract = Some ''TransparentUpgradeableProxy'', dr_from = acc, dr_args = args\<rparr>"

text \<open>The end of a deployment: a new contract is verified on a live network other than RSK.\<close>

definition verify_new :: "'w hardhat \<Rightarrow> deploy_result \<Rightarrow> deploy_arg list \<Rightarrow> ('w, unit) drun" where
  "verify_new H r args =
     (if dp_newlyDeployed r \<and> net_live (hh_network H) \<and> \<not> isRSK (hh_network H)
      then verify H (dp_address r) args else ret ())"

text \<open>01\<close>

definition deploy_multiSigWallet :: "'w hardhat \<Rightarrow> ('w, unit) drun" where
  "deploy_multiSigWallet H =
     bnd (dext (hh_namedAccounts H)) (\<lambda>n.
     if truthy (multiSig n) then ret ()
     else
       bnd (deploy H (plain_deploy ''MultiSigWallet'' (deployer n) [StrsArg [deployer n], NumArg 1])) (\<lambda>r.
       if \<not> net_live (hh_network H)
       then bnd (demit Registry1820) (\<lambda>_. dext (run_deploy1820 H))
       else ret ()))"

text \<open>02\<close>

definition deploy_proxyAdmin :: "'w hardhat \<Rightarrow> ('w, unit) drun" where
  "deploy_proxyAdmin H =
     bnd (dext (hh_namedAccounts H)) (\<lambda>n.
     if truthy (proxyAdmin n) then ret ()
     else
       bnd (deploy H (plain_deploy ''ProxyAdmin'' (deployer n) [])) (\<lambda>r.
       if \<not> dp_newlyDeployed r then ret ()
       else
         bnd (getMultiSigAddress H) (\<lambda>multiSigAddress.
         bnd (execute H ''ProxyAdmin'' (deployer n) ''transferOwnership'' multiSigAddress) (\<lambda>_.
         verify_new H r []))))"

text \<open>03\<close>

definition deploy_sideTokenFactory :: "'w hardhat \<Rightarrow> ('w, unit) drun" where
  "deploy_sideTokenFactory H =
     bnd (dext (hh_namedAccounts H)) (\<lambda>n.
     if truthy (bridgeProxy n) then ret ()
     else
       bnd (deploy H (plain_deploy ''SideTokenFactory'' (deployer n) [])) (\<lambda>r.
       verify_new H r []))"

text \<open>
  04, 06 and 08. What \<open>version().call()\<close> returns without \<open>await\<close> is a promise, which is compared
  with a string by \<open>===\<close>.
\<close>

datatype js_value = JsString string | JsPromise

definition deploy_logic ::
    "'w hardhat \<Rightarrow> string \<Rightarrow> ('w, string option) drun \<Rightarrow> string \<Rightarrow> ('w, unit) drun" where
  "deploy_logic H name getProxyAddress lastVersion =
     bnd (dext (hh_namedAccounts H)) (\<lambda>n.
     bnd getProxyAddress (\<lambda>proxyAddress.
     bnd (if truthy proxyAddress
          then bnd (dext (dep_getArtifact H name)) (\<lambda>_.
               bnd (unawaited (dext (eth_view H proxyAddress ''version''))) (\<lambda>_.
               ret (JsPromise = JsString lastVersion)))
          else ret False) (\<lambda>upToDate.
     if upToDate then ret ()
     else
       bnd (deploy H (plain_deploy name (deployer n) [])) (\<lambda>r.
       verify_new H r []))))"

definition deploy_bridge :: "'w hardhat \<Rightarrow> ('w, unit) drun" where
  "deploy_bridge H = deploy_logic H ''Bridge'' (getBridgeProxyAddress H) ''v4''"

definition deploy_federation :: "'w hardhat \<Rightarrow> ('w, unit) drun" where
  "deploy_federation H = deploy_logic H ''Federation'' (getFederationProxyAddress H) ''v3''"

definition deploy_allow_tokens :: "'w hardhat \<Rightarrow> ('w, unit) drun" where
  "deploy_allow_tokens H = deploy_logic H ''AllowTokens'' (getAllowTokensProxyAddress H) ''v2''"

text \<open>05\<close>

definition deploy_bridge_proxy :: "'w hardhat \<Rightarrow> ('w, unit) drun" where
  "deploy_bridge_proxy H =
     bnd (dext (hh_namedAccounts H)) (\<lambda>n.
     if truthy (bridgeProxy n) then ret ()
     else
       bnd (dext (dep_get H ''Bridge'')) (\<lambda>bridge.
       bnd (getMultiSigAddress H) (\<lambda>multiSigAddress.
       bnd (getProxyAdminAddress H) (\<lambda>proxyAdminAddress.
       bnd (getSideTokenFactoryAddress H) (\<lambda>sideTokenFactoryAddress.
       let methodCall = BridgeInitialize multiSigAddress (deployer n) (deployer n) sideTokenFactoryAddress
       in bnd (dext (eth_call H (Some (deployer n)) (Some bridge) methodCall)) (\<lambda>_.
          bnd (lift_res (encode_call H methodCall)) (\<lambda>code.
          let args = [StrArg bridge, StrArg proxyAdminAddress, StrArg code]
          in bnd (deploy H (plain_deploy ''BridgeProxy'' (deployer n) args)) (\<lambda>r.
             verify_new H r args))))))))"

text \<open>07\<close>

definition getFederationConf :: "string \<Rightarrow> network \<Rightarrow> string list \<times> nat" where
  "getFederationConf dep n =
     (let networkName = js_lower (net_name n)
      in if js_includes ''testnet'' networkName \<or> js_includes ''kovan'' networkName
            \<or> js_includes ''rinkeby'' networkName
         then ([''0x8f397ff074ff190fc650e5cab4da039a8163e12a''], 1)
         else if js_includes ''mainnet'' networkName
         then ([''0x5eb6ceca6bdd82f4a38aac0b957e6a4b5b1cceba'',
                ''0x8a9ec366c1b359fed1a7372cf8607ec52963b550'',
                ''0xa4398c6ff62e9b93b32b28dd29bd27c6b106245f'',
                ''0x1089a708b03821b19db9bdf179fbd7ed7ce591d7'',
                ''0x04237d65eb6cdc9f93db42fef53f7d5aaca2f1d6''], 2)
         else ([dep], 1))"

definition deploy_federation_proxy :: "'w hardhat \<Rightarrow> ('w, unit) drun" where
  "deploy_federation_proxy H =
     bnd (dext (hh_namedAccounts H)) (\<lambda>n.
     if truthy (federationProxy n) then ret ()
     else
       bnd (dext (dep_get H ''Federation'')) (\<lambda>federation.
       bnd (getProxyAdminAddress H) (\<lambda>proxyAdminAddress.
       bnd (getMultiSigAddress H) (\<lambda>multiSigAddress.
       bnd (getBridgeProxyAddress H) (\<lambda>bridgeProxyAddress.
       let (members, required) = getFederationConf (deployer n) (hh_network H);
           methodCall = FederationInitialize members required bridgeProxyAddress multiSigAddress
       in bnd (unawaited (dext (eth_call H (Some (deployer n)) (Some federation) methodCall))) (\<lambda>_.
          bnd (lift_res (encode_call H methodCall)) (\<lambda>code.
          let args = [StrArg federation, StrArg proxyAdminAddress, StrArg code]
          in bnd (deploy H (proxy_deploy ''FederationProxy'' (deployer n) args)) (\<lambda>r.
             verify_new H r args))))))))"

text \<open>09\<close>

definition deploy_allow_tokens_proxy :: "'w hardhat \<Rightarrow> ('w, unit) drun" where
  "deploy_allow_tokens_proxy H =
     bnd (dext (hh_namedAccounts H)) (\<lambda>n.
     if truthy (allowTokensProxy n) then ret ()
     else
       bnd (dext (dep_get H ''AllowTokens'')) (\<lambda>allowTokens.
       bnd (getProxyAdminAddress H) (\<lambda>proxyAdminAddress.
       bnd (getBridgeProxyAddress H) (\<lambda>bridgeProxyAddress.
       let deployedJson = getDeployed (net_name (hh_network H));
           methodCall = AllowTokensInitialize (deployer n) bridgeProxyAddress
             (or_zero (dj_small deployedJson)) (or_zero (dj_medium deployedJson))
             (or_zero (dj_large deployedJson)) (typesInfo (toWei H) (hh_network H))
       in bnd (unawaited (dext (eth_call H (Some (deployer n)) (Some allowTokens) methodCall))) (\<lambda>_.
          bnd (lift_res (encode_call H methodCall)) (\<lambda>code.
          let args = [StrArg allowTokens, StrArg proxyAdminAddress, StrArg code]
          in bnd (deploy H (proxy_deploy ''AllowTokensProxy'' (deployer n) args)) (\<lambda>r.
             verify_new H r args)))))))"

section \<open>Handing over and configuring\<close>

text \<open>A transaction of the multisig wallet, submitted by the deployer; and one tried first by a call.\<close>

definition submit ::
    "'w hardhat \<Rightarrow> string \<Rightarrow> string option \<Rightarrow> string option \<Rightarrow> ccall \<Rightarrow> ('w, unit) drun" where
  "submit H acc multi dest c =
     bnd (lift_res (encode_call H c)) (\<lambda>code. send H acc multi (SubmitTransaction dest 0 code))"

definition checked_submit ::
    "'w hardhat \<Rightarrow> string \<Rightarrow> string option \<Rightarrow> string option \<Rightarrow> ccall \<Rightarrow> ('w, unit) drun" where
  "checked_submit H acc multi dest c =
     bnd (dext (eth_call H multi dest c)) (\<lambda>_. submit H acc multi dest c)"

text \<open>10\<close>

definition transfer_set_tokens :: "'w hardhat \<Rightarrow> ('w, unit) drun" where
  "transfer_set_tokens H =
     bnd (dext (hh_namedAccounts H)) (\<lambda>n.
     if truthy (allowTokensProxy n) then ret ()
     else
       bnd (dext (dep_getArtifact H ''AllowTokens'')) (\<lambda>_.
       bnd (dext (dep_get H ''AllowTokensProxy'')) (\<lambda>proxy.
       bnd (getMultiSigAddress H) (\<lambda>multiSigAddress.
       bnd (dext (eth_view H (Some proxy) ''owner'')) (\<lambda>owner.
       if owner = multiSigAddress then ret ()
       else
         let tokensToSet = map (\<lambda>(key, token). formatToken token)
                             (tokensByChainId (network_id (hh_network H)))
         in bnd (if length tokensToSet > 0
                 then send H (deployer n) (Some proxy) (SetMultipleTokensCall tokensToSet)
                 else ret ()) (\<lambda>_.
            send H (deployer n) (Some proxy) (TransferOwnershipCall multiSigAddress)))))))"

text \<open>11\<close>

definition transfer_sideTokenFactory :: "'w hardhat \<Rightarrow> ('w, unit) drun" where
  "transfer_sideTokenFactory H =
     bnd (dext (hh_namedAccounts H)) (\<lambda>n.
     if truthy (sideTokenFactory n) then ret ()
     else
       bnd (dext (dep_get H ''BridgeProxy'')) (\<lambda>bridgeProxyAddress.
       bnd (dext (dep_get H ''SideTokenFactory'')) (\<lambda>factory.
       bnd (dext (eth_view H (Some factory) ''primary'')) (\<lambda>primary.
       if primary = bridgeProxyAddress then ret ()
       else execute H ''SideTokenFactory'' (deployer n) ''transferPrimary'' bridgeProxyAddress))))"

text \<open>12\<close>

definition transfer_federation :: "'w hardhat \<Rightarrow> ('w, unit) drun" where
  "transfer_federation H =
     bnd (dext (hh_namedAccounts H)) (\<lambda>n.
     if truthy (federationProxy n) then ret ()
     else
       bnd (dext (dep_getArtifact H ''Bridge'')) (\<lambda>_.
       bnd (dext (dep_getArtifact H ''MultiSigWallet'')) (\<lambda>_.
       bnd (getBridgeProxyAddress H) (\<lambda>bridgeProxyAddress.
       bnd (getFederationProxyAddress H) (\<lambda>federationProxyAddress.
       bnd (getMultiSigAddress H) (\<lambda>multiSigAddress.
       checked_submit H (deployer n) (Some multiSigAddress) bridgeProxyAddress
         (ChangeFederation federationProxyAddress)))))))"

text \<open>13\<close>

definition transfer_allow_tokens :: "'w hardhat \<Rightarrow> ('w, unit) drun" where
  "transfer_allow_tokens H =
     bnd (dext (hh_namedAccounts H)) (\<lambda>n.
     if truthy (allowTokensProxy n) then ret ()
     else
       bnd (dext (dep_getArtifact H ''Bridge'')) (\<lambda>_.
       bnd (dext (dep_getArtifact H ''MultiSigWallet'')) (\<lambda>_.
       bnd (getMultiSigAddress H) (\<lambda>multiSigAddress.
       bnd (getAllowTokensProxyAddress H) (\<lambda>allowTokensAddress.
       bnd (getBridgeProxyAddress H) (\<lambda>bridgeProxyAddress.
       checked_submit H (deployer n) (Some multiSigAddress) bridgeProxyAddress
         (ChangeAllowTokens allowTokensAddress)))))))"

text \<open>14 and 15\<close>

definition deploy_main_token :: "'w hardhat \<Rightarrow> ('w, unit) drun" where
  "deploy_main_token H =
     bnd (dext (hh_namedAccounts H)) (\<lambda>n.
     if net_live (hh_network H) then ret ()
     else
       bnd (deploy H (plain_deploy ''MainToken'' (deployer n)
              [StrArg ''MAIN'', StrArg ''MAIN'', NumArg 18, NumArg (toWei H ''1000'')])) (\<lambda>_.
       ret ()))"

definition deploy_WRBTC :: "'w hardhat \<Rightarrow> ('w, unit) drun" where
  "deploy_WRBTC H =
     bnd (dext (hh_namedAccounts H)) (\<lambda>n.
     if net_live (hh_network H) then ret ()
     else bnd (deploy H (plain_deploy ''WRBTC'' (deployer n) [])) (\<lambda>_. ret ()))"

text \<open>17\<close>

definition set_wrapped_currency :: "'w hardhat \<Rightarrow> ('w, unit) drun" where
  "set_wrapped_currency H =
     bnd (dext (hh_namedAccounts H)) (\<lambda>n.
     if truthy (bridgeProxy n) then ret ()
     else
       bnd (dext (dep_getArtifact H ''Bridge'')) (\<lambda>_.
       bnd (dext (dep_get H ''BridgeProxy'')) (\<lambda>proxy.
       bnd (dext (dep_getArtifact H ''MultiSigWallet'')) (\<lambda>_.
       bnd (getMultiSigAddress H) (\<lambda>multiSigAddress.
       bnd (getBridgeProxyAddress H) (\<lambda>bridgeProxyAddress.
       let multi = Some multiSigAddress;
           on_bridge = (\<lambda>c. bnd (dext (eth_call H multi bridgeProxyAddress c)) (\<lambda>_.
                            submit H (deployer n) multi (Some proxy) c))
       in bnd (if \<not> net_live (hh_network H)
               then
                 bnd (dext (dep_get H ''WRBTC'')) (\<lambda>wrbtc.
                 bnd (on_bridge (SetWrappedCurrency (Some wrbtc))) (\<lambda>_.
                 bnd (dext (dep_get H ''AllowTokens'')) (\<lambda>_.
                 bnd (dext (dep_get H ''AllowTokensProxy'')) (\<lambda>allowTokens.
                 checked_submit H (deployer n) multi (Some allowTokens) (SetTokenCall wrbtc ''0'')))))
               else on_bridge (SetWrappedCurrency (wrappedCurrency n))) (\<lambda>_.
          on_bridge InitDomainSeparator)))))))"

text \<open>30\<close>

definition create_config_file :: "'w hardhat \<Rightarrow> ('w, unit) drun" where
  "create_config_file H =
     bnd (dext (hh_namedAccounts H)) (\<lambda>n.
     let name = net_name (hh_network H)
     in if name = ''soliditycoverage'' \<or> name = ''hardhat'' then ret ()
        else
       bnd (dext (dep_get H ''BridgeProxy'')) (\<lambda>bridge.
       bnd (getMultiSigAddress H) (\<lambda>multiSigAddress.
       bnd (getFederationProxyAddress H) (\<lambda>federationProxyAddress.
       bnd (dext (dep_getArtifact H ''MultiSigWallet'')) (\<lambda>_.
       bnd (dext (dep_get H ''AllowTokensProxy'')) (\<lambda>allowTokens.
       case federationProxyAddress of
         None \<Rightarrow> throw JsTypeError
       | Some fedProxy \<Rightarrow>
       bnd (dext (eth_netId H)) (\<lambda>chainId.
       bnd (if \<not> net_live (hh_network H)
            then
              bnd (dext (dep_get H ''AllowTokens'')) (\<lambda>_.
              bnd (dext (dep_get H ''MainToken'')) (\<lambda>mainToken.
              bnd (submit H (deployer n) (Some multiSigAddress) (Some allowTokens)
                     (AddTokenTypeCall ''MAIN''
                        (js_limits (toWei H) ''1'' ''10000'' ''100000'' ''2'' ''3''))) (\<lambda>_.
              bnd (submit H (deployer n) (Some multiSigAddress) (Some allowTokens)
                     (SetTokenCall mainToken ''0'')) (\<lambda>_.
              ret (Some (js_lower mainToken))))))
            else ret None) (\<lambda>testToken.
       bnd (dext (eth_blockNumber H)) (\<lambda>block.
       demit (WroteConfig (''../federator/config/'' @ name @ ''.json'')
         \<lparr>cf_name = name, cf_bridge = js_lower bridge, cf_federation = js_lower fedProxy,
          cf_multiSig = js_lower multiSigAddress, cf_allowTokens = js_lower allowTokens,
          cf_chainId = chainId, cf_testToken = testToken,
          cf_host = (case network_urls (hh_infura H) name of Some url \<Rightarrow> url | None \<Rightarrow> []), cf_fromBlock = block\<rparr>))))))))))"

text \<open>31\<close>

definition set_federation_member :: "'w hardhat \<Rightarrow> ('w, unit) drun" where
  "set_federation_member H =
     bnd (dext (hh_namedAccounts H)) (\<lambda>n.
     bnd (dext (dep_getArtifact H ''MultiSigWallet'')) (\<lambda>_.
     bnd (dext (dep_getArtifact H ''Federation'')) (\<lambda>_.
     checked_submit H (deployer n) (Some ''0x9D7c899Cdb900B908864bE2A2991F3CbE9e6B71a'')
       (Some ''0x59604f34e1819c36273343F2259e760546a85886'')
       (AddMember ''0xCC3CF44397Daa4572CDb20f72dee5700507454E4''))))"

text \<open>upgrades/01 and 02\<close>

definition upgrade_proxy ::
    "'w hardhat \<Rightarrow> string \<Rightarrow> (named_accounts \<Rightarrow> string option) \<Rightarrow> ('w, unit) drun" where
  "upgrade_proxy H name proxy =
     bnd (dext (hh_namedAccounts H)) (\<lambda>n.
     bnd (dext (dep_get H name)) (\<lambda>logic.
     bnd (dext (dep_getArtifact H ''ProxyAdmin'')) (\<lambda>_.
     bnd (dext (dep_getArtifact H ''MultiSigWallet'')) (\<lambda>_.
     checked_submit H (deployer n) (multiSig n) (proxyAdmin n) (Upgrade (proxy n) logic)))))"

definition upgrade_bridge :: "'w hardhat \<Rightarrow> ('w, unit) drun" where
  "upgrade_bridge H = upgrade_proxy H ''Bridge'' bridgeProxy"

definition upgrade_federation :: "'w hardhat \<Rightarrow> ('w, unit) drun" where
  "upgrade_federation H = upgrade_proxy H ''Federation'' federationProxy"

text \<open>
  hardhat-deploy runs the scripts with the requested tag in the order of their file names, and
  their dependencies before; every dependency of these comes earlier anyway.
\<close>

definition deploy_from_scratch :: "'w hardhat \<Rightarrow> ('w, unit) drun" where
  "deploy_from_scratch H =
     for_each (\<lambda>script. script H)
       [deploy_multiSigWallet, deploy_proxyAdmin, deploy_sideTokenFactory, deploy_bridge,
        deploy_bridge_proxy, deploy_federation, deploy_federation_proxy, deploy_allow_tokens,
        deploy_allow_tokens_proxy, transfer_set_tokens, transfer_sideTokenFactory,
        transfer_federation, transfer_allow_tokens]"

definition integration_test :: "'w hardhat \<Rightarrow> ('w, unit) drun" where
  "integration_test H =
     bnd (deploy_from_scratch H) (\<lambda>_.
     for_each (\<lambda>script. script H)
       [deploy_main_token, deploy_WRBTC, set_wrapped_currency, create_config_file])"

section \<open>What the scripts request\<close>

text \<open>The list of requests only grows, and every request added satisfies \<open>P\<close>.\<close>

definition demits :: "(devent \<Rightarrow> bool) \<Rightarrow> 'w dstate \<Rightarrow> 'w dstate \<Rightarrow> bool" where
  "demits P s t \<longleftrightarrow> (\<exists>es. dtrace t = dtrace s @ es \<and> list_all P es)"

interpretation dm: step_rel "demits P"
proof
  show "demits P s s" for s by (simp add: demits_def)
next
  fix s t u :: "'w dstate"
  assume "demits P s t" "demits P t u"
  then obtain xs ys where "dtrace t = dtrace s @ xs" "dtrace u = dtrace t @ ys"
    "list_all P xs" "list_all P ys" by (auto simp: demits_def)
  then show "demits P s u" by (auto simp: demits_def intro: exI [of _ "xs @ ys"])
qed

lemma runs_dext [steps_intros]: "runs_in (demits P) (dext f)"
  by (auto simp: runs_in_def dext_def demits_def split: prod.splits)

lemma runs_demit [steps_intros]: "P e \<Longrightarrow> runs_in (demits P) (demit e)"
  by (auto simp: runs_in_def demit_def demits_def)

lemma runs_unawaited [steps_intros]: "runs_in R m \<Longrightarrow> runs_in R (unawaited m)"
  by (simp add: runs_in_def unawaited_def)

lemma runs_getNamedAccountsInstance [steps_intros]: "runs_in (demits P) (getNamedAccountsInstance H)"
  unfolding getNamedAccountsInstance_def
  by (intro steps_intros) (auto simp: runs_in_def demits_def)

lemma runs_addresses [steps_intros]:
  "runs_in (demits P) (getProxyAdminAddress H)" "runs_in (demits P) (getMultiSigAddress H)"
  "runs_in (demits P) (getBridgeProxyAddress H)" "runs_in (demits P) (getFederationProxyAddress H)"
  "runs_in (demits P) (getAllowTokensProxyAddress H)" "runs_in (demits P) (getSideTokenFactoryAddress H)"
  unfolding getProxyAdminAddress_def getMultiSigAddress_def getBridgeProxyAddress_def
    getFederationProxyAddress_def getAllowTokensProxyAddress_def getSideTokenFactoryAddress_def
    named_or_get_def named_or_null_def
  by (intro steps_intros)+

lemma runs_requests [steps_intros]:
  "P (Deployed r) \<Longrightarrow> runs_in (demits P) (deploy H r)"
  "P (Executed nm acc f arg) \<Longrightarrow> runs_in (demits P) (execute H nm acc f arg)"
  "P (Sent acc to c) \<Longrightarrow> runs_in (demits P) (send H acc to c)"
  "P (Verified a args) \<Longrightarrow> runs_in (demits P) (verify H a args)"
  unfolding deploy_def execute_def send_def verify_def by (intro steps_intros; assumption)+

lemma runs_verify_new [steps_intros]:
  "(\<And>a. P (Verified a args)) \<Longrightarrow> runs_in (demits P) (verify_new H r args)"
  unfolding verify_new_def by (intro steps_intros)

lemma runs_submit [steps_intros]:
  "(\<And>code. P (Sent acc multi (SubmitTransaction dest 0 code))) \<Longrightarrow> runs_in (demits P) (submit H acc multi dest c)"
  "(\<And>code. P (Sent acc multi (SubmitTransaction dest 0 code))) \<Longrightarrow>
     runs_in (demits P) (checked_submit H acc multi dest c)"
  unfolding submit_def checked_submit_def by (intro steps_intros; assumption)+

lemma runs_deploy_logic [steps_intros]:
  assumes "runs_in (demits P) g" "\<And>acc. P (Deployed (plain_deploy name acc []))" "\<And>a. P (Verified a [])"
  shows "runs_in (demits P) (deploy_logic H name g v)"
  unfolding deploy_logic_def by (intro steps_intros assms)

lemmas script_defs = deploy_multiSigWallet_def deploy_proxyAdmin_def deploy_sideTokenFactory_def
  deploy_bridge_proxy_def deploy_federation_proxy_def deploy_allow_tokens_proxy_def
  transfer_set_tokens_def transfer_sideTokenFactory_def transfer_federation_def
  transfer_allow_tokens_def deploy_main_token_def deploy_WRBTC_def set_wrapped_currency_def
  create_config_file_def set_federation_member_def upgrade_proxy_def

lemmas logic_defs = deploy_bridge_def deploy_federation_def deploy_allow_tokens_def

text \<open>
  Transactions sent directly: only the tokens and the owner of AllowTokens, by its owner. All other
  changes of a deployed contract are submitted to the multisig wallet, with no value.
\<close>

definition admin_ok :: "devent \<Rightarrow> bool" where
  "admin_ok e \<longleftrightarrow>
     (case e of
        Sent acc to c \<Rightarrow> (\<exists>dest code. c = SubmitTransaction dest 0 code)
          \<or> (\<exists>ts. c = SetMultipleTokensCall ts) \<or> (\<exists>a. c = TransferOwnershipCall a)
      | Executed nm acc f arg \<Rightarrow> f \<in> {''transferOwnership'', ''transferPrimary''}
      | _ \<Rightarrow> True)"

lemma admin_ok_simps [simp]:
  "admin_ok (Deployed r)" "admin_ok (Verified a args)" "admin_ok Registry1820" "admin_ok (WroteConfig p f)"
  "admin_ok (Sent acc to (SubmitTransaction dest 0 code))" "admin_ok (Sent acc to (SetMultipleTokensCall ts))"
  "admin_ok (Sent acc to (TransferOwnershipCall a))"
  "admin_ok (Executed nm acc ''transferOwnership'' a)" "admin_ok (Executed nm acc ''transferPrimary'' a)"
  by (auto simp: admin_ok_def)

lemma admin_from_scratch: "runs_in (demits admin_ok) (deploy_from_scratch H)"
  unfolding deploy_from_scratch_def
  by (intro steps_intros) (auto simp: script_defs logic_defs intro!: steps_intros)

text \<open>
  Whatever the node, the named accounts and the state, every transaction the deployment and
  upgrade scripts send to a deployed contract is a submission to the multisig wallet carrying no
  value, except the tokens and the owner of AllowTokens, which its owner the deployer sets; the only
  functions they execute directly hand over an owner or a primary.
\<close>
theorem admin_calls_through_multisig:
  "runs_in (demits admin_ok) (integration_test H) \<and> runs_in (demits admin_ok) (set_federation_member H)
    \<and> runs_in (demits admin_ok) (upgrade_bridge H) \<and> runs_in (demits admin_ok) (upgrade_federation H)"
  by (auto simp: integration_test_def upgrade_bridge_def upgrade_federation_def script_defs Let_def
      intro!: steps_intros admin_from_scratch)

text \<open>
  What holds of the result and the requests of every run that starts after the requests \<open>tr\<close>: steps
  that request nothing can only end the run early.
\<close>

definition dpost ::
    "devent list \<Rightarrow> ('a res \<Rightarrow> devent list \<Rightarrow> bool) \<Rightarrow> ('w, 'a) drun \<Rightarrow> bool" where
  "dpost tr Q m \<longleftrightarrow> (\<forall>s r t. dtrace s = tr \<longrightarrow> m s = (r, t) \<longrightarrow> Q r (dtrace t))"

lemma dpostD: "dpost (dtrace s) Q m \<Longrightarrow> Q (fst (m s)) (dtrace (snd (m s)))"
  by (auto simp: dpost_def prod_eq_iff)

lemma dquiet: "(\<And>P. runs_in (demits P) m) \<Longrightarrow> m s = (r, t) \<Longrightarrow> dtrace t = dtrace s"
  using runs_inD [of "demits (\<lambda>_. False)" m s r t] by (auto simp: demits_def list_all_iff)

lemma dpost_quiet:
  assumes "\<And>P. runs_in (demits P) m" and "\<And>e. Q (Inl e) tr" and "\<And>a. dpost tr Q (f a)"
  shows "dpost tr Q (bnd m f)"
  unfolding dpost_def
proof (intro allI impI)
  fix s r t
  assume tr: "dtrace s = tr" and "bnd m f s = (r, t)"
  from this(2) show "Q r (dtrace t)"
  proof (cases rule: bnd_cases)
    case (err e)
    then show ?thesis using dquiet [OF assms(1)] assms(2) tr by metis
  next
    case (ok a u)
    then show ?thesis using dquiet [OF assms(1) ok(1)] assms(3) tr by (simp add: dpost_def)
  qed
qed

lemma dpost_false:
  assumes "\<And>P. runs_in (demits P) m" and "never (\<lambda>r. r = Inr True) m"
    and "\<And>e. Q (Inl e) tr" and "dpost tr Q (f False)"
  shows "dpost tr Q (bnd m f)"
  unfolding dpost_def
proof (intro allI impI)
  fix s r t
  assume tr: "dtrace s = tr" and "bnd m f s = (r, t)"
  from this(2) show "Q r (dtrace t)"
  proof (cases rule: bnd_cases)
    case (err e)
    then show ?thesis using dquiet [OF assms(1)] assms(3) tr by metis
  next
    case (ok a u)
    then have "\<not> a" using assms(2) by (auto simp: never_def) (metis fst_conv)
    then show ?thesis using ok dquiet [OF assms(1) ok(1)] assms(4) tr by (simp add: dpost_def)
  qed
qed

lemma dpost_ret: "Q (Inr a) tr \<Longrightarrow> dpost tr Q (ret a)"
  by (simp add: dpost_def)

lemma dpost_if: "(b \<Longrightarrow> dpost tr Q m) \<Longrightarrow> (\<not> b \<Longrightarrow> dpost tr Q n) \<Longrightarrow> dpost tr Q (if b then m else n)"
  by simp

lemma demit_dext_trace: "bnd (demit e) (\<lambda>_. dext f) s = (r, t) \<Longrightarrow> dtrace t = dtrace s @ [e]"
  by (auto simp: demit_def dext_def bnd_def split: prod.splits)

lemma dpost_request:
  assumes "\<And>x. Q (Inl x) (tr @ [e])" and "\<And>a. dpost (tr @ [e]) Q (f a)"
  shows "dpost tr Q (bnd (bnd (demit e) (\<lambda>_. dext g)) f)"
  unfolding dpost_def
proof (intro allI impI)
  fix s r t
  assume tr: "dtrace s = tr" and "bnd (bnd (demit e) (\<lambda>_. dext g)) f s = (r, t)"
  from this(2) show "Q r (dtrace t)"
  proof (cases rule: bnd_cases)
    case (err x)
    then show ?thesis using demit_dext_trace [OF err(1)] assms(1) tr by simp
  next
    case (ok a u)
    then show ?thesis using demit_dext_trace [OF ok(1)] assms(2) tr by (simp add: dpost_def)
  qed
qed

lemma dpost_last:
  "(\<And>r. Q r (tr @ [e])) \<Longrightarrow> dpost tr Q (bnd (demit e) (\<lambda>_. dext g))"
  by (auto simp: dpost_def dest: demit_dext_trace)

lemmas request_defs = deploy_def execute_def send_def verify_def

text \<open>The requests of 10_transfer_setTokens_allowTokens.js, in their order.\<close>

definition handover :: "'w hardhat \<Rightarrow> string \<Rightarrow> string \<Rightarrow> string \<Rightarrow> devent list" where
  "handover H acc proxy owner =
     (let ts = map (\<lambda>(key, token). formatToken token) (tokensByChainId (network_id (hh_network H)))
      in (if ts = [] then [] else [Sent acc (Some proxy) (SetMultipleTokensCall ts)])
         @ [Sent acc (Some proxy) (TransferOwnershipCall owner)])"

text \<open>
  The script sets the tokens of the network's chain while the deployer still owns AllowTokens and
  gives the ownership to the multisig last. However the run ends, its requests are the beginning of
  that sequence; a run that returns made all of them or none, which is so when the accounts name an
  AllowTokens proxy or the multisig already owns it.
\<close>
theorem tokens_before_ownership:
  "\<exists>es acc proxy owner. dtrace (snd (transfer_set_tokens H s)) = dtrace s @ es
    \<and> prefix es (handover H acc proxy owner)
    \<and> (es = [] \<or> es = handover H acc proxy owner \<or> (\<exists>e. fst (transfer_set_tokens H s) = Inl e))"
proof -
  define Q where "Q r tr \<longleftrightarrow> (\<exists>es acc proxy owner. tr = dtrace s @ es
    \<and> prefix es (handover H acc proxy owner)
    \<and> (es = [] \<or> es = handover H acc proxy owner \<or> (\<exists>e. r = Inl e)))" for r :: "unit res" and tr
  have q0: "Q r (dtrace s)" for r by (auto simp: Q_def intro!: exI [of _ "[]"])
  have q1: "Q (Inl e) (dtrace s @ [x])" if "prefix [x] (handover H acc proxy owner)" for e x acc proxy owner
    using that by (auto simp: Q_def intro!: exI [of _ "[x]"])
  have q2: "Q r (dtrace s @ es)" if "es = handover H acc proxy owner" for r es acc proxy owner
    using that by (auto simp: Q_def)
  let ?ts = "map (\<lambda>(key, token). formatToken token) (tokensByChainId (network_id (hh_network H)))"
  have last: "dpost (dtrace s) Q (bnd (if length ?ts > 0
        then send H acc (Some proxy) (SetMultipleTokensCall ?ts) else ret ())
      (\<lambda>_. send H acc (Some proxy) (TransferOwnershipCall owner)))" for acc proxy owner
  proof (cases "?ts = []")
    case True
    then show ?thesis
      unfolding send_def
      by (auto simp: handover_def intro!: dpost_last q2 [of _ acc proxy owner])
  next
    case False
    then have "dpost (dtrace s) Q (bnd (send H acc (Some proxy) (SetMultipleTokensCall ?ts))
        (\<lambda>_. send H acc (Some proxy) (TransferOwnershipCall owner)))"
      unfolding send_def
      by (intro dpost_request dpost_last q1 [of _ acc proxy owner])
        (auto simp: handover_def Let_def intro!: q2 [of "[_, _]" acc proxy owner])
    with False show ?thesis by simp
  qed
  have "dpost (dtrace s) Q (transfer_set_tokens H)"
    unfolding transfer_set_tokens_def Let_def
    by (rule dpost_quiet dpost_if dpost_ret q0 last | (intro steps_intros; fail))+
  from dpostD [OF this] show ?thesis by (auto simp: Q_def)
qed

text \<open>
  The scripts 04, 06 and 08 mean to stop when the deployed version is the last one, but they
  compare a promise with a string: whatever version the proxy reports, a run that does not fail asks
  for the deployment of the logic contract.
\<close>
theorem version_check_never_stops:
  "((\<exists>e. fst (deploy_bridge H s) = Inl e)
      \<or> (\<exists>acc es. dtrace (snd (deploy_bridge H s)) = dtrace s @ Deployed (plain_deploy ''Bridge'' acc []) # es))
    \<and> ((\<exists>e. fst (deploy_federation H s) = Inl e)
      \<or> (\<exists>acc es. dtrace (snd (deploy_federation H s))
           = dtrace s @ Deployed (plain_deploy ''Federation'' acc []) # es))
    \<and> ((\<exists>e. fst (deploy_allow_tokens H s) = Inl e)
      \<or> (\<exists>acc es. dtrace (snd (deploy_allow_tokens H s))
           = dtrace s @ Deployed (plain_deploy ''AllowTokens'' acc []) # es))"
proof -
  define Q where "Q name r tr \<longleftrightarrow> (\<exists>e. r = Inl e)
      \<or> (\<exists>acc es. tr = dtrace s @ Deployed (plain_deploy name acc []) # es)" for name and r :: "unit res" and tr
  have q: "Q name (Inl e) tr" "Q name r (dtrace s @ [Deployed (plain_deploy name acc [])])"
    "Q name r ((dtrace s @ [Deployed (plain_deploy name acc [])]) @ [x])" for name r e tr acc x
    by (auto simp: Q_def)
  have "dpost (dtrace s) (Q name) (deploy_logic H name g v)"
    if g: "\<And>P. runs_in (demits P) g" for name g v
    unfolding deploy_logic_def
  proof (rule dpost_quiet, rule runs_dext, rule q, rule dpost_quiet, rule g, rule q, rule dpost_false)
    show "runs_in (demits P) (if truthy p then bnd (dext (dep_getArtifact H name)) (\<lambda>_.
        bnd (unawaited (dext (eth_view H p ''version''))) (\<lambda>_. ret (JsPromise = JsString v))) else ret False)"
      for P p by (intro steps_intros)
    show "never (\<lambda>r. r = Inr True) (if truthy p then bnd (dext (dep_getArtifact H name)) (\<lambda>_.
        bnd (unawaited (dext (eth_view H p ''version''))) (\<lambda>_. ret (JsPromise = JsString v))) else ret False)"
      for p by (auto simp: never_ret intro!: never_bnd)
    show "dpost (dtrace s) (Q name) (if False then ret () else
        bnd (deploy H (plain_deploy name (deployer n) [])) (\<lambda>r. verify_new H r []))" for n
      unfolding deploy_def verify_new_def verify_def
      by (simp only: if_False) (intro dpost_request dpost_if dpost_last dpost_ret q)
  qed (rule q)
  note logic = dpostD [OF this, unfolded Q_def]
  show ?thesis
    unfolding deploy_bridge_def deploy_federation_def deploy_allow_tokens_def
    by (intro conjI logic) (rule steps_intros)+
qed

section \<open>Chains already deployed\<close>

text \<open>
  hardhat-deploy resolves the named accounts of the network's chain by the tables of
  hardhat.config.js.
\<close>

definition resolves_accounts :: "'w hardhat \<Rightarrow> named_accounts \<Rightarrow> bool" where
  "resolves_accounts H n \<longleftrightarrow> (\<forall>w. fst (hh_namedAccounts H w) = Inr n)"

lemma runs_named:
  assumes "resolves_accounts H n" and "runs_in (demits P) (f n)"
  shows "runs_in (demits P) (bnd (dext (hh_namedAccounts H)) f)"
proof (rule runs_inI)
  fix s r t
  assume "bnd (dext (hh_namedAccounts H)) f s = (r, t)"
  moreover obtain w where "hh_namedAccounts H (dworld s) = (Inr n, w)"
    using assms(1) unfolding resolves_accounts_def by (metis prod.collapse)
  ultimately have "f n (s\<lparr>dworld := w\<rparr>) = (r, t)" by (simp add: bnd_def dext_def)
  from runs_inD [OF assms(2) this] show "demits P s t" by (simp add: demits_def)
qed

definition all_named :: "named_accounts \<Rightarrow> bool" where
  "all_named n \<longleftrightarrow> truthy (multiSig n) \<and> truthy (proxyAdmin n) \<and> truthy (allowTokensProxy n)
     \<and> truthy (bridgeProxy n) \<and> truthy (federationProxy n) \<and> truthy (sideTokenFactory n)"

definition deployed_chains :: "int list" where
  "deployed_chains = [chain_ETHEREUM_MAIN_NET, chain_RSK_MAIN_NET, chain_RSK_TEST_NET,
     chain_KOVAN_TEST_NET, chain_BSC_TEST_NET, chain_RINKEBY_TEST_NET]"

lemma deployed_chains_named: "c \<in> set deployed_chains \<Longrightarrow> all_named (getNamedAccounts acc c)"
  by (auto simp: deployed_chains_def chain_ids all_named_def truthy_def getNamedAccounts_def
      getMultiSigAddressesByChainId_def getProxyAdminAddressesByChainId_def
      getAllowTokensProxyAddressesByChainId_def getBridgeProxyAddressesByChainId_def
      getFederationProxyAddressesByChainId_def getSideTokenFactoryAddressesByChainId_def)

definition logic_only :: "devent \<Rightarrow> bool" where
  "logic_only e \<longleftrightarrow>
     (\<exists>name acc. e = Deployed (plain_deploy name acc []) \<and> name \<in> {''Bridge'', ''Federation'', ''AllowTokens''})
     \<or> (\<exists>a. e = Verified a [])"

text \<open>
  C32: on the six chains hardhat.config.js names all contracts of, a deployment from scratch leaves
  the running bridge alone: whatever the node answers, it requests nothing but the deployment of new
  logic contracts, which no proxy uses yet, and their verification. It creates no proxy and touches
  no owner, no federation and no token.
\<close>
theorem known_chain_untouched:
  assumes "resolves_accounts H (getNamedAccounts acc c)" and "c \<in> set deployed_chains"
  shows "runs_in (demits logic_only) (deploy_from_scratch H)"
proof -
  let ?n = "getNamedAccounts acc c"
  have named: "truthy (multiSig ?n)" "truthy (proxyAdmin ?n)" "truthy (allowTokensProxy ?n)"
    "truthy (bridgeProxy ?n)" "truthy (federationProxy ?n)" "truthy (sideTokenFactory ?n)"
    using deployed_chains_named [OF assms(2)] by (simp_all add: all_named_def)
  have logic: "runs_in (demits logic_only) (deploy_logic H name g v)"
    if "name \<in> {''Bridge'', ''Federation'', ''AllowTokens''}" "runs_in (demits logic_only) g" for name g v
    by (intro steps_intros that(2)) (use that(1) in \<open>auto simp: logic_only_def\<close>)
  have skip: "runs_in (demits logic_only) (bnd (dext (hh_namedAccounts H)) (\<lambda>n. if truthy (f n) then ret () else m n))"
    if "truthy (f ?n)" for f m
    by (rule runs_named [OF assms(1)]) (simp add: that dm.runs_ret)
  have "runs_in (demits logic_only) (script H)"
    if "script \<in> set [deploy_multiSigWallet, deploy_proxyAdmin, deploy_sideTokenFactory, deploy_bridge,
        deploy_bridge_proxy, deploy_federation, deploy_federation_proxy, deploy_allow_tokens,
        deploy_allow_tokens_proxy, transfer_set_tokens, transfer_sideTokenFactory,
        transfer_federation, transfer_allow_tokens]" for script
    using that
    by (auto simp: script_defs logic_defs intro!: skip logic named steps_intros)
  then show ?thesis unfolding deploy_from_scratch_def by (rule dm.runs_for_each)
qed

definition sample_hardhat :: "nat hardhat" where
  "sample_hardhat =
     \<lparr>hh_network = \<lparr>net_name = ''rskmainnet'', net_live = True, network_id = chain_RSK_MAIN_NET,
        net_token_symbol = Some ''r''\<rparr>,
      hh_infura = ''id'',
      hh_namedAccounts = (\<lambda>w. (Inr (getNamedAccounts ''0xde'' chain_RSK_MAIN_NET), Suc w)),
      dep_get = (\<lambda>name w. (Inr name, Suc w)), dep_getOrNull = (\<lambda>name w. (Inr (Some name), Suc w)),
      dep_getArtifact = (\<lambda>name w. (Inr (), Suc w)),
      dep_deploy = (\<lambda>r w. (Inr \<lparr>dp_address = ''0xa'', dp_newlyDeployed = True\<rparr>, Suc w)),
      dep_execute = (\<lambda>name acc f arg w. (Inr (), Suc w)), run_verify = (\<lambda>a args w. (Inr (), Suc w)),
      run_deploy1820 = (\<lambda>w. (Inr (), Suc w)), eth_call = (\<lambda>acc to c w. (Inr (), Suc w)),
      eth_view = (\<lambda>to f w. (Inr ''v4'', Suc w)), eth_send = (\<lambda>acc to c w. (Inr (), Suc w)),
      eth_netId = (\<lambda>w. (Inr 30, Suc w)), eth_blockNumber = (\<lambda>w. (Inr 100, Suc w)),
      encode_call = (\<lambda>c. Inr ''0xcode''), toWei = toWei_wei_of\<rparr>"

lemma sample_resolves: "resolves_accounts sample_hardhat (getNamedAccounts ''0xde'' chain_RSK_MAIN_NET)"
  by (simp add: resolves_accounts_def sample_hardhat_def)

theorem known_chain_untouched_witness:
  "demits logic_only \<lparr>dworld = 0, dtrace = [], namedAccountsInstance = None\<rparr>
     (snd (deploy_from_scratch sample_hardhat \<lparr>dworld = 0, dtrace = [], namedAccountsInstance = None\<rparr>))"
  using known_chain_untouched [OF sample_resolves]
  by (simp add: runs_in_def deployed_chains_def)

end
