(* ===== verification/Logging.thy ===== *)
theory Logging
  imports Prelude
begin

text \<open>
  lib/logs.ts and lib/logWrapper.ts. The loggers are objects the whole federator shares: they live in
  a store, a reference is a position in it, and the map of the singleton \<open>Logs\<close> holds references, so
  that what one user puts into a logger's context every other user of the category logs as well. A
  \<open>Map\<close> is the list of its entries in insertion order. log4js is the receiver of the lines; a line is
  kept as the arguments it gets. The values put into a context are of any type \<open>'v\<close>.
\<close>

section \<open>Maps in insertion order\<close>

type_synonym 'v js_map = "(string \<times> 'v) list"

fun map_set :: "string \<Rightarrow> 'v \<Rightarrow> 'v js_map \<Rightarrow> 'v js_map" where
  "map_set k v [] = [(k, v)]"
| "map_set k v ((j, w) # m) = (if j = k then (k, v) # m else (j, w) # map_set k v m)"

definition map_delete :: "string \<Rightarrow> 'v js_map \<Rightarrow> bool \<times> 'v js_map" where
  "map_delete k m = (k \<in> fst ` set m, filter (\<lambda>(j, w). j \<noteq> k) m)"

lemma map_of_set: "map_of (map_set k v m) = (map_of m)(k \<mapsto> v)"
  by (induction m) auto

lemma keys_map_set:
  "map fst (map_set k v m) = (if k \<in> fst ` set m then map fst m else map fst m @ [k])"
  by (induction m) (auto simp: rev_image_eqI)

lemma distinct_map_set: "distinct (map fst m) \<Longrightarrow> distinct (map fst (map_set k v m))"
  by (auto simp: keys_map_set)

lemma map_of_delete: "map_of (snd (map_delete k m)) = (map_of m)(k := None)"
  by (induction m) (auto simp: map_delete_def)

section \<open>State\<close>

datatype log_level = LTrace | LDebug | LInfo | LWarn | LError | LFatal

datatype 'v log_arg = Message 'v | Label string | ContextMap "'v js_map"

record 'v log_wrapper =
  lw_key :: string
  lw_context :: "'v js_map"

text \<open>A line as log4js gets it: category, level and arguments.\<close>

type_synonym 'v log_line = "string \<times> log_level \<times> 'v log_arg list"

record 'v logs =
  wrappers :: "'v log_wrapper list"
  logMap :: "string \<rightharpoonup> nat"
  globalContext :: "'v js_map"
  currentLogger :: nat
  logged :: "'v log_line list"

definition LOGGER_CATEGORY_DEFAULT :: string where
  "LOGGER_CATEGORY_DEFAULT = ''DEFAULT''"

definition new_LogWrapper :: "string \<Rightarrow> 'v log_wrapper" where
  "new_LogWrapper key = \<lparr>lw_key = key, lw_context = []\<rparr>"

definition new_Logs :: "'v logs" where
  "new_Logs =
     \<lparr>wrappers = [new_LogWrapper LOGGER_CATEGORY_DEFAULT], logMap = [LOGGER_CATEGORY_DEFAULT \<mapsto> 0],
      globalContext = [], currentLogger = 0, logged = []\<rparr>"

text \<open>The static field \<open>instance\<close> is None before the first call.\<close>

definition getInstance :: "'v logs option \<Rightarrow> 'v logs" where
  "getInstance inst = (case inst of None \<Rightarrow> new_Logs | Some l \<Rightarrow> l)"

section \<open>Logs\<close>

definition upsertGlobal :: "string \<Rightarrow> 'v \<Rightarrow> 'v logs \<Rightarrow> 'v logs" where
  "upsertGlobal k v s = s\<lparr>globalContext := map_set k v (globalContext s)\<rparr>"

definition removeGlobal :: "string \<Rightarrow> 'v logs \<Rightarrow> bool \<times> 'v logs" where
  "removeGlobal k s =
     (let (b, m) = map_delete k (globalContext s) in (b, s\<lparr>globalContext := m\<rparr>))"

definition clearGlobal :: "'v logs \<Rightarrow> 'v logs" where
  "clearGlobal s = s\<lparr>globalContext := []\<rparr>"

definition getGlobalContextSize :: "'v logs \<Rightarrow> nat" where
  "getGlobalContextSize s = length (globalContext s)"

definition getGlobalContextData :: "'v logs \<Rightarrow> 'v log_arg list" where
  "getGlobalContextData s =
     (if length (globalContext s) \<le> 0 then []
      else [Label ''Global Context Map:'', ContextMap (globalContext s)])"

definition getLogger :: "string \<Rightarrow> 'v logs \<Rightarrow> nat \<times> 'v logs" where
  "getLogger key s =
     (if lw_key (wrappers s ! currentLogger s) = key then (currentLogger s, s)
      else
        case logMap s key of
          Some newCurrentLogger \<Rightarrow> (newCurrentLogger, s\<lparr>currentLogger := newCurrentLogger\<rparr>)
        | None \<Rightarrow>
            let newLogger = length (wrappers s)
            in (newLogger, s\<lparr>wrappers := wrappers s @ [new_LogWrapper key],
                             logMap := (logMap s)(key \<mapsto> newLogger), currentLogger := newLogger\<rparr>))"

definition getCurrentLogger :: "'v logs \<Rightarrow> nat" where
  "getCurrentLogger s = currentLogger s"

section \<open>LogWrapper\<close>

definition upsertContext :: "nat \<Rightarrow> string \<Rightarrow> 'v \<Rightarrow> 'v logs \<Rightarrow> 'v logs" where
  "upsertContext i k v s =
     s\<lparr>wrappers := (wrappers s)[i := (wrappers s ! i)
          \<lparr>lw_context := map_set k v (lw_context (wrappers s ! i))\<rparr>]\<rparr>"

definition removeContext :: "nat \<Rightarrow> string \<Rightarrow> 'v logs \<Rightarrow> bool \<times> 'v logs" where
  "removeContext i k s =
     (let (b, m) = map_delete k (lw_context (wrappers s ! i))
      in (b, s\<lparr>wrappers := (wrappers s)[i := (wrappers s ! i)\<lparr>lw_context := m\<rparr>]\<rparr>))"

definition clearContext :: "nat \<Rightarrow> 'v logs \<Rightarrow> 'v logs" where
  "clearContext i s =
     s\<lparr>wrappers := (wrappers s)[i := (wrappers s ! i)\<lparr>lw_context := []\<rparr>]\<rparr>"

definition getContextData :: "nat \<Rightarrow> 'v logs \<Rightarrow> 'v log_arg list" where
  "getContextData i s =
     getGlobalContextData s
     @ [Label (lw_key (wrappers s ! i)), Label ''Context Map:'', ContextMap (lw_context (wrappers s ! i))]"

text \<open>\<open>trace\<close>, \<open>debug\<close>, \<open>info\<close>, \<open>warn\<close>, \<open>error\<close> and \<open>fatal\<close> differ in the level only.\<close>

definition log_at :: "log_level \<Rightarrow> nat \<Rightarrow> 'v list \<Rightarrow> 'v logs \<Rightarrow> 'v logs" where
  "log_at level i args s =
     s\<lparr>logged := logged s @
        [(lw_key (wrappers s ! i), level,
          map Message args @ (if length (lw_context (wrappers s ! i)) > 0 then getContextData i s else []))]\<rparr>"

section \<open>One logger per category\<close>

datatype 'v log_op =
    GetLogger string
  | UpsertGlobal string 'v
  | RemoveGlobal string
  | ClearGlobal
  | UpsertContext nat string 'v
  | RemoveContext nat string
  | ClearContext nat
  | LogAt log_level nat "'v list"

fun log_exec :: "'v log_op \<Rightarrow> 'v logs \<Rightarrow> 'v logs" where
  "log_exec (GetLogger k) s = snd (getLogger k s)"
| "log_exec (UpsertGlobal k v) s = upsertGlobal k v s"
| "log_exec (RemoveGlobal k) s = snd (removeGlobal k s)"
| "log_exec ClearGlobal s = clearGlobal s"
| "log_exec (UpsertContext i k v) s = upsertContext i k v s"
| "log_exec (RemoveContext i k) s = snd (removeContext i k s)"
| "log_exec (ClearContext i) s = clearContext i s"
| "log_exec (LogAt l i args) s = log_at l i args s"

definition log_run :: "'v log_op list \<Rightarrow> 'v logs \<Rightarrow> 'v logs" where
  "log_run ops s = fold log_exec ops s"

definition logs_inv :: "'v logs \<Rightarrow> bool" where
  "logs_inv s \<longleftrightarrow> currentLogger s < length (wrappers s)
     \<and> (\<forall>k i. logMap s k = Some i \<longleftrightarrow> i < length (wrappers s) \<and> lw_key (wrappers s ! i) = k)"

text \<open>The store only gains loggers, and those it has keep their category.\<close>

definition log_extends :: "'v logs \<Rightarrow> 'v logs \<Rightarrow> bool" where
  "log_extends s t \<longleftrightarrow> length (wrappers s) \<le> length (wrappers t)
     \<and> (\<forall>i < length (wrappers s). lw_key (wrappers t ! i) = lw_key (wrappers s ! i))"

lemma logs_inv_new: "logs_inv new_Logs"
  by (auto simp: logs_inv_def new_Logs_def new_LogWrapper_def)

lemma getLogger_cases:
  assumes "logs_inv s"
  obtains i where "logMap s k = Some i" "i < length (wrappers s)" "lw_key (wrappers s ! i) = k"
    "getLogger k s = (i, s\<lparr>currentLogger := i\<rparr>)"
  | "\<And>j. j < length (wrappers s) \<Longrightarrow> lw_key (wrappers s ! j) \<noteq> k"
    "getLogger k s = (length (wrappers s), s\<lparr>wrappers := wrappers s @ [new_LogWrapper k],
       logMap := (logMap s)(k \<mapsto> length (wrappers s)), currentLogger := length (wrappers s)\<rparr>)"
proof (cases "logMap s k")
  case None
  then have new: "j < length (wrappers s) \<Longrightarrow> lw_key (wrappers s ! j) \<noteq> k" for j
    using assms by (metis logs_inv_def option.distinct(1))
  then have "lw_key (wrappers s ! currentLogger s) \<noteq> k" using assms by (simp add: logs_inv_def)
  then show ?thesis using that(2) new None by (simp add: getLogger_def Let_def)
next
  case (Some i)
  have i: "i < length (wrappers s)" "lw_key (wrappers s ! i) = k"
    using assms Some by (auto simp: logs_inv_def)
  have "currentLogger s = i" if "lw_key (wrappers s ! currentLogger s) = k"
    using that assms Some unfolding logs_inv_def by (metis option.inject)
  then have "getLogger k s = (i, s\<lparr>currentLogger := i\<rparr>)" using Some by (auto simp: getLogger_def)
  with Some i show ?thesis by (rule that(1))
qed

lemma getLogger_inv:
  assumes inv: "logs_inv s" and run: "getLogger k s = (i, t)"
  shows "logs_inv t \<and> log_extends s t \<and> logMap t k = Some i"
  using inv
proof (cases rule: getLogger_cases [where k = k])
  case (1 j)
  then show ?thesis using inv run by (auto simp: logs_inv_def log_extends_def)
next
  case 2
  then show ?thesis using inv run
    by (auto simp: logs_inv_def log_extends_def new_LogWrapper_def nth_append less_Suc_eq split: if_splits)
qed

lemma getLogger_again:
  "logs_inv s \<Longrightarrow> logMap s k = Some i \<Longrightarrow> getLogger k s = (i, s\<lparr>currentLogger := i\<rparr>)"
  by (rule getLogger_cases [where k = k and s = s]) (auto simp: logs_inv_def)

text \<open>Operations on a context keep the categories.\<close>

lemma key_update [simp]:
  "lw_key (ws[i := (ws ! i)\<lparr>lw_context := m\<rparr>] ! j) = lw_key (ws ! j)"
  by (cases "i < length ws"; cases "i = j") (auto simp: list_update_beyond)

lemma log_exec_inv: "logs_inv s \<Longrightarrow> logs_inv (log_exec c s) \<and> log_extends s (log_exec c s)"
proof (cases c)
  case (GetLogger k)
  assume "logs_inv s"
  then show ?thesis using getLogger_inv [of s k] GetLogger by (cases "getLogger k s") auto
qed (simp_all add: logs_inv_def log_extends_def upsertGlobal_def removeGlobal_def clearGlobal_def
      upsertContext_def removeContext_def clearContext_def log_at_def map_delete_def)

lemma log_run_inv: "logs_inv s \<Longrightarrow> logs_inv (log_run ops s) \<and> log_extends s (log_run ops s)"
proof (induction ops arbitrary: s)
  case Nil
  then show ?case by (simp add: log_run_def log_extends_def)
next
  case (Cons c ops)
  have "logs_inv (log_exec c s)" "log_extends s (log_exec c s)" using log_exec_inv [OF Cons.prems] by auto
  with Cons.IH [of "log_exec c s"] show ?case
    by (auto simp: log_run_def log_extends_def)
qed

text \<open>
  After any use of the logs, a category always leads to one and the same logger: the one
  \<open>getLogger\<close> returned first is returned again, whatever was asked for, logged or put into contexts in
  between, it has that category, and it is then the current one.
\<close>
theorem one_logger_per_category:
  "let (i, u) = getLogger k (log_run before new_Logs); t = log_run after u
   in getLogger k t = (i, t\<lparr>currentLogger := i\<rparr>) \<and> lw_key (wrappers t ! i) = k \<and> logs_inv t"
proof -
  obtain i u where iu: "getLogger k (log_run before new_Logs) = (i, u)" by fastforce
  have "logs_inv (log_run before new_Logs)"
    by (rule conjunct1 [OF log_run_inv [OF logs_inv_new]])
  from getLogger_inv [OF this iu] have u: "logs_inv u" "logMap u k = Some i" by simp_all
  have t: "logs_inv (log_run after u)" "log_extends u (log_run after u)"
    using log_run_inv [OF u(1), of after] by simp_all
  have "i < length (wrappers u)" "lw_key (wrappers u ! i) = k"
    using u by (auto simp: logs_inv_def)
  then have i: "i < length (wrappers (log_run after u))" "lw_key (wrappers (log_run after u) ! i) = k"
    using t(2) by (auto simp: log_extends_def)
  then have "logMap (log_run after u) k = Some i" using t(1) by (simp add: logs_inv_def)
  from getLogger_again [OF t(1) this] show ?thesis using iu i(2) t(1) by simp
qed

text \<open>
  A line of a logger without context carries the message alone; otherwise the global context, when
  there is one, its own category and its own context follow.
\<close>

lemma log_line:
  "logged (log_at l i args s) = logged s @ [(lw_key (wrappers s ! i), l,
     map Message args @
       (if lw_context (wrappers s ! i) = [] then []
        else (if globalContext s = [] then []
              else [Label ''Global Context Map:'', ContextMap (globalContext s)])
             @ [Label (lw_key (wrappers s ! i)), Label ''Context Map:'',
                ContextMap (lw_context (wrappers s ! i))]))]"
  by (simp add: log_at_def getContextData_def getGlobalContextData_def)

text \<open>What one user puts into the context of a category, another user of the category logs.\<close>

lemma context_is_shared:
  assumes "logs_inv s" and "getLogger k s = (i, t)" and "getLogger k t = (j, u)"
  shows "map_of (lw_context (wrappers (upsertContext i c v u) ! j)) c = Some v"
proof -
  have t: "logs_inv t" "logMap t k = Some i" using getLogger_inv [OF assms(1,2)] by simp_all
  from getLogger_again [OF this] have "j = i" "u = t\<lparr>currentLogger := i\<rparr>" using assms(3) by simp_all
  moreover have "i < length (wrappers t)" using t by (auto simp: logs_inv_def)
  ultimately show ?thesis by (simp add: upsertContext_def map_of_set)
qed

end
