(* ===== verification/FederationContract.thy ===== *)
theory FederationContract
  imports AllowTokens
begin

text \<open>
  The contract Federation.sol of the EVM side: the members the federators vote as, their votes, and
  the acceptance of a transfer once enough of them voted. The federators reach it through the calls
  fed_isMember, fed_hasVoted, fed_transactionWasProcessed and the transaction VoteTransaction of
  Runtime. Addresses and integers are words. keccak256 is a parameter over the packed arguments,
  whose encoding is of fixed width, and so are the code of an address and the bridge, which answers
  acceptTransfer with success or a revert. The ghost field \<open>accepted\<close> lists the transfers the bridge
  took. A call that reverts changes nothing (\<open>transact\<close>); the reentrancy guard cannot be observed,
  because the bridge of the model does not call back.
\<close>

section \<open>Storage\<close>

record transfer_args =
  ta_originalTokenAddress :: address
  ta_sender :: address
  ta_receiver :: address
  ta_value :: uint256
  ta_blockHash :: uint256
  ta_transactionHash :: uint256
  ta_logIndex :: "32 word"
  ta_originChainId :: uint256
  ta_destinationChainId :: uint256

datatype packed =
    PAddress address
  | PUint256 uint256
  | PBytes32 uint256
  | PUint32 "32 word"
  | PBytes2 "16 word"
  | PString string

record 'w federation_state =
  fd_initialized :: bool
  fd_owner :: address
  fd_bridge :: address
  members :: "address list"
  required :: uint256
  isMember :: "address \<Rightarrow> bool"
  votes :: "uint256 \<Rightarrow> address \<Rightarrow> bool"
  processed :: "uint256 \<Rightarrow> bool"
  accepted_transfers :: "transfer_args list"
  fd_world :: 'w

record 'w chain =
  keccak256_packed :: "packed list \<Rightarrow> uint256"
  isContract :: "address \<Rightarrow> bool"
  chainid :: uint256
  bridge_acceptTransfer :: "address \<Rightarrow> transfer_args \<Rightarrow> 'w \<Rightarrow> unit res \<times> 'w"

type_synonym ('w, 'a) fsol = "('w federation_state, 'a) comp"

definition MAX_MEMBER_COUNT :: nat where
  "MAX_MEMBER_COUNT = 50"

definition blank_federation :: "'w \<Rightarrow> 'w federation_state" where
  "blank_federation w =
     \<lparr>fd_initialized = False, fd_owner = 0, fd_bridge = 0, members = [], required = 0,
      isMember = (\<lambda>_. False), votes = (\<lambda>_ _. False), processed = (\<lambda>_. False),
      accepted_transfers = [], fd_world = w\<rparr>"

section \<open>Identifiers\<close>

definition single_chain_id :: "'w chain \<Rightarrow> transfer_args \<Rightarrow> uint256" where
  "single_chain_id C t = keccak256_packed C
     [PAddress (ta_originalTokenAddress t), PAddress (ta_sender t), PAddress (ta_receiver t),
      PUint256 (ta_value t), PBytes32 (ta_blockHash t), PBytes32 (ta_transactionHash t),
      PUint32 (ta_logIndex t)]"

definition fed_getTransactionId_sol :: "'w chain \<Rightarrow> transfer_args \<Rightarrow> uint256" where
  "fed_getTransactionId_sol C t = keccak256_packed C
     [PAddress (ta_originalTokenAddress t), PAddress (ta_sender t), PAddress (ta_receiver t),
      PUint256 (ta_value t), PBytes32 (ta_blockHash t), PBytes32 (ta_transactionHash t),
      PUint32 (ta_logIndex t), PUint256 (ta_originChainId t), PUint256 (ta_destinationChainId t)]"

section \<open>Operations\<close>

definition onlyMember :: "msg \<Rightarrow> ('w, 'a) fsol \<Rightarrow> ('w, 'a) fsol" where
  "onlyMember m c = bnd (gets (\<lambda>s. isMember s (msg_sender m))) (\<lambda>ok.
     bnd (require ok ''Federation: Not Federator'') (\<lambda>_. c))"

definition fed_onlyOwner :: "msg \<Rightarrow> ('w, 'a) fsol \<Rightarrow> ('w, 'a) fsol" where
  "fed_onlyOwner m c = bnd (gets (\<lambda>s. msg_sender m = fd_owner s)) (\<lambda>ok.
     bnd (require ok ''Ownable: caller is not the owner'') (\<lambda>_. c))"

definition member_count :: "'w federation_state \<Rightarrow> uint256" where
  "member_count s = of_nat (length (members s))"

definition validRequirement :: "uint256 \<Rightarrow> uint256 \<Rightarrow> ('w, 'a) fsol \<Rightarrow> ('w, 'a) fsol" where
  "validRequirement n req c =
     bnd (require (req \<le> n \<and> req \<noteq> 0 \<and> n \<noteq> 0) ''Federation: Invalid requirements'') (\<lambda>_. c)"

definition setBridge_body :: "'w chain \<Rightarrow> address \<Rightarrow> ('w, unit) fsol" where
  "setBridge_body C b =
     bnd (require (b \<noteq> 0) ''Federation: Empty bridge'') (\<lambda>_.
     bnd (require (isContract C b) ''Federation: Bridge is not a contract'') (\<lambda>_.
     modify (\<lambda>s. s\<lparr>fd_bridge := b\<rparr>)))"

definition setBridge :: "'w chain \<Rightarrow> msg \<Rightarrow> address \<Rightarrow> ('w, unit) fsol" where
  "setBridge C m b = fed_onlyOwner m (setBridge_body C b)"

definition initialize_member :: "address \<Rightarrow> ('w, unit) fsol" where
  "initialize_member a =
     bnd (gets (\<lambda>s. \<not> isMember s a \<and> a \<noteq> 0)) (\<lambda>ok.
     bnd (require ok ''Federation: Invalid members'') (\<lambda>_.
     modify (\<lambda>s. s\<lparr>isMember := (isMember s)(a := True)\<rparr>)))"

definition fed_initialize ::
    "'w chain \<Rightarrow> address list \<Rightarrow> uint256 \<Rightarrow> address \<Rightarrow> address \<Rightarrow> ('w, unit) fsol" where
  "fed_initialize C ms req b own =
     validRequirement (of_nat (length ms)) req
     (bnd (gets fd_initialized) (\<lambda>done.
      bnd (require (\<not> done) ''Contract instance is already initialized'') (\<lambda>_.
      bnd (modify (\<lambda>s. s\<lparr>fd_initialized := True, fd_owner := own\<rparr>)) (\<lambda>_.
      bnd (require (length ms \<le> MAX_MEMBER_COUNT) ''Federation: Too many members'') (\<lambda>_.
      bnd (modify (\<lambda>s. s\<lparr>members := ms\<rparr>)) (\<lambda>_.
      bnd (for_each initialize_member ms) (\<lambda>_.
      bnd (modify (\<lambda>s. s\<lparr>required := req\<rparr>)) (\<lambda>_.
      setBridge_body C b))))))))"

text \<open>The initialiser inherited from UpgradableOwnable is public as well.\<close>

definition fed_owner_initialize :: "address \<Rightarrow> ('w, unit) fsol" where
  "fed_owner_initialize a =
     bnd (gets fd_initialized) (\<lambda>done.
     bnd (require (\<not> done) ''Contract instance is already initialized'') (\<lambda>_.
     modify (\<lambda>s. s\<lparr>fd_initialized := True, fd_owner := a\<rparr>)))"

definition getMinimalNumberOfVotes :: "'w federation_state \<Rightarrow> uint256" where
  "getMinimalNumberOfVotes s = member_count s div 2 + 1"

fun count_votes ::
    "'w federation_state \<Rightarrow> uint256 \<Rightarrow> uint256 \<Rightarrow> address list \<Rightarrow> uint256 \<Rightarrow> bool" where
  "count_votes s tid mtid [] amountVotes = False"
| "count_votes s tid mtid (a # as) amountVotes =
     (let amountVotes = (if votes s mtid a then amountVotes + 1
                         else if votes s tid a then amountVotes + 1 else amountVotes)
      in if amountVotes \<ge> getMinimalNumberOfVotes s \<and> amountVotes \<ge> required s then True
         else count_votes s tid mtid as amountVotes)"

definition validateTransaction :: "'w federation_state \<Rightarrow> uint256 \<Rightarrow> uint256 \<Rightarrow> bool" where
  "validateTransaction s tid mtid = count_votes s tid mtid (members s) 0"

definition fed_isProcessed :: "'w federation_state \<Rightarrow> uint256 \<Rightarrow> uint256 \<Rightarrow> bool" where
  "fed_isProcessed s tid mtid \<longleftrightarrow> processed s mtid \<or> processed s tid"

definition fed_isVoted :: "'w federation_state \<Rightarrow> msg \<Rightarrow> uint256 \<Rightarrow> uint256 \<Rightarrow> bool" where
  "fed_isVoted s m tid mtid \<longleftrightarrow> votes s mtid (msg_sender m) \<or> votes s tid (msg_sender m)"

definition acceptTransfer :: "'w chain \<Rightarrow> transfer_args \<Rightarrow> ('w, unit) fsol" where
  "acceptTransfer C t s =
     (case bridge_acceptTransfer C (fd_bridge s) t (fd_world s) of
        (Inl e, w) \<Rightarrow> (Inl e, s)
      | (Inr _, w) \<Rightarrow> (Inr (), s\<lparr>accepted_transfers := accepted_transfers s @ [t], fd_world := w\<rparr>))"

definition fed_voteTransaction :: "'w chain \<Rightarrow> msg \<Rightarrow> transfer_args \<Rightarrow> ('w, unit) fsol" where
  "fed_voteTransaction C m t = onlyMember m
     (bnd (require (ta_destinationChainId t = chainid C) ''Federation: Not block.chainid'') (\<lambda>_.
      let transactionId = single_chain_id C t;
          transactionIdMultichain = fed_getTransactionId_sol C t
      in bnd (gets (\<lambda>s. fed_isProcessed s transactionId transactionIdMultichain)) (\<lambda>done.
         if done then ret ()
         else
           bnd (gets (\<lambda>s. fed_isVoted s m transactionId transactionIdMultichain)) (\<lambda>voted.
           if voted then ret ()
           else
             bnd (modify (\<lambda>s. s\<lparr>votes := (votes s)(transactionIdMultichain :=
                    (votes s transactionIdMultichain)(msg_sender m := True))\<rparr>)) (\<lambda>_.
             bnd (gets (\<lambda>s. validateTransaction s transactionId transactionIdMultichain)) (\<lambda>valid.
             if valid
             then bnd (modify (\<lambda>s. s\<lparr>processed := (processed s)(transactionIdMultichain := True)\<rparr>))
                    (\<lambda>_. acceptTransfer C t)
             else ret ()))))))"

definition getTransactionCount_sol :: "'w federation_state \<Rightarrow> uint256 \<Rightarrow> nat" where
  "getTransactionCount_sol s h = length (filter (votes s h) (members s))"

definition hasVoted_sol :: "'w federation_state \<Rightarrow> msg \<Rightarrow> uint256 \<Rightarrow> bool" where
  "hasVoted_sol s m h = votes s h (msg_sender m)"

definition transactionWasProcessed_sol :: "'w federation_state \<Rightarrow> uint256 \<Rightarrow> bool" where
  "transactionWasProcessed_sol s h = processed s h"

definition addMember :: "msg \<Rightarrow> address \<Rightarrow> ('w, unit) fsol" where
  "addMember m a = fed_onlyOwner m
     (bnd (require (a \<noteq> 0) ''Federation: Empty member'') (\<lambda>_.
      bnd (gets (\<lambda>s. (isMember s a, length (members s)))) (\<lambda>(old, n).
      bnd (require (\<not> old) ''Federation: Member already exists'') (\<lambda>_.
      bnd (require (n < MAX_MEMBER_COUNT) ''Federation: Max members reached'') (\<lambda>_.
      modify (\<lambda>s. s\<lparr>isMember := (isMember s)(a := True), members := members s @ [a]\<rparr>))))))"

text \<open>The loop of removeMember looks at all places but the last, which is then popped.\<close>

fun overwrite :: "address \<Rightarrow> address \<Rightarrow> address list \<Rightarrow> address list" where
  "overwrite old lst [] = []"
| "overwrite old lst (a # as) = (if a = old then lst # as else a # overwrite old lst as)"

definition remove_from :: "address \<Rightarrow> address list \<Rightarrow> address list" where
  "remove_from old ms = overwrite old (last ms) (butlast ms)"

definition removeMember :: "msg \<Rightarrow> address \<Rightarrow> ('w, unit) fsol" where
  "removeMember m a = fed_onlyOwner m
     (bnd (require (a \<noteq> 0) ''Federation: Empty member'') (\<lambda>_.
      bnd (gets (\<lambda>s. isMember s a)) (\<lambda>old.
      bnd (require old ''Federation: Member doesn't exists'') (\<lambda>_.
      bnd (gets member_count) (\<lambda>n.
      bnd (require (n > 1) ''Federation: Can't remove all the members'') (\<lambda>_.
      bnd (gets required) (\<lambda>req.
      bnd (require (n - 1 \<ge> req) ''Federation: Can't have less than required members'') (\<lambda>_.
      modify (\<lambda>s. s\<lparr>isMember := (isMember s)(a := False), members := remove_from a (members s)\<rparr>)))))))))"

definition changeRequirement :: "msg \<Rightarrow> uint256 \<Rightarrow> ('w, unit) fsol" where
  "changeRequirement m req = fed_onlyOwner m
     (bnd (gets member_count) (\<lambda>n. validRequirement n req
     (bnd (require (req \<ge> 2) ''Federation: Requires at least 2'') (\<lambda>_.
      modify (\<lambda>s. s\<lparr>required := req\<rparr>)))))"

definition fed_transferOwnership :: "msg \<Rightarrow> address \<Rightarrow> ('w, unit) fsol" where
  "fed_transferOwnership m a = fed_onlyOwner m
     (bnd (require (a \<noteq> 0) ''Ownable: new owner is zero address'') (\<lambda>_.
      modify (\<lambda>s. s\<lparr>fd_owner := a\<rparr>)))"

definition fed_renounceOwnership :: "msg \<Rightarrow> ('w, unit) fsol" where
  "fed_renounceOwnership m = fed_onlyOwner m (modify (\<lambda>s. s\<lparr>fd_owner := 0\<rparr>))"

definition fed_emitHeartbeat ::
    "msg \<Rightarrow> uint256 list \<Rightarrow> uint256 list \<Rightarrow> string list \<Rightarrow> ('w, unit) fsol" where
  "fed_emitHeartbeat m ids blocks info = onlyMember m
     (require (length ids = length blocks \<and> length ids = length info) ''Federation: Length missmatch'')"

section \<open>Every transaction\<close>

text \<open>
  No transaction has the zero address as its sender: nobody holds its key. Between the transactions of
  the federation the world of the bridge changes.
\<close>

datatype fed_call =
    FInitialize "address list" uint256 address address
  | FOwnerInitialize address
  | FSetBridge address
  | FVote transfer_args
  | FAddMember address
  | FRemoveMember address
  | FChangeRequirement uint256
  | FTransferOwnership address
  | FRenounceOwnership
  | FHeartbeat "uint256 list" "uint256 list" "string list"

fun fed_exec :: "'w chain \<Rightarrow> msg \<Rightarrow> fed_call \<Rightarrow> ('w, unit) fsol" where
  "fed_exec C m (FInitialize ms req b own) = fed_initialize C ms req b own"
| "fed_exec C m (FOwnerInitialize a) = fed_owner_initialize a"
| "fed_exec C m (FSetBridge b) = setBridge C m b"
| "fed_exec C m (FVote t) = fed_voteTransaction C m t"
| "fed_exec C m (FAddMember a) = addMember m a"
| "fed_exec C m (FRemoveMember a) = removeMember m a"
| "fed_exec C m (FChangeRequirement r) = changeRequirement m r"
| "fed_exec C m (FTransferOwnership a) = fed_transferOwnership m a"
| "fed_exec C m FRenounceOwnership = fed_renounceOwnership m"
| "fed_exec C m (FHeartbeat ids blocks info) = fed_emitHeartbeat m ids blocks info"

inductive fed_reachable :: "'w chain \<Rightarrow> 'w federation_state \<Rightarrow> bool" for C where
  created: "fed_reachable C (blank_federation w)"
| step: "fed_reachable C s \<Longrightarrow> msg_sender m \<noteq> 0 \<Longrightarrow> transact (fed_exec C m c) s = (r, t) \<Longrightarrow> fed_reachable C t"
| outside: "fed_reachable C s \<Longrightarrow> fed_reachable C (s\<lparr>fd_world := w\<rparr>)"

section \<open>Counting votes\<close>

definition voted_for :: "'w federation_state \<Rightarrow> uint256 \<Rightarrow> uint256 \<Rightarrow> address \<Rightarrow> bool" where
  "voted_for s tid mtid a \<longleftrightarrow> votes s mtid a \<or> votes s tid a"

definition votes_needed :: "'w federation_state \<Rightarrow> nat" where
  "votes_needed s = max (length (members s) div 2 + 1) (unat (required s))"

lemma thresholds:
  assumes "length (members s) \<le> MAX_MEMBER_COUNT" "k \<le> 1000"
  shows "(of_nat k :: uint256) \<ge> getMinimalNumberOfVotes s \<and> of_nat k \<ge> required s \<longleftrightarrow> votes_needed s \<le> k"
proof -
  have "unat (getMinimalNumberOfVotes s) = length (members s) div 2 + 1"
  proof -
    have "getMinimalNumberOfVotes s = of_nat (length (members s) div 2 + 1)"
      using assms(1) by (simp add: getMinimalNumberOfVotes_def member_count_def word_arith_nat_div MAX_MEMBER_COUNT_def
          unat_of_nat)
    then show ?thesis using assms(1) by (simp add: MAX_MEMBER_COUNT_def del: of_nat_add of_nat_Suc)
  qed
  then show ?thesis using assms(2) by (simp add: word_le_nat_alt votes_needed_def)
qed

lemma count_votes_iff:
  assumes "length (members s) \<le> MAX_MEMBER_COUNT"
  shows "k < votes_needed s \<Longrightarrow> k + length as \<le> 1000 \<Longrightarrow>
    count_votes s tid mtid as (of_nat k) \<longleftrightarrow>
      votes_needed s \<le> k + length (filter (voted_for s tid mtid) as)"
proof (induction as arbitrary: k)
  case Nil
  then show ?case by simp
next
  case (Cons a as)
  let ?k = "if voted_for s tid mtid a then Suc k else k"
  have n: "(if votes s mtid a then of_nat k + 1 else if votes s tid a then of_nat k + 1 else of_nat k)
    = (of_nat ?k :: uint256)"
    by (simp add: voted_for_def)
  have t: "(of_nat ?k :: uint256) \<ge> getMinimalNumberOfVotes s \<and> of_nat ?k \<ge> required s \<longleftrightarrow> votes_needed s \<le> ?k"
    by (rule thresholds [OF assms]) (use Cons.prems in auto)
  have eq: "count_votes s tid mtid (a # as) (of_nat k)
    \<longleftrightarrow> votes_needed s \<le> ?k \<or> count_votes s tid mtid as (of_nat ?k)"
    unfolding count_votes.simps Let_def n t by simp
  show ?case
  proof (cases "votes_needed s \<le> ?k")
    case True
    then show ?thesis unfolding eq using Cons.prems by (auto split: if_splits)
  next
    case False
    then have "count_votes s tid mtid as (of_nat ?k) \<longleftrightarrow>
        votes_needed s \<le> ?k + length (filter (voted_for s tid mtid) as)"
      by (intro Cons.IH) (use Cons.prems in \<open>auto split: if_splits\<close>)
    then show ?thesis unfolding eq using False by (auto split: if_splits)
  qed
qed

lemma validateTransaction_iff:
  assumes "length (members s) \<le> MAX_MEMBER_COUNT" and "distinct (members s)"
  shows "validateTransaction s tid mtid \<longleftrightarrow>
    votes_needed s \<le> card {a \<in> set (members s). voted_for s tid mtid a}"
proof -
  have "count_votes s tid mtid (members s) (of_nat 0) \<longleftrightarrow>
      votes_needed s \<le> 0 + length (filter (voted_for s tid mtid) (members s))"
    by (rule count_votes_iff [OF assms(1)]) (use assms(1) in \<open>auto simp: votes_needed_def MAX_MEMBER_COUNT_def\<close>)
  moreover have "length (filter (voted_for s tid mtid) (members s))
      = card {a \<in> set (members s). voted_for s tid mtid a}"
    using distinct_card [OF distinct_filter [OF assms(2)]] by (simp add: Int_def conj_commute)
  ultimately show ?thesis by (simp add: validateTransaction_def)
qed

section \<open>The invariant\<close>

definition fed_inv :: "'w chain \<Rightarrow> 'w federation_state \<Rightarrow> bool" where
  "fed_inv C s \<longleftrightarrow>
     distinct (members s) \<and> (\<forall>a. isMember s a \<longleftrightarrow> a \<in> set (members s)) \<and> 0 \<notin> set (members s)
     \<and> length (members s) \<le> MAX_MEMBER_COUNT \<and> unat (required s) \<le> length (members s)
     \<and> (fd_initialized s \<or> members s = [] \<and> fd_owner s = 0)
     \<and> distinct (map (fed_getTransactionId_sol C) (accepted_transfers s))
     \<and> (\<forall>t \<in> set (accepted_transfers s). processed s (fed_getTransactionId_sol C t))"

lemma require_Inr [simp]: "(if b then (Inr (), s) else (Inl e, s)) = (Inr x, u) \<longleftrightarrow> b \<and> u = s"
  by auto

lemma onlyMember_Inr [simp]:
  "onlyMember m c s = (Inr a, t) \<longleftrightarrow> isMember s (msg_sender m) \<and> c s = (Inr a, t)"
  by (auto simp: onlyMember_def bnd_eq_Inr_iff)

lemma fed_onlyOwner_Inr [simp]:
  "fed_onlyOwner m c s = (Inr a, t) \<longleftrightarrow> msg_sender m = fd_owner s \<and> c s = (Inr a, t)"
  by (auto simp: fed_onlyOwner_def bnd_eq_Inr_iff)

lemma validRequirement_Inr:
  "validRequirement n req c s = (Inr a, t) \<longleftrightarrow> req \<le> n \<and> req \<noteq> 0 \<and> n \<noteq> 0 \<and> c s = (Inr a, t)"
  by (auto simp: validRequirement_def bnd_eq_Inr_iff)

lemma setBridge_body_Inr:
  "setBridge_body C b s = (Inr (), t) \<longleftrightarrow> b \<noteq> 0 \<and> isContract C b \<and> t = s\<lparr>fd_bridge := b\<rparr>"
  by (auto simp: setBridge_body_def bnd_eq_Inr_iff)

lemma initialize_member_Inr:
  "initialize_member a s = (Inr (), t) \<longleftrightarrow>
     \<not> isMember s a \<and> a \<noteq> 0 \<and> t = s\<lparr>isMember := (isMember s)(a := True)\<rparr>"
  by (auto simp: initialize_member_def bnd_eq_Inr_iff)

lemma initialize_members:
  "for_each initialize_member ms s = (Inr (), t) \<Longrightarrow>
     distinct ms \<and> (\<forall>a \<in> set ms. \<not> isMember s a \<and> a \<noteq> 0)
     \<and> t = s\<lparr>isMember := \<lambda>a. isMember s a \<or> a \<in> set ms\<rparr>"
proof (induction ms arbitrary: s)
  case Nil
  then show ?case by simp
next
  case (Cons a ms)
  let ?u = "s\<lparr>isMember := (isMember s)(a := True)\<rparr>"
  have a: "\<not> isMember s a" "a \<noteq> 0" and rest: "for_each initialize_member ms ?u = (Inr (), t)"
    using Cons.prems by (auto simp: bnd_eq_Inr_iff initialize_member_Inr)
  have ih: "distinct ms" "\<forall>b \<in> set ms. \<not> isMember ?u b \<and> b \<noteq> 0"
      "t = ?u\<lparr>isMember := \<lambda>b. isMember ?u b \<or> b \<in> set ms\<rparr>"
    using Cons.IH [OF rest] by blast+
  from ih(2) have "a \<notin> set ms" and "\<forall>b \<in> set ms. \<not> isMember s b \<and> b \<noteq> 0" by (auto split: if_splits)
  then show ?case using ih(1) a unfolding ih(3) by (auto simp: fun_eq_iff)
qed

lemma overwrite_id: "old \<notin> set xs \<Longrightarrow> overwrite old l xs = xs"
  by (induction xs) auto

lemma overwrite_split: "old \<notin> set ys \<Longrightarrow> overwrite old l (ys @ old # zs) = ys @ l # zs"
  by (induction ys) auto

lemma remove_from:
  assumes "distinct ms" "a \<in> set ms"
  shows "distinct (remove_from a ms) \<and> set (remove_from a ms) = set ms - {a}
    \<and> length (remove_from a ms) = length ms - 1"
proof -
  obtain xs l where ms: "ms = xs @ [l]" using assms(2) by (cases ms rule: rev_cases) auto
  show ?thesis
  proof (cases "a = l")
    case True
    then show ?thesis using assms by (auto simp: ms remove_from_def overwrite_id)
  next
    case False
    then obtain ys zs where xs: "xs = ys @ a # zs" "a \<notin> set ys"
      using assms(2) by (auto simp: ms dest: split_list_first)
    have "remove_from a ms = overwrite a l xs" by (simp add: ms remove_from_def)
    also have "\<dots> = ys @ l # zs" by (simp add: xs overwrite_split)
    finally show ?thesis using assms False by (auto simp: ms xs)
  qed
qed

lemma member_count_le: "length (members s) \<le> MAX_MEMBER_COUNT \<Longrightarrow> unat (member_count s) = length (members s)"
  by (simp add: member_count_def MAX_MEMBER_COUNT_def)

text \<open>A vote that returns: nothing happens, it is recorded, or it completes the transfer.\<close>

definition recorded :: "'w chain \<Rightarrow> msg \<Rightarrow> transfer_args \<Rightarrow> 'w federation_state \<Rightarrow> 'w federation_state" where
  "recorded C m t s = s\<lparr>votes := (votes s)(fed_getTransactionId_sol C t :=
     (votes s (fed_getTransactionId_sol C t))(msg_sender m := True))\<rparr>"

lemma fed_voteTransaction_unfold:
  "fed_voteTransaction C m t s =
     (let tid = single_chain_id C t; mtid = fed_getTransactionId_sol C t; u = recorded C m t s
      in if \<not> isMember s (msg_sender m) then (Inl (JsError ''Federation: Not Federator''), s)
         else if ta_destinationChainId t \<noteq> chainid C then (Inl (JsError ''Federation: Not block.chainid''), s)
         else if fed_isProcessed s tid mtid \<or> fed_isVoted s m tid mtid then (Inr (), s)
         else if validateTransaction u tid mtid
         then acceptTransfer C t (u\<lparr>processed := (processed s)(mtid := True)\<rparr>)
         else (Inr (), u))"
proof (cases "isMember s (msg_sender m) \<and> ta_destinationChainId t = chainid C
    \<and> \<not> fed_isProcessed s (single_chain_id C t) (fed_getTransactionId_sol C t)
    \<and> \<not> fed_isVoted s m (single_chain_id C t) (fed_getTransactionId_sol C t)")
  case True
  then show ?thesis
    by (cases "validateTransaction (recorded C m t s) (single_chain_id C t) (fed_getTransactionId_sol C t)")
      (simp_all add: fed_voteTransaction_def onlyMember_def bnd_def Let_def recorded_def)
next
  case False
  then show ?thesis
    by (cases "isMember s (msg_sender m)"; cases "ta_destinationChainId t = chainid C")
      (auto simp: fed_voteTransaction_def onlyMember_def bnd_def Let_def)
qed

lemma vote_cases:
  assumes "fed_voteTransaction C m t s = (Inr (), u)"
  obtains "u = s" "fed_isProcessed s (single_chain_id C t) (fed_getTransactionId_sol C t)
      \<or> fed_isVoted s m (single_chain_id C t) (fed_getTransactionId_sol C t)"
  | "isMember s (msg_sender m)" "u = recorded C m t s"
    "\<not> processed s (fed_getTransactionId_sol C t)"
    "\<not> validateTransaction u (single_chain_id C t) (fed_getTransactionId_sol C t)"
  | w where "isMember s (msg_sender m)" "ta_destinationChainId t = chainid C" "\<not> processed s (fed_getTransactionId_sol C t)"
    "validateTransaction (recorded C m t s) (single_chain_id C t) (fed_getTransactionId_sol C t)"
    "u = (recorded C m t s)\<lparr>processed := (processed s)(fed_getTransactionId_sol C t := True),
       accepted_transfers := accepted_transfers s @ [t], fd_world := w\<rparr>"
proof -
  let ?tid = "single_chain_id C t" let ?mtid = "fed_getTransactionId_sol C t" let ?r = "recorded C m t s"
  have run: "isMember s (msg_sender m)" and here: "ta_destinationChainId t = chainid C"
    using assms by (auto simp: fed_voteTransaction_unfold Let_def split: if_splits)
  show ?thesis
  proof (cases "fed_isProcessed s ?tid ?mtid \<or> fed_isVoted s m ?tid ?mtid")
    case True
    with assms run have "u = s" by (auto simp: fed_voteTransaction_unfold Let_def split: if_splits)
    then show ?thesis using True by (rule that(1))
  next
    case False
    then have new: "\<not> processed s ?mtid" by (simp add: fed_isProcessed_def)
    show ?thesis
    proof (cases "validateTransaction ?r ?tid ?mtid")
      case True
      with assms run False
      have "acceptTransfer C t (?r\<lparr>processed := (processed s)(?mtid := True)\<rparr>) = (Inr (), u)"
        by (simp add: fed_voteTransaction_unfold Let_def split: if_splits)
      then obtain w where "u = ?r\<lparr>processed := (processed s)(?mtid := True),
          accepted_transfers := accepted_transfers s @ [t], fd_world := w\<rparr>"
        by (auto simp: acceptTransfer_def recorded_def split: prod.splits sum.splits)
      then show ?thesis by (rule that(3) [OF run here new True])
    next
      case valid: False
      with assms run False have "u = ?r"
        by (simp add: fed_voteTransaction_unfold Let_def split: if_splits)
      then show ?thesis using that(2) run new valid by blast
    qed
  qed
qed

section \<open>The invariant is kept\<close>

lemma fed_inv_votes: "fed_inv C (s\<lparr>votes := v\<rparr>) = fed_inv C s"
  by (simp add: fed_inv_def)

lemma fed_inv_recorded: "fed_inv C (recorded C m t s) = fed_inv C s"
  by (simp add: recorded_def fed_inv_votes)

lemma fed_inv_initialize:
  assumes "fed_inv C s" "fed_initialize C ms req b own s = (Inr (), t)"
  shows "fed_inv C t"
proof -
  let ?u = "s\<lparr>fd_initialized := True, fd_owner := own, members := ms\<rparr>"
  have new: "\<not> fd_initialized s" and req: "req \<le> of_nat (length ms)" and l: "length ms \<le> MAX_MEMBER_COUNT"
    and all: "\<exists>u. for_each initialize_member ms ?u = (Inr (), u)
      \<and> t = u\<lparr>required := req, fd_bridge := b\<rparr>"
    using assms(2)
    by (auto simp: fed_initialize_def validRequirement_Inr bnd_eq_Inr_iff setBridge_body_Inr)
  obtain u where u: "for_each initialize_member ms ?u = (Inr (), u)" "t = u\<lparr>required := req, fd_bridge := b\<rparr>"
    using all by blast
  have ms: "distinct ms" "\<forall>a \<in> set ms. \<not> isMember s a \<and> a \<noteq> 0"
    and t: "t = ?u\<lparr>isMember := \<lambda>a. isMember ?u a \<or> a \<in> set ms, required := req, fd_bridge := b\<rparr>"
    using initialize_members [OF u(1)] u(2) by auto
  have "unat req \<le> length ms"
    using req l by (simp add: word_le_nat_alt MAX_MEMBER_COUNT_def)
  moreover have "members s = []" using assms(1) new by (simp add: fed_inv_def)
  ultimately show ?thesis using assms(1) ms l unfolding t fed_inv_def by auto
qed

lemma fed_inv_vote:
  assumes "fed_inv C s" "fed_voteTransaction C m t s = (Inr (), u)"
  shows "fed_inv C u"
  using assms(2)
proof (cases rule: vote_cases)
  case 1
  then show ?thesis using assms(1) by simp
next
  case 2
  then show ?thesis using assms(1) by (simp add: fed_inv_recorded)
next
  case (3 w)
  then show ?thesis using assms(1) by (auto simp: fed_inv_def recorded_def)
qed

lemma fed_inv_removeMember:
  assumes "fed_inv C s" "removeMember m a s = (Inr (), t)"
  shows "fed_inv C t"
proof -
  have a: "isMember s a" "member_count s > 1" "required s \<le> member_count s - 1"
    and t: "t = s\<lparr>isMember := (isMember s)(a := False), members := remove_from a (members s)\<rparr>"
    using assms(2) by (auto simp: removeMember_def bnd_eq_Inr_iff)
  have "unat (member_count s) = length (members s)"
    using assms(1) by (intro member_count_le) (simp add: fed_inv_def)
  then have "unat (required s) \<le> length (members s) - 1"
    using a(2,3) by (simp add: word_le_nat_alt word_less_nat_alt unat_sub)
  moreover have "distinct (members s)" "a \<in> set (members s)" using assms(1) a(1) by (auto simp: fed_inv_def)
  note remove_from [OF this]
  ultimately show ?thesis using assms(1) unfolding t fed_inv_def by auto
qed

lemma fed_inv_addMember:
  "fed_inv C s \<Longrightarrow> msg_sender m \<noteq> 0 \<Longrightarrow> addMember m a s = (Inr (), t) \<Longrightarrow> fed_inv C t"
  by (auto simp: addMember_def bnd_eq_Inr_iff fed_inv_def split: if_splits)

lemma fed_inv_changeRequirement:
  assumes "fed_inv C s" "changeRequirement m r s = (Inr (), t)"
  shows "fed_inv C t"
proof -
  have r: "r \<le> member_count s" and t: "t = s\<lparr>required := r\<rparr>"
    using assms(2) by (auto simp: changeRequirement_def bnd_eq_Inr_iff validRequirement_Inr)
  have "unat r \<le> length (members s)"
    using r member_count_le [of s] assms(1) by (simp add: word_le_nat_alt fed_inv_def)
  then show ?thesis using assms(1) unfolding t fed_inv_def by simp
qed

lemma fed_inv_exec:
  assumes "fed_inv C s" "msg_sender m \<noteq> 0" "fed_exec C m c s = (Inr (), t)"
  shows "fed_inv C t"
proof (cases c)
  case (FInitialize ms req b own)
  then show ?thesis using assms fed_inv_initialize by auto
next
  case (FVote tx)
  then show ?thesis using assms fed_inv_vote by auto
next
  case (FRemoveMember a)
  then show ?thesis using assms fed_inv_removeMember by auto
next
  case (FAddMember a)
  then show ?thesis using assms fed_inv_addMember by auto
next
  case (FChangeRequirement r)
  then show ?thesis using assms fed_inv_changeRequirement by auto
qed (use assms in \<open>auto simp: fed_inv_def bnd_eq_Inr_iff fed_owner_initialize_def setBridge_def setBridge_body_Inr
  fed_transferOwnership_def fed_renounceOwnership_def fed_emitHeartbeat_def\<close>)

lemma fed_inv_transact:
  "fed_inv C s \<Longrightarrow> msg_sender m \<noteq> 0 \<Longrightarrow> transact (fed_exec C m c) s = (r, t) \<Longrightarrow> fed_inv C t"
  by (auto simp: transact_def fed_inv_exec split: prod.splits sum.splits)

lemma fed_inv_blank: "fed_inv C (blank_federation w)"
  by (simp add: fed_inv_def blank_federation_def MAX_MEMBER_COUNT_def)

lemma fed_inv_world: "fed_inv C (s\<lparr>fd_world := w\<rparr>) = fed_inv C s"
  by (simp add: fed_inv_def)

lemma fed_inv_reachable: "fed_reachable C s \<Longrightarrow> fed_inv C s"
  by (induction rule: fed_reachable.induct) (auto simp: fed_inv_blank fed_inv_world intro: fed_inv_transact)

text \<open>The members whose vote counts once the sender has voted, as a set.\<close>

definition supporters :: "'w chain \<Rightarrow> msg \<Rightarrow> transfer_args \<Rightarrow> 'w federation_state \<Rightarrow> address set" where
  "supporters C m t s = {a \<in> set (members s). a = msg_sender m
     \<or> voted_for s (single_chain_id C t) (fed_getTransactionId_sol C t) a}"

lemma validate_recorded:
  assumes "fed_inv C s"
  shows "validateTransaction (recorded C m t s) (single_chain_id C t) (fed_getTransactionId_sol C t)
    \<longleftrightarrow> votes_needed s \<le> card (supporters C m t s)"
proof -
  have "{a \<in> set (members s). voted_for (recorded C m t s) (single_chain_id C t) (fed_getTransactionId_sol C t) a}
      = supporters C m t s"
    by (auto simp: supporters_def voted_for_def recorded_def)
  then show ?thesis
    using validateTransaction_iff [of "recorded C m t s" "single_chain_id C t" "fed_getTransactionId_sol C t"] assms
    by (simp add: fed_inv_def recorded_def votes_needed_def)
qed

lemma only_votes_accept:
  assumes "fed_exec C m c s = (Inr (), t)" "accepted_transfers t \<noteq> accepted_transfers s"
  shows "\<exists>tx. c = FVote tx"
proof (cases c)
  case (FInitialize ms req b own)
  then show ?thesis using assms
    by (auto simp: fed_initialize_def validRequirement_Inr bnd_eq_Inr_iff setBridge_body_Inr
        dest: initialize_members)
qed (use assms in \<open>auto simp: bnd_eq_Inr_iff fed_owner_initialize_def setBridge_def setBridge_body_Inr
  fed_transferOwnership_def fed_renounceOwnership_def fed_emitHeartbeat_def addMember_def removeMember_def
  changeRequirement_def validRequirement_Inr\<close>)

section \<open>A small federation\<close>

definition sample_chain :: "unit chain" where
  "sample_chain = \<lparr>keccak256_packed = (\<lambda>xs. of_nat (length xs)), isContract = (\<lambda>_. True), chainid = 5,
     bridge_acceptTransfer = (\<lambda>_ _ w. (Inr (), w))\<rparr>"

definition sender_msg :: "address \<Rightarrow> msg" where
  "sender_msg a = \<lparr>msg_sender = a, block_timestamp = 0\<rparr>"

definition sample_transfer :: transfer_args where
  "sample_transfer = \<lparr>ta_originalTokenAddress = 10, ta_sender = 11, ta_receiver = 12, ta_value = 100,
     ta_blockHash = 13, ta_transactionHash = 14, ta_logIndex = 0, ta_originChainId = 31, ta_destinationChainId = 5\<rparr>"

definition two_members :: "unit federation_state" where
  "two_members = \<lparr>fd_initialized = True, fd_owner = 3, fd_bridge = 9, members = [1, 2], required = 2,
     isMember = (\<lambda>_. False)(1 := True, 2 := True), votes = (\<lambda>_ _. False), processed = (\<lambda>_. False),
     accepted_transfers = [], fd_world = ()\<rparr>"

definition voted_once :: "unit federation_state" where
  "voted_once = two_members\<lparr>votes := (\<lambda>_ _. False)(9 := (\<lambda>_. False)(1 := True))\<rparr>"

definition voted_twice :: "unit federation_state" where
  "voted_twice = voted_once\<lparr>votes := (\<lambda>_ _. False)(9 := (\<lambda>_. False)(1 := True, 2 := True)),
     processed := (\<lambda>_. False)(9 := True), accepted_transfers := [sample_transfer]\<rparr>"

lemma sample_ids [simp]:
  "single_chain_id sample_chain t = 7" "fed_getTransactionId_sol sample_chain t = 9"
  by (simp_all add: single_chain_id_def fed_getTransactionId_sol_def sample_chain_def)

lemma sample_chain_simps [simp]:
  "chainid sample_chain = 5" "isContract sample_chain a" "bridge_acceptTransfer sample_chain b t w = (Inr (), w)"
  by (simp_all add: sample_chain_def)

lemma sample_initialize:
  "transact (fed_exec sample_chain m (FInitialize [1, 2] 2 9 3)) (blank_federation ()) = (Inr (), two_members)"
  by (simp add: transact_def fed_initialize_def validRequirement_def initialize_member_def setBridge_body_def
      bnd_def blank_federation_def two_members_def sample_chain_def MAX_MEMBER_COUNT_def)

lemmas vote_eval = transact_def fed_voteTransaction_unfold Let_def fed_isProcessed_def fed_isVoted_def
  validateTransaction_def getMinimalNumberOfVotes_def member_count_def acceptTransfer_def recorded_def

lemma sample_first:
  "transact (fed_exec sample_chain (sender_msg 1) (FVote sample_transfer)) two_members = (Inr (), voted_once)"
  by (simp add: vote_eval) (simp add: two_members_def voted_once_def sample_transfer_def sender_msg_def
    getMinimalNumberOfVotes_def member_count_def word_le_nat_alt)

lemma sample_second:
  "transact (fed_exec sample_chain (sender_msg 2) (FVote sample_transfer)) voted_once = (Inr (), voted_twice)"
  by (simp add: vote_eval) (simp add: two_members_def voted_once_def voted_twice_def sample_transfer_def
    sender_msg_def fun_upd_twist getMinimalNumberOfVotes_def member_count_def word_le_nat_alt)

lemma sample_reachable:
  "fed_reachable sample_chain two_members" "fed_reachable sample_chain voted_once"
  "fed_reachable sample_chain voted_twice"
proof -
  have "msg_sender (sender_msg 1) \<noteq> 0" "msg_sender (sender_msg 2) \<noteq> 0" by (simp_all add: sender_msg_def)
  then show "fed_reachable sample_chain two_members" "fed_reachable sample_chain voted_once"
      "fed_reachable sample_chain voted_twice"
    by (metis fed_reachable.created fed_reachable.step sample_initialize sample_first sample_second)+
qed

section \<open>What the federation promises\<close>

text \<open>
  C10: in every state the federation can reach, by whatever transactions of whatever senders, no
  transfer was handed to the bridge twice (no two accepted transfers have the same identifier, and
  each identifier is marked as processed), the member list has no repetition, is what isMember says
  and has at most 50 entries, and no more votes are required than there are members.
\<close>

theorem federation_accepts_once:
  assumes "fed_reachable C s"
  shows "distinct (map (fed_getTransactionId_sol C) (accepted_transfers s))
    \<and> (\<forall>t \<in> set (accepted_transfers s). processed s (fed_getTransactionId_sol C t))
    \<and> distinct (members s) \<and> (\<forall>a. isMember s a \<longleftrightarrow> a \<in> set (members s))
    \<and> length (members s) \<le> 50 \<and> unat (required s) \<le> length (members s)"
  using fed_inv_reachable [OF assms] by (simp add: fed_inv_def MAX_MEMBER_COUNT_def)

theorem federation_accepts_once_witness:
  "accepted_transfers voted_twice = [sample_transfer] \<and> processed voted_twice 9"
  using federation_accepts_once [OF sample_reachable(3)] by (simp add: voted_twice_def)

text \<open>
  C11: from a state the federation can reach, a transaction changes what the bridge accepted only if
  it is a vote of a member for a transfer to this chain that was not processed before, and then the
  current members that voted for it (under either identifier, the sender included) are more than half
  of the members and at least the required number. The transfer is then marked as processed.
\<close>

theorem federation_accepts_with_votes:
  assumes "fed_reachable C s" and "transact (fed_exec C m c) s = (r, t)"
    and "accepted_transfers t \<noteq> accepted_transfers s"
  shows "\<exists>tx. c = FVote tx \<and> isMember s (msg_sender m) \<and> ta_destinationChainId tx = chainid C
    \<and> accepted_transfers t = accepted_transfers s @ [tx]
    \<and> \<not> processed s (fed_getTransactionId_sol C tx) \<and> processed t (fed_getTransactionId_sol C tx)
    \<and> length (members s) < 2 * card (supporters C m tx s)
    \<and> unat (required s) \<le> card (supporters C m tx s)"
proof -
  have run: "fed_exec C m c s = (Inr (), t)"
    using assms(2,3) by (auto simp: transact_def split: prod.splits sum.splits)
  obtain tx where c: "c = FVote tx" using only_votes_accept [OF run assms(3)] by blast
  have vote: "fed_voteTransaction C m tx s = (Inr (), t)" using run by (simp add: c)
  from vote show ?thesis
  proof (cases rule: vote_cases)
    case 1
    then show ?thesis using assms(3) by simp
  next
    case 2
    then show ?thesis using assms(3) by (simp add: recorded_def)
  next
    case (3 w)
    then have "votes_needed s \<le> card (supporters C m tx s)"
      using validate_recorded [OF fed_inv_reachable [OF assms(1)]] by blast
    then have "length (members s) < 2 * card (supporters C m tx s)" "unat (required s) \<le> card (supporters C m tx s)"
      by (auto simp: votes_needed_def)
    then show ?thesis using 3 c by simp
  qed
qed

theorem federation_accepts_with_votes_witness:
  "\<exists>tx. FVote sample_transfer = FVote tx \<and> isMember voted_once 2
     \<and> accepted_transfers voted_twice = [tx] \<and> 2 < 2 * card (supporters sample_chain (sender_msg 2) tx voted_once)"
  using federation_accepts_with_votes [OF sample_reachable(2) sample_second]
  by (simp add: voted_once_def voted_twice_def two_members_def sender_msg_def)

text \<open>
  C12: what a vote does in a state the federation can reach, on every branch: it reverts for a sender
  that is not a member or a transfer to another chain, changes nothing when the transfer is processed
  or the sender voted for it, is recorded while the votes do not suffice, and with the vote that
  suffices goes to the bridge; when the bridge reverts, so does the vote, which is then not recorded.
\<close>

theorem vote_outcome:
  assumes "fed_reachable C s"
  shows "transact (fed_exec C m (FVote t)) s =
    (if \<not> isMember s (msg_sender m) then (Inl (JsError ''Federation: Not Federator''), s)
     else if ta_destinationChainId t \<noteq> chainid C then (Inl (JsError ''Federation: Not block.chainid''), s)
     else if processed s (single_chain_id C t) \<or> processed s (fed_getTransactionId_sol C t)
       \<or> votes s (single_chain_id C t) (msg_sender m)
       \<or> votes s (fed_getTransactionId_sol C t) (msg_sender m) then (Inr (), s)
     else if card (supporters C m t s) < votes_needed s then (Inr (), recorded C m t s)
     else case bridge_acceptTransfer C (fd_bridge s) t (fd_world s) of
       (Inl e, w) \<Rightarrow> (Inl e, s)
     | (Inr _, w) \<Rightarrow> (Inr (), (recorded C m t s)
         \<lparr>processed := (processed s)(fed_getTransactionId_sol C t := True),
          accepted_transfers := accepted_transfers s @ [t], fd_world := w\<rparr>))"
proof -
  have "validateTransaction (recorded C m t s) (single_chain_id C t) (fed_getTransactionId_sol C t)
      \<longleftrightarrow> \<not> card (supporters C m t s) < votes_needed s"
    using validate_recorded [OF fed_inv_reachable [OF assms]] by (simp add: not_less)
  moreover have "fd_bridge (recorded C m t s) = fd_bridge s" "fd_world (recorded C m t s) = fd_world s"
      "accepted_transfers (recorded C m t s) = accepted_transfers s"
    by (simp_all add: recorded_def)
  ultimately show ?thesis
    by (simp add: transact_def fed_voteTransaction_unfold Let_def acceptTransfer_def fed_isProcessed_def
        fed_isVoted_def disj_ac split: prod.splits sum.splits)
qed

theorem vote_outcome_witness:
  "transact (fed_exec sample_chain (sender_msg 4) (FVote sample_transfer)) voted_once
     = (Inl (JsError ''Federation: Not Federator''), voted_once)
   \<and> transact (fed_exec sample_chain (sender_msg 1) (FVote sample_transfer)) voted_once = (Inr (), voted_once)
   \<and> fst (transact (fed_exec sample_chain (sender_msg 2) (FVote sample_transfer)) voted_once) = Inr ()"
  unfolding vote_outcome [OF sample_reachable(2)]
  by (simp add: voted_once_def two_members_def sender_msg_def sample_transfer_def)

end
