(* ===== verification/AdminScripts.thy ===== *)
theory AdminScripts
  imports Deploy
begin

text \<open>
  The scripts of src/bridge/hardhat/script, which an administrator runs one at a time. A contract
  object of web3 is the ABI of a deployment (its functions with their numbers of parameters) and an
  address: asking it for a function it does not have, or with another number of arguments, throws
  before anything is encoded. The state, the requests and the submissions to the multisig wallet are
  those of the theory Deploy; console output and gas limits are left out. The value of a script is the exit
  code of its process.
\<close>

section \<open>Contract objects and environment\<close>

type_synonym abi = "(string \<times> nat) list"

record deployment =
  d_abi :: abi
  d_address :: string

record method_call =
  mc_to :: string
  mc_name :: string
  mc_args :: "script_arg list"

record 'w scripts =
  sc_hardhat :: "'w hardhat"
  sc_get :: "string \<Rightarrow> ('w, deployment) ext"
  sc_getArtifact :: "string \<Rightarrow> ('w, abi) ext"
  sc_call :: "string option \<Rightarrow> method_call \<Rightarrow> ('w, string) ext"
  sc_eth_call :: "string \<Rightarrow> string \<Rightarrow> string \<Rightarrow> ('w, string) ext"

text \<open>\<open>new web3.eth.Contract(abi, address).methods.name(...args)\<close>\<close>

definition web3_method :: "abi \<Rightarrow> string \<Rightarrow> string \<Rightarrow> script_arg list \<Rightarrow> method_call res" where
  "web3_method abi addr name args =
     (if name \<notin> fst ` set abi then Inl JsTypeError
      else if (name, length args) \<notin> set abi then Inl (JsError ''Invalid number of parameters'')
      else Inr \<lparr>mc_to = addr, mc_name = name, mc_args = args\<rparr>)"

definition method_at :: "abi \<Rightarrow> string \<Rightarrow> string \<Rightarrow> script_arg list \<Rightarrow> ('w, method_call) drun" where
  "method_at abi addr name args = lift_res (web3_method abi addr name args)"

definition get_deployment :: "'w scripts \<Rightarrow> string \<Rightarrow> ('w, deployment) drun" where
  "get_deployment E name = dext (sc_get E name)"

definition get_deployer :: "'w scripts \<Rightarrow> ('w, string) drun" where
  "get_deployer E = bnd (dext (hh_namedAccounts (sc_hardhat E))) (\<lambda>n. ret (deployer n))"

definition call_from :: "'w scripts \<Rightarrow> string option \<Rightarrow> method_call \<Rightarrow> ('w, string) drun" where
  "call_from E acc m = dext (sc_call E acc m)"

definition send_from :: "'w scripts \<Rightarrow> string \<Rightarrow> method_call \<Rightarrow> ('w, unit) drun" where
  "send_from E acc m = send (sc_hardhat E) acc (Some (mc_to m)) (MethodCall (mc_name m) (mc_args m))"

text \<open>\<open>multiSigContract.methods.submitTransaction(dest, 0, method.encodeABI()).send({from: acc})\<close>\<close>

definition submit_from :: "'w scripts \<Rightarrow> string \<Rightarrow> deployment \<Rightarrow> string \<Rightarrow> method_call \<Rightarrow> ('w, unit) drun" where
  "submit_from E acc multi dest m =
     bnd (lift_res (encode_call (sc_hardhat E) (MethodCall (mc_name m) (mc_args m)))) (\<lambda>code.
     bnd (method_at (d_abi multi) (d_address multi) ''submitTransaction'' [SStr dest, SInt 0, SStr code]) (\<lambda>_.
     send (sc_hardhat E) acc (Some (d_address multi)) (SubmitTransaction (Some dest) 0 code)))"

text \<open>\<open>main().then(() => process.exit(0)).catch((error) => process.exit(1))\<close>\<close>

definition exits :: "('w, unit) drun \<Rightarrow> ('w, nat) drun" where
  "exits m s = (case m s of (Inr _, t) \<Rightarrow> (Inr 0, t) | (Inl e, t) \<Rightarrow> (Inr 1, t))"

section \<open>Reading\<close>

text \<open>getFederationsEvents.js and getFederatorMembers.js have the same body.\<close>

definition getFederatorMembers :: "'w scripts \<Rightarrow> ('w, nat) drun" where
  "getFederatorMembers E = exits (
     bnd (get_deployment E ''Federation'') (\<lambda>fed.
     bnd (get_deployment E ''FederationProxy'') (\<lambda>proxy.
     bnd (get_deployment E ''MultiSigWallet'') (\<lambda>multi.
     bnd (method_at (d_abi fed) (d_address proxy) ''getMembers'' []) (\<lambda>m.
     bnd (call_from E (Some (d_address multi)) m) (\<lambda>_. ret ()))))))"

definition getFederationsEvents :: "'w scripts \<Rightarrow> ('w, nat) drun" where
  "getFederationsEvents E = exits (
     bnd (get_deployment E ''Federation'') (\<lambda>fed.
     bnd (get_deployment E ''FederationProxy'') (\<lambda>proxy.
     bnd (get_deployment E ''MultiSigWallet'') (\<lambda>multi.
     bnd (method_at (d_abi fed) (d_address proxy) ''getMembers'' []) (\<lambda>m.
     bnd (call_from E (Some (d_address multi)) m) (\<lambda>_. ret ()))))))"

definition getFeeConfig :: "'w scripts \<Rightarrow> ('w, nat) drun" where
  "getFeeConfig E = exits (
     bnd (get_deployment E ''Bridge'') (\<lambda>bridgeC.
     bnd (get_deployment E ''BridgeProxy'') (\<lambda>proxy.
     bnd (method_at (d_abi bridgeC) (d_address proxy) ''getFeePercentage'' []) (\<lambda>m.
     bnd (call_from E None m) (\<lambda>_. ret ())))))"

definition getOriginToken :: "'w scripts \<Rightarrow> ('w, nat) drun" where
  "getOriginToken E = exits (bnd (get_deployer E) (\<lambda>_. ret ()))"

definition getSideTokenAddress :: "'w scripts \<Rightarrow> ('w, nat) drun" where
  "getSideTokenAddress E = exits (
     let tokens = tokensByChainId 42
     in bnd (get_deployment E ''Bridge'') (\<lambda>bridgeC.
        bnd (get_deployment E ''BridgeProxy'') (\<lambda>proxy.
        for_each (\<lambda>(symbol, token).
          bnd (method_at (d_abi bridgeC) (d_address proxy) ''sideTokenByOriginalToken''
                 [SInt 42, SStr (te_address token)]) (\<lambda>m.
          bnd (call_from E None m) (\<lambda>_. ret ()))) tokens)))"

definition getTokenDecimals :: "'w scripts \<Rightarrow> ('w, nat) drun" where
  "getTokenDecimals E = exits (
     bnd (get_deployment E ''MainToken'') (\<lambda>token.
     bnd (method_at (d_abi token) ''0x5C2b6fd29BA6CfC27858fAE03aAc5eac14e5081D'' ''decimals'' []) (\<lambda>m.
     bnd (call_from E None m) (\<lambda>_. ret ()))))"

definition getTxStatus :: "'w scripts \<Rightarrow> ('w, nat) drun" where
  "getTxStatus E = exits (
     bnd (get_deployment E ''Bridge'') (\<lambda>bridgeC.
     bnd (get_deployment E ''BridgeProxy'') (\<lambda>proxy.
     bnd (method_at (d_abi bridgeC) (d_address proxy) ''hasBeenClaimed''
            [SStr ''0x77a49edea913f81268cceb4499525cf6c2c8a16233d323ca135e41f79249188f'']) (\<lambda>m.
     bnd (call_from E None m) (\<lambda>_. ret ())))))"

definition getVotes :: "'w scripts \<Rightarrow> ('w, nat) drun" where
  "getVotes E = exits (
     bnd (get_deployment E ''Federation'') (\<lambda>fed.
     bnd (get_deployment E ''FederationProxy'') (\<lambda>proxy.
     bnd (method_at (d_abi fed) (d_address proxy) ''getTransactionCount''
            [SStr ''0xe8ea4d4905add8f36aae714f77d870f8d435c71a37cb6127fc78afe99c49eb55'']) (\<lambda>m.
     bnd (call_from E None m) (\<lambda>_. ret ())))))"

definition getWrappedCurrency :: "'w scripts \<Rightarrow> ('w, nat) drun" where
  "getWrappedCurrency E = exits (
     bnd (get_deployment E ''Bridge'') (\<lambda>bridgeC.
     bnd (get_deployment E ''BridgeProxy'') (\<lambda>proxy.
     bnd (get_deployment E ''MultiSigWallet'') (\<lambda>multi.
     bnd (method_at (d_abi bridgeC) (d_address proxy) ''wrappedCurrency'' []) (\<lambda>m.
     bnd (call_from E (Some (d_address multi)) m) (\<lambda>_. ret ()))))))"

text \<open>
  The address may be null, which web3 takes for a contract without an address: its calls throw.
\<close>

definition isTokenAllowed :: "'w scripts \<Rightarrow> ('w, nat) drun" where
  "isTokenAllowed E = exits (
     bnd (getAllowTokensProxyAddress (sc_hardhat E)) (\<lambda>proxy.
     bnd (dext (sc_getArtifact E ''AllowTokens'')) (\<lambda>abi.
     bnd (method_at abi (case proxy of Some a \<Rightarrow> a | None \<Rightarrow> []) ''getInfoAndLimits''
            [SStr ''0x97118caaE1F773a84462490Dd01FE7a3e7C4cdCd'']) (\<lambda>m.
     if proxy = None then throw (JsError ''This contract object doesn't have address set yet'')
     else bnd (call_from E None m) (\<lambda>_. ret ())))))"

definition sendSignature :: "'w scripts \<Rightarrow> abi \<Rightarrow> ('w, nat) drun" where
  "sendSignature E abi = exits (
     bnd (get_deployer E) (\<lambda>_.
     bnd (method_at abi ''0x6f6371add1e3a60726c426667f9f463e71cc3a13'' ''getTransactionId''
            [SStr ''0x00000000000000000000000076c6af5A264A4fA4360432e365F5A80503476415'',
             SStr ''0x2336a2c4c79a4343392233ea209fede3c48c8531a6d6af5975c6363c4559d38a'',
             SStr ''1000000000000000000'', SStr ''0xCC3CF44397Daa4572CDb20f72dee5700507454E4'',
             SStr ''WjDz74uofMpF87xy9F9F1HYs9rjU6vY8Gr'', SInt 1]) (\<lambda>m.
     bnd (call_from E None m) (\<lambda>_. ret ()))))"

definition tryTxCall :: "'w scripts \<Rightarrow> ('w, nat) drun" where
  "tryTxCall E = exits (
     let to = ''0x9d11937E2179dC5270Aa86A3f8143232D6DA0E69'';
         data = ''0x7813bea2000000000000000000000000e700691da7b9851f2f35f8b8182c69c53ccad9db000000000000000000000000ad0eca47df3c9a226daaa62b1d8a1986c9e1a64b0000000000000000000000000000000000000000000000056bc75e2d63100000'';
         acc = ''0xad0EcA47DF3C9a226dAAA62B1D8A1986c9e1A64b''
     in bnd (dext (sc_eth_call E (js_lower to) data (js_lower acc))) (\<lambda>_. ret ()))"

section \<open>Tokens\<close>

text \<open>addETHOriginToken.js and addHTROriginToken.js: allow a token, then tell the bridge its Hathor token.\<close>

definition add_origin_token ::
    "'w scripts \<Rightarrow> string \<Rightarrow> string \<Rightarrow> int \<Rightarrow> int
     \<Rightarrow> (string \<Rightarrow> deployment \<Rightarrow> deployment \<Rightarrow> ('w, unit) drun) \<Rightarrow> ('w, unit) drun" where
  "add_origin_token E token hathorTokenAddress typeId networkId uid =
     bnd (get_deployer E) (\<lambda>acc.
     bnd (get_deployment E ''AllowTokens'') (\<lambda>allow.
     bnd (get_deployment E ''AllowTokensProxy'') (\<lambda>allowProxy.
     bnd (get_deployment E ''Bridge'') (\<lambda>bridgeC.
     bnd (get_deployment E ''BridgeProxy'') (\<lambda>bridgeP.
     bnd (get_deployment E ''MultiSigWallet'') (\<lambda>multi.
     bnd (method_at (d_abi allow) (d_address allowProxy) ''setToken'' [SStr token, SInt typeId]) (\<lambda>setToken.
     bnd (submit_from E acc multi (d_address allowProxy) setToken) (\<lambda>_.
     bnd (method_at (d_abi bridgeC) (d_address bridgeP) ''addHathorToken''
            [SInt networkId, SStr token, SStr hathorTokenAddress]) (\<lambda>add.
     bnd (submit_from E acc multi (d_address bridgeP) add) (\<lambda>_.
     bnd (method_at (d_abi bridgeC) (d_address bridgeP) ''HathorToEvmTokenMap'' [SStr hathorTokenAddress]) (\<lambda>m.
     bnd (call_from E (Some acc) m) (\<lambda>_.
     bnd (uid acc bridgeC bridgeP) (\<lambda>_.
     bnd (method_at (d_abi bridgeC) (d_address bridgeP) ''EvmToHathorTokenMap'' [SStr token]) (\<lambda>m.
     bnd (call_from E (Some acc) m) (\<lambda>_. ret ())))))))))))))))"

definition addETHOriginToken :: "'w scripts \<Rightarrow> ('w, nat) drun" where
  "addETHOriginToken E = exits (
     let hathorTokenAddress = ''00003b17e8d656e4612926d5d2c5a4d5b3e4536e6bebc61c76cb71a65b81986f''
     in add_origin_token E ''0xaf88d065e77c8cc2239327c5edb3a432268e5831'' hathorTokenAddress 2 42161
          (\<lambda>acc bridgeC bridgeP.
             bnd (method_at (d_abi bridgeC) (d_address bridgeP) ''uidToAddress'' [SStr hathorTokenAddress]) (\<lambda>m.
             bnd (call_from E (Some acc) m) (\<lambda>_. ret ()))))"

definition addHTROriginToken :: "'w scripts \<Rightarrow> ('w, nat) drun" where
  "addHTROriginToken E = exits (
     add_origin_token E ''0x39E592685C791cFFEE63f7e95EC7165840A04d37''
       ''00004a7de70e9d056322d0dbe3d96d9153c8357b8832a4597cc0fdf9f6626fb7'' 4 31
       (\<lambda>acc bridgeC bridgeP. ret ()))"

definition addHathorToken :: "'w scripts \<Rightarrow> ('w, nat) drun" where
  "addHathorToken E = exits (
     let hathorToken = ''00''
     in bnd (get_deployer E) (\<lambda>acc.
        bnd (get_deployment E ''MainToken'') (\<lambda>_.
        bnd (get_deployment E ''Bridge'') (\<lambda>bridgeC.
        bnd (get_deployment E ''BridgeProxy'') (\<lambda>proxy.
        bnd (get_deployment E ''MultiSigWallet'') (\<lambda>multi.
        bnd (method_at (d_abi bridgeC) (d_address proxy) ''uidToAddress'' [SStr hathorToken]) (\<lambda>m.
        bnd (call_from E (Some acc) m) (\<lambda>_.
        bnd (method_at (d_abi bridgeC) (d_address proxy) ''addHathorToken''
               [SInt 31, SStr ''0xE3f0Ae350EE09657933CD8202A4dd563c5af941F'', SStr hathorToken]) (\<lambda>add.
        bnd (call_from E (Some (d_address multi)) add) (\<lambda>_.
        bnd (submit_from E acc multi (d_address proxy) add) (\<lambda>_.
        bnd (method_at (d_abi bridgeC) (d_address proxy) ''HathorToEvmTokenMap'' [SStr hathorToken]) (\<lambda>m.
        bnd (call_from E (Some acc) m) (\<lambda>_.
        bnd (method_at (d_abi bridgeC) (d_address proxy) ''EvmToHathorTokenMap''
               [SStr ''0xBd8A2Feba2724f0463F7C803D80340F6B2596a1A'']) (\<lambda>m.
        bnd (call_from E (Some acc) m) (\<lambda>_. ret ())))))))))))))))"

text \<open>createHathorToken.js has one token in its list, whose address is the one the bridge computes.\<close>

definition create_hathor_token ::
    "'w scripts \<Rightarrow> string \<Rightarrow> deployment \<Rightarrow> deployment \<Rightarrow> deployment \<Rightarrow> string \<Rightarrow> string \<Rightarrow> ('w, unit) drun" where
  "create_hathor_token E acc bridgeC proxy multi hathorAddr addrFromToken =
     bnd (method_at (d_abi bridgeC) (d_address proxy) ''createSideToken''
            [SInt 1, SStr addrFromToken, SInt 18, SStr ''eHTR'', SStr ''Regular Hathor Token (eRHT)'', SInt 31])
       (\<lambda>create.
     bnd (call_from E (Some (d_address multi)) create) (\<lambda>_.
     bnd (submit_from E acc multi (d_address proxy) create) (\<lambda>_.
     bnd (method_at (d_abi bridgeC) (d_address proxy) ''addHathorToken''
            [SInt 31, SStr addrFromToken, SStr hathorAddr]) (\<lambda>add.
     submit_from E acc multi (d_address proxy) add))))"

definition createHathorToken :: "'w scripts \<Rightarrow> ('w, nat) drun" where
  "createHathorToken E = exits (
     bnd (get_deployer E) (\<lambda>acc.
     bnd (get_deployment E ''Bridge'') (\<lambda>bridgeC.
     bnd (get_deployment E ''BridgeProxy'') (\<lambda>proxy.
     bnd (get_deployment E ''MultiSigWallet'') (\<lambda>multi.
     bnd (method_at (d_abi bridgeC) (d_address proxy) ''uidToAddress'' [SStr ''00'']) (\<lambda>m.
     bnd (call_from E (Some acc) m) (\<lambda>addrFromToken.
     for_each (create_hathor_token E acc bridgeC proxy multi ''00'') [addrFromToken])))))))"

text \<open>createRifToken.js and createTokensERC20Rsk.js: create a side token, then ask where it is.\<close>

definition create_side_token ::
    "'w scripts \<Rightarrow> int \<Rightarrow> string \<Rightarrow> string \<Rightarrow> string \<Rightarrow> string list \<Rightarrow> ('w, unit) drun" where
  "create_side_token E typeId originalTokenAddress symbol name lookups =
     bnd (get_deployer E) (\<lambda>acc.
     bnd (get_deployment E ''Bridge'') (\<lambda>bridgeC.
     bnd (get_deployment E ''BridgeProxy'') (\<lambda>proxy.
     bnd (get_deployment E ''MultiSigWallet'') (\<lambda>multi.
     bnd (method_at (d_abi bridgeC) (d_address proxy) ''createSideToken''
            [SInt typeId, SStr originalTokenAddress, SInt 18, SStr symbol, SStr name]) (\<lambda>create.
     bnd (call_from E (Some (d_address multi)) create) (\<lambda>_.
     bnd (submit_from E acc multi (d_address proxy) create) (\<lambda>_.
     for_each (\<lambda>lookup.
       bnd (method_at (d_abi bridgeC) (d_address proxy) lookup [SStr originalTokenAddress]) (\<lambda>m.
       bnd (call_from E (Some (d_address multi)) m) (\<lambda>_. ret ()))) lookups)))))))"

definition createRifToken :: "'w scripts \<Rightarrow> ('w, nat) drun" where
  "createRifToken E = exits (create_side_token E 5 ''0x19F64674D8A5B4E652319F5e239eFd3bc969A1fE''
     ''tRIF'' ''RifToken'' [''mappedTokens''])"

definition createTokensERC20Rsk :: "'w scripts \<Rightarrow> ('w, nat) drun" where
  "createTokensERC20Rsk E = exits (create_side_token E 1 ''0x4ccc35c8f2e780203c5dc4b605f495acea9255bc''
     ''RWTBTC'' ''Side Ethereum Test BTC (WTBTC)'' [''mappedTokens'', ''originalTokens''])"

section \<open>Administration\<close>

text \<open>Build a call of a contract behind a proxy, try it as the multisig where \<open>tried\<close>, and submit it.\<close>

definition administer ::
    "'w scripts \<Rightarrow> string \<Rightarrow> string \<Rightarrow> bool \<Rightarrow> string \<Rightarrow> script_arg list \<Rightarrow> ('w, unit) drun" where
  "administer E contract proxyName tried name args =
     bnd (get_deployer E) (\<lambda>acc.
     bnd (get_deployment E contract) (\<lambda>logic.
     bnd (get_deployment E proxyName) (\<lambda>proxy.
     bnd (get_deployment E ''MultiSigWallet'') (\<lambda>multi.
     bnd (method_at (d_abi logic) (d_address proxy) name args) (\<lambda>m.
     bnd (if tried then bnd (call_from E (Some (d_address multi)) m) (\<lambda>_. ret ()) else ret ()) (\<lambda>_.
     submit_from E acc multi (d_address proxy) m))))))"

definition setAllowToken :: "'w scripts \<Rightarrow> ('w, nat) drun" where
  "setAllowToken E = exits (administer E ''AllowTokens'' ''AllowTokensProxy'' True ''setToken''
     [SStr ''0x97118caaE1F773a84462490Dd01FE7a3e7C4cdCd'', SStr ''0''])"

definition removeAllowToken :: "'w scripts \<Rightarrow> ('w, nat) drun" where
  "removeAllowToken E = exits (administer E ''AllowTokens'' ''AllowTokensProxy'' True ''removeAllowedToken''
     [SStr ''0x00.....''])"

definition setAllowTokenConfirmations :: "'w scripts \<Rightarrow> ('w, nat) drun" where
  "setAllowTokenConfirmations E = exits (administer E ''AllowTokens'' ''AllowTokensProxy'' False
     ''setConfirmations'' [SInt 12, SInt 24, SInt 36])"

definition deleteFederatorMember :: "'w scripts \<Rightarrow> ('w, nat) drun" where
  "deleteFederatorMember E = exits (administer E ''Federation'' ''FederationProxy'' True ''removeMember''
     [SStr ''0xCC3CF44397Daa4572CDb20f72dee5700507454E4''])"

definition changeFederatorRequirements :: "'w scripts \<Rightarrow> ('w, nat) drun" where
  "changeFederatorRequirements E = exits (administer E ''Federation'' ''FederationProxy'' False
     ''changeRequirement'' [SInt 3])"

definition new_members :: "string list" where
  "new_members =
     [''0xdaC1B4fC75E8792594CabA54a16beE94B4a700e5'', ''0xa50339B4413d5854291e93cACF95599a7265bE59'',
      ''0x225f64996Cd783E5acE8F5A20cdD7871304F1130'', ''0xcAfbbb39c25adF1AE8859a0197ab7CBD2cE78F56'',
      ''0xE245a452480a93D7AaCf040E8744964B714C6C4a'']"

definition add_member ::
    "'w scripts \<Rightarrow> string \<Rightarrow> deployment \<Rightarrow> deployment \<Rightarrow> deployment \<Rightarrow> string \<Rightarrow> ('w, unit) drun" where
  "add_member E acc fed proxy multi a =
     bnd (method_at (d_abi fed) (d_address proxy) ''addMember'' [SStr a]) (\<lambda>m.
     bnd (call_from E (Some (d_address multi)) m) (\<lambda>_.
     submit_from E acc multi (d_address proxy) m))"

definition addFederatorMember :: "'w scripts \<Rightarrow> ('w, nat) drun" where
  "addFederatorMember E = exits (
     bnd (get_deployer E) (\<lambda>acc.
     bnd (get_deployment E ''Federation'') (\<lambda>fed.
     bnd (get_deployment E ''FederationProxy'') (\<lambda>proxy.
     bnd (get_deployment E ''MultiSigWallet'') (\<lambda>multi.
     for_each (add_member E acc fed proxy multi) new_members)))))"

section \<open>Transfers\<close>

definition claimHathorTransaction :: "'w scripts \<Rightarrow> ('w, nat) drun" where
  "claimHathorTransaction E = exits (
     let hash = ''0x52D9838711F83E5AED15BA549576CAFCEED59C08C7BB3F48ECF1716A09566EF7'';
         claim = [(''to'', SStr ''0xCC3CF44397Daa4572CDb20f72dee5700507454E4''),
                  (''amount'', SStr ''20000000000000000''), (''blockHash'', SStr hash),
                  (''transactionHash'', SStr hash), (''logIndex'', SInt 129), (''originChainId'', SInt 31)]
     in bnd (get_deployer E) (\<lambda>acc.
        bnd (get_deployment E ''Bridge'') (\<lambda>bridgeC.
        bnd (get_deployment E ''BridgeProxy'') (\<lambda>proxy.
        bnd (method_at (d_abi bridgeC) (d_address proxy) ''claim'' [SObj claim]) (\<lambda>m.
        send_from E acc m)))))"

definition approve_and_send ::
    "'w scripts \<Rightarrow> string \<Rightarrow> deployment \<Rightarrow> deployment \<Rightarrow> deployment \<Rightarrow> string \<Rightarrow> ('w, unit) drun" where
  "approve_and_send E acc token bridgeC proxy value =
     (let tokenAddress = ''0x97118caae1f773a84462490dd01fe7a3e7c4cdcd''
      in bnd (method_at (d_abi token) tokenAddress ''approve'' [SStr (d_address proxy), SStr value]) (\<lambda>m.
         bnd (send_from E acc m) (\<lambda>_.
         bnd (method_at (d_abi bridgeC) (d_address proxy) ''receiveTokensTo''
                [SInt 31, SStr tokenAddress, SStr ''Wgi9fvVrnBrKsstCuFjySA3kWqWpb4C8ag'', SStr value]) (\<lambda>m.
         send_from E acc m))))"

text \<open>
  The handler of errors of sendTokenToHathor.js is attached to the result of process.exit, so an
  error leaves a rejected promise nobody handles, for which Node.js ends the process with code 1 too.
\<close>

definition sendTokenToHathor :: "'w scripts \<Rightarrow> ('w, nat) drun" where
  "sendTokenToHathor E = exits (
     bnd (get_deployer E) (\<lambda>acc.
     bnd (get_deployment E ''MainToken'') (\<lambda>token.
     bnd (get_deployment E ''Bridge'') (\<lambda>bridgeC.
     bnd (get_deployment E ''BridgeProxy'') (\<lambda>proxy.
     for_each (approve_and_send E acc token bridgeC proxy)
       [''30000000000000000'', ''60000000000000000''])))))"

definition voteHathorTransaction :: "'w scripts \<Rightarrow> ('w, nat) drun" where
  "voteHathorTransaction E = exits (
     bnd (get_deployer E) (\<lambda>acc.
     bnd (get_deployment E ''MainToken'') (\<lambda>token.
     bnd (get_deployment E ''Federation'') (\<lambda>fed.
     bnd (get_deployment E ''FederationProxy'') (\<lambda>proxy.
     bnd (method_at (d_abi fed) (d_address proxy) ''voteTransaction''
            [SStr (d_address token), SStr ''0x16795bf23015b2434c1831d94bab4f2436eeb03e'',
             SStr ''0xCC3CF44397Daa4572CDb20f72dee5700507454E4'', SStr ''4000000000000000000'',
             SStr ''0x0d768b8e1e1597dffc5ab49384f89ae12f503d6716c2947e81befcbe96a12ddf'',
             SStr ''0x764feab73b3331ac2472b821ab344dee6d3c7273b65d5240503041a4193fd7b8'',
             SInt 129, SInt 31, SInt 80001]) (\<lambda>m.
     send_from E acc m))))))"

section \<open>What the scripts may request\<close>

lemma exits_state: "snd (exits m s) = snd (m s)"
  by (simp add: exits_def split: prod.splits sum.splits)

lemma runs_exits [steps_intros]: "runs_in R m \<Longrightarrow> runs_in R (exits m)"
  by (simp add: runs_in_def exits_state)

lemma runs_method_at [steps_intros]: "runs_in (demits P) (method_at abi addr name args)"
  unfolding method_at_def by (intro steps_intros)

lemma runs_reads [steps_intros]:
  "runs_in (demits P) (get_deployment E name)" "runs_in (demits P) (get_deployer E)"
  "runs_in (demits P) (call_from E a m)"
  unfolding get_deployment_def get_deployer_def call_from_def by (intro steps_intros)+

lemma runs_send_from [steps_intros]:
  "P (Sent acc (Some (mc_to m)) (MethodCall (mc_name m) (mc_args m))) \<Longrightarrow> runs_in (demits P) (send_from E acc m)"
  unfolding send_from_def by (intro steps_intros)

lemma runs_submit_from [steps_intros]:
  "(\<And>code. P (Sent acc (Some (d_address multi)) (SubmitTransaction (Some dest) 0 code)))
    \<Longrightarrow> runs_in (demits P) (submit_from E acc multi dest m)"
  unfolding submit_from_def by (intro steps_intros; assumption)

definition reading_scripts :: "('w scripts \<Rightarrow> ('w, nat) drun) list" where
  "reading_scripts =
     [getFederatorMembers, getFederationsEvents, getFeeConfig, getOriginToken, getSideTokenAddress,
      getTokenDecimals, getTxStatus, getVotes, getWrappedCurrency, isTokenAllowed, tryTxCall]"

definition submitting_scripts :: "('w scripts \<Rightarrow> ('w, nat) drun) list" where
  "submitting_scripts =
     [addETHOriginToken, addHTROriginToken, addHathorToken, createHathorToken, createRifToken,
      createTokensERC20Rsk, setAllowToken, removeAllowToken, setAllowTokenConfirmations,
      deleteFederatorMember, changeFederatorRequirements, addFederatorMember]"

definition sending_scripts :: "('w scripts \<Rightarrow> ('w, nat) drun) list" where
  "sending_scripts = [claimHathorTransaction, sendTokenToHathor, voteHathorTransaction]"

definition submits_only :: "devent \<Rightarrow> bool" where
  "submits_only e \<longleftrightarrow> (\<exists>acc multi dest code. e = Sent acc (Some multi) (SubmitTransaction (Some dest) 0 code))"

definition sends_methods :: "string set \<Rightarrow> devent \<Rightarrow> bool" where
  "sends_methods names e \<longleftrightarrow> (\<exists>acc to name args. e = Sent acc (Some to) (MethodCall name args) \<and> name \<in> names)"

lemmas reading_defs = getFederatorMembers_def getFederationsEvents_def getFeeConfig_def getOriginToken_def
  getSideTokenAddress_def getTokenDecimals_def getTxStatus_def getVotes_def getWrappedCurrency_def
  isTokenAllowed_def tryTxCall_def sendSignature_def

lemmas submitting_defs = addETHOriginToken_def addHTROriginToken_def add_origin_token_def addHathorToken_def
  createHathorToken_def create_hathor_token_def createRifToken_def createTokensERC20Rsk_def create_side_token_def
  setAllowToken_def removeAllowToken_def setAllowTokenConfirmations_def deleteFederatorMember_def
  changeFederatorRequirements_def administer_def addFederatorMember_def add_member_def

lemma runs_in_method:
  assumes "runs_in (demits P) (f \<lparr>mc_to = addr, mc_name = name, mc_args = args\<rparr>)"
  shows "runs_in (demits P) (bnd (method_at abi addr name args) f)"
proof (cases "web3_method abi addr name args")
  case (Inl e)
  then show ?thesis by (simp add: method_at_def lift_res_def bnd_def runs_in_def dm.R_refl)
next
  case (Inr m)
  then have "m = \<lparr>mc_to = addr, mc_name = name, mc_args = args\<rparr>"
    by (auto simp: web3_method_def split: if_splits)
  then show ?thesis using Inr assms by (simp add: method_at_def lift_res_def bnd_def runs_in_def)
qed

lemma submits_only [simp]: "submits_only (Sent acc (Some multi) (SubmitTransaction (Some dest) 0 code))"
  by (simp add: submits_only_def)

lemma sends_methods [simp]: "sends_methods names (Sent acc (Some to) (MethodCall name args)) \<longleftrightarrow> name \<in> names"
  by (simp add: sends_methods_def)

lemma submitting_scripts_submit: "list_all (\<lambda>script. runs_in (demits submits_only) (script E)) submitting_scripts"
  unfolding submitting_scripts_def by (auto simp: submitting_defs Let_def intro!: steps_intros)

lemma reading_scripts_quiet: "list_all (\<lambda>script. runs_in (demits P) (script E)) reading_scripts"
  unfolding reading_scripts_def by (auto simp: reading_defs Let_def intro!: steps_intros split: prod.splits)


section \<open>Which scripts fit the contracts\<close>

text \<open>
  The functions the scripts name, as the sources of this repository have them (and the networks
  deployed from them): Bridge.sol, Federation.sol, AllowTokens.sol, MultiSigWallet.sol, an ERC20 token.
\<close>

definition current_abi :: "string \<Rightarrow> abi" where
  "current_abi name =
     (if name = ''Bridge''
      then [(''createSideToken'', 6), (''uidToAddress'', 1), (''addHathorToken'', 3),
            (''EvmToHathorTokenMap'', 1), (''HathorToEvmTokenMap'', 1), (''claim'', 1), (''receiveTokensTo'', 4),
            (''wrappedCurrency'', 0), (''getFeePercentage'', 0), (''sideTokenByOriginalToken'', 2),
            (''hasBeenClaimed'', 1)]
      else if name = ''Federation''
      then [(''addMember'', 1), (''removeMember'', 1), (''changeRequirement'', 1), (''getMembers'', 0),
            (''getTransactionCount'', 1), (''voteTransaction'', 9)]
      else if name = ''AllowTokens''
      then [(''setToken'', 2), (''removeAllowedToken'', 1), (''setConfirmations'', 3), (''getInfoAndLimits'', 1)]
      else if name = ''MultiSigWallet'' then [(''submitTransaction'', 3)]
      else if name = ''MainToken'' then [(''approve'', 2), (''decimals'', 0)]
      else [])"

text \<open>Every request is answered, and exactly the deployments named in \<open>D\<close> are found, with the current ABIs.\<close>

definition answering :: "'w scripts \<Rightarrow> string set \<Rightarrow> bool" where
  "answering E D \<longleftrightarrow>
     (\<forall>w. \<exists>n. fst (hh_namedAccounts (sc_hardhat E) w) = Inr n)
     \<and> (\<forall>name w. (name \<in> D \<and> (\<exists>d. fst (sc_get E name w) = Inr d \<and> d_abi d = current_abi name))
          \<or> (name \<notin> D \<and> (\<exists>e. fst (sc_get E name w) = Inl e)))
     \<and> (\<forall>name w. fst (sc_getArtifact E name w) = Inr (current_abi name))
     \<and> (\<forall>name w. \<exists>a. fst (dep_getOrNull (sc_hardhat E) name w) = Inr (Some a))
     \<and> (\<forall>acc m w. \<exists>r. fst (sc_call E acc m w) = Inr r)
     \<and> (\<forall>acc to code w. \<exists>r. fst (sc_eth_call E acc to code w) = Inr r)
     \<and> (\<forall>acc to c w. \<exists>r. fst (eth_send (sc_hardhat E) acc to c w) = Inr r)
     \<and> (\<forall>c. \<exists>code. encode_call (sc_hardhat E) c = Inr code)"

definition core_contracts :: "string set" where
  "core_contracts = {''Bridge'', ''BridgeProxy'', ''Federation'', ''FederationProxy'', ''AllowTokens'',
     ''AllowTokensProxy'', ''MultiSigWallet''}"

text \<open>A computation that always returns, with a value of which \<open>Q\<close> holds; and one that always fails without a request.\<close>

definition yields :: "('a \<Rightarrow> bool) \<Rightarrow> ('w, 'a) drun \<Rightarrow> bool" where
  "yields Q m \<longleftrightarrow> (\<forall>s. \<exists>a t. m s = (Inr a, t) \<and> Q a)"

definition fails_first :: "('w, 'a) drun \<Rightarrow> bool" where
  "fails_first m \<longleftrightarrow> (\<forall>s. \<exists>e t. m s = (Inl e, t) \<and> dtrace t = dtrace s)"

named_theorems yield_intros

lemma yields_bnd [yield_intros]:
  "yields Q m \<Longrightarrow> (\<And>a. Q a \<Longrightarrow> yields R (f a)) \<Longrightarrow> yields R (bnd m f)"
  unfolding yields_def by (metis bnd_Inr)

lemma fails_bnd:
  assumes "yields Q m" and quiet: "\<And>P. runs_in (demits P) m" and "\<And>a. Q a \<Longrightarrow> fails_first (f a)"
  shows "fails_first (bnd m f)"
  unfolding fails_first_def
proof
  fix s
  obtain a u where m: "m s = (Inr a, u)" "Q a" using assms(1) unfolding yields_def by blast
  then obtain e t where "f a u = (Inl e, t)" "dtrace t = dtrace u"
    using assms(3) unfolding fails_first_def by blast
  then show "\<exists>e t. bnd m f s = (Inl e, t) \<and> dtrace t = dtrace s"
    using m dquiet [OF quiet m(1)] by (simp add: bnd_def)
qed

lemma fails_at: "fails_first m \<Longrightarrow> fails_first (bnd m f)"
  unfolding fails_first_def by (metis bnd_Inl)

lemma yields_ret [yield_intros]: "Q a \<Longrightarrow> yields Q (ret a)"
  by (simp add: yields_def)

lemma yields_for_each [yield_intros]:
  "(\<And>x. x \<in> set xs \<Longrightarrow> yields (\<lambda>_. True) (f x)) \<Longrightarrow> yields (\<lambda>_. True) (for_each f xs)"
proof (induction xs)
  case Nil
  then show ?case by (simp add: yields_def)
next
  case (Cons x xs)
  then show ?case by (auto intro!: yields_bnd [where Q = "\<lambda>_. True"])
qed

lemma yields_exits: "yields (\<lambda>_. True) m \<Longrightarrow> yields (\<lambda>code. code = 0) (exits m)"
  by (auto simp: yields_def exits_def) (metis (mono_tags, lifting) old.sum.simps(6) prod.case)

lemma yields_method [yield_intros]:
  "(name, length args) \<in> set abi \<Longrightarrow> yields (\<lambda>_. True) (method_at abi addr name args)"
  by (force simp: yields_def method_at_def web3_method_def)

lemma fails_method: "(name, length args) \<notin> set abi \<Longrightarrow> fails_first (method_at abi addr name args)"
  by (auto simp: fails_first_def method_at_def web3_method_def)

lemma yields_env [yield_intros]:
  fixes E :: "'w scripts"
  assumes "answering E D"
  shows "yields (\<lambda>_. True) (get_deployer E)" "yields (\<lambda>_. True) (call_from E a m)"
    "yields (\<lambda>_. True) (send_from E acc m)" "yields (\<lambda>_. True) (dext (sc_eth_call E x y z))"
    "yields (\<lambda>abi. abi = current_abi name) (dext (sc_getArtifact E name))"
    "yields (\<lambda>p. p \<noteq> None) (getAllowTokensProxyAddress (sc_hardhat E))"
    "name \<in> D \<Longrightarrow> yields (\<lambda>d. d_abi d = current_abi name) (get_deployment E name)"
    "name \<notin> D \<Longrightarrow> fails_first (get_deployment E name)"
    "(''submitTransaction'', 3) \<in> set (d_abi multi) \<Longrightarrow> yields (\<lambda>_. True) (submit_from E acc multi dest m)"
proof -
  have ext: "yields Q (dext f)" if ok: "\<And>w. \<exists>x. fst (f w) = Inr x \<and> Q x" for Q and f :: "('w, 'b) ext"
    unfolding yields_def
  proof
    fix s :: "'w dstate"
    obtain x where "fst (f (dworld s)) = Inr x" "Q x" using ok by blast
    then show "\<exists>a t. dext f s = (Inr a, t) \<and> Q a"
      by (cases "f (dworld s)") (simp add: dext_def)
  qed
  have named: "yields (\<lambda>_. True) (dext (hh_namedAccounts (sc_hardhat E)))"
    by (rule ext) (use assms in \<open>auto simp: answering_def\<close>)
  show "yields (\<lambda>_. True) (get_deployer E)"
    unfolding get_deployer_def by (rule yields_bnd [OF named]) (simp add: yields_ret)
  show "yields (\<lambda>_. True) (call_from E a m)"
    unfolding call_from_def by (rule ext) (use assms in \<open>auto simp: answering_def\<close>)
  have send: "yields (\<lambda>_. True) (send (sc_hardhat E) acc to c)" for acc to c
    unfolding send_def demit_def
    by (rule yields_bnd [where Q = "\<lambda>_. True"], simp add: yields_def, rule ext)
      (use assms in \<open>auto simp: answering_def\<close>)
  show "yields (\<lambda>_. True) (send_from E acc m)" unfolding send_from_def by (rule send)
  show "yields (\<lambda>_. True) (dext (sc_eth_call E x y z))"
    by (rule ext) (use assms in \<open>auto simp: answering_def\<close>)
  show "yields (\<lambda>abi. abi = current_abi name) (dext (sc_getArtifact E name))"
    by (rule ext) (use assms in \<open>auto simp: answering_def\<close>)
  have fresh: "yields (\<lambda>_. True) (bnd (dext (hh_namedAccounts (sc_hardhat E))) (\<lambda>n.
      bnd (modify (\<lambda>s. s\<lparr>namedAccountsInstance := Some n\<rparr>)) (\<lambda>_. ret n)))"
    by (rule yields_bnd [OF named]) (simp add: yields_def bnd_def)
  have inst: "yields (\<lambda>_. True) (getNamedAccountsInstance (sc_hardhat E))"
    using fresh by (auto simp: getNamedAccountsInstance_def yields_def bnd_def split: option.splits)
  show "yields (\<lambda>p. p \<noteq> None) (getAllowTokensProxyAddress (sc_hardhat E))"
    unfolding getAllowTokensProxyAddress_def named_or_null_def
  proof (rule yields_bnd [OF inst])
    fix n :: named_accounts
    have "\<exists>a. fst (dep_getOrNull (sc_hardhat E) ''AllowTokensProxy'' w) = Inr (Some a)" for w
      using assms unfolding answering_def by blast
    then have "\<exists>x. fst (dep_getOrNull (sc_hardhat E) ''AllowTokensProxy'' w) = Inr x \<and> x \<noteq> None" for w
      by (metis option.distinct(1))
    then have "yields (\<lambda>p. p \<noteq> None) (dext (dep_getOrNull (sc_hardhat E) ''AllowTokensProxy''))"
      by (rule ext)
    then show "yields (\<lambda>p. p \<noteq> None) (if truthy (allowTokensProxy n) then ret (allowTokensProxy n)
        else dext (dep_getOrNull (sc_hardhat E) ''AllowTokensProxy''))"
      by (auto simp: truthy_def yields_def split: option.splits)
  qed
  show "yields (\<lambda>d. d_abi d = current_abi name) (get_deployment E name)" if "name \<in> D"
    unfolding get_deployment_def by (rule ext) (use assms that in \<open>auto simp: answering_def\<close>)
  show "fails_first (get_deployment E name)" if "name \<notin> D"
  proof -
    have "\<exists>e. fst (sc_get E name w) = Inl e" for w using assms that by (auto simp: answering_def)
    then have "\<exists>e t. get_deployment E name s = (Inl e, t) \<and> dtrace t = dtrace s" for s :: "'w dstate"
      by (cases "sc_get E name (dworld s)") (metis (no_types, lifting) dext_def dstate.simps(2,6) fst_conv
        get_deployment_def prod.case dstate.select_convs(2) dstate.surjective dstate.update_convs(1))
    then show ?thesis by (simp add: fails_first_def)
  qed
  show "yields (\<lambda>_. True) (submit_from E acc multi dest m)" if "(''submitTransaction'', 3) \<in> set (d_abi multi)"
    unfolding submit_from_def
  proof (rule yields_bnd)
    show "yields (\<lambda>_. True) (lift_res (encode_call (sc_hardhat E) (MethodCall (mc_name m) (mc_args m))))"
      using assms by (auto simp: answering_def yields_def lift_res_def)
  next
    fix code
    have "yields (\<lambda>_. True) (method_at (d_abi multi) (d_address multi) ''submitTransaction''
        [SStr dest, SInt 0, SStr code])"
      by (rule yields_method) (use that in \<open>simp add: numeral_3_eq_3\<close>)
    then show "yields (\<lambda>_. True) (bnd (method_at (d_abi multi) (d_address multi) ''submitTransaction''
        [SStr dest, SInt 0, SStr code]) (\<lambda>_. send (sc_hardhat E) acc (Some (d_address multi))
          (SubmitTransaction (Some dest) 0 code)))"
      by (rule yields_bnd) (rule send)
  qed
qed

text \<open>In the form the scripts need them: one rule per kind of step.\<close>

lemma yield_step:
  assumes "answering E D"
  shows "name \<in> D \<Longrightarrow> (\<And>d. d_abi d = current_abi name \<Longrightarrow> yields R (f d)) \<Longrightarrow>
      yields R (bnd (get_deployment E name) f)"
    "(\<And>p. p \<noteq> None \<Longrightarrow> yields R (h p)) \<Longrightarrow> yields R (bnd (getAllowTokensProxyAddress (sc_hardhat E)) h)"
    "yields R (g (current_abi name)) \<Longrightarrow> yields R (bnd (dext (sc_getArtifact E name)) g)"
  by (rule yields_bnd, rule yields_env [OF assms], assumption, simp)
    (rule yields_bnd, rule yields_env [OF assms], simp)+

lemma yields_then: "yields (\<lambda>_. True) m \<Longrightarrow> (\<And>a. yields R (f a)) \<Longrightarrow> yields R (bnd m f)"
  by (rule yields_bnd)

lemma yields_some: "p \<noteq> None \<Longrightarrow> yields R m \<Longrightarrow> yields R (if p = None then x else m)"
  by (cases p) auto

lemma yields_loop: "(\<And>x. yields (\<lambda>_. True) (f x)) \<Longrightarrow> yields (\<lambda>_. True) (for_each f xs)"
  by (rule yields_for_each)

lemma yields_done: "yields (\<lambda>_. True) (ret a)"
  by (rule yields_ret) simp

lemma fail_step:
  assumes "answering E D"
  shows "name \<in> D \<Longrightarrow> (\<And>d. d_abi d = current_abi name \<Longrightarrow> fails_first (f d)) \<Longrightarrow>
      fails_first (bnd (get_deployment E name) f)"
    "name \<notin> D \<Longrightarrow> fails_first (bnd (get_deployment E name) f)"
    "(\<And>a. fails_first (g a)) \<Longrightarrow> fails_first (bnd (get_deployer E) g)"
  by (rule fails_bnd, rule yields_env [OF assms], assumption, rule runs_reads, simp)
    (rule fails_at, rule yields_env [OF assms], assumption,
     rule fails_bnd, rule yields_env [OF assms], rule runs_reads, simp)

definition refused :: "('w, nat) drun \<Rightarrow> bool" where
  "refused m \<longleftrightarrow> (\<forall>s. \<exists>t. m s = (Inr 1, t) \<and> dtrace t = dtrace s)"

lemma refused_exits: "fails_first m \<Longrightarrow> refused (exits m)"
  unfolding fails_first_def refused_def exits_def by force

definition fitting_scripts :: "('w scripts \<Rightarrow> ('w, nat) drun) list" where
  "fitting_scripts =
     [getFederatorMembers, getFederationsEvents, getFeeConfig, getOriginToken, getSideTokenAddress,
      getTxStatus, getVotes, getWrappedCurrency, isTokenAllowed, tryTxCall, addETHOriginToken,
      addHTROriginToken, createHathorToken, setAllowToken, setAllowTokenConfirmations,
      deleteFederatorMember, changeFederatorRequirements, addFederatorMember, claimHathorTransaction]"

definition main_token_scripts :: "('w scripts \<Rightarrow> ('w, nat) drun) list" where
  "main_token_scripts = [getTokenDecimals, addHathorToken, sendTokenToHathor, voteHathorTransaction]"

lemmas all_script_defs = reading_defs submitting_defs claimHathorTransaction_def sendTokenToHathor_def
  approve_and_send_def voteHathorTransaction_def

lemma fitting_scripts_run:
  assumes "answering E D" "core_contracts \<subseteq> D"
  shows "list_all (\<lambda>script. yields (\<lambda>code. code = 0) (script E)) fitting_scripts"
proof -
  have D: "''Bridge'' \<in> D" "''BridgeProxy'' \<in> D" "''Federation'' \<in> D" "''FederationProxy'' \<in> D"
    "''AllowTokens'' \<in> D" "''AllowTokensProxy'' \<in> D" "''MultiSigWallet'' \<in> D"
    using assms(2) by (auto simp: core_contracts_def)
  note steps = D yield_step [OF assms(1)] yields_then yields_env [OF assms(1)] yields_loop yields_done yields_method yields_some
  show ?thesis
    unfolding fitting_scripts_def list.pred_inject all_script_defs Let_def case_prod_beta
    by (rule conjI TrueI yields_exits steps | simp add: current_abi_def)+
qed

lemma side_token_refused:
  assumes "answering E D" "core_contracts \<subseteq> D"
  shows "fails_first (create_side_token E typeId a symbol name lookups)"
proof -
  have D: "''Bridge'' \<in> D" "''BridgeProxy'' \<in> D" "''MultiSigWallet'' \<in> D"
    using assms(2) by (auto simp: core_contracts_def)
  show ?thesis
    unfolding create_side_token_def
    by (rule D fail_step [OF assms(1)] fails_at fails_method | simp add: current_abi_def)+
qed

lemma main_token_scripts_run:
  assumes "answering E D" "core_contracts \<subseteq> D" "''MainToken'' \<in> D"
  shows "list_all (\<lambda>script. yields (\<lambda>code. code = 0) (script E)) main_token_scripts"
proof -
  have D: "''Bridge'' \<in> D" "''BridgeProxy'' \<in> D" "''Federation'' \<in> D" "''FederationProxy'' \<in> D"
    "''MultiSigWallet'' \<in> D"
    using assms(2) by (auto simp: core_contracts_def)
  note steps = D assms(3) yield_step [OF assms(1)] yields_then yields_env [OF assms(1)] yields_loop yields_done
    yields_method
  show ?thesis
    unfolding main_token_scripts_def list.pred_inject all_script_defs Let_def
    by (rule conjI TrueI yields_exits steps | simp add: current_abi_def)+
qed

lemma main_token_scripts_refused:
  assumes "answering E D" "''MainToken'' \<notin> D"
  shows "list_all (\<lambda>script. refused (script E)) main_token_scripts"
  unfolding main_token_scripts_def list.pred_inject all_script_defs Let_def
  by (rule conjI refused_exits fail_step(3) [OF assms(1)] fail_step(2) [OF assms] | simp)+

text \<open>
  On a network deployed from this repository whose node answers every request, a script of
  \<open>fitting_scripts\<close> ends with exit code 0. createRifToken.js and createTokensERC20Rsk.js, which call
  createSideToken without the chain id, end with exit code 1 and send nothing. The four scripts that
  need a deployment called MainToken end with 0 where there is one, and otherwise with 1, having sent
  nothing. (removeAllowToken.js holds a placeholder instead of an address.)
\<close>
theorem scripts_fit_contracts:
  assumes "answering E D" and "core_contracts \<subseteq> D"
  shows "list_all (\<lambda>script. yields (\<lambda>code. code = 0) (script E)) fitting_scripts
    \<and> refused (createRifToken E) \<and> refused (createTokensERC20Rsk E)
    \<and> (if ''MainToken'' \<in> D
       then list_all (\<lambda>script. yields (\<lambda>code. code = 0) (script E)) main_token_scripts
       else list_all (\<lambda>script. refused (script E)) main_token_scripts)"
  using fitting_scripts_run [OF assms] refused_exits [OF side_token_refused [OF assms]]
    main_token_scripts_run [OF assms] main_token_scripts_refused [OF assms(1)]
  by (simp add: createRifToken_def createTokensERC20Rsk_def)

text \<open>A network like arbitrum_mainnet, where no MainToken is deployed.\<close>

definition sample_scripts :: "nat scripts" where
  "sample_scripts =
     \<lparr>sc_hardhat = sample_hardhat,
      sc_get = (\<lambda>name w. (if name \<in> core_contracts
                 then Inr \<lparr>d_abi = current_abi name, d_address = name\<rparr>
                 else Inl (JsError ''No deployment found''), Suc w)),
      sc_getArtifact = (\<lambda>name w. (Inr (current_abi name), Suc w)),
      sc_call = (\<lambda>acc m w. (Inr ''0x0'', Suc w)), sc_eth_call = (\<lambda>acc to code w. (Inr ''0x'', Suc w))\<rparr>"

lemma sample_answering: "answering sample_scripts core_contracts"
  by (simp add: answering_def sample_scripts_def sample_hardhat_def)

theorem scripts_fit_contracts_witness:
  "yields (\<lambda>code. code = 0) (addFederatorMember sample_scripts) \<and> refused (createRifToken sample_scripts)
   \<and> refused (voteHathorTransaction sample_scripts)"
  using scripts_fit_contracts [OF sample_answering subset_refl]
  by (simp add: fitting_scripts_def main_token_scripts_def core_contracts_def)

end
