(* ===== verification/BridgeContract.thy ===== *)
theory BridgeContract
  imports FederationContract
begin

text \<open>
  The contract Bridge.sol of the EVM side with the contracts it inherits from, together with
  LibUtils.sol and LibEIP712.sol: what the federation accepted, the claims that pay it out, and the
  crossing of tokens to another chain. The calls of the contract AllowTokens run the operations of
  the theory AllowTokens on its storage. Tokens, the factory of side tokens, the wrapped currency,
  the ERC1820 registry, keccak256 and ecrecover are parameters (\<open>evm\<close>). Called contracts do not
  call back (the guard against it is not modelled). The fields \<open>br_claims\<close> and \<open>br_crosses\<close> are the
  logs of the events Claimed and Cross; the fee of a crossing is added to its entry.
\<close>

section \<open>Storage and environment\<close>

record original_token =
  ot_tokenAddress :: address
  ot_originChainId :: uint256

record claim_data =
  cd_to :: address
  cd_amount :: uint256
  cd_blockHash :: uint256
  cd_transactionHash :: uint256
  cd_logIndex :: "32 word"
  cd_originChainId :: uint256

record side_token_struct =
  st_typeId :: uint256
  st_originalTokenAddress :: address
  st_decimals :: "8 word"
  st_symbol :: string
  st_name :: string
  st_originChainId :: uint256

record claimed_log =
  cl_claim :: claim_data
  cl_token :: address
  cl_receiver :: address
  cl_relayer :: address
  cl_fee :: uint256
  cl_received :: uint256

record cross_log =
  xl_token :: address
  xl_to :: string
  xl_destinationChainId :: uint256
  xl_from :: address
  xl_originChainId :: uint256
  xl_amount :: uint256
  xl_fee :: uint256

record 'w bridge_state =
  br_initialized :: bool
  br_owner :: address
  br_pausers :: "address \<Rightarrow> bool"
  br_paused :: bool
  br_federation :: address
  feePercentage :: uint256
  domainSeparator :: uint256
  deprecatedMappedTokens :: "address \<Rightarrow> address"
  deprecatedOriginalTokens :: "address \<Rightarrow> address"
  deprecatedKnownTokens :: "address \<Rightarrow> bool"
  claimed :: "uint256 \<Rightarrow> bool"
  br_allowTokens :: address
  br_sideTokenFactory :: address
  isUpgrading :: bool
  wrapped :: address
  transactionsDataHashes :: "uint256 \<Rightarrow> uint256"
  originalTokenAddresses :: "uint256 \<Rightarrow> address"
  senderAddresses :: "uint256 \<Rightarrow> address"
  br_nonces :: "address \<Rightarrow> uint256"
  sideTokenByOriginalTokenByChain :: "uint256 \<Rightarrow> address \<Rightarrow> address"
  originalTokenBySideToken :: "address \<Rightarrow> original_token"
  knownTokenByChain :: "uint256 \<Rightarrow> address \<Rightarrow> bool"
  br_EvmToHathor :: "address \<Rightarrow> string"
  br_HathorToEvm :: "string \<Rightarrow> original_token"
  initiated :: bool
  allow_at :: "address \<Rightarrow> allow_tokens"
  br_claims :: "claimed_log list"
  br_crosses :: "cross_log list"
  br_world :: 'w

type_synonym ('w, 'a) bsol = "('w bridge_state, 'a) comp"
type_synonym ('w, 'a) xcall = "'w \<Rightarrow> 'a res \<times> 'w"

record 'w evm =
  ev_keccak :: "packed list \<Rightarrow> uint256"
  ev_isContract :: "address \<Rightarrow> bool"
  ev_chainid :: uint256
  ev_this :: address
  ev_ecrecover :: "uint256 \<Rightarrow> 8 word \<Rightarrow> uint256 \<Rightarrow> uint256 \<Rightarrow> address"
  tok_decimals :: "address \<Rightarrow> 'w \<Rightarrow> uint256 option"
  tok_granularity :: "address \<Rightarrow> 'w \<Rightarrow> uint256 option"
  tok_isERC777 :: "address \<Rightarrow> 'w \<Rightarrow> bool"
  tok_transfer :: "address \<Rightarrow> address \<Rightarrow> uint256 \<Rightarrow> ('w, unit) xcall"
  tok_transferFrom :: "address \<Rightarrow> address \<Rightarrow> address \<Rightarrow> uint256 \<Rightarrow> ('w, unit) xcall"
  tok_mint :: "address \<Rightarrow> address \<Rightarrow> uint256 \<Rightarrow> ('w, unit) xcall"
  tok_burn :: "address \<Rightarrow> uint256 \<Rightarrow> ('w, unit) xcall"
  factory_create :: "address \<Rightarrow> string \<Rightarrow> string \<Rightarrow> uint256 \<Rightarrow> ('w, address) xcall"
  wrapped_deposit :: "address \<Rightarrow> uint256 \<Rightarrow> ('w, unit) xcall"
  wrapped_withdraw :: "address \<Rightarrow> uint256 \<Rightarrow> ('w, unit) xcall"
  send_value :: "address \<Rightarrow> uint256 \<Rightarrow> ('w, unit) xcall"
  set_erc777_recipient :: "('w, unit) xcall"

definition xrun :: "('w, 'a) xcall \<Rightarrow> ('w, 'a) bsol" where
  "xrun f s = (case f (br_world s) of (r, w) \<Rightarrow> (r, s\<lparr>br_world := w\<rparr>))"

text \<open>A call of the contract AllowTokens, with the bridge as its sender.\<close>

definition on_allow :: "'w evm \<Rightarrow> msg \<Rightarrow> (msg \<Rightarrow> unit sol) \<Rightarrow> ('w, unit) bsol" where
  "on_allow E m c s =
     (case c (m\<lparr>msg_sender := ev_this E\<rparr>) (allow_at s (br_allowTokens s)) of
        (Inl e, _) \<Rightarrow> (Inl e, s)
      | (Inr _, t) \<Rightarrow> (Inr (), s\<lparr>allow_at := (allow_at s)(br_allowTokens s := t)\<rparr>))"

definition DEAD_ADDRESS :: address where
  "DEAD_ADDRESS = 0x000000000000000000000000000000000000dEaD"

definition feePercentageDivider :: uint256 where
  "feePercentageDivider = 10000"

definition CLAIM_TYPEHASH :: uint256 where
  "CLAIM_TYPEHASH = 0xaf3ac34fea9cc1b1def33a9bdc482d988feb61b5015ae4a55e2a62bb3600d54c"

section \<open>Checked arithmetic and libraries\<close>

definition sm_mul :: "uint256 \<Rightarrow> uint256 \<Rightarrow> ('s, uint256) comp" where
  "sm_mul a b =
     (if a = 0 then ret 0
      else bnd (require (a * b div a = b) ''SafeMath: multiplication overflow'') (\<lambda>_. ret (a * b)))"

definition sm_sub :: "uint256 \<Rightarrow> uint256 \<Rightarrow> ('s, uint256) comp" where
  "sm_sub a b = bnd (require (b \<le> a) ''SafeMath: subtraction overflow'') (\<lambda>_. ret (a - b))"

definition sm_div :: "uint256 \<Rightarrow> uint256 \<Rightarrow> ('s, uint256) comp" where
  "sm_div a b = bnd (require (b > 0) ''SafeMath: division by zero'') (\<lambda>_. ret (a div b))"

definition sm_mod :: "uint256 \<Rightarrow> uint256 \<Rightarrow> ('s, uint256) comp" where
  "sm_mod a b = bnd (require (b \<noteq> 0) ''SafeMath: modulo by zero'') (\<lambda>_. ret (a mod b))"

text \<open>\<open>uint256(10) ** (18 - decimals)\<close>, which panics when the subtraction underflows.\<close>

definition pow10_missing :: "8 word \<Rightarrow> ('s, uint256) comp" where
  "pow10_missing dec = bnd (require (dec \<le> 18) ''Panic'') (\<lambda>_. ret (10 ^ (18 - unat dec)))"

definition decimalsToGranularity :: "8 word \<Rightarrow> ('s, uint256) comp" where
  "decimalsToGranularity dec =
     bnd (require (dec \<le> 18) ''LibUtils: Decimals not <= 18'') (\<lambda>_. pow10_missing dec)"

text \<open>The last check of \<open>getDecimals\<close> joins its two bounds with "or", so it holds of every number.\<close>

definition lib_getDecimals :: "'w evm \<Rightarrow> address \<Rightarrow> ('w, 8 word) bsol" where
  "lib_getDecimals E a =
     bnd (gets (\<lambda>s. tok_decimals E a (br_world s))) (\<lambda>r.
     bnd (require (r \<noteq> None) ''LibUtils: No decimals'') (\<lambda>_.
     let decimals = (ucast (the r) :: 8 word)
     in bnd (require (decimals \<ge> 0 \<or> decimals \<le> 18) ''LibUtils: out of range'') (\<lambda>_. ret decimals)))"

definition lib_getGranularity :: "'w evm \<Rightarrow> address \<Rightarrow> ('w, uint256) bsol" where
  "lib_getGranularity E a =
     bnd (gets (\<lambda>s. tok_granularity E a (br_world s))) (\<lambda>r.
     bnd (require (r \<noteq> None) ''LibUtils: No granularity'') (\<lambda>_. ret (the r)))"

definition lib_toUint256 :: "8 word list \<Rightarrow> nat \<Rightarrow> ('s, uint256) comp" where
  "lib_toUint256 bs start =
     bnd (require (length bs \<ge> start + 32) ''LibUtils: toUint256_outOfBounds'') (\<lambda>_.
     ret (foldl (\<lambda>n b. 256 * n + ucast b) 0 (take 32 (drop start bs))))"

definition lib_toAddress :: "8 word list \<Rightarrow> nat \<Rightarrow> ('s, address) comp" where
  "lib_toAddress bs start =
     bnd (require (length bs \<ge> start + 20) ''LibUtils: toAddress_outOfBounds'') (\<lambda>_.
     ret (foldl (\<lambda>n b. 256 * n + ucast b) 0 (take 20 (drop start bs))))"

definition hashEIP712Domain :: "'w evm \<Rightarrow> string \<Rightarrow> string \<Rightarrow> uint256 \<Rightarrow> address \<Rightarrow> uint256" where
  "hashEIP712Domain E name ver chain verifyingContract =
     ev_keccak E
       [PBytes32 0x8b73c3c69bb8fe3d512ecc4cf759cc79239f7b179b0ffacaa9a75d522b39400f,
        PBytes32 (ev_keccak E [PString name]), PBytes32 (ev_keccak E [PString ver]),
        PUint256 chain, PUint256 (ucast verifyingContract)]"

definition hashEIP712Message :: "'w evm \<Rightarrow> uint256 \<Rightarrow> uint256 \<Rightarrow> uint256" where
  "hashEIP712Message E domainHash hashStruct =
     ev_keccak E [PBytes2 0x1901, PBytes32 domainHash, PBytes32 hashStruct]"

section \<open>Ownership, pausing, initialisation\<close>

definition br_onlyOwner :: "msg \<Rightarrow> ('w, 'a) bsol \<Rightarrow> ('w, 'a) bsol" where
  "br_onlyOwner m c = bnd (gets (\<lambda>s. msg_sender m = br_owner s)) (\<lambda>ok.
     bnd (require ok ''Ownable: caller is not the owner'') (\<lambda>_. c))"

definition br_transferOwnership :: "msg \<Rightarrow> address \<Rightarrow> ('w, unit) bsol" where
  "br_transferOwnership m a = br_onlyOwner m
     (bnd (require (a \<noteq> 0) ''Ownable: new owner is zero address'') (\<lambda>_.
      modify (\<lambda>s. s\<lparr>br_owner := a\<rparr>)))"

definition br_renounceOwnership :: "msg \<Rightarrow> ('w, unit) bsol" where
  "br_renounceOwnership m = br_onlyOwner m (modify (\<lambda>s. s\<lparr>br_owner := 0\<rparr>))"

definition isPauser :: "address \<Rightarrow> ('w, bool) bsol" where
  "isPauser a = bnd (require (a \<noteq> 0) ''Roles: account is the zero address'') (\<lambda>_. gets (\<lambda>s. br_pausers s a))"

definition addPauser_body :: "address \<Rightarrow> ('w, unit) bsol" where
  "addPauser_body a =
     bnd (isPauser a) (\<lambda>has.
     bnd (require (\<not> has) ''Roles: account already has role'') (\<lambda>_.
     modify (\<lambda>s. s\<lparr>br_pausers := (br_pausers s)(a := True)\<rparr>)))"

definition removePauser_body :: "address \<Rightarrow> ('w, unit) bsol" where
  "removePauser_body a =
     bnd (isPauser a) (\<lambda>has.
     bnd (require has ''Roles: account doesn't have role'') (\<lambda>_.
     modify (\<lambda>s. s\<lparr>br_pausers := (br_pausers s)(a := False)\<rparr>)))"

definition onlyPauser :: "msg \<Rightarrow> ('w, 'a) bsol \<Rightarrow> ('w, 'a) bsol" where
  "onlyPauser m c = bnd (isPauser (msg_sender m)) (\<lambda>ok.
     bnd (require ok ''PauserRole: caller doesn't have the role'') (\<lambda>_. c))"

definition whenNotPaused :: "('w, 'a) bsol \<Rightarrow> ('w, 'a) bsol" where
  "whenNotPaused c = bnd (gets br_paused) (\<lambda>paused.
     bnd (require (\<not> paused) ''Pausable: paused'') (\<lambda>_. c))"

definition whenNotUpgrading :: "('w, 'a) bsol \<Rightarrow> ('w, 'a) bsol" where
  "whenNotUpgrading c = bnd (gets isUpgrading) (\<lambda>up.
     bnd (require (\<not> up) ''Bridge: Upgrading'') (\<lambda>_. c))"

definition addPauser :: "msg \<Rightarrow> address \<Rightarrow> ('w, unit) bsol" where
  "addPauser m a = onlyPauser m (addPauser_body a)"

definition renouncePauser :: "msg \<Rightarrow> ('w, unit) bsol" where
  "renouncePauser m = removePauser_body (msg_sender m)"

definition pause :: "msg \<Rightarrow> ('w, unit) bsol" where
  "pause m = onlyPauser m (whenNotPaused (modify (\<lambda>s. s\<lparr>br_paused := True\<rparr>)))"

definition unpause :: "msg \<Rightarrow> ('w, unit) bsol" where
  "unpause m = onlyPauser m (bnd (gets br_paused) (\<lambda>paused.
     bnd (require paused ''Pausable: not paused'') (\<lambda>_.
     modify (\<lambda>s. s\<lparr>br_paused := False\<rparr>))))"

definition pauserRole_init_body :: "address \<Rightarrow> ('w, unit) bsol" where
  "pauserRole_init_body a = bnd (isPauser a) (\<lambda>has. if \<not> has then addPauser_body a else ret ())"

definition pausable_init_body :: "address \<Rightarrow> ('w, unit) bsol" where
  "pausable_init_body a =
     bnd (pauserRole_init_body a) (\<lambda>_. modify (\<lambda>s. s\<lparr>br_paused := False\<rparr>))"

text \<open>The modifier \<open>initializer\<close>; inside the outer initialiser those of the bases run their bodies.\<close>

definition br_initializer :: "('w, unit) bsol \<Rightarrow> ('w, unit) bsol" where
  "br_initializer c =
     bnd (gets br_initialized) (\<lambda>done.
     bnd (require (\<not> done) ''Contract instance is already initialized'') (\<lambda>_.
     bnd (modify (\<lambda>s. s\<lparr>br_initialized := True\<rparr>)) (\<lambda>_. c)))"

definition br_owner_initialize :: "address \<Rightarrow> ('w, unit) bsol" where
  "br_owner_initialize a = br_initializer (modify (\<lambda>s. s\<lparr>br_owner := a\<rparr>))"

definition br_pausable_init :: "address \<Rightarrow> ('w, unit) bsol" where
  "br_pausable_init a = br_initializer (pausable_init_body a)"

definition br_pauserRole_init :: "address \<Rightarrow> ('w, unit) bsol" where
  "br_pauserRole_init a = br_initializer (pauserRole_init_body a)"

definition initDomainSeparator :: "'w evm \<Rightarrow> ('w, unit) bsol" where
  "initDomainSeparator E =
     bnd (gets initiated) (\<lambda>done.
     bnd (require (\<not> done) ''Bridge: already initiated'') (\<lambda>_.
     modify (\<lambda>s. s\<lparr>domainSeparator := hashEIP712Domain E ''Hathor Token Bridge'' ''1'' (ev_chainid E) (ev_this E),
                   initiated := True\<rparr>)))"

definition bridge_initialize ::
    "'w evm \<Rightarrow> address \<Rightarrow> address \<Rightarrow> address \<Rightarrow> address \<Rightarrow> ('w, unit) bsol" where
  "bridge_initialize E manager fed allow factory = br_initializer
     (bnd (modify (\<lambda>s. s\<lparr>br_owner := manager\<rparr>)) (\<lambda>_.
      bnd (pausable_init_body manager) (\<lambda>_.
      bnd (modify (\<lambda>s. s\<lparr>br_allowTokens := allow, br_sideTokenFactory := factory, br_federation := fed\<rparr>)) (\<lambda>_.
      bnd (xrun (set_erc777_recipient E)) (\<lambda>_.
      initDomainSeparator E)))))"

section \<open>Side tokens\<close>

definition checkChainId :: "uint256 \<Rightarrow> ('w, unit) bsol" where
  "checkChainId chain = require (chain > 0) ''Bridge: ChainId is 0''"

definition shouldBeCurrentChainId :: "'w evm \<Rightarrow> uint256 \<Rightarrow> ('w, unit) bsol" where
  "shouldBeCurrentChainId E chain = require (chain = ev_chainid E) ''Bridge: Not block.chainid''"

definition notNullToken :: "address \<Rightarrow> ('w, unit) bsol" where
  "notNullToken a =
     bnd (require (a \<noteq> 0) ''Bridge: Null token'') (\<lambda>_.
     require (a \<noteq> DEAD_ADDRESS) ''Bridge: Dead token'')"

definition br_sideTokenByOriginalToken :: "uint256 \<Rightarrow> address \<Rightarrow> ('w, address) bsol" where
  "br_sideTokenByOriginalToken chain originalToken =
     bnd (notNullToken originalToken) (\<lambda>_.
     bnd (gets (\<lambda>s. sideTokenByOriginalTokenByChain s chain originalToken)) (\<lambda>sideTokenAddr.
     if sideTokenAddr \<noteq> 0 then ret sideTokenAddr
     else gets (\<lambda>s. deprecatedMappedTokens s originalToken)))"

definition setSideTokenByOriginalAddressByChain :: "msg \<Rightarrow> uint256 \<Rightarrow> address \<Rightarrow> address \<Rightarrow> ('w, unit) bsol" where
  "setSideTokenByOriginalAddressByChain m chain originalToken sideToken = br_onlyOwner m
     (bnd (notNullToken originalToken) (\<lambda>_.
      modify (\<lambda>s. s\<lparr>sideTokenByOriginalTokenByChain := (sideTokenByOriginalTokenByChain s)
        (chain := (sideTokenByOriginalTokenByChain s chain)(originalToken := sideToken))\<rparr>)))"

definition getOriginalTokenBySideToken :: "address \<Rightarrow> ('w, original_token) bsol" where
  "getOriginalTokenBySideToken sideToken =
     bnd (notNullToken sideToken) (\<lambda>_.
     bnd (gets (\<lambda>s. originalTokenBySideToken s sideToken)) (\<lambda>originalToken.
     if ot_tokenAddress originalToken \<noteq> 0 then ret originalToken
     else gets (\<lambda>s. \<lparr>ot_tokenAddress = deprecatedOriginalTokens s sideToken, ot_originChainId = 1\<rparr>)))"

definition setOriginalTokenBySideTokenByChain :: "msg \<Rightarrow> address \<Rightarrow> original_token \<Rightarrow> ('w, unit) bsol" where
  "setOriginalTokenBySideTokenByChain m sideToken originalToken = br_onlyOwner m
     (bnd (notNullToken sideToken) (\<lambda>_.
      modify (\<lambda>s. s\<lparr>originalTokenBySideToken := (originalTokenBySideToken s)(sideToken := originalToken)\<rparr>)))"

definition knownToken :: "'w bridge_state \<Rightarrow> uint256 \<Rightarrow> address \<Rightarrow> bool" where
  "knownToken s chain originalToken \<longleftrightarrow>
     knownTokenByChain s chain originalToken \<or> deprecatedKnownTokens s originalToken"

definition setKnownTokenByChain :: "uint256 \<Rightarrow> address \<Rightarrow> bool \<Rightarrow> ('w, unit) bsol" where
  "setKnownTokenByChain chain originalToken v =
     modify (\<lambda>s. s\<lparr>knownTokenByChain := (knownTokenByChain s)
       (chain := (knownTokenByChain s chain)(originalToken := v))\<rparr>)"

definition createSideToken_body :: "'w evm \<Rightarrow> msg \<Rightarrow> side_token_struct \<Rightarrow> ('w, unit) bsol" where
  "createSideToken_body E m t =
     bnd (require (st_originalTokenAddress t \<noteq> 0) ''Bridge: Null token'') (\<lambda>_.
     bnd (checkChainId (st_originChainId t)) (\<lambda>_.
     bnd (br_sideTokenByOriginalToken (st_originChainId t) (st_originalTokenAddress t)) (\<lambda>old.
     bnd (require (old = 0) ''Bridge: Already exists'') (\<lambda>_.
     bnd (decimalsToGranularity (st_decimals t)) (\<lambda>granularity.
     bnd (gets br_sideTokenFactory) (\<lambda>factory.
     bnd (xrun (factory_create E factory (st_name t) (st_symbol t) granularity)) (\<lambda>sideToken.
     bnd (setSideTokenByOriginalAddressByChain m (st_originChainId t) (st_originalTokenAddress t) sideToken) (\<lambda>_.
     bnd (setOriginalTokenBySideTokenByChain m sideToken
            \<lparr>ot_tokenAddress = st_originalTokenAddress t, ot_originChainId = st_originChainId t\<rparr>) (\<lambda>_.
     on_allow E m (\<lambda>m. setToken m sideToken (st_typeId t)))))))))))"

definition createSideToken :: "'w evm \<Rightarrow> msg \<Rightarrow> side_token_struct \<Rightarrow> ('w, unit) bsol" where
  "createSideToken E m t = br_onlyOwner m (createSideToken_body E m t)"

definition createMultipleSideTokens :: "'w evm \<Rightarrow> msg \<Rightarrow> side_token_struct list \<Rightarrow> ('w, unit) bsol" where
  "createMultipleSideTokens E m ts = br_onlyOwner m (for_each (createSideToken_body E m) ts)"

section \<open>Accepting transfers\<close>

definition old_data_hash :: "'w evm \<Rightarrow> address \<Rightarrow> uint256 \<Rightarrow> uint256 \<Rightarrow> uint256 \<Rightarrow> 32 word \<Rightarrow> uint256" where
  "old_data_hash E to amt bh th li = ev_keccak E [PBytes32 bh, PBytes32 th, PAddress to, PUint256 amt, PUint32 li]"

definition getTransactionDataHash ::
    "'w evm \<Rightarrow> address \<Rightarrow> uint256 \<Rightarrow> uint256 \<Rightarrow> uint256 \<Rightarrow> 32 word \<Rightarrow> uint256 \<Rightarrow> uint256 \<Rightarrow> uint256" where
  "getTransactionDataHash E to amt bh th li orig dest =
     ev_keccak E [PBytes32 bh, PBytes32 th, PAddress to, PUint256 amt, PUint32 li, PUint256 orig, PUint256 dest]"

definition isClaimed :: "'w bridge_state \<Rightarrow> uint256 \<Rightarrow> uint256 \<Rightarrow> bool" where
  "isClaimed s h hMulti \<longleftrightarrow> claimed s h \<or> claimed s hMulti"

definition transfer_data_hash :: "'w evm \<Rightarrow> transfer_args \<Rightarrow> uint256" where
  "transfer_data_hash E t = getTransactionDataHash E (ta_receiver t) (ta_value t) (ta_blockHash t)
     (ta_transactionHash t) (ta_logIndex t) (ta_originChainId t) (ta_destinationChainId t)"

definition br_acceptTransfer :: "'w evm \<Rightarrow> msg \<Rightarrow> transfer_args \<Rightarrow> ('w, unit) bsol" where
  "br_acceptTransfer E m t = whenNotPaused
     (bnd (gets br_federation) (\<lambda>fed.
      bnd (require (msg_sender m = fed) ''Bridge: Not Federation'') (\<lambda>_.
      bnd (checkChainId (ta_originChainId t)) (\<lambda>_.
      bnd (shouldBeCurrentChainId E (ta_destinationChainId t)) (\<lambda>_.
      bnd (gets (\<lambda>s. knownToken s (ta_originChainId t) (ta_originalTokenAddress t))) (\<lambda>known.
      bnd (if known then ret True
           else bnd (br_sideTokenByOriginalToken (ta_originChainId t) (ta_originalTokenAddress t)) (\<lambda>a.
                ret (a \<noteq> 0))) (\<lambda>known.
      bnd (require known ''Bridge: Unknown token'') (\<lambda>_.
      bnd (require (ta_receiver t \<noteq> 0) ''Bridge: Null To'') (\<lambda>_.
      bnd (require (ta_value t > 0) ''Bridge: Amount 0'') (\<lambda>_.
      bnd (require (ta_blockHash t \<noteq> 0) ''Bridge: Null BlockHash'') (\<lambda>_.
      bnd (require (ta_transactionHash t \<noteq> 0) ''Bridge: Null TxHash'') (\<lambda>_.
      bnd (gets (\<lambda>s. transactionsDataHashes s (ta_transactionHash t))) (\<lambda>h.
      bnd (require (h = 0) ''Bridge: Already accepted'') (\<lambda>_.
      let oldHash = old_data_hash E (ta_receiver t) (ta_value t) (ta_blockHash t) (ta_transactionHash t) (ta_logIndex t);
          newHash = transfer_data_hash E t
      in bnd (gets (\<lambda>s. isClaimed s oldHash newHash)) (\<lambda>done.
         bnd (require (\<not> done) ''Bridge: Already claimed'') (\<lambda>_.
         modify (\<lambda>s. s\<lparr>
           transactionsDataHashes := (transactionsDataHashes s)(ta_transactionHash t := newHash),
           originalTokenAddresses := (originalTokenAddresses s)(ta_transactionHash t := ta_originalTokenAddress t),
           senderAddresses := (senderAddresses s)(ta_transactionHash t := ta_sender t)\<rparr>)))))))))))))))))"

section \<open>Claims\<close>

definition claimCrossToSideToken ::
    "'w evm \<Rightarrow> address \<Rightarrow> address \<Rightarrow> uint256 \<Rightarrow> address \<Rightarrow> uint256 \<Rightarrow> ('w, uint256) bsol" where
  "claimCrossToSideToken E sideToken receiver amt relayer fee =
     bnd (require (sideToken \<noteq> 0) ''Bridge: side token is null'') (\<lambda>_.
     bnd (gets (\<lambda>s. tok_granularity E sideToken (br_world s))) (\<lambda>g.
     bnd (require (g \<noteq> None) ''granularity'') (\<lambda>_.
     bnd (sm_mul amt (the g)) (\<lambda>formattedAmount.
     bnd (require (fee \<le> formattedAmount) ''Bridge: fee too high'') (\<lambda>_.
     bnd (sm_sub formattedAmount fee) (\<lambda>receivedAmount.
     bnd (xrun (tok_mint E sideToken receiver receivedAmount)) (\<lambda>_.
     bnd (if fee > 0 then xrun (tok_mint E sideToken relayer fee) else ret ()) (\<lambda>_.
     ret receivedAmount))))))))"

definition claimCrossBackToToken ::
    "'w evm \<Rightarrow> address \<Rightarrow> address \<Rightarrow> uint256 \<Rightarrow> address \<Rightarrow> uint256 \<Rightarrow> ('w, uint256) bsol" where
  "claimCrossBackToToken E token receiver amt relayer fee =
     bnd (lib_getDecimals E token) (\<lambda>decimals.
     bnd (pow10_missing decimals) (\<lambda>p.
     bnd (sm_div amt p) (\<lambda>formattedAmount.
     bnd (require (fee \<le> formattedAmount) ''Bridge: fee too high'') (\<lambda>_.
     bnd (sm_sub formattedAmount fee) (\<lambda>receivedAmount.
     bnd (gets wrapped) (\<lambda>w.
     bnd (if w = token
          then bnd (xrun (wrapped_withdraw E w formattedAmount)) (\<lambda>_.
               bnd (xrun (send_value E receiver receivedAmount)) (\<lambda>_.
               if fee > 0 then xrun (send_value E relayer fee) else ret ()))
          else bnd (xrun (tok_transfer E token receiver receivedAmount)) (\<lambda>_.
               if fee > 0 then xrun (tok_transfer E token relayer fee) else ret ())) (\<lambda>_.
     ret receivedAmount)))))))"

definition claimCross ::
    "'w evm \<Rightarrow> uint256 \<Rightarrow> address \<Rightarrow> address \<Rightarrow> uint256 \<Rightarrow> address \<Rightarrow> uint256 \<Rightarrow> ('w, uint256) bsol" where
  "claimCross E chain token receiver amt relayer fee =
     bnd (checkChainId chain) (\<lambda>_.
     bnd (gets (\<lambda>s. knownToken s chain token)) (\<lambda>known.
     if known then claimCrossBackToToken E token receiver amt relayer fee
     else bnd (br_sideTokenByOriginalToken chain token) (\<lambda>sideToken.
          claimCrossToSideToken E sideToken receiver amt relayer fee)))"

definition claim_hash :: "'w evm \<Rightarrow> claim_data \<Rightarrow> uint256" where
  "claim_hash E c = getTransactionDataHash E (cd_to c) (cd_amount c) (cd_blockHash c) (cd_transactionHash c)
     (cd_logIndex c) (cd_originChainId c) (ev_chainid E)"

definition claim_body ::
    "'w evm \<Rightarrow> claim_data \<Rightarrow> address \<Rightarrow> address \<Rightarrow> uint256 \<Rightarrow> ('w, uint256) bsol" where
  "claim_body E c receiver relayer fee =
     bnd (gets (\<lambda>s. originalTokenAddresses s (cd_transactionHash c))) (\<lambda>token.
     bnd (require (token \<noteq> 0) ''Bridge: Tx not crossed'') (\<lambda>_.
     let h = claim_hash E c
     in bnd (gets (\<lambda>s. transactionsDataHashes s (cd_transactionHash c))) (\<lambda>accepted.
        bnd (require (accepted = h) ''Bridge: Wrong transactionDataHash'') (\<lambda>_.
        let oldHash = old_data_hash E (cd_to c) (cd_amount c) (cd_blockHash c) (cd_transactionHash c) (cd_logIndex c)
        in bnd (gets (\<lambda>s. isClaimed s oldHash h)) (\<lambda>done.
           bnd (require (\<not> done) ''Bridge: Already claimed'') (\<lambda>_.
           bnd (modify (\<lambda>s. s\<lparr>claimed := (claimed s)(h := True)\<rparr>)) (\<lambda>_.
           bnd (claimCross E (cd_originChainId c) token receiver (cd_amount c) relayer fee) (\<lambda>received.
           bnd (modify (\<lambda>s. s\<lparr>br_claims := br_claims s @
                  [\<lparr>cl_claim = c, cl_token = token, cl_receiver = receiver, cl_relayer = relayer, cl_fee = fee,
                    cl_received = received\<rparr>]\<rparr>)) (\<lambda>_.
           ret received)))))))))"

definition claim :: "'w evm \<Rightarrow> claim_data \<Rightarrow> ('w, uint256) bsol" where
  "claim E c = claim_body E c (cd_to c) 0 0"

definition claimFallback :: "'w evm \<Rightarrow> msg \<Rightarrow> claim_data \<Rightarrow> ('w, uint256) bsol" where
  "claimFallback E m c =
     bnd (gets (\<lambda>s. senderAddresses s (cd_transactionHash c))) (\<lambda>a.
     bnd (require (msg_sender m = a) ''Bridge: invalid sender'') (\<lambda>_.
     claim_body E c (msg_sender m) 0 0))"

text \<open>\<open>nonces[to]++\<close> is checked for overflow and gives the value before.\<close>

definition getDigest :: "'w evm \<Rightarrow> claim_data \<Rightarrow> address \<Rightarrow> uint256 \<Rightarrow> uint256 \<Rightarrow> ('w, uint256) bsol" where
  "getDigest E c relayer fee deadline =
     bnd (gets (\<lambda>s. br_nonces s (cd_to c))) (\<lambda>nonce.
     bnd (require (nonce + 1 \<noteq> 0) ''Panic'') (\<lambda>_.
     bnd (modify (\<lambda>s. s\<lparr>br_nonces := (br_nonces s)(cd_to c := nonce + 1)\<rparr>)) (\<lambda>_.
     gets (\<lambda>s. hashEIP712Message E (domainSeparator s)
       (ev_keccak E [PBytes32 CLAIM_TYPEHASH, PUint256 (ucast (cd_to c)), PUint256 (cd_amount c),
          PBytes32 (cd_transactionHash c), PUint256 (cd_originChainId c), PUint256 (ucast relayer),
          PUint256 fee, PUint256 nonce, PUint256 deadline])))))"

definition claimGasless ::
    "'w evm \<Rightarrow> msg \<Rightarrow> claim_data \<Rightarrow> address \<Rightarrow> uint256 \<Rightarrow> uint256 \<Rightarrow> 8 word \<Rightarrow> uint256 \<Rightarrow> uint256 \<Rightarrow> ('w, uint256) bsol" where
  "claimGasless E m c relayer fee deadline v r s =
     bnd (require (deadline \<ge> block_timestamp m) ''Bridge: EXPIRED'') (\<lambda>_.
     bnd (getDigest E c relayer fee deadline) (\<lambda>digest.
     let recoveredAddress = ev_ecrecover E digest v r s
     in bnd (require (cd_to c \<noteq> 0 \<and> recoveredAddress = cd_to c) ''Bridge: INVALID_SIGNATURE'') (\<lambda>_.
        claim_body E c (cd_to c) relayer fee)))"

section \<open>Crossing\<close>

definition crossTokens ::
    "'w evm \<Rightarrow> msg \<Rightarrow> address \<Rightarrow> address \<Rightarrow> string \<Rightarrow> uint256 \<Rightarrow> uint256 \<Rightarrow> ('w, unit) bsol" where
  "crossTokens E m token sender hathorTo amt dest = whenNotUpgrading (whenNotPaused
     (bnd (require (ev_chainid E \<noteq> dest) ''Bridge: destination chain id equal current chain id'') (\<lambda>_.
      bnd (checkChainId dest) (\<lambda>_.
      bnd (setKnownTokenByChain dest token True) (\<lambda>_.
      bnd (gets feePercentage) (\<lambda>percentage.
      bnd (sm_mul amt percentage) (\<lambda>p.
      bnd (sm_div p feePercentageDivider) (\<lambda>fee.
      bnd (sm_sub amt fee) (\<lambda>amountMinusFees.
      bnd (lib_getDecimals E token) (\<lambda>decimals.
      bnd (if decimals \<noteq> 18 then bnd (pow10_missing decimals) (\<lambda>f. sm_mul amt f) else ret amt) (\<lambda>formattedAmount.
      bnd (on_allow E m (\<lambda>m. updateTokenTransfer m token formattedAmount)) (\<lambda>_.
      bnd (getOriginalTokenBySideToken token) (\<lambda>sideToken.
      bnd (if ot_tokenAddress sideToken \<noteq> 0
           then bnd (lib_getGranularity E token) (\<lambda>granularity.
                bnd (sm_mod amountMinusFees granularity) (\<lambda>modulo.
                bnd (checked_add fee modulo) (\<lambda>fee.
                bnd (sm_sub amountMinusFees modulo) (\<lambda>amountMinusFees.
                bnd (xrun (tok_burn E token amountMinusFees)) (\<lambda>_.
                ret (ot_tokenAddress sideToken, fee, amountMinusFees))))))
           else ret (token, fee, amountMinusFees)) (\<lambda>(origToken, fee, amountMinusFees).
      bnd (modify (\<lambda>s. s\<lparr>br_crosses := br_crosses s @
             [\<lparr>xl_token = origToken, xl_to = hathorTo, xl_destinationChainId = dest, xl_from = sender,
               xl_originChainId = ev_chainid E, xl_amount = amountMinusFees, xl_fee = fee\<rparr>]\<rparr>)) (\<lambda>_.
      if fee > 0 then bnd (gets br_owner) (\<lambda>ow. xrun (tok_transfer E token ow fee)) else ret ())))))))))))))))"

definition receiveTokensTo :: "'w evm \<Rightarrow> msg \<Rightarrow> uint256 \<Rightarrow> address \<Rightarrow> string \<Rightarrow> uint256 \<Rightarrow> ('w, unit) bsol" where
  "receiveTokensTo E m dest token hathorTo amt =
     bnd (xrun (tok_transferFrom E token (msg_sender m) (ev_this E) amt)) (\<lambda>_.
     crossTokens E m token (msg_sender m) hathorTo amt dest)"

definition depositTo :: "'w evm \<Rightarrow> msg \<Rightarrow> uint256 \<Rightarrow> uint256 \<Rightarrow> string \<Rightarrow> ('w, unit) bsol" where
  "depositTo E m msg_value chain hathorTo =
     bnd (gets wrapped) (\<lambda>w.
     bnd (require (w \<noteq> 0) ''Bridge: wrappedCurrency empty'') (\<lambda>_.
     bnd (xrun (wrapped_deposit E w msg_value)) (\<lambda>_.
     crossTokens E m w (msg_sender m) hathorTo msg_value chain)))"

definition tokensReceived ::
    "'w evm \<Rightarrow> msg \<Rightarrow> address \<Rightarrow> address \<Rightarrow> address \<Rightarrow> uint256 \<Rightarrow> 8 word list \<Rightarrow> ('w, unit) bsol" where
  "tokensReceived E m operator sender to amt userData =
     (if operator = ev_this E then ret ()
      else
        bnd (require (to = ev_this E) ''Bridge: Not to this address'') (\<lambda>_.
        bnd (gets (\<lambda>s. tok_isERC777 E (msg_sender m) (br_world s))) (\<lambda>registered.
        bnd (require registered ''Bridge: Not ERC777 token'') (\<lambda>_.
        bnd (require (length userData \<ge> 32) ''Bridge: user data with at least the destinationChainId'') (\<lambda>_.
        bnd (require (length userData = 64 \<or> \<not> ev_isContract E sender)
               ''Bridge: Specify receiver address in data'') (\<lambda>_.
        bnd (if length userData = 32 then ret sender else lib_toAddress userData 12) (\<lambda>receiver.
        bnd (lib_toUint256 userData (length userData - 32)) (\<lambda>destinationChainId.
        crossTokens E m (msg_sender m) sender ''undefined'' amt destinationChainId))))))))"

section \<open>Administration\<close>

definition setFeePercentage :: "msg \<Rightarrow> uint256 \<Rightarrow> ('w, unit) bsol" where
  "setFeePercentage m amt = br_onlyOwner m
     (bnd (require (amt < feePercentageDivider div 10) ''Bridge: bigger than 10%'') (\<lambda>_.
      modify (\<lambda>s. s\<lparr>feePercentage := amt\<rparr>)))"

definition changeFederation :: "'w evm \<Rightarrow> msg \<Rightarrow> address \<Rightarrow> ('w, unit) bsol" where
  "changeFederation E m a = br_onlyOwner m
     (bnd (require (a \<noteq> 0) ''Bridge: Federation is empty'') (\<lambda>_.
      bnd (require (ev_isContract E a) ''Bridge: Federation not a contract'') (\<lambda>_.
      modify (\<lambda>s. s\<lparr>br_federation := a\<rparr>))))"

definition changeAllowTokens :: "'w evm \<Rightarrow> msg \<Rightarrow> address \<Rightarrow> ('w, unit) bsol" where
  "changeAllowTokens E m a = br_onlyOwner m
     (bnd (require (a \<noteq> 0) ''Bridge: AllowTokens is empty'') (\<lambda>_.
      bnd (require (ev_isContract E a) ''Bridge: Allow Tokens not a contract'') (\<lambda>_.
      modify (\<lambda>s. s\<lparr>br_allowTokens := a\<rparr>))))"

definition changeSideTokenFactory :: "'w evm \<Rightarrow> msg \<Rightarrow> address \<Rightarrow> ('w, unit) bsol" where
  "changeSideTokenFactory E m a = br_onlyOwner m
     (bnd (require (a \<noteq> 0) ''Bridge: SideTokenFactory is empty'') (\<lambda>_.
      bnd (require (ev_isContract E a) ''Bridge: SideTokenFactory not a contract'') (\<lambda>_.
      modify (\<lambda>s. s\<lparr>br_sideTokenFactory := a\<rparr>))))"

definition setUpgrading :: "msg \<Rightarrow> bool \<Rightarrow> ('w, unit) bsol" where
  "setUpgrading m b = br_onlyOwner m (modify (\<lambda>s. s\<lparr>isUpgrading := b\<rparr>))"

definition setWrappedCurrency :: "msg \<Rightarrow> address \<Rightarrow> ('w, unit) bsol" where
  "setWrappedCurrency m a = br_onlyOwner m
     (bnd (require (a \<noteq> 0) ''Bridge: wrapp is empty'') (\<lambda>_.
      modify (\<lambda>s. s\<lparr>wrapped := a\<rparr>)))"

definition hasCrossed :: "'w bridge_state \<Rightarrow> uint256 \<Rightarrow> bool" where
  "hasCrossed s h \<longleftrightarrow> transactionsDataHashes s h \<noteq> 0"

definition hasBeenClaimed :: "'w bridge_state \<Rightarrow> uint256 \<Rightarrow> bool" where
  "hasBeenClaimed s h \<longleftrightarrow> claimed s (transactionsDataHashes s h)"

definition uidToAddress :: "'w evm \<Rightarrow> string \<Rightarrow> address" where
  "uidToAddress E uid = ucast (drop_bit 96 (ev_keccak E [PString uid]))"

definition br_addHathorToken :: "msg \<Rightarrow> uint256 \<Rightarrow> address \<Rightarrow> string \<Rightarrow> ('w, unit) bsol" where
  "br_addHathorToken m chain token uid = br_onlyOwner m
     (modify (\<lambda>s. s\<lparr>br_EvmToHathor := (br_EvmToHathor s)(token := uid),
        br_HathorToEvm := (br_HathorToEvm s)(uid := \<lparr>ot_tokenAddress = token, ot_originChainId = chain\<rparr>)\<rparr>))"

section \<open>Every transaction\<close>

datatype bridge_call =
    BInitialize address address address address
  | BOwnerInitialize address
  | BPausableInit address
  | BPauserRoleInit address
  | BInitDomainSeparator
  | BSetSideToken uint256 address address
  | BSetOriginalToken address original_token
  | BAcceptTransfer transfer_args
  | BCreateSideToken side_token_struct
  | BCreateMultipleSideTokens "side_token_struct list"
  | BClaim claim_data
  | BClaimFallback claim_data
  | BClaimGasless claim_data address uint256 uint256 "8 word" uint256 uint256
  | BReceiveTokensTo uint256 address string uint256
  | BDepositTo uint256 uint256 string
  | BTokensReceived address address address uint256 "8 word list"
  | BSetFeePercentage uint256
  | BChangeFederation address
  | BChangeAllowTokens address
  | BChangeSideTokenFactory address
  | BSetUpgrading bool
  | BSetWrappedCurrency address
  | BAddHathorToken uint256 address string
  | BAddPauser address
  | BRenouncePauser
  | BPause
  | BUnpause
  | BTransferOwnership address
  | BRenounceOwnership

definition ignoring :: "('s, 'a) comp \<Rightarrow> ('s, unit) comp" where
  "ignoring c = bnd c (\<lambda>_. ret ())"

fun bridge_exec :: "'w evm \<Rightarrow> msg \<Rightarrow> bridge_call \<Rightarrow> ('w, unit) bsol" where
  "bridge_exec E m (BInitialize ow fed al fa) = bridge_initialize E ow fed al fa"
| "bridge_exec E m (BOwnerInitialize a) = br_owner_initialize a"
| "bridge_exec E m (BPausableInit a) = br_pausable_init a"
| "bridge_exec E m (BPauserRoleInit a) = br_pauserRole_init a"
| "bridge_exec E m BInitDomainSeparator = initDomainSeparator E"
| "bridge_exec E m (BSetSideToken c t a) = setSideTokenByOriginalAddressByChain m c t a"
| "bridge_exec E m (BSetOriginalToken a t) = setOriginalTokenBySideTokenByChain m a t"
| "bridge_exec E m (BAcceptTransfer t) = br_acceptTransfer E m t"
| "bridge_exec E m (BCreateSideToken t) = createSideToken E m t"
| "bridge_exec E m (BCreateMultipleSideTokens ts) = createMultipleSideTokens E m ts"
| "bridge_exec E m (BClaim c) = ignoring (claim E c)"
| "bridge_exec E m (BClaimFallback c) = ignoring (claimFallback E m c)"
| "bridge_exec E m (BClaimGasless c a f d v r s) = ignoring (claimGasless E m c a f d v r s)"
| "bridge_exec E m (BReceiveTokensTo d t x n) = receiveTokensTo E m d t x n"
| "bridge_exec E m (BDepositTo n d x) = depositTo E m n d x"
| "bridge_exec E m (BTokensReceived ope f t n d) = tokensReceived E m ope f t n d"
| "bridge_exec E m (BSetFeePercentage n) = setFeePercentage m n"
| "bridge_exec E m (BChangeFederation a) = changeFederation E m a"
| "bridge_exec E m (BChangeAllowTokens a) = changeAllowTokens E m a"
| "bridge_exec E m (BChangeSideTokenFactory a) = changeSideTokenFactory E m a"
| "bridge_exec E m (BSetUpgrading b) = setUpgrading m b"
| "bridge_exec E m (BSetWrappedCurrency a) = setWrappedCurrency m a"
| "bridge_exec E m (BAddHathorToken c a u) = br_addHathorToken m c a u"
| "bridge_exec E m (BAddPauser a) = addPauser m a"
| "bridge_exec E m BRenouncePauser = renouncePauser m"
| "bridge_exec E m BPause = pause m"
| "bridge_exec E m BUnpause = unpause m"
| "bridge_exec E m (BTransferOwnership a) = br_transferOwnership m a"
| "bridge_exec E m BRenounceOwnership = br_renounceOwnership m"

end
