(* ===== verification/BridgeSystem.thy ===== *)
theory BridgeSystem
  imports BridgeContract
begin

text \<open>
  The two contracts at work together: the federation votes, the bridge records what it accepts and
  pays it out. The bridge is the world of the federation contract, so a vote that completes a transfer runs
  the bridge's acceptTransfer in the same transaction.
\<close>

section \<open>What an operation leaves alone\<close>

definition same :: "('s \<Rightarrow> 'a) \<Rightarrow> 's \<Rightarrow> 's \<Rightarrow> bool" where
  "same f s t \<longleftrightarrow> f t = f s"

interpretation sm: step_rel "same f"
  by standard (simp_all add: same_def)

lemma same_modify [steps_intros]: "(\<And>s. f (g s) = f s) \<Longrightarrow> runs_in (same f) (modify g)"
  by (simp add: runs_in_def same_def)

lemma same_pair [steps_intros]: "runs_in (same f) (Pair (Inr a))"
  by (simp add: runs_in_def same_def)

lemma same_xrun [steps_intros]: "(\<And>s w. f (s\<lparr>br_world := w\<rparr>) = f s) \<Longrightarrow> runs_in (same f) (xrun c)"
  by (auto simp: runs_in_def same_def xrun_def split: prod.splits)

lemma same_on_allow [steps_intros]:
  "(\<And>s a. f (s\<lparr>allow_at := a\<rparr>) = f s) \<Longrightarrow> runs_in (same f) (on_allow E m c)"
  by (auto simp: runs_in_def same_def on_allow_def split: prod.splits sum.splits)

lemma same_require [steps_intros]: "runs_in (same f) (require b e)"
  unfolding require_def by (intro steps_intros)

lemma same_arith [steps_intros]:
  "runs_in (same f) (sm_mul a b)" "runs_in (same f) (sm_sub a b)" "runs_in (same f) (sm_div a b)"
  "runs_in (same f) (sm_mod a b)" "runs_in (same f) (pow10_missing d)" "runs_in (same f) (decimalsToGranularity d)"
  "runs_in (same f) (checked_add a b)" "runs_in (same f) (lib_toUint256 bs i)" "runs_in (same f) (lib_toAddress bs i)"
  unfolding sm_mul_def sm_sub_def sm_div_def sm_mod_def pow10_missing_def decimalsToGranularity_def
    checked_add_def lib_toUint256_def lib_toAddress_def
  by (intro steps_intros)+

lemma same_reads [steps_intros]:
  "runs_in (same f) (lib_getDecimals E a)" "runs_in (same f) (lib_getGranularity E a)"
  "runs_in (same f) (isPauser a)" "runs_in (same f) (checkChainId n)" "runs_in (same f) (shouldBeCurrentChainId E n)"
  "runs_in (same f) (notNullToken a)" "runs_in (same f) (br_sideTokenByOriginalToken n a)"
  "runs_in (same f) (getOriginalTokenBySideToken a)"
  unfolding lib_getDecimals_def lib_getGranularity_def isPauser_def checkChainId_def shouldBeCurrentChainId_def
    notNullToken_def br_sideTokenByOriginalToken_def getOriginalTokenBySideToken_def Let_def
  by (intro steps_intros)+

lemma same_guards [steps_intros]:
  "runs_in (same f) c \<Longrightarrow> runs_in (same f) (br_onlyOwner m c)"
  "runs_in (same f) c \<Longrightarrow> runs_in (same f) (onlyPauser m c)"
  "runs_in (same f) c \<Longrightarrow> runs_in (same f) (whenNotPaused c)"
  "runs_in (same f) c \<Longrightarrow> runs_in (same f) (whenNotUpgrading c)"
  unfolding br_onlyOwner_def onlyPauser_def whenNotPaused_def whenNotUpgrading_def
  by (intro steps_intros; assumption)+

lemmas bridge_admin_defs = br_transferOwnership_def br_renounceOwnership_def addPauser_body_def removePauser_body_def
  addPauser_def renouncePauser_def pause_def unpause_def pauserRole_init_body_def pausable_init_body_def
  br_initializer_def br_owner_initialize_def br_pausable_init_def br_pauserRole_init_def initDomainSeparator_def
  bridge_initialize_def setSideTokenByOriginalAddressByChain_def setOriginalTokenBySideTokenByChain_def
  setKnownTokenByChain_def createSideToken_body_def createSideToken_def createMultipleSideTokens_def
  setFeePercentage_def changeFederation_def changeAllowTokens_def changeSideTokenFactory_def setUpgrading_def
  setWrappedCurrency_def br_addHathorToken_def

lemmas bridge_cross_defs = crossTokens_def receiveTokensTo_def depositTo_def tokensReceived_def setKnownTokenByChain_def

lemmas bridge_claim_defs = claim_def claimFallback_def claimGasless_def getDigest_def ignoring_def claim_body_def
  claimCross_def claimCrossBackToToken_def claimCrossToSideToken_def

text \<open>What was accepted, what was claimed, who the federation is.\<close>

definition accept_view :: "'w bridge_state \<Rightarrow> (uint256 \<Rightarrow> uint256) \<times> (uint256 \<Rightarrow> address) \<times> (uint256 \<Rightarrow> address)" where
  "accept_view s = (transactionsDataHashes s, originalTokenAddresses s, senderAddresses s)"

definition claim_view :: "'w bridge_state \<Rightarrow> (uint256 \<Rightarrow> bool) \<times> claimed_log list" where
  "claim_view s = (claimed s, br_claims s)"

fun is_claim :: "bridge_call \<Rightarrow> bool" where
  "is_claim (BClaim c) = True"
| "is_claim (BClaimFallback c) = True"
| "is_claim (BClaimGasless c a f d v r s) = True"
| "is_claim _ = False"

lemma accept_view_kept:
  assumes "\<And>t. c \<noteq> BAcceptTransfer t"
  shows "runs_in (same accept_view) (bridge_exec E m c)"
  using assms
  by (cases c) (auto simp: bridge_admin_defs bridge_cross_defs bridge_claim_defs accept_view_def Let_def
      intro!: steps_intros split: prod.splits)

lemma claim_view_kept:
  assumes "\<not> is_claim c"
  shows "runs_in (same claim_view) (bridge_exec E m c)"
  using assms
  by (cases c) (auto simp: bridge_admin_defs bridge_cross_defs br_acceptTransfer_def claim_view_def Let_def
      intro!: steps_intros split: prod.splits)

section \<open>Acceptance and claims, exactly\<close>

lemma bnd_same:
  assumes "bnd m f s = (Inr b, t)" and "runs_in (same g) m"
  obtains a u where "m s = (Inr a, u)" "g u = g s" "f a u = (Inr b, t)"
  using assms by (auto simp: bnd_eq_Inr_iff same_def dest: runs_inD)

lemma br_onlyOwner_Inr: "br_onlyOwner m c s = (Inr a, t) \<longleftrightarrow> msg_sender m = br_owner s \<and> c s = (Inr a, t)"
  by (auto simp: br_onlyOwner_def bnd_eq_Inr_iff)

lemma acceptTransfer_Inr:
  assumes "br_acceptTransfer E m t s = (Inr (), u)"
  shows "msg_sender m = br_federation s" "transactionsDataHashes s (ta_transactionHash t) = 0"
    "ta_destinationChainId t = ev_chainid E" "\<not> br_paused s" "ta_receiver t \<noteq> 0" "ta_value t > 0"
    "u = s\<lparr>transactionsDataHashes := (transactionsDataHashes s)(ta_transactionHash t := transfer_data_hash E t),
       originalTokenAddresses := (originalTokenAddresses s)(ta_transactionHash t := ta_originalTokenAddress t),
       senderAddresses := (senderAddresses s)(ta_transactionHash t := ta_sender t)\<rparr>"
proof -
  have side: "v = s" if "br_sideTokenByOriginalToken n a s = (Inr b, v)" for n a b v
    using that by (auto simp: br_sideTokenByOriginalToken_def notNullToken_def bnd_eq_Inr_iff split: if_splits)
  show "msg_sender m = br_federation s" "transactionsDataHashes s (ta_transactionHash t) = 0"
    "ta_destinationChainId t = ev_chainid E" "\<not> br_paused s" "ta_receiver t \<noteq> 0" "ta_value t > 0"
    "u = s\<lparr>transactionsDataHashes := (transactionsDataHashes s)(ta_transactionHash t := transfer_data_hash E t),
       originalTokenAddresses := (originalTokenAddresses s)(ta_transactionHash t := ta_originalTokenAddress t),
       senderAddresses := (senderAddresses s)(ta_transactionHash t := ta_sender t)\<rparr>"
    using assms
    by (auto simp: br_acceptTransfer_def whenNotPaused_def bnd_eq_Inr_iff checkChainId_def shouldBeCurrentChainId_def
        Let_def split: if_splits dest!: side)
qed

definition claim_entry :: "'w evm \<Rightarrow> 'w bridge_state \<Rightarrow> claimed_log \<Rightarrow> bool" where
  "claim_entry E s p \<longleftrightarrow>
     (let c = cl_claim p; th = cd_transactionHash c
      in originalTokenAddresses s th \<noteq> 0 \<and> cl_token p = originalTokenAddresses s th
         \<and> transactionsDataHashes s th = claim_hash E c \<and> \<not> claimed s (claim_hash E c)
         \<and> cl_receiver p \<in> {cd_to c, senderAddresses s th})"

lemma claim_body_Inr:
  assumes "claim_body E c receiver relayer fee s = (Inr x, t)"
  shows "\<exists>p. br_claims t = br_claims s @ [p] \<and> cl_claim p = c \<and> cl_receiver p = receiver
    \<and> claimed t = (claimed s)(claim_hash E c := True)
    \<and> originalTokenAddresses s (cd_transactionHash c) \<noteq> 0
    \<and> cl_token p = originalTokenAddresses s (cd_transactionHash c)
    \<and> transactionsDataHashes s (cd_transactionHash c) = claim_hash E c \<and> \<not> claimed s (claim_hash E c)"
proof -
  have cross: "runs_in (same claim_view) (claimCross E n a r am re f)" for n a r am re f
    unfolding claimCross_def claimCrossBackToToken_def claimCrossToSideToken_def claim_view_def
    by (intro steps_intros) simp_all
  let ?u = "s\<lparr>claimed := (claimed s)(claim_hash E c := True)\<rparr>"
  obtain v where run: "claimCross E (cd_originChainId c) (originalTokenAddresses s (cd_transactionHash c)) receiver
      (cd_amount c) relayer fee ?u = (Inr x, v)"
    and t: "t = v\<lparr>br_claims := br_claims v @ [\<lparr>cl_claim = c, cl_token = originalTokenAddresses s (cd_transactionHash c),
      cl_receiver = receiver, cl_relayer = relayer, cl_fee = fee, cl_received = x\<rparr>]\<rparr>"
    and rest: "originalTokenAddresses s (cd_transactionHash c) \<noteq> 0"
      "transactionsDataHashes s (cd_transactionHash c) = claim_hash E c" "\<not> claimed s (claim_hash E c)"
    using assms by (auto simp: claim_body_def bnd_eq_Inr_iff Let_def isClaimed_def)
  have "claim_view v = claim_view ?u" using runs_inD [OF cross run] by (simp add: same_def)
  then have "claimed v = (claimed s)(claim_hash E c := True)" "br_claims v = br_claims s"
    by (simp_all add: claim_view_def)
  then show ?thesis using rest by (simp add: t)
qed

lemma claims_Inr:
  assumes "bridge_exec E m c s = (Inr (), t)" and "is_claim c"
  shows "\<exists>p. br_claims t = br_claims s @ [p] \<and> claim_entry E s p
    \<and> claimed t = (claimed s)(claim_hash E (cl_claim p) := True)"
proof -
  have keep: "claimed u = claimed s \<and> br_claims u = br_claims s \<and> accept_view u = accept_view s"
    if "getDigest E cd re fe de s = (Inr x, u)" for cd re fe de x u
    using that by (auto simp: getDigest_def bnd_eq_Inr_iff accept_view_def)
  from assms(2) consider (claim) cd where "c = BClaim cd" | (fallback) cd where "c = BClaimFallback cd"
    | (gasless) cd a f d v r x where "c = BClaimGasless cd a f d v r x"
    by (cases c) auto
  then show ?thesis
  proof cases
    case claim
    then obtain x where "claim_body E cd (cd_to cd) 0 0 s = (Inr x, t)"
      using assms(1) by (auto simp: ignoring_def claim_def bnd_eq_Inr_iff)
    from claim_body_Inr [OF this] show ?thesis by (auto simp: claim_entry_def)
  next
    case fallback
    then obtain x where "claim_body E cd (msg_sender m) 0 0 s = (Inr x, t)"
        "msg_sender m = senderAddresses s (cd_transactionHash cd)"
      using assms(1) by (auto simp: ignoring_def claimFallback_def bnd_eq_Inr_iff)
    from claim_body_Inr [OF this(1)] this(2) show ?thesis by (auto simp: claim_entry_def)
  next
    case gasless
    then obtain y u z where u: "getDigest E cd a f d s = (Inr z, u)" "claim_body E cd (cd_to cd) a f u = (Inr y, t)"
      using assms(1) by (auto simp: ignoring_def claimGasless_def bnd_eq_Inr_iff Let_def)
    from claim_body_Inr [OF u(2)] keep [OF u(1)] show ?thesis by (auto simp: claim_entry_def accept_view_def)
  qed
qed

section \<open>The system\<close>

text \<open>
  The federation at address \<open>F\<close> has the bridge's storage as its world; a call of another bridge
  contract is answered by \<open>other\<close>.
\<close>

definition fed_msg :: "address \<Rightarrow> msg" where
  "fed_msg F = \<lparr>msg_sender = F, block_timestamp = 0\<rparr>"

definition fed_chain ::
    "'w evm \<Rightarrow> address \<Rightarrow> (address \<Rightarrow> transfer_args \<Rightarrow> unit res) \<Rightarrow> ('w bridge_state) chain" where
  "fed_chain E F other =
     \<lparr>keccak256_packed = ev_keccak E, isContract = ev_isContract E, chainid = ev_chainid E,
      bridge_acceptTransfer = (\<lambda>a t b. if a = ev_this E then transact (br_acceptTransfer E (fed_msg F) t) b
                                       else (other a t, b))\<rparr>"

type_synonym 'w system = "('w bridge_state) federation_state"

text \<open>
  A system starts with nothing accepted or claimed and no federation but \<open>F\<close> set. Then anyone sends
  transactions to the federation, the bridge and the AllowTokens contracts, and the rest of the chain
  changes, in any order; but nobody sends from the address of a contract or the zero address,
  and the owner of the bridge sets no other federation.
\<close>

definition fresh_bridge :: "address \<Rightarrow> 'w bridge_state \<Rightarrow> bool" where
  "fresh_bridge F b \<longleftrightarrow> accept_view b = (\<lambda>_. 0, \<lambda>_. 0, \<lambda>_. 0) \<and> br_claims b = [] \<and> br_crosses b = []
     \<and> br_federation b \<in> {0, F} \<and> feePercentage b = 0"

fun keeps_federation :: "address \<Rightarrow> bridge_call \<Rightarrow> bool" where
  "keeps_federation F (BChangeFederation a) \<longleftrightarrow> a = F"
| "keeps_federation F (BInitialize ow fed al fa) \<longleftrightarrow> fed = F"
| "keeps_federation F _ \<longleftrightarrow> True"

inductive sys_reachable ::
    "'w evm \<Rightarrow> address \<Rightarrow> (address \<Rightarrow> transfer_args \<Rightarrow> unit res) \<Rightarrow> 'w system \<Rightarrow> bool" for E F other where
  start: "fresh_bridge F b \<Longrightarrow> sys_reachable E F other (blank_federation b)"
| fed: "sys_reachable E F other S \<Longrightarrow> msg_sender m \<noteq> 0 \<Longrightarrow>
    transact (fed_exec (fed_chain E F other) m c) S = (r, T) \<Longrightarrow> sys_reachable E F other T"
| bridge: "sys_reachable E F other S \<Longrightarrow> msg_sender m \<notin> {0, F, ev_this E} \<Longrightarrow> keeps_federation F c \<Longrightarrow>
    transact (bridge_exec E m c) (fd_world S) = (r, b) \<Longrightarrow> sys_reachable E F other (S\<lparr>fd_world := b\<rparr>)"
| allow: "sys_reachable E F other S \<Longrightarrow> msg_sender m \<notin> {0, F, ev_this E} \<Longrightarrow>
    transact (allow_exec m c) (allow_at (fd_world S) a) = (r, t) \<Longrightarrow>
    sys_reachable E F other (S\<lparr>fd_world := (fd_world S)\<lparr>allow_at := (allow_at (fd_world S))(a := t)\<rparr>\<rparr>)"
| outside: "sys_reachable E F other S \<Longrightarrow>
    sys_reachable E F other (S\<lparr>fd_world := (fd_world S)\<lparr>br_world := w\<rparr>\<rparr>)"

text \<open>A transfer the bridge has on record, and a claim that pays one out.\<close>

definition on_record :: "'w evm \<Rightarrow> 'w bridge_state \<Rightarrow> uint256 \<Rightarrow> transfer_args \<Rightarrow> bool" where
  "on_record E b h t \<longleftrightarrow> ta_transactionHash t = h \<and> transactionsDataHashes b h = transfer_data_hash E t
     \<and> originalTokenAddresses b h = ta_originalTokenAddress t \<and> senderAddresses b h = ta_sender t"

definition pays_out :: "'w evm \<Rightarrow> claimed_log \<Rightarrow> transfer_args \<Rightarrow> bool" where
  "pays_out E p t \<longleftrightarrow> claim_hash E (cl_claim p) = transfer_data_hash E t
     \<and> cd_transactionHash (cl_claim p) = ta_transactionHash t \<and> cl_token p = ta_originalTokenAddress t
     \<and> cl_receiver p \<in> {cd_to (cl_claim p), ta_sender t}"

definition sys_inv :: "'w evm \<Rightarrow> address \<Rightarrow> 'w system \<Rightarrow> bool" where
  "sys_inv E F S \<longleftrightarrow>
     br_federation (fd_world S) \<in> {0, F}
     \<and> (\<forall>h. originalTokenAddresses (fd_world S) h \<noteq> 0
          \<longrightarrow> (\<exists>t \<in> set (accepted_transfers S). on_record E (fd_world S) h t))
     \<and> (\<forall>p \<in> set (br_claims (fd_world S)). claimed (fd_world S) (claim_hash E (cl_claim p))
          \<and> (\<exists>t \<in> set (accepted_transfers S). pays_out E p t))
     \<and> distinct (map (\<lambda>p. claim_hash E (cl_claim p)) (br_claims (fd_world S)))"

text \<open>What the transactions of the federation do to the bridge and to its list of accepted transfers.\<close>

lemma fed_world_cases:
  assumes "fed_exec C m c S = (Inr (), T)"
  obtains "fd_world T = fd_world S" "accepted_transfers T = accepted_transfers S"
  | t w where "bridge_acceptTransfer C (fd_bridge S) t (fd_world S) = (Inr (), w)"
    "fd_world T = w" "accepted_transfers T = accepted_transfers S @ [t]"
proof (cases "\<exists>t. c = FVote t")
  case True
  then obtain t where c: "c = FVote t" by blast
  with assms have v: "fed_voteTransaction C m t S = (Inr (), T)" by simp
  show thesis
  proof (cases "fd_world T = fd_world S \<and> accepted_transfers T = accepted_transfers S")
    case False
    let ?tid = "single_chain_id C t" let ?mtid = "fed_getTransactionId_sol C t"
    have u: "fd_bridge (recorded C m t S) = fd_bridge S" "fd_world (recorded C m t S) = fd_world S"
        "accepted_transfers (recorded C m t S) = accepted_transfers S"
      by (simp_all add: recorded_def)
    then have "acceptTransfer C t ((recorded C m t S)\<lparr>processed := (processed S)(?mtid := True)\<rparr>) = (Inr (), T)"
      using v False by (auto simp: fed_voteTransaction_unfold Let_def split: if_splits)
    then obtain w where "bridge_acceptTransfer C (fd_bridge S) t (fd_world S) = (Inr (), w)"
        "T = (recorded C m t S)\<lparr>processed := (processed S)(?mtid := True),
           accepted_transfers := accepted_transfers S @ [t], fd_world := w\<rparr>"
      using u by (auto simp: acceptTransfer_def split: prod.splits sum.splits)
    then show thesis by (intro that(2)) auto
  qed (auto intro: that(1))
next
  case False
  have "accepted_transfers T = accepted_transfers S"
    using only_votes_accept [OF assms] False by blast
  moreover have "fd_world T = fd_world S"
  proof (cases c)
    case (FInitialize ms req b own)
    then show ?thesis using assms
      by (auto simp: fed_initialize_def validRequirement_Inr bnd_eq_Inr_iff setBridge_body_Inr
          dest: initialize_members)
  qed (use False assms in \<open>auto simp: bnd_eq_Inr_iff fed_owner_initialize_def setBridge_def setBridge_body_Inr
      fed_transferOwnership_def fed_renounceOwnership_def fed_emitHeartbeat_def addMember_def removeMember_def
      changeRequirement_def validRequirement_Inr\<close>)
  ultimately show thesis by (intro that(1))
qed

lemma federation_kept:
  assumes "\<And>a. c \<noteq> BChangeFederation a" "\<And>ow fed al fa. c \<noteq> BInitialize ow fed al fa"
  shows "runs_in (same br_federation) (bridge_exec E m c)"
  using assms
  by (cases c) (auto simp: bridge_admin_defs bridge_cross_defs bridge_claim_defs br_acceptTransfer_def Let_def
      intro!: steps_intros split: prod.splits)

lemma federation_step:
  assumes run: "bridge_exec E m c s = (Inr (), t)" and k: "keeps_federation F c"
  shows "br_federation t \<in> {br_federation s, F}"
proof -
  consider (change) a where "c = BChangeFederation a" | (init) ow fed al fa where "c = BInitialize ow fed al fa"
    | (other) "\<And>a. c \<noteq> BChangeFederation a" "\<And>ow fed al fa. c \<noteq> BInitialize ow fed al fa"
    by blast
  then show ?thesis
  proof cases
    case change
    then show ?thesis using run k by (auto simp: changeFederation_def br_onlyOwner_Inr bnd_eq_Inr_iff)
  next
    case init
    have x: "br_federation v = br_federation u" if "xrun (set_erc777_recipient E) u = (r, v)" for u r v
      using runs_inD [OF same_xrun [of br_federation] that] by (simp add: same_def)
    have i: "br_federation v = br_federation u" if "initDomainSeparator E u = (Inr (), v)" for u v
      using that by (auto simp: initDomainSeparator_def bnd_eq_Inr_iff)
    show ?thesis
      using run k init by (auto simp: bridge_initialize_def br_initializer_def bnd_eq_Inr_iff dest!: x i)
  next
    case other
    from runs_inD [OF federation_kept [OF other] run] show ?thesis by (simp add: same_def)
  qed
qed

lemma accept_views:
  "accept_view t = accept_view s \<Longrightarrow> transactionsDataHashes t = transactionsDataHashes s
    \<and> originalTokenAddresses t = originalTokenAddresses s \<and> senderAddresses t = senderAddresses s"
  by (simp add: accept_view_def)

lemma sys_inv_bridge:
  assumes inv: "sys_inv E F S" and sender: "msg_sender m \<notin> {0, F}" and k: "keeps_federation F c"
    and run: "bridge_exec E m c (fd_world S) = (Inr (), b)"
  shows "sys_inv E F (S\<lparr>fd_world := b\<rparr>)"
proof -
  let ?b = "fd_world S"
  have fed: "br_federation b \<in> {0, F}" using federation_step [OF run k] inv by (auto simp: sys_inv_def)
  have "c \<noteq> BAcceptTransfer t" for t
  proof
    assume "c = BAcceptTransfer t"
    with run have "msg_sender m = br_federation ?b" by (auto dest: acceptTransfer_Inr(1))
    then show False using sender inv by (auto simp: sys_inv_def)
  qed
  from runs_inD [OF accept_view_kept [OF this] run]
  have acc: "transactionsDataHashes b = transactionsDataHashes ?b" "originalTokenAddresses b = originalTokenAddresses ?b"
      "senderAddresses b = senderAddresses ?b"
    by (auto simp: same_def dest: accept_views)
  then have rec: "on_record E b h t = on_record E ?b h t" for h t by (simp add: on_record_def)
  show ?thesis
  proof (cases "is_claim c")
    case False
    from runs_inD [OF claim_view_kept [OF False] run]
    have "claimed b = claimed ?b" "br_claims b = br_claims ?b" by (simp_all add: same_def claim_view_def)
    then show ?thesis using inv fed by (simp add: sys_inv_def acc rec)
  next
    case True
    from claims_Inr [OF run True] obtain p where p: "br_claims b = br_claims ?b @ [p]" "claim_entry E ?b p"
        "claimed b = (claimed ?b)(claim_hash E (cl_claim p) := True)"
      by blast
    have "originalTokenAddresses ?b (cd_transactionHash (cl_claim p)) \<noteq> 0"
      using p(2) by (simp add: claim_entry_def Let_def)
    then obtain t where t: "t \<in> set (accepted_transfers S)" "on_record E ?b (cd_transactionHash (cl_claim p)) t"
      using inv unfolding sys_inv_def by blast
    have "pays_out E p t"
      using p(2) t(2) by (auto simp: pays_out_def claim_entry_def on_record_def Let_def)
    moreover have "claim_hash E (cl_claim p) \<notin> (\<lambda>p. claim_hash E (cl_claim p)) ` set (br_claims ?b)"
      using p(2) inv by (auto simp: claim_entry_def sys_inv_def Let_def)
    ultimately show ?thesis using inv fed t(1) by (auto simp: sys_inv_def acc rec p(1,3))
  qed
qed

lemma sys_inv_fed:
  assumes inv: "sys_inv E F S" and run: "fed_exec (fed_chain E F other) m c S = (Inr (), T)"
  shows "sys_inv E F T"
  using run
proof (cases rule: fed_world_cases)
  case 1
  then show ?thesis using inv by (simp add: sys_inv_def)
next
  case (2 t w)
  let ?b = "fd_world S"
  consider (this) "br_acceptTransfer E (fed_msg F) t ?b = (Inr (), w)" | (other) "w = ?b"
    using 2(1) by (auto simp: fed_chain_def transact_Inr split: if_splits)
  then show ?thesis
  proof cases
    case other
    then show ?thesis using inv 2(2,3) by (auto simp: sys_inv_def)
  next
    case this
    note w = acceptTransfer_Inr(7) [OF this]
    have "on_record E w (ta_transactionHash t) t" by (simp add: w on_record_def)
    moreover have "on_record E w h u" if "on_record E ?b h u" "h \<noteq> ta_transactionHash t" for h u
      using that by (simp add: w on_record_def)
    moreover have "\<exists>u \<in> set (accepted_transfers S). on_record E ?b h u"
      if "originalTokenAddresses w h \<noteq> 0" "h \<noteq> ta_transactionHash t" for h
      using inv that by (simp add: sys_inv_def w)
    ultimately have "\<exists>u \<in> set (accepted_transfers T). on_record E w h u" if "originalTokenAddresses w h \<noteq> 0" for h
      using that 2(3) by (cases "h = ta_transactionHash t") (simp, metis Un_iff set_append)
    moreover have "br_federation w = br_federation ?b" "br_claims w = br_claims ?b" "claimed w = claimed ?b"
      by (simp_all add: w)
    ultimately show ?thesis using inv 2(2,3) by (auto simp: sys_inv_def)
  qed
qed

lemma sys_inv_reachable: "sys_reachable E F other S \<Longrightarrow> sys_inv E F S"
proof (induction rule: sys_reachable.induct)
  case (start b)
  then show ?case by (simp add: fresh_bridge_def sys_inv_def blank_federation_def accept_view_def)
next
  case (fed S m c r T)
  then show ?case by (auto simp: transact_def intro: sys_inv_fed split: prod.splits sum.splits)
next
  case (bridge S m c r b)
  then show ?case by (auto simp: transact_def intro: sys_inv_bridge split: prod.splits sum.splits)
next
  case (allow S m c a r t)
  then show ?case by (simp add: sys_inv_def on_record_def)
next
  case (outside S w)
  then show ?case by (simp add: sys_inv_def on_record_def)
qed

lemma sys_fed_reachable: "sys_reachable E F other S \<Longrightarrow> fed_reachable (fed_chain E F other) S"
  by (induction rule: sys_reachable.induct) (auto intro: fed_reachable.intros)

section \<open>Crossing\<close>

lemma lib_getDecimals_Inr:
  "lib_getDecimals E a s = (Inr d, t) \<longleftrightarrow> t = s \<and> (\<exists>r. tok_decimals E a (br_world s) = Some r \<and> d = ucast r)"
  by (auto simp: lib_getDecimals_def bnd_eq_Inr_iff Let_def)

lemma sm_mul_Inr: "sm_mul a b s = (Inr c, t) \<longleftrightarrow> t = s \<and> c = a * b \<and> unat c = unat a * unat b"
proof (cases "a = 0")
  case False
  then have pos: "0 < unat a" by (simp add: unat_gt_0)
  have "a * b div a = b \<longleftrightarrow> unat (a * b) = unat a * unat b"
  proof
    assume "a * b div a = b"
    then have d: "unat (a * b) div unat a = unat b" by (metis unat_div)
    have "unat (a * b) \<le> unat a * unat b" by (simp add: unat_word_ariths)
    moreover have "unat a * unat b \<le> unat (a * b)" unfolding d [symmetric] by (simp add: mult.commute)
    ultimately show "unat (a * b) = unat a * unat b" by simp
  next
    assume "unat (a * b) = unat a * unat b"
    then have "unat (a * b div a) = unat b" using pos by (simp add: unat_div)
    then show "a * b div a = b" by (simp only: word_unat_eq_iff)
  qed
  then show ?thesis using False by (auto simp: sm_mul_def bnd_eq_Inr_iff)
qed (auto simp: sm_mul_def)

lemma sm_sub_Inr: "sm_sub a b s = (Inr c, t) \<longleftrightarrow> t = s \<and> b \<le> a \<and> c = a - b"
  by (auto simp: sm_sub_def bnd_eq_Inr_iff)

lemma sm_div_Inr: "sm_div a b s = (Inr c, t) \<longleftrightarrow> t = s \<and> b > 0 \<and> c = a div b"
  by (auto simp: sm_div_def bnd_eq_Inr_iff)

lemma sm_mod_Inr: "sm_mod a b s = (Inr c, t) \<longleftrightarrow> t = s \<and> b \<noteq> 0 \<and> c = a mod b"
  by (auto simp: sm_mod_def bnd_eq_Inr_iff)

lemma pow10_missing_Inr: "pow10_missing d s = (Inr c, t) \<longleftrightarrow> t = s \<and> d \<le> 18 \<and> c = 10 ^ (18 - unat d)"
  by (auto simp: pow10_missing_def bnd_eq_Inr_iff)

lemma on_allow_Inr:
  "on_allow E m c s = (Inr (), t) \<longleftrightarrow>
     (\<exists>a. c (m\<lparr>msg_sender := ev_this E\<rparr>) (allow_at s (br_allowTokens s)) = (Inr (), a)
        \<and> t = s\<lparr>allow_at := (allow_at s)(br_allowTokens s := a)\<rparr>)"
  by (auto simp: on_allow_def split: prod.splits sum.splits)

lemma getOriginalTokenBySideToken_Inr:
  "getOriginalTokenBySideToken a s = (Inr ot, t) \<Longrightarrow> t = s \<and>
     ot = (if ot_tokenAddress (originalTokenBySideToken s a) \<noteq> 0 then originalTokenBySideToken s a
           else \<lparr>ot_tokenAddress = deprecatedOriginalTokens s a, ot_originChainId = 1\<rparr>)"
  by (auto simp: getOriginalTokenBySideToken_def notNullToken_def bnd_eq_Inr_iff split: if_splits)

lemma xrun_Inr: "xrun c s = (Inr a, t) \<Longrightarrow> \<exists>w. t = s\<lparr>br_world := w\<rparr>"
  by (auto simp: xrun_def split: prod.splits)

lemma lib_getGranularity_Inr:
  "lib_getGranularity E a s = (Inr g, t) \<Longrightarrow> t = s"
  by (auto simp: lib_getGranularity_def bnd_eq_Inr_iff)

lemma pow10_bound: "unat (10 ^ (18 - unat (d :: 8 word)) :: uint256) = 10 ^ (18 - unat d)"
proof -
  have "(10::nat) ^ (18 - unat d) \<le> 10 ^ 18" by (intro power_increasing) simp_all
  then have b: "(10::nat) ^ (18 - unat d) < 2 ^ LENGTH(256)" by (rule le_less_trans) simp
  have "(10 ^ (18 - unat d) :: uint256) = word_of_nat (10 ^ (18 - unat d))" by simp
  then show ?thesis using b by (simp only: unat_of_nat mod_less)
qed

text \<open>The fee is below a tenth: only setFeePercentage changes the percentage.\<close>

lemma fee_kept:
  assumes "\<And>n. c \<noteq> BSetFeePercentage n"
  shows "runs_in (same feePercentage) (bridge_exec E m c)"
  using assms
  by (cases c) (auto simp: bridge_admin_defs bridge_cross_defs bridge_claim_defs br_acceptTransfer_def Let_def
      intro!: steps_intros split: prod.splits)

lemma fee_step:
  assumes "feePercentage s < 1000" and run: "bridge_exec E m c s = (Inr (), t)"
  shows "feePercentage t < 1000"
proof (cases "\<exists>n. c = BSetFeePercentage n")
  case True
  then show ?thesis
    using run by (auto simp: setFeePercentage_def br_onlyOwner_Inr bnd_eq_Inr_iff feePercentageDivider_def)
next
  case False
  then show ?thesis using runs_inD [OF fee_kept run] assms(1) by (auto simp: same_def)
qed

lemma fee_below_tenth: "sys_reachable E F other S \<Longrightarrow> feePercentage (fd_world S) < 1000"
proof (induction rule: sys_reachable.induct)
  case (start b)
  then show ?case by (simp add: fresh_bridge_def blank_federation_def)
next
  case (fed S m c r T)
  show ?case
  proof (cases r)
    case (Inl e)
    then show ?thesis using fed by (auto simp: transact_def split: prod.splits sum.splits)
  next
    case (Inr x)
    then have "fed_exec (fed_chain E F other) m c S = (Inr (), T)" using fed(3) by (simp add: transact_Inr)
    then show ?thesis
    proof (cases rule: fed_world_cases)
      case (2 t w)
      then have "feePercentage w = feePercentage (fd_world S)"
        by (auto simp: fed_chain_def transact_Inr dest: acceptTransfer_Inr(7) split: if_splits)
      then show ?thesis using fed 2 by simp
    qed (use fed in simp)
  qed
next
  case (bridge S m c r b)
  then show ?case by (auto simp: transact_def intro: fee_step split: prod.splits sum.splits)
qed simp_all

lemma fee_of:
  assumes "unat p = unat amt * unat percentage" "percentage < (1000 :: uint256)"
  shows "10 * unat (p div feePercentageDivider) \<le> unat amt"
proof -
  have "unat percentage \<le> 1000" using assms(2) by (simp add: word_less_nat_alt)
  then have "unat p \<le> unat amt * 1000" unfolding assms(1) by (rule mult_le_mono2)
  then have "unat p div 10000 \<le> unat amt * 1000 div 10000" by (rule div_le_mono)
  then show ?thesis by (simp add: feePercentageDivider_def unat_div)
qed

lemma bnd_InrE:
  assumes "bnd m f s = (Inr b, t)"
  obtains a u where "m s = (Inr a, u)" "f a u = (Inr b, t)"
  using assms by (auto simp: bnd_eq_Inr_iff)

text \<open>What a crossing that succeeds did before its last steps: the amounts, and the call of AllowTokens.\<close>

definition is_side_token :: "'w bridge_state \<Rightarrow> address \<Rightarrow> bool" where
  "is_side_token s token \<longleftrightarrow>
     ot_tokenAddress (originalTokenBySideToken s token) \<noteq> 0 \<or> deprecatedOriginalTokens s token \<noteq> 0"

definition allow_of :: "'w bridge_state \<Rightarrow> allow_tokens" where
  "allow_of s = allow_at s (br_allowTokens s)"

lemma amounts_kept:
  assumes "(if ot_tokenAddress ot \<noteq> 0
      then bnd (lib_getGranularity E token) (\<lambda>g. bnd (sm_mod amf g) (\<lambda>modulo. bnd (checked_add fee modulo) (\<lambda>fee.
           bnd (sm_sub amf modulo) (\<lambda>amf. bnd (xrun (tok_burn E token amf)) (\<lambda>_.
           ret (ot_tokenAddress ot, fee, amf))))))
      else ret (token, fee, amf)) s = (Inr (orig, fee', amf'), v)"
  shows "unat amf' + unat fee' = unat amf + unat fee \<and> (ot_tokenAddress ot = 0 \<longrightarrow> fee' = fee \<and> orig = token)
    \<and> (\<exists>w. v = s\<lparr>br_world := w\<rparr>)"
proof (intro conjI)
  show "ot_tokenAddress ot = 0 \<longrightarrow> fee' = fee \<and> orig = token" using assms by auto
  have same: "\<exists>w. u = u\<lparr>br_world := w\<rparr>" for u :: "'a bridge_state"
    by (rule exI [of _ "br_world u"]) simp
  show "\<exists>w. v = s\<lparr>br_world := w\<rparr>"
    using assms
    by (auto simp: bnd_eq_Inr_iff sm_mod_Inr checked_add_Inr sm_sub_Inr dest!: lib_getGranularity_Inr xrun_Inr
        split: if_splits intro: same)
  have sum: "unat (amf - md) + unat (fee + md) = unat amf + unat fee"
    if "md \<le> amf" "unat fee + unat md < 2 ^ 256" for md :: uint256
    using that by (simp add: unat_sub word_le_nat_alt unat_add_lem [THEN iffD1])
  show "unat amf' + unat fee' = unat amf + unat fee"
    using assms
    by (auto simp: bnd_eq_Inr_iff sm_mod_Inr checked_add_Inr sm_sub_Inr sum split: if_splits)
qed

lemma formatted_state:
  "(if d \<noteq> 18 then bnd (pow10_missing d) (\<lambda>f. sm_mul amt f) else ret amt) s = (Inr f, u) \<Longrightarrow>
   u = s \<and> d \<le> 18 \<and> unat f = unat amt * 10 ^ (18 - unat d)"
  by (auto simp: bnd_eq_Inr_iff pow10_missing_Inr sm_mul_Inr pow10_bound split: if_splits)

lemma fee_transfer_Inr:
  "(if 0 < fee then bnd (gets br_owner) (\<lambda>ow. xrun (tok_transfer E token ow fee)) else ret ()) s = (Inr (), t) \<Longrightarrow>
   \<exists>w. t = s\<lparr>br_world := w\<rparr>"
  by (cases "0 < fee") (auto simp: bnd_eq_Inr_iff dest: xrun_Inr intro: exI [of _ "br_world s"])

lemma split_amount: "fee \<le> amt \<Longrightarrow> unat (amt - fee) + unat fee = unat (amt :: uint256)"
  by (simp add: unat_sub word_le_nat_alt)

text \<open>What a crossing that succeeds did: the amounts of its event, and the call of AllowTokens.\<close>

lemma crossTokens_Inr:
  assumes "crossTokens E m token sender to amt dest s = (Inr (), t)"
  shows "dest \<noteq> 0 \<and> dest \<noteq> ev_chainid E \<and> \<not> br_paused s \<and> \<not> isUpgrading s
   \<and> (\<exists>x dec f. br_crosses t = br_crosses s @ [x]
       \<and> unat (xl_amount x) + unat (xl_fee x) = unat amt \<and> xl_destinationChainId x = dest
       \<and> tok_decimals E token (br_world s) \<noteq> None
       \<and> dec = (ucast (the (tok_decimals E token (br_world s))) :: 8 word) \<and> dec \<le> 18
       \<and> unat f = unat amt * 10 ^ (18 - unat dec)
       \<and> transfer_tx (m\<lparr>msg_sender := ev_this E\<rparr>) token f (allow_of s) = (Inr (), allow_of t)
       \<and> knownToken t dest token \<and> (\<not> is_side_token s token \<longrightarrow> xl_token x = token)
       \<and> (\<not> is_side_token s token \<longrightarrow> feePercentage s < 1000 \<longrightarrow> 10 * unat (xl_fee x) \<le> unat amt))"
proof -
  let ?s1 = "s\<lparr>knownTokenByChain := (knownTokenByChain s)(dest := (knownTokenByChain s dest)(token := True))\<rparr>"
  let ?fee = "amt * feePercentage s div feePercentageDivider"
  obtain f s2 orig amf' fee' w r where
    guards: "dest \<noteq> 0" "dest \<noteq> ev_chainid E" "\<not> br_paused s" "\<not> isUpgrading s"
    and p: "unat (amt * feePercentage s) = unat amt * unat (feePercentage s)" and fee: "?fee \<le> amt"
    and dec: "tok_decimals E token (br_world s) = Some r" "(ucast r :: 8 word) \<le> 18"
      "unat f = unat amt * 10 ^ (18 - unat (ucast r :: 8 word))"
    and allow: "on_allow E m (\<lambda>m. updateTokenTransfer m token f) ?s1 = (Inr (), s2)"
    and sum: "unat amf' + unat fee' = unat (amt - ?fee) + unat ?fee"
    and side: "\<not> is_side_token s2 token \<Longrightarrow> fee' = ?fee \<and> orig = token"
    and t: "t = s2\<lparr>br_crosses := br_crosses s2 @
             [\<lparr>xl_token = orig, xl_to = to, xl_destinationChainId = dest, xl_from = sender,
               xl_originChainId = ev_chainid E, xl_amount = amf', xl_fee = fee'\<rparr>], br_world := w\<rparr>"
    using assms
    unfolding crossTokens_def whenNotUpgrading_def whenNotPaused_def setKnownTokenByChain_def checkChainId_def
    apply (elim bnd_InrE)
    apply (clarsimp simp: sm_mul_Inr sm_div_Inr sm_sub_Inr lib_getDecimals_Inr
        dest!: formatted_state getOriginalTokenBySideToken_Inr)
    apply (drule amounts_kept)
    apply (drule fee_transfer_Inr)
    apply clarsimp
    subgoal premises prems for b1 b2 f s2 orig fee' amf' r w
      by (rule that [where f = f and ?s2.0 = s2 and orig = orig and amf' = amf' and fee' = fee' and w = w and r = r]) (use prems in \<open>auto simp: is_side_token_def\<close>)
    done

  have "br_crosses s2 = br_crosses s" "is_side_token s2 token = is_side_token s token"
      "transfer_tx (m\<lparr>msg_sender := ev_this E\<rparr>) token f (allow_of s) = (Inr (), allow_of t)"
      "knownToken t dest token"
    using allow by (auto simp: on_allow_Inr t transfer_tx_def transact_Inr allow_of_def is_side_token_def knownToken_def)
  moreover have "unat amf' + unat fee' = unat amt" using sum split_amount [OF fee] by simp
  moreover have "10 * unat fee' \<le> unat amt" if "\<not> is_side_token s2 token" "feePercentage s < 1000"
    using side [OF that(1)] fee_of [OF p that(2)] by simp
  ultimately show ?thesis using guards dec side by (auto simp: t intro!: exI [of _ f])
qed

section \<open>A system at work\<close>

definition sample_evm :: "unit evm" where
  "sample_evm = \<lparr>ev_keccak = (\<lambda>xs. of_nat (length xs)), ev_isContract = (\<lambda>_. True), ev_chainid = 5, ev_this = 8,
     ev_ecrecover = (\<lambda>_ _ _ _. 0), tok_decimals = (\<lambda>_ _. Some 18), tok_granularity = (\<lambda>_ _. Some 1),
     tok_isERC777 = (\<lambda>_ _. False), tok_transfer = (\<lambda>_ _ _ w. (Inr (), w)),
     tok_transferFrom = (\<lambda>_ _ _ _ w. (Inr (), w)), tok_mint = (\<lambda>_ _ _ w. (Inr (), w)),
     tok_burn = (\<lambda>_ _ w. (Inr (), w)), factory_create = (\<lambda>_ _ _ _ w. (Inr 60, w)),
     wrapped_deposit = (\<lambda>_ _ w. (Inr (), w)), wrapped_withdraw = (\<lambda>_ _ w. (Inr (), w)),
     send_value = (\<lambda>_ _ w. (Inr (), w)), set_erc777_recipient = (\<lambda>w. (Inr (), w))\<rparr>"

definition sample_bridge_state :: "unit bridge_state" where
  "sample_bridge_state = \<lparr>br_initialized = True, br_owner = 3, br_pausers = (\<lambda>_. False), br_paused = False,
     br_federation = 50, feePercentage = 0, domainSeparator = 0, deprecatedMappedTokens = (\<lambda>_. 0),
     deprecatedOriginalTokens = (\<lambda>_. 0), deprecatedKnownTokens = (\<lambda>_. False), claimed = (\<lambda>_. False),
     br_allowTokens = 40, br_sideTokenFactory = 41, isUpgrading = False, wrapped = 0,
     transactionsDataHashes = (\<lambda>_. 0), originalTokenAddresses = (\<lambda>_. 0), senderAddresses = (\<lambda>_. 0),
     br_nonces = (\<lambda>_. 0), sideTokenByOriginalTokenByChain = (\<lambda>_ _. 0),
     originalTokenBySideToken = (\<lambda>_. \<lparr>ot_tokenAddress = 0, ot_originChainId = 0\<rparr>),
     knownTokenByChain = (\<lambda>_ a. a = 10), br_EvmToHathor = (\<lambda>_. []),
     br_HathorToEvm = (\<lambda>_. \<lparr>ot_tokenAddress = 0, ot_originChainId = 0\<rparr>), initiated = True,
     allow_at = (\<lambda>_. sample_allow), br_claims = [], br_crosses = [], br_world = ()\<rparr>"

definition sample_system :: "unit system" where
  "sample_system = (blank_federation sample_bridge_state)\<lparr>fd_initialized := True, fd_owner := 3, fd_bridge := 8,
     members := [1], required := 1, isMember := (\<lambda>_. False)(1 := True)\<rparr>"

definition bridge_accepted :: "unit bridge_state" where
  "bridge_accepted = sample_bridge_state\<lparr>transactionsDataHashes := (\<lambda>_. 0)(14 := 7),
     originalTokenAddresses := (\<lambda>_. 0)(14 := 10), senderAddresses := (\<lambda>_. 0)(14 := 11)\<rparr>"

definition system_accepted :: "unit system" where
  "system_accepted = sample_system\<lparr>votes := (\<lambda>_ _. False)(9 := (\<lambda>_. False)(1 := True)),
     processed := (\<lambda>_. False)(9 := True), accepted_transfers := [sample_transfer], fd_world := bridge_accepted\<rparr>"

definition sample_claim :: claim_data where
  "sample_claim = \<lparr>cd_to = 12, cd_amount = 100, cd_blockHash = 13, cd_transactionHash = 14, cd_logIndex = 0,
     cd_originChainId = 31\<rparr>"

definition sample_payout :: claimed_log where
  "sample_payout = \<lparr>cl_claim = sample_claim, cl_token = 10, cl_receiver = 12, cl_relayer = 0, cl_fee = 0,
     cl_received = 100\<rparr>"

definition bridge_paid :: "unit bridge_state" where
  "bridge_paid = bridge_accepted\<lparr>claimed := (\<lambda>_. False)(7 := True), br_claims := [sample_payout]\<rparr>"

abbreviation sample_fed_chain :: "unit bridge_state chain" where
  "sample_fed_chain \<equiv> fed_chain sample_evm 50 (\<lambda>_ _. Inl (JsError ''no contract''))"

abbreviation sample_sys_reachable :: "unit system \<Rightarrow> bool" where
  "sample_sys_reachable \<equiv> sys_reachable sample_evm 50 (\<lambda>_ _. Inl (JsError ''no contract''))"

lemma system_ids [simp]:
  "single_chain_id sample_fed_chain t = 7" "fed_getTransactionId_sol sample_fed_chain t = 9"
  "transfer_data_hash sample_evm t = 7" "claim_hash sample_evm c = 7" "old_data_hash sample_evm to amt bh th li = 5"
  by (simp_all add: single_chain_id_def fed_getTransactionId_sol_def fed_chain_def sample_evm_def
      transfer_data_hash_def getTransactionDataHash_def claim_hash_def old_data_hash_def)

lemma sample_evm_simps [simp]:
  "ev_chainid sample_evm = 5" "ev_this sample_evm = 8" "tok_decimals sample_evm a w = Some 18"
  "tok_transfer sample_evm a b x w = (Inr (), w)"
  by (simp_all add: sample_evm_def)

lemma sample_fed_simps [simp]:
  "isContract sample_fed_chain a" "chainid sample_fed_chain = 5"
  "ta_destinationChainId sample_transfer = 5"
  "bridge_acceptTransfer sample_fed_chain 8 t b = transact (br_acceptTransfer sample_evm (fed_msg 50) t) b"
  by (simp_all add: fed_chain_def sample_transfer_def) (simp add: sample_evm_def)

lemma system_created:
  "transact (fed_exec sample_fed_chain (sender_msg 3) (FInitialize [1] 1 8 3)) (blank_federation sample_bridge_state)
     = (Inr (), sample_system)"
  by (simp add: transact_def fed_initialize_def validRequirement_def initialize_member_def setBridge_body_def
      bnd_def blank_federation_def sample_system_def MAX_MEMBER_COUNT_def)

lemma bridge_accepts:
  "transact (br_acceptTransfer sample_evm (fed_msg 50) sample_transfer) sample_bridge_state = (Inr (), bridge_accepted)"
  by (simp add: transact_def br_acceptTransfer_def bnd_def whenNotPaused_def fed_msg_def sample_bridge_state_def
      checkChainId_def shouldBeCurrentChainId_def knownToken_def isClaimed_def Let_def bridge_accepted_def
      del: fun_upd_apply) (simp add: sample_transfer_def)

lemma system_votes:
  "transact (fed_exec sample_fed_chain (sender_msg 1) (FVote sample_transfer)) sample_system = (Inr (), system_accepted)"
  by (simp add: vote_eval) (simp add: sample_system_def blank_federation_def bridge_accepts system_accepted_def
      sender_msg_def getMinimalNumberOfVotes_def member_count_def word_le_nat_alt sample_transfer_def [symmetric])

lemma bridge_pays:
  "transact (bridge_exec sample_evm (sender_msg 2) (BClaim sample_claim)) bridge_accepted = (Inr (), bridge_paid)"
  by (simp add: transact_def ignoring_def claim_def claim_body_def bnd_def bridge_accepted_def sample_bridge_state_def
      bridge_paid_def sample_payout_def sample_claim_def isClaimed_def Let_def claimCross_def checkChainId_def
      knownToken_def claimCrossBackToToken_def lib_getDecimals_def pow10_missing_def sm_div_def sm_sub_def xrun_def
      word_le_nat_alt)

lemma sample_sys_reachable:
  "sample_sys_reachable sample_system" "sample_sys_reachable system_accepted"
  "sample_sys_reachable (system_accepted\<lparr>fd_world := bridge_paid\<rparr>)"
proof -
  have b: "fresh_bridge 50 sample_bridge_state"
    by (simp add: fresh_bridge_def accept_view_def sample_bridge_state_def)
  have m: "msg_sender (sender_msg 3) \<noteq> 0" "msg_sender (sender_msg 1) \<noteq> 0"
      "msg_sender (sender_msg 2) \<notin> {0, 50, ev_this sample_evm}"
    by (simp_all add: sender_msg_def)
  show r: "sample_sys_reachable sample_system" by (rule fed [OF start [OF b] m(1) system_created])
  show a: "sample_sys_reachable system_accepted" by (rule fed [OF r m(2) system_votes])
  have "fd_world system_accepted = bridge_accepted" by (simp add: system_accepted_def)
  then show "sample_sys_reachable (system_accepted\<lparr>fd_world := bridge_paid\<rparr>)"
    using bridge [OF a m(3), of "BClaim sample_claim" "Inr ()" bridge_paid] bridge_pays by simp
qed




definition bridge_crossed :: "unit bridge_state" where
  "bridge_crossed = bridge_accepted\<lparr>
     knownTokenByChain := (knownTokenByChain bridge_accepted)(31 := (knownTokenByChain bridge_accepted 31)(5 := True)),
     allow_at := (\<lambda>_. sample_allow)(40 := sample_after 90000 60),
     br_crosses := [\<lparr>xl_token = 5, xl_to = ''H'', xl_destinationChainId = 31, xl_from = 11, xl_originChainId = 5,
       xl_amount = 60, xl_fee = 0\<rparr>]\<rparr>"

lemma sample_crossing:
  "crossTokens sample_evm (sample_bridge 90000) 5 11 ''H'' 60 31 (fd_world system_accepted) = (Inr (), bridge_crossed)"
proof -
  have m: "(sample_bridge 90000)\<lparr>msg_sender := 8\<rparr> = sample_bridge 90000" by (simp add: sample_bridge_def)
  have a: "updateTokenTransfer (sample_bridge 90000) 5 60 sample_allow = (Inr (), sample_after 90000 60)"
    using sample_transfer by (simp add: transfer_tx_def transact_Inr)
  show ?thesis
    by (simp add: crossTokens_def whenNotUpgrading_def whenNotPaused_def bnd_def system_accepted_def bridge_accepted_def
      sample_bridge_state_def bridge_crossed_def checkChainId_def setKnownTokenByChain_def sm_mul_def sm_div_def
      feePercentageDivider_def sm_sub_def lib_getDecimals_def on_allow_def m a getOriginalTokenBySideToken_def
      notNullToken_def xrun_def word_le_nat_alt Let_def DEAD_ADDRESS_def)
qed


end
