(* ===== verification/Amounts.thy ===== *)
theory Amounts
  imports BridgeSystem Utils
begin

text \<open>
  What a transfer is worth on its way. The bridge records the amount of a crossing as it was sent, the
  federator turns it into hundredths for Hathor (\<open>convertToHathorDecimals\<close>) and back into 18 decimals for
  the vote (\<open>convertToEvmDecimals\<close>), and \<open>_claimCross\<close> of Bridge.sol turns the voted amount into the
  decimals of a token it holds, or mints it in the granularity of a side token. This theory states what a
  claim pays and to whom, and follows an amount from a crossing to the claim of the way back.
\<close>

section \<open>What a claim owes\<close>

definition side_token_of :: "'w bridge_state \<Rightarrow> uint256 \<Rightarrow> address \<Rightarrow> address" where
  "side_token_of s chain token =
     (if sideTokenByOriginalTokenByChain s chain token \<noteq> 0 then sideTokenByOriginalTokenByChain s chain token
      else deprecatedMappedTokens s token)"

definition decimals_of :: "'w evm \<Rightarrow> 'w bridge_state \<Rightarrow> address \<Rightarrow> nat" where
  "decimals_of E s token = unat (ucast (the (tok_decimals E token (br_world s))) :: 8 word)"

text \<open>A token of this chain is scaled down from 18 decimals, a side token is scaled up by its granularity.\<close>

definition amount_due :: "'w evm \<Rightarrow> 'w bridge_state \<Rightarrow> uint256 \<Rightarrow> address \<Rightarrow> uint256 \<Rightarrow> nat" where
  "amount_due E s chain token amt =
     (if knownToken s chain token then unat amt div 10 ^ (18 - decimals_of E s token)
      else unat amt * unat (the (tok_granularity E (side_token_of s chain token) (br_world s))))"

text \<open>One payment: the wrapped currency is sent, another token of this chain transferred, a side token minted.\<close>

definition pay :: "'w evm \<Rightarrow> 'w bridge_state \<Rightarrow> uint256 \<Rightarrow> address \<Rightarrow> address \<Rightarrow> uint256 \<Rightarrow> ('w, unit) xcall" where
  "pay E s chain token =
     (if \<not> knownToken s chain token then tok_mint E (side_token_of s chain token)
      else if wrapped s = token then send_value E else tok_transfer E token)"

text \<open>The fee is only paid when there is one.\<close>

definition fee_paid :: "('w, unit) xcall \<Rightarrow> uint256 \<Rightarrow> 'w \<Rightarrow> 'w \<Rightarrow> bool" where
  "fee_paid c fee w w' \<longleftrightarrow> (if fee > 0 then c w = (Inr (), w') else w' = w)"

text \<open>The receiver is paid, then the relayer's fee unless it is zero; the wrapped currency is unwrapped before.\<close>

definition paid ::
    "'w evm \<Rightarrow> 'w bridge_state \<Rightarrow> uint256 \<Rightarrow> address \<Rightarrow> address \<Rightarrow> uint256 \<Rightarrow> address \<Rightarrow> uint256 \<Rightarrow> 'w \<Rightarrow> 'w \<Rightarrow> bool" where
  "paid E s chain token receiver received relayer fee w w' \<longleftrightarrow>
     (\<exists>u v. (if knownToken s chain token \<and> wrapped s = token
             then wrapped_withdraw E token (received + fee) w = (Inr (), u) else u = w)
        \<and> pay E s chain token receiver received u = (Inr (), v)
        \<and> fee_paid (pay E s chain token relayer fee) fee v w')"

lemma xrun_Inr_iff: "xrun c s = (Inr a, t) \<longleftrightarrow> (\<exists>w. c (br_world s) = (Inr a, w) \<and> t = s\<lparr>br_world := w\<rparr>)"
  by (auto simp: xrun_def split: prod.splits)

lemma fee_xrun_Inr:
  "(if fee > 0 then xrun c else ret ()) s = (Inr (), t) \<longleftrightarrow>
   (\<exists>w. fee_paid c fee (br_world s) w \<and> t = s\<lparr>br_world := w\<rparr>)"
  by (auto simp: xrun_Inr_iff fee_paid_def intro: exI [of _ "br_world s"])

lemma same_world [simp]: "s\<lparr>br_world := br_world s\<rparr> = s"
  by simp

lemma rest_is_fee: "fee \<le> f \<Longrightarrow> unat (f - fee :: uint256) + unat fee = unat f" "f - fee + fee = (f :: uint256)"
  by (simp_all add: unat_sub word_le_nat_alt)

lemma claimCrossToSideToken_Inr:
  assumes "claimCrossToSideToken E a receiver amt relayer fee s = (Inr r, t)"
  shows "a \<noteq> 0 \<and> unat r + unat fee = unat amt * unat (the (tok_granularity E a (br_world s)))
    \<and> (\<exists>v w. tok_mint E a receiver r (br_world s) = (Inr (), v)
          \<and> fee_paid (tok_mint E a relayer fee) fee v w \<and> t = s\<lparr>br_world := w\<rparr>)"
  using assms unfolding claimCrossToSideToken_def
  by (elim bnd_InrE) (auto simp: sm_mul_Inr sm_sub_Inr xrun_Inr_iff fee_xrun_Inr rest_is_fee)

lemma claimCrossBackToToken_Inr:
  assumes "claimCrossBackToToken E a receiver amt relayer fee s = (Inr r, t)"
  shows "tok_decimals E a (br_world s) \<noteq> None \<and> decimals_of E s a \<le> 18
    \<and> unat r + unat fee = unat amt div 10 ^ (18 - decimals_of E s a)
    \<and> (\<exists>u v w. (if wrapped s = a then wrapped_withdraw E a (r + fee) (br_world s) = (Inr (), u) else u = br_world s)
        \<and> (if wrapped s = a then send_value E receiver r u else tok_transfer E a receiver r u) = (Inr (), v)
        \<and> fee_paid (if wrapped s = a then send_value E relayer fee else tok_transfer E a relayer fee) fee v w
        \<and> t = s\<lparr>br_world := w\<rparr>)"
proof -
  from assms obtain d where d: "tok_decimals E a (br_world s) = Some d" "(ucast d :: 8 word) \<le> 18"
    and fee: "fee \<le> amt div 10 ^ (18 - unat (ucast d :: 8 word))"
    and r: "r = amt div 10 ^ (18 - unat (ucast d :: 8 word)) - fee"
    and run: "(if wrapped s = a
          then bnd (xrun (wrapped_withdraw E a (r + fee))) (\<lambda>_.
               bnd (xrun (send_value E receiver r)) (\<lambda>_.
               if fee > 0 then xrun (send_value E relayer fee) else ret ()))
          else bnd (xrun (tok_transfer E a receiver r)) (\<lambda>_.
               if fee > 0 then xrun (tok_transfer E a relayer fee) else ret ())) s = (Inr (), t)"
    unfolding claimCrossBackToToken_def
    by (elim bnd_InrE) (clarsimp simp: lib_getDecimals_Inr pow10_missing_Inr sm_div_Inr sm_sub_Inr rest_is_fee
        split: if_splits)
  have "unat r + unat fee = unat amt div 10 ^ (18 - unat (ucast d :: 8 word))"
    unfolding r by (simp add: rest_is_fee(1) [OF fee] unat_div pow10_bound)
  moreover have "unat (ucast d :: 8 word) \<le> 18" using d(2) by (simp add: word_le_nat_alt)
  ultimately show ?thesis
    using run d by (cases "wrapped s = a") (auto simp: decimals_of_def bnd_eq_Inr_iff xrun_Inr_iff fee_xrun_Inr)
qed

lemma claimCross_Inr:
  assumes "claimCross E chain token receiver amt relayer fee s = (Inr r, t)"
  shows "unat r + unat fee = amount_due E s chain token amt
    \<and> paid E s chain token receiver r relayer fee (br_world s) (br_world t) \<and> t = s\<lparr>br_world := br_world t\<rparr>"
proof (cases "knownToken s chain token")
  case True
  then have "claimCrossBackToToken E token receiver amt relayer fee s = (Inr r, t)"
    using assms by (auto simp: claimCross_def checkChainId_def bnd_eq_Inr_iff)
  from claimCrossBackToToken_Inr [OF this] True show ?thesis
    by (cases "wrapped s = token") (auto simp: amount_due_def paid_def pay_def)
next
  case False
  have side: "u = s \<and> a = side_token_of s chain token" if "br_sideTokenByOriginalToken chain token s = (Inr a, u)" for a u
    using that by (auto simp: br_sideTokenByOriginalToken_def notNullToken_def side_token_of_def bnd_eq_Inr_iff
        split: if_splits)
  have "claimCrossToSideToken E (side_token_of s chain token) receiver amt relayer fee s = (Inr r, t)"
    using assms False by (auto simp: claimCross_def checkChainId_def bnd_eq_Inr_iff dest!: side)
  from claimCrossToSideToken_Inr [OF this] False show ?thesis
    by (auto simp: amount_due_def paid_def pay_def)
qed

text \<open>What is owed, and how it is paid, does not depend on nonces and claims.\<close>

lemma money_view [simp]:
  "amount_due E (s\<lparr>claimed := c\<rparr>) = amount_due E s" "paid E (s\<lparr>claimed := c\<rparr>) = paid E s"
  "amount_due E (s\<lparr>br_nonces := n\<rparr>) = amount_due E s" "paid E (s\<lparr>br_nonces := n\<rparr>) = paid E s"
  by (simp_all add: fun_eq_iff amount_due_def paid_def pay_def knownToken_def side_token_of_def decimals_of_def)

lemma claim_body_pays:
  assumes "claim_body E c receiver relayer fee s = (Inr r, t)"
  shows "\<exists>p. br_claims t = br_claims s @ [p] \<and> cl_claim p = c \<and> cl_receiver p = receiver \<and> cl_relayer p = relayer
    \<and> cl_fee p = fee \<and> cl_received p = r
    \<and> unat r + unat fee = amount_due E s (cd_originChainId c) (cl_token p) (cd_amount c)
    \<and> paid E s (cd_originChainId c) (cl_token p) receiver r relayer fee (br_world s) (br_world t)"
proof -
  let ?tok = "originalTokenAddresses s (cd_transactionHash c)"
  let ?u = "s\<lparr>claimed := (claimed s)(claim_hash E c := True)\<rparr>"
  obtain v where run: "claimCross E (cd_originChainId c) ?tok receiver (cd_amount c) relayer fee ?u = (Inr r, v)"
    and t: "t = v\<lparr>br_claims := br_claims v @ [\<lparr>cl_claim = c, cl_token = ?tok, cl_receiver = receiver,
      cl_relayer = relayer, cl_fee = fee, cl_received = r\<rparr>]\<rparr>"
    using assms by (auto simp: claim_body_def bnd_eq_Inr_iff Let_def)
  from claimCross_Inr [OF run] have v: "v = ?u\<lparr>br_world := br_world v\<rparr>"
    and m: "unat r + unat fee = amount_due E s (cd_originChainId c) ?tok (cd_amount c)"
      "paid E s (cd_originChainId c) ?tok receiver r relayer fee (br_world s) (br_world v)" by simp_all
  from v have "br_claims v = br_claims s" by (cases v) simp
  then show ?thesis using m by (simp add: t)
qed

text \<open>The digest the receiver signs for a claim that someone else sends in.\<close>

definition claim_digest :: "'w evm \<Rightarrow> 'w bridge_state \<Rightarrow> claim_data \<Rightarrow> address \<Rightarrow> uint256 \<Rightarrow> uint256 \<Rightarrow> uint256" where
  "claim_digest E s c relayer fee deadline = hashEIP712Message E (domainSeparator s)
     (ev_keccak E [PBytes32 CLAIM_TYPEHASH, PUint256 (ucast (cd_to c)), PUint256 (cd_amount c),
        PBytes32 (cd_transactionHash c), PUint256 (cd_originChainId c), PUint256 (ucast relayer),
        PUint256 fee, PUint256 (br_nonces s (cd_to c)), PUint256 deadline])"

definition fee_signed :: "'w evm \<Rightarrow> 'w bridge_state \<Rightarrow> msg \<Rightarrow> bridge_call \<Rightarrow> claimed_log \<Rightarrow> bool" where
  "fee_signed E s m call p \<longleftrightarrow>
     (\<exists>deadline v r x. call = BClaimGasless (cl_claim p) (cl_relayer p) (cl_fee p) deadline v r x
        \<and> block_timestamp m \<le> deadline \<and> cl_receiver p = cd_to (cl_claim p) \<and> cd_to (cl_claim p) \<noteq> 0
        \<and> ev_ecrecover E (claim_digest E s (cl_claim p) (cl_relayer p) (cl_fee p) deadline) v r x = cd_to (cl_claim p))"

lemma getDigest_Inr:
  "getDigest E c relayer fee deadline s = (Inr d, u) \<Longrightarrow>
   d = claim_digest E s c relayer fee deadline
   \<and> u = s\<lparr>br_nonces := (br_nonces s)(cd_to c := br_nonces s (cd_to c) + 1)\<rparr>"
  by (auto simp: getDigest_def claim_digest_def bnd_eq_Inr_iff)

text \<open>
  C18: a claim that succeeds, sent by the receiver, by the sender of the transfer or by a relayer,
  adds one payout, and what the receiver and the relayer get adds up to what the transfer is worth in
  the token paid: the voted amount without the decimals the token lacks, or times the granularity of
  the side token. The token contracts are called for these payments and for nothing else, and a fee is
  only taken when the receiver signed it, for this claim, this relayer and this nonce, in time.
\<close>

theorem claims_pay_in_full:
  assumes "bridge_exec E m call s = (Inr (), t)" and "is_claim call"
  shows "\<exists>p. br_claims t = br_claims s @ [p]
    \<and> unat (cl_received p) + unat (cl_fee p)
       = amount_due E s (cd_originChainId (cl_claim p)) (cl_token p) (cd_amount (cl_claim p))
    \<and> paid E s (cd_originChainId (cl_claim p)) (cl_token p) (cl_receiver p) (cl_received p) (cl_relayer p) (cl_fee p)
        (br_world s) (br_world t)
    \<and> (cl_fee p = 0 \<or> fee_signed E s m call p)"
proof -
  from assms(2) consider (claim) c where "call = BClaim c" | (fallback) c where "call = BClaimFallback c"
    | (gasless) c a f d v r x where "call = BClaimGasless c a f d v r x"
    by (cases call) auto
  then show ?thesis
  proof cases
    case claim
    then obtain r where "claim_body E c (cd_to c) 0 0 s = (Inr r, t)"
      using assms(1) by (auto simp: ignoring_def claim_def bnd_eq_Inr_iff)
    from claim_body_pays [OF this] show ?thesis by auto
  next
    case fallback
    then obtain r where "claim_body E c (msg_sender m) 0 0 s = (Inr r, t)"
      using assms(1) by (auto simp: ignoring_def claimFallback_def bnd_eq_Inr_iff)
    from claim_body_pays [OF this] show ?thesis by auto
  next
    case gasless
    then obtain dg u y where u: "getDigest E c a f d s = (Inr dg, u)" "claim_body E c (cd_to c) a f u = (Inr y, t)"
      and sig: "block_timestamp m \<le> d" "cd_to c \<noteq> 0" "ev_ecrecover E dg v r x = cd_to c"
      using assms(1) by (auto simp: ignoring_def claimGasless_def bnd_eq_Inr_iff Let_def)
    from getDigest_Inr [OF u(1)] claim_body_pays [OF u(2)] sig show ?thesis
      by (auto simp: fee_signed_def gasless)
  qed
qed

section \<open>There and back\<close>

text \<open>What the federator votes on the way back is the amount Hathor got, in hundredths.\<close>

lemma hathor_amount:
  assumes "convertToHathorDecimals (show_nat a) (int d) = Inr n" and "a div 10 ^ (d - 2) < 2 ^ 53"
  shows "n = int (a div 10 ^ (d - 2))"
proof (cases "2 \<le> d")
  case True
  then show ?thesis
    using assms by (auto simp: convertToHathorDecimals_floor js_double_exact split: if_splits)
next
  case False
  have "js_substring (show_nat a) 0 (int (length (show_nat a)) - (int d - 2)) = show_nat a"
    using False by (simp add: js_substring_0)
  then show ?thesis
    using assms False by (auto simp: convertToHathorDecimals_def Let_def parse_int_show_nat js_double_exact split: if_splits)
qed

lemma unat_of_hundredths:
  assumes "h < 2 ^ 53"
  shows "unat (word_of_int (int h * 10 ^ 16) :: uint256) = h * 10 ^ 16"
proof -
  have b: "h * 10 ^ 16 < 2 ^ 256" using assms by simp
  have "unat (of_nat (h * 10 ^ 16) :: uint256) = h * 10 ^ 16 mod 2 ^ LENGTH(256)" by (rule unat_of_nat)
  also have "\<dots> = h * 10 ^ 16" using b by simp
  finally show ?thesis by simp
qed

text \<open>18 decimals, less those the token lacks: all of them kept, unless the token has fewer than two.\<close>

lemma scaled_back:
  assumes "d \<le> 18"
  shows "h * 10 ^ 16 div 10 ^ (18 - d) = (if 2 \<le> d then h * 10 ^ (d - 2) else h div 10 ^ (2 - d) :: nat)"
proof (cases "2 \<le> d")
  case True
  then have p: "(10::nat) ^ 16 = 10 ^ (d - 2) * 10 ^ (18 - d)" using assms by (simp flip: power_add)
  show ?thesis unfolding p mult.assoc [symmetric] using True by simp
next
  case False
  then have "18 - d = (2 - d) + 16" by simp
  then have p: "(10::nat) ^ (18 - d) = 10 ^ (2 - d) * 10 ^ 16" by (simp only: power_add)
  show ?thesis unfolding p using False by simp
qed

text \<open>
  C19: a token of this chain that crossed to Hathor is known for the way back. When its whole Hathor
  amount returns, the vote carries that amount in 18 decimals, and the claim pays, with the fee of the
  relayer, what had crossed less the digits beyond the two of Hathor: never more, and less than one
  hundredth of a token is lost. A token with fewer than two decimals is the exception: it is not scaled
  on the way out, so only a tenth or a hundredth of the amount comes back.
\<close>

theorem tokens_return:
  assumes "crossTokens E m token sender to amt dest s = (Inr (), t)" and "\<not> is_side_token s token"
    and "br_crosses t = br_crosses s @ [x]" and "d = decimals_of E s token"
    and "convertToHathorDecimals (show_int (uint (xl_amount x))) (int d) = Inr n"
    and "unat (xl_amount x) div 10 ^ (d - 2) < 2 ^ 53"
    and "convertToEvmDecimals (Some n) = Some v" and "knownToken u dest token"
    and "tok_decimals E token (br_world u) = tok_decimals E token (br_world s)"
    and "claimCross E dest (xl_token x) receiver (word_of_int v) relayer fee u = (Inr r, u')"
  shows "knownToken t dest (xl_token x)
    \<and> unat r + unat fee = (if 2 \<le> d then unat (xl_amount x) - unat (xl_amount x) mod 10 ^ (d - 2)
                        else unat (xl_amount x) div 10 ^ (2 - d))
    \<and> unat r + unat fee \<le> unat (xl_amount x) \<and> (2 \<le> d \<longrightarrow> unat (xl_amount x) < unat r + unat fee + 10 ^ (d - 2))"
proof -
  let ?a = "unat (xl_amount x)"
  let ?h = "?a div 10 ^ (d - 2)"
  have x: "knownToken t dest token" "xl_token x = token" "d \<le> 18"
    using crossTokens_Inr [OF assms(1)] assms(2,3,4) by (auto simp: decimals_of_def word_le_nat_alt)
  have "show_int (uint (xl_amount x)) = show_nat ?a" using show_int_of_nat [of ?a] by simp
  then have n: "n = int ?h" using hathor_amount [of ?a d n] assms(5,6) by simp
  have v: "unat (word_of_int v :: uint256) = ?h * 10 ^ 16"
    using assms(7) unat_of_hundredths [OF assms(6)] by (simp add: convertToEvmDecimals_def n)
  have "unat r + unat fee = ?h * 10 ^ 16 div 10 ^ (18 - d)"
    using claimCross_Inr [OF assms(10)] assms(4,8,9) v by (simp add: amount_due_def x(2) decimals_of_def)
  then have sum: "unat r + unat fee = (if 2 \<le> d then ?a - ?a mod 10 ^ (d - 2) else ?a div 10 ^ (2 - d))"
    using scaled_back [OF x(3)] by (simp add: minus_mod_eq_div_mult)
  moreover have "?a < ?a - ?a mod 10 ^ (d - 2) + 10 ^ (d - 2)"
    using dividend_less_div_times [of "10 ^ (d - 2)" ?a] by (simp add: minus_mod_eq_div_mult add.commute)
  ultimately show ?thesis using x by (simp add: div_le_dividend)
qed

section \<open>Amounts at work\<close>

text \<open>A relayer, address 20, sends a claim of 100 with a fee of 30 that the receiver signed.\<close>

definition signing_evm :: "unit evm" where
  "signing_evm = sample_evm\<lparr>ev_ecrecover := (\<lambda>_ _ _ _. 12)\<rparr>"

definition relayed_payout :: claimed_log where
  "relayed_payout = sample_payout\<lparr>cl_relayer := 20, cl_fee := 30, cl_received := 70\<rparr>"

lemma signing_evm_simps [simp]:
  "ev_chainid signing_evm = 5" "tok_decimals signing_evm a w = Some 18" "ev_ecrecover signing_evm d v r x = 12"
  "tok_transfer signing_evm a b y w = (Inr (), w)" "ev_keccak signing_evm xs = of_nat (length xs)"
  by (simp_all add: signing_evm_def sample_evm_def)

lemma relayed_claim:
  "bridge_exec signing_evm (sender_msg 20) (BClaimGasless sample_claim 20 30 0 27 1 2) bridge_accepted
     = (Inr (), bridge_paid\<lparr>br_nonces := (\<lambda>_. 0)(12 := 1), br_claims := [relayed_payout]\<rparr>)"
  by (simp add: ignoring_def claimGasless_def getDigest_def claim_body_def bnd_def bridge_accepted_def
      sample_bridge_state_def bridge_paid_def relayed_payout_def sample_payout_def sample_claim_def sender_msg_def
      isClaimed_def Let_def claimCross_def checkChainId_def knownToken_def claimCrossBackToToken_def
      lib_getDecimals_def pow10_missing_def sm_div_def sm_sub_def xrun_def word_le_nat_alt claim_hash_def
      getTransactionDataHash_def old_data_hash_def)

theorem claims_pay_in_full_witness:
  "fee_signed signing_evm bridge_accepted (sender_msg 20) (BClaimGasless sample_claim 20 30 0 27 1 2) relayed_payout
    \<and> amount_due signing_evm bridge_accepted 31 10 100 = 100"
  using claims_pay_in_full [OF relayed_claim]
  by (simp add: bridge_accepted_def sample_bridge_state_def relayed_payout_def sample_payout_def sample_claim_def)

text \<open>1.539... of a token with 18 decimals crosses to Hathor; 1.53 come back.\<close>

definition wide_allow :: "uint256 \<Rightarrow> uint256 \<Rightarrow> allow_tokens" where
  "wide_allow spent day = (sample_after day spent)\<lparr>typeLimits := (\<lambda>_. zero_limits)(0 := \<lparr>l_min = 1, l_max = 10 ^ 20,
     l_daily = 10 ^ 20, l_mediumAmount = 2, l_largeAmount = 3\<rparr>)\<rparr>"

definition before_crossing :: "unit bridge_state" where
  "before_crossing = sample_bridge_state\<lparr>allow_at := (\<lambda>_. wide_allow 0 0)\<rparr>"

definition after_crossing :: "unit bridge_state" where
  "after_crossing = before_crossing\<lparr>
     knownTokenByChain := (knownTokenByChain before_crossing)(31 := (knownTokenByChain before_crossing 31)(5 := True)),
     allow_at := (\<lambda>_. wide_allow 0 0)(40 := wide_allow 1539999999999999999 90000),
     br_crosses := [\<lparr>xl_token = 5, xl_to = ''H'', xl_destinationChainId = 31, xl_from = 11, xl_originChainId = 5,
       xl_amount = 1539999999999999999, xl_fee = 0\<rparr>]\<rparr>"

lemma crossing_out:
  "crossTokens sample_evm (sample_bridge 90000) 5 11 ''H'' 1539999999999999999 31 before_crossing
     = (Inr (), after_crossing)"
proof -
  have m: "(sample_bridge 90000)\<lparr>msg_sender := 8\<rparr> = sample_bridge 90000" by (simp add: sample_bridge_def)
  have "transfer_tx (sample_bridge 90000) 5 1539999999999999999 (wide_allow 0 0)
      = (Inr (), wide_allow 1539999999999999999 90000)"
    by (simp add: transfer_eval wide_allow_def)
  then have a: "updateTokenTransfer (sample_bridge 90000) 5 1539999999999999999 (wide_allow 0 0)
      = (Inr (), wide_allow 1539999999999999999 90000)" by (simp add: transfer_tx_def transact_Inr)
  show ?thesis
    by (simp add: crossTokens_def whenNotUpgrading_def whenNotPaused_def bnd_def before_crossing_def
      sample_bridge_state_def after_crossing_def checkChainId_def setKnownTokenByChain_def sm_mul_def sm_div_def
      feePercentageDivider_def sm_sub_def lib_getDecimals_def on_allow_def m a getOriginalTokenBySideToken_def
      notNullToken_def xrun_def word_le_nat_alt Let_def DEAD_ADDRESS_def)
qed

lemma crossing_back:
  "claimCross sample_evm 31 5 12 (word_of_int 1530000000000000000) 20 10000000000000000 after_crossing
     = (Inr 1520000000000000000, after_crossing)"
  by (simp add: claimCross_def bnd_def checkChainId_def knownToken_def after_crossing_def before_crossing_def
      sample_bridge_state_def claimCrossBackToToken_def lib_getDecimals_def pow10_missing_def sm_div_def sm_sub_def
      xrun_def word_le_nat_alt Let_def)

theorem tokens_return_witness:
  "knownToken after_crossing 31 5 \<and> (1539999999999999999 :: nat) < 1520000000000000000 + 10000000000000000 + 10 ^ 16"
proof -
  have h: "convertToHathorDecimals (show_int 1539999999999999999) (int 18) = Inr 153"
    using convertToHathorDecimals_floor [of 18 1539999999999999999] show_int_of_nat [of 1539999999999999999]
    by (simp add: js_double_exact)
  show ?thesis
    using tokens_return [OF crossing_out, of "last (br_crosses after_crossing)" 18 153 1530000000000000000 after_crossing
        12 20 10000000000000000 1520000000000000000 after_crossing] h crossing_back
    by (simp add: is_side_token_def after_crossing_def before_crossing_def sample_bridge_state_def decimals_of_def
        convertToEvmDecimals_def knownToken_def)
qed

end
