(* ===== verification/WalletContract.thy ===== *)
theory WalletContract
  imports FederationContract
begin

text \<open>
  The contract MultiSigWallet.sol, which owns the other contracts: its owners submit and confirm
  transactions, and with enough confirmations the wallet calls their destination. The destination may
  be the wallet itself, which is how owners and the requirement change; such calls nest, and a call
  below the depth limit of the EVM fails, so the depth bounds the recursion. Other contracts are a
  parameter and do not call back. \<open>wa_decode\<close> stands for the dispatch on the first four bytes of the data.
  The field \<open>ms_executions\<close> is the log of the event Execution, with a snapshot of the confirmations
  taken when the call was made.
\<close>

section \<open>Storage\<close>

record wallet_tx =
  tx_destination :: address
  tx_value :: uint256
  tx_data :: string
  tx_executed :: bool

record execution =
  ex_id :: uint256
  ex_confirmers :: "address set"
  ex_required :: uint256

record 'w wallet_state =
  ms_transactions :: "uint256 \<Rightarrow> wallet_tx"
  ms_confirmations :: "uint256 \<Rightarrow> address \<Rightarrow> bool"
  ms_isOwner :: "address \<Rightarrow> bool"
  ms_owners :: "address list"
  ms_required :: uint256
  ms_count :: uint256
  ms_executions :: "execution list"
  ms_world :: 'w

datatype wallet_op =
    AddOwner address
  | RemoveOwner address
  | ReplaceOwner address address
  | ChangeRequirement uint256
  | SubmitTransaction address uint256 string
  | ConfirmTransaction uint256
  | RevokeConfirmation uint256
  | ExecuteTransaction uint256

record 'w wallet_env =
  wa_this :: address
  wa_decode :: "string \<Rightarrow> wallet_op option"
  wa_call :: "address \<Rightarrow> uint256 \<Rightarrow> string \<Rightarrow> 'w \<Rightarrow> bool \<times> 'w"

type_synonym ('w, 'a) wsol = "('w wallet_state, 'a) comp"
type_synonym 'w caller = "address \<Rightarrow> uint256 \<Rightarrow> string \<Rightarrow> 'w wallet_state \<Rightarrow> bool \<times> 'w wallet_state"

definition MAX_OWNER_COUNT :: nat where
  "MAX_OWNER_COUNT = 50"

definition blank_tx :: wallet_tx where
  "blank_tx = \<lparr>tx_destination = 0, tx_value = 0, tx_data = [], tx_executed = False\<rparr>"

definition blank_wallet :: "'w \<Rightarrow> 'w wallet_state" where
  "blank_wallet w =
     \<lparr>ms_transactions = (\<lambda>_. blank_tx), ms_confirmations = (\<lambda>_ _. False), ms_isOwner = (\<lambda>_. False),
      ms_owners = [], ms_required = 0, ms_count = 0, ms_executions = [], ms_world = w\<rparr>"

section \<open>Modifiers and owners\<close>

definition onlyWallet :: "'w wallet_env \<Rightarrow> address \<Rightarrow> ('w, 'a) wsol \<Rightarrow> ('w, 'a) wsol" where
  "onlyWallet E sender c = bnd (require (sender = wa_this E) ''Only wallet allowed'') (\<lambda>_. c)"

definition ownerDoesNotExist :: "address \<Rightarrow> ('w, 'a) wsol \<Rightarrow> ('w, 'a) wsol" where
  "ownerDoesNotExist a c = bnd (gets (\<lambda>s. ms_isOwner s a)) (\<lambda>b.
     bnd (require (\<not> b) ''The owner already exists'') (\<lambda>_. c))"

definition ownerExists :: "address \<Rightarrow> ('w, 'a) wsol \<Rightarrow> ('w, 'a) wsol" where
  "ownerExists a c = bnd (gets (\<lambda>s. ms_isOwner s a)) (\<lambda>b.
     bnd (require b ''The owner does not exist'') (\<lambda>_. c))"

definition confirmed :: "uint256 \<Rightarrow> address \<Rightarrow> ('w, 'a) wsol \<Rightarrow> ('w, 'a) wsol" where
  "confirmed i a c = bnd (gets (\<lambda>s. ms_confirmations s i a)) (\<lambda>b.
     bnd (require b ''Transaction is not confirmed by owner'') (\<lambda>_. c))"

definition notExecuted :: "uint256 \<Rightarrow> ('w, 'a) wsol \<Rightarrow> ('w, 'a) wsol" where
  "notExecuted i c = bnd (gets (\<lambda>s. tx_executed (ms_transactions s i))) (\<lambda>b.
     bnd (require (\<not> b) ''Transaction was already executed'') (\<lambda>_. c))"

definition wa_validRequirement :: "nat \<Rightarrow> uint256 \<Rightarrow> ('w, 'a) wsol \<Rightarrow> ('w, 'a) wsol" where
  "wa_validRequirement n req c =
     bnd (require (n \<le> MAX_OWNER_COUNT \<and> unat req \<le> n \<and> req \<noteq> 0 \<and> n \<noteq> 0)
       ''Required value is invalid for the current owners count'') (\<lambda>_. c)"

definition construct_owner :: "address \<Rightarrow> ('w, unit) wsol" where
  "construct_owner a =
     bnd (gets (\<lambda>s. \<not> ms_isOwner s a \<and> a \<noteq> 0)) (\<lambda>ok.
     bnd (require ok ''Owners addresses are invalid'') (\<lambda>_.
     modify (\<lambda>s. s\<lparr>ms_isOwner := (ms_isOwner s)(a := True)\<rparr>)))"

definition wallet_constructor :: "address list \<Rightarrow> uint256 \<Rightarrow> ('w, unit) wsol" where
  "wallet_constructor os req = wa_validRequirement (length os) req
     (bnd (for_each construct_owner os) (\<lambda>_.
      modify (\<lambda>s. s\<lparr>ms_owners := os, ms_required := req\<rparr>)))"

definition addOwner :: "'w wallet_env \<Rightarrow> address \<Rightarrow> address \<Rightarrow> ('w, unit) wsol" where
  "addOwner E sender a = onlyWallet E sender (ownerDoesNotExist a
     (bnd (require (a \<noteq> 0) ''Address cannot be empty'') (\<lambda>_.
      bnd (gets (\<lambda>s. (length (ms_owners s) + 1, ms_required s))) (\<lambda>(n, req).
      wa_validRequirement n req
        (modify (\<lambda>s. s\<lparr>ms_isOwner := (ms_isOwner s)(a := True), ms_owners := ms_owners s @ [a]\<rparr>))))))"

definition wa_changeRequirement :: "'w wallet_env \<Rightarrow> address \<Rightarrow> uint256 \<Rightarrow> ('w, unit) wsol" where
  "wa_changeRequirement E sender req = onlyWallet E sender
     (bnd (gets (\<lambda>s. length (ms_owners s))) (\<lambda>n.
      wa_validRequirement n req (modify (\<lambda>s. s\<lparr>ms_required := req\<rparr>))))"

definition removeOwner :: "'w wallet_env \<Rightarrow> address \<Rightarrow> address \<Rightarrow> ('w, unit) wsol" where
  "removeOwner E sender a = onlyWallet E sender (ownerExists a
     (bnd (modify (\<lambda>s. s\<lparr>ms_isOwner := (ms_isOwner s)(a := False),
                         ms_owners := remove_from a (ms_owners s)\<rparr>)) (\<lambda>_.
      bnd (gets (\<lambda>s. (ms_required s, length (ms_owners s)))) (\<lambda>(req, n).
      if unat req > n then wa_changeRequirement E sender (of_nat n) else ret ()))))"

text \<open>Unlike \<open>addOwner\<close>, \<open>replaceOwner\<close> accepts the zero address.\<close>

definition replaceOwner :: "'w wallet_env \<Rightarrow> address \<Rightarrow> address \<Rightarrow> address \<Rightarrow> ('w, unit) wsol" where
  "replaceOwner E sender a b = onlyWallet E sender (ownerExists a (ownerDoesNotExist b
     (modify (\<lambda>s. s\<lparr>ms_owners := overwrite a b (ms_owners s),
                    ms_isOwner := (ms_isOwner s)(a := False, b := True)\<rparr>))))"

section \<open>Transactions\<close>

fun confirmed_loop :: "(address \<Rightarrow> bool) \<Rightarrow> uint256 \<Rightarrow> address list \<Rightarrow> uint256 \<Rightarrow> bool" where
  "confirmed_loop conf req [] n = False"
| "confirmed_loop conf req (a # as) n =
     (let n = (if conf a then n + 1 else n) in if n = req then True else confirmed_loop conf req as n)"

definition isConfirmed :: "'w wallet_state \<Rightarrow> uint256 \<Rightarrow> bool" where
  "isConfirmed s i = confirmed_loop (ms_confirmations s i) (ms_required s) (ms_owners s) 0"

definition addTransaction :: "address \<Rightarrow> uint256 \<Rightarrow> string \<Rightarrow> ('w, uint256) wsol" where
  "addTransaction dest val data =
     bnd (require (dest \<noteq> 0) ''Address cannot be empty'') (\<lambda>_.
     bnd (gets ms_count) (\<lambda>i.
     bnd (modify (\<lambda>s. s\<lparr>ms_transactions := (ms_transactions s)
            (i := \<lparr>tx_destination = dest, tx_value = val, tx_data = data, tx_executed = False\<rparr>)\<rparr>)) (\<lambda>_.
     bnd (checked_add i 1) (\<lambda>n.
     bnd (modify (\<lambda>s. s\<lparr>ms_count := n\<rparr>)) (\<lambda>_.
     ret i)))))"

definition set_executed :: "uint256 \<Rightarrow> bool \<Rightarrow> 'w wallet_state \<Rightarrow> 'w wallet_state" where
  "set_executed i b s = s\<lparr>ms_transactions := (ms_transactions s)(i := (ms_transactions s i)\<lparr>tx_executed := b\<rparr>)\<rparr>"

definition snapshot :: "'w wallet_state \<Rightarrow> uint256 \<Rightarrow> execution" where
  "snapshot s i = \<lparr>ex_id = i, ex_confirmers = {a \<in> set (ms_owners s). ms_confirmations s i a},
     ex_required = ms_required s\<rparr>"

definition run_transaction :: "'w caller \<Rightarrow> uint256 \<Rightarrow> ('w, unit) wsol" where
  "run_transaction call i s =
     (let txn = ms_transactions s i; u = set_executed i True s
      in case call (tx_destination txn) (tx_value txn) (tx_data txn) u of
           (True, t) \<Rightarrow> (Inr (), t\<lparr>ms_executions := ms_executions t @ [snapshot s i]\<rparr>)
         | (False, t) \<Rightarrow> (Inr (), set_executed i False t))"

definition executeTransaction :: "'w caller \<Rightarrow> address \<Rightarrow> uint256 \<Rightarrow> ('w, unit) wsol" where
  "executeTransaction call sender i = ownerExists sender (confirmed i sender (notExecuted i
     (bnd (gets (\<lambda>s. isConfirmed s i)) (\<lambda>ok. if ok then run_transaction call i else ret ()))))"

definition confirmTransaction :: "'w caller \<Rightarrow> address \<Rightarrow> uint256 \<Rightarrow> ('w, unit) wsol" where
  "confirmTransaction call sender i = ownerExists sender
     (bnd (gets (\<lambda>s. (tx_destination (ms_transactions s i), ms_confirmations s i sender))) (\<lambda>(dest, old).
      bnd (require (dest \<noteq> 0) ''Transaction does not exist'') (\<lambda>_.
      bnd (require (\<not> old) ''Transaction is already confirmed by owner'') (\<lambda>_.
      bnd (modify (\<lambda>s. s\<lparr>ms_confirmations := (ms_confirmations s)
             (i := (ms_confirmations s i)(sender := True))\<rparr>)) (\<lambda>_.
      executeTransaction call sender i)))))"

definition submitTransaction :: "'w caller \<Rightarrow> address \<Rightarrow> address \<Rightarrow> uint256 \<Rightarrow> string \<Rightarrow> ('w, unit) wsol" where
  "submitTransaction call sender dest val data =
     bnd (addTransaction dest val data) (\<lambda>i. confirmTransaction call sender i)"

definition revokeConfirmation :: "address \<Rightarrow> uint256 \<Rightarrow> ('w, unit) wsol" where
  "revokeConfirmation sender i = ownerExists sender (confirmed i sender (notExecuted i
     (modify (\<lambda>s. s\<lparr>ms_confirmations := (ms_confirmations s)
        (i := (ms_confirmations s i)(sender := False))\<rparr>))))"

fun wallet_exec :: "'w wallet_env \<Rightarrow> 'w caller \<Rightarrow> address \<Rightarrow> wallet_op \<Rightarrow> ('w, unit) wsol" where
  "wallet_exec E call sender (AddOwner a) = addOwner E sender a"
| "wallet_exec E call sender (RemoveOwner a) = removeOwner E sender a"
| "wallet_exec E call sender (ReplaceOwner a b) = replaceOwner E sender a b"
| "wallet_exec E call sender (ChangeRequirement n) = wa_changeRequirement E sender n"
| "wallet_exec E call sender (SubmitTransaction a v d) = submitTransaction call sender a v d"
| "wallet_exec E call sender (ConfirmTransaction i) = confirmTransaction call sender i"
| "wallet_exec E call sender (RevokeConfirmation i) = revokeConfirmation sender i"
| "wallet_exec E call sender (ExecuteTransaction i) = executeTransaction call sender i"

text \<open>
  The call of a transaction. A call that fails changes nothing; none of the wallet's functions is payable.
\<close>

fun external_call :: "'w wallet_env \<Rightarrow> nat \<Rightarrow> 'w caller" where
  "external_call E 0 dest val data s = (False, s)"
| "external_call E (Suc depth) dest val data s =
     (case (if dest = wa_this E then wa_decode E data else None) of
        Some op \<Rightarrow>
          if val > 0 then (False, s)
          else (case wallet_exec E (external_call E depth) (wa_this E) op s of
                  (Inl e, t) \<Rightarrow> (False, s)
                | (Inr _, t) \<Rightarrow> (True, t))
      | None \<Rightarrow>
          (case wa_call E dest val data (ms_world s) of
             (True, w) \<Rightarrow> (True, s\<lparr>ms_world := w\<rparr>)
           | (False, w) \<Rightarrow> (False, s)))"

definition CALL_DEPTH :: nat where
  "CALL_DEPTH = 1024"

definition wallet_tx_run :: "'w wallet_env \<Rightarrow> address \<Rightarrow> wallet_op \<Rightarrow> 'w wallet_state \<Rightarrow> unit res \<times> 'w wallet_state" where
  "wallet_tx_run E sender op = transact (wallet_exec E (external_call E CALL_DEPTH) sender op)"

section \<open>Queries\<close>

definition getConfirmationCount :: "'w wallet_state \<Rightarrow> uint256 \<Rightarrow> nat" where
  "getConfirmationCount s i = length (filter (ms_confirmations s i) (ms_owners s))"

definition wa_counts :: "'w wallet_state \<Rightarrow> bool \<Rightarrow> bool \<Rightarrow> nat \<Rightarrow> bool" where
  "wa_counts s pending executed i \<longleftrightarrow>
     pending \<and> \<not> tx_executed (ms_transactions s (of_nat i)) \<or> executed \<and> tx_executed (ms_transactions s (of_nat i))"

definition wa_getTransactionCount :: "'w wallet_state \<Rightarrow> bool \<Rightarrow> bool \<Rightarrow> nat" where
  "wa_getTransactionCount s pending executed =
     length (filter (wa_counts s pending executed) [0..<unat (ms_count s)])"

definition wa_getConfirmations :: "'w wallet_state \<Rightarrow> uint256 \<Rightarrow> address list" where
  "wa_getConfirmations s i = filter (ms_confirmations s i) (ms_owners s)"

text \<open>
  The ids between two positions: the array is as long as the wallet has transactions and filled with
  zeros behind the ids found; a position beyond it, or an end before the start, is a panic.
\<close>

definition getTransactionIds :: "'w wallet_state \<Rightarrow> nat \<Rightarrow> nat \<Rightarrow> bool \<Rightarrow> bool \<Rightarrow> nat list res" where
  "getTransactionIds s start stop pending executed =
     (let n = unat (ms_count s); ids = filter (wa_counts s pending executed) [0..<n];
          temp = ids @ replicate (n - length ids) 0
      in if stop < start then Inl (JsError ''Panic'')
         else if start < stop \<and> n < stop then Inl (JsError ''Panic'')
         else Inr (take (stop - start) (drop start temp)))"

section \<open>What a call leaves behind\<close>

definition own_inv :: "'w wallet_state \<Rightarrow> bool" where
  "own_inv s \<longleftrightarrow> distinct (ms_owners s) \<and> (\<forall>a. ms_isOwner s a \<longleftrightarrow> a \<in> set (ms_owners s))
     \<and> length (ms_owners s) \<le> MAX_OWNER_COUNT \<and> ms_required s \<noteq> 0 \<and> unat (ms_required s) \<le> length (ms_owners s)"

definition tx_inv :: "'w wallet_state \<Rightarrow> bool" where
  "tx_inv s \<longleftrightarrow> (\<forall>i a. ms_confirmations s i a \<longrightarrow> tx_destination (ms_transactions s i) \<noteq> 0)
     \<and> (\<forall>i. tx_executed (ms_transactions s i) \<longrightarrow> tx_destination (ms_transactions s i) \<noteq> 0)
     \<and> (\<forall>i. tx_destination (ms_transactions s i) \<noteq> 0 \<longrightarrow> i < ms_count s)"

text \<open>An execution with enough confirmations of different owners.\<close>

definition agreed :: "execution \<Rightarrow> bool" where
  "agreed e \<longleftrightarrow> ex_required e \<noteq> 0 \<and> unat (ex_required e) \<le> card (ex_confirmers e)"

definition new_executions :: "'w wallet_state \<Rightarrow> 'w wallet_state \<Rightarrow> execution list \<Rightarrow> bool" where
  "new_executions s t es \<longleftrightarrow> ms_executions t = ms_executions s @ es \<and> distinct (map ex_id es) \<and> list_all agreed es
     \<and> (\<forall>e \<in> set es. \<not> tx_executed (ms_transactions s (ex_id e)) \<and> tx_executed (ms_transactions t (ex_id e)))"

definition keeps_txs :: "'w wallet_state \<Rightarrow> 'w wallet_state \<Rightarrow> bool" where
  "keeps_txs s t \<longleftrightarrow>
     (\<forall>i. tx_executed (ms_transactions s i) \<longrightarrow> tx_executed (ms_transactions t i))
     \<and> (\<forall>i. tx_destination (ms_transactions s i) \<noteq> 0 \<longrightarrow>
          (ms_transactions t i)\<lparr>tx_executed := False\<rparr> = (ms_transactions s i)\<lparr>tx_executed := False\<rparr>)"

definition wallet_rel :: "'w wallet_state \<Rightarrow> 'w wallet_state \<Rightarrow> bool" where
  "wallet_rel s t \<longleftrightarrow> (own_inv s \<and> tx_inv s \<longrightarrow>
     own_inv t \<and> tx_inv t \<and> keeps_txs s t \<and> (\<exists>es. new_executions s t es))"

lemma keeps_txs_trans: "keeps_txs s t \<Longrightarrow> keeps_txs t u \<Longrightarrow> keeps_txs s u"
proof -
  assume a: "keeps_txs s t" "keeps_txs t u"
  have "tx_destination (ms_transactions t i) \<noteq> 0" if "tx_destination (ms_transactions s i) \<noteq> 0" for i
  proof -
    have "(ms_transactions t i)\<lparr>tx_executed := False\<rparr> = (ms_transactions s i)\<lparr>tx_executed := False\<rparr>"
      using a(1) that by (simp add: keeps_txs_def)
    then have "tx_destination (ms_transactions t i) = tx_destination (ms_transactions s i)"
      by (metis wallet_tx.select_convs(1) wallet_tx.surjective wallet_tx.update_convs(4))
    then show ?thesis using that by simp
  qed
  then show "keeps_txs s u" using a unfolding keeps_txs_def by metis
qed

lemma new_executions_trans:
  assumes "new_executions s t es" "new_executions t u es'" "keeps_txs s t" "keeps_txs t u"
  shows "new_executions s u (es @ es')"
proof -
  have "ex_id e \<noteq> ex_id e'" if "e \<in> set es" "e' \<in> set es'" for e e'
    using assms(1,2) that unfolding new_executions_def by metis
  then have "ex_id ` set es \<inter> ex_id ` set es' = {}" by blast
  then show ?thesis
    using assms unfolding new_executions_def keeps_txs_def by (auto simp: image_image)
qed

interpretation wr: step_rel wallet_rel
proof
  show "wallet_rel s s" for s :: "'w wallet_state"
    by (auto simp: wallet_rel_def keeps_txs_def new_executions_def intro: exI [of _ "[]"])
  show "wallet_rel s u" if "wallet_rel s t" "wallet_rel t u" for s t u :: "'w wallet_state"
    using that keeps_txs_trans new_executions_trans unfolding wallet_rel_def by metis
qed

lemma rel_owners:
  assumes "own_inv s \<Longrightarrow> own_inv t" and "ms_transactions t = ms_transactions s" "ms_executions t = ms_executions s"
    "ms_count t = ms_count s" "ms_confirmations t = ms_confirmations s"
  shows "wallet_rel s t"
  using assms
  by (auto simp: wallet_rel_def tx_inv_def keeps_txs_def new_executions_def intro: exI [of _ "[]"])

section \<open>Each operation\<close>

lemma wa_validRequirement_Inr:
  "wa_validRequirement n req c s = (Inr a, t) \<longleftrightarrow>
     n \<le> MAX_OWNER_COUNT \<and> unat req \<le> n \<and> req \<noteq> 0 \<and> n \<noteq> 0 \<and> c s = (Inr a, t)"
  by (auto simp: wa_validRequirement_def bnd_eq_Inr_iff)

lemma wallet_guards_Inr:
  "onlyWallet E sender c s = (Inr a, t) \<longleftrightarrow> sender = wa_this E \<and> c s = (Inr a, t)"
  "ownerDoesNotExist x c s = (Inr a, t) \<longleftrightarrow> \<not> ms_isOwner s x \<and> c s = (Inr a, t)"
  "ownerExists x c s = (Inr a, t) \<longleftrightarrow> ms_isOwner s x \<and> c s = (Inr a, t)"
  "confirmed i x c s = (Inr a, t) \<longleftrightarrow> ms_confirmations s i x \<and> c s = (Inr a, t)"
  "notExecuted i c s = (Inr a, t) \<longleftrightarrow> \<not> tx_executed (ms_transactions s i) \<and> c s = (Inr a, t)"
  by (auto simp: onlyWallet_def ownerDoesNotExist_def ownerExists_def confirmed_def notExecuted_def bnd_eq_Inr_iff)

lemmas wallet_op_Inr = wallet_guards_Inr wa_validRequirement_Inr bnd_eq_Inr_iff

lemma addOwner_Inr:
  "addOwner E sender a s = (Inr (), t) \<longleftrightarrow> sender = wa_this E \<and> \<not> ms_isOwner s a \<and> a \<noteq> 0
     \<and> length (ms_owners s) < MAX_OWNER_COUNT \<and> unat (ms_required s) \<le> length (ms_owners s) + 1 \<and> ms_required s \<noteq> 0
     \<and> t = s\<lparr>ms_isOwner := (ms_isOwner s)(a := True), ms_owners := ms_owners s @ [a]\<rparr>"
  by (auto simp: addOwner_def wallet_op_Inr)

lemma rel_addOwner:
  assumes "addOwner E sender a s = (Inr (), t)"
  shows "wallet_rel s t"
proof (rule rel_owners)
  show "own_inv t" if "own_inv s"
    using that assms unfolding addOwner_Inr own_inv_def by auto
qed (use assms in \<open>simp_all add: addOwner_Inr\<close>)

lemma changeRequirement_Inr:
  "wa_changeRequirement E sender req s = (Inr (), t) \<longleftrightarrow> sender = wa_this E \<and> length (ms_owners s) \<le> MAX_OWNER_COUNT
     \<and> unat req \<le> length (ms_owners s) \<and> req \<noteq> 0 \<and> ms_owners s \<noteq> [] \<and> t = s\<lparr>ms_required := req\<rparr>"
  by (auto simp: wa_changeRequirement_def wallet_op_Inr)

lemma rel_changeRequirement: "wa_changeRequirement E sender req s = (Inr (), t) \<Longrightarrow> wallet_rel s t"
  by (rule rel_owners) (auto simp: changeRequirement_Inr own_inv_def)

lemma rel_removeOwner:
  assumes "removeOwner E sender a s = (Inr (), t)"
  shows "wallet_rel s t"
proof (rule rel_owners)
  let ?u = "s\<lparr>ms_isOwner := (ms_isOwner s)(a := False), ms_owners := remove_from a (ms_owners s)\<rparr>"
  have own: "ms_isOwner s a" and t: "(if unat (ms_required ?u) > length (ms_owners ?u)
      then wa_changeRequirement E sender (of_nat (length (ms_owners ?u))) ?u else (Inr (), ?u)) = (Inr (), t)"
    using assms by (auto simp: removeOwner_def wallet_op_Inr split: if_splits)
  show "own_inv t" if inv: "own_inv s"
  proof -
    have "a \<in> set (ms_owners s)" "distinct (ms_owners s)" using own inv by (simp_all add: own_inv_def)
    note r = remove_from [OF this(2,1)]
    show ?thesis using t r inv by (auto simp: changeRequirement_Inr own_inv_def split: if_splits)
  qed
qed (use assms in \<open>auto simp: removeOwner_def wallet_op_Inr changeRequirement_Inr split: if_splits\<close>)

lemma overwrite_replaces:
  assumes "distinct xs" "a \<in> set xs" "b \<notin> set xs"
  shows "distinct (overwrite a b xs)" "set (overwrite a b xs) = insert b (set xs - {a})"
    "length (overwrite a b xs) = length xs"
proof -
  obtain ys zs where xs: "xs = ys @ a # zs" "a \<notin> set ys" using assms(2) by (auto dest: split_list_first)
  then have "overwrite a b xs = ys @ b # zs" by (simp add: overwrite_split)
  then show "distinct (overwrite a b xs)" "set (overwrite a b xs) = insert b (set xs - {a})"
    "length (overwrite a b xs) = length xs"
    using assms xs by auto
qed

lemma replaceOwner_Inr:
  "replaceOwner E sender a b s = (Inr (), t) \<longleftrightarrow> sender = wa_this E \<and> ms_isOwner s a \<and> \<not> ms_isOwner s b
     \<and> t = s\<lparr>ms_owners := overwrite a b (ms_owners s), ms_isOwner := (ms_isOwner s)(a := False, b := True)\<rparr>"
  by (auto simp: replaceOwner_def wallet_op_Inr)

lemma rel_replaceOwner:
  assumes "replaceOwner E sender a b s = (Inr (), t)"
  shows "wallet_rel s t"
proof (rule rel_owners)
  show "own_inv t" if inv: "own_inv s"
  proof -
    have r: "ms_isOwner s a" "\<not> ms_isOwner s b"
      and t: "t = s\<lparr>ms_owners := overwrite a b (ms_owners s), ms_isOwner := (ms_isOwner s)(a := False, b := True)\<rparr>"
      using assms by (simp_all add: replaceOwner_Inr)
    have "distinct (ms_owners s)" "a \<in> set (ms_owners s)" "b \<notin> set (ms_owners s)"
      using r inv by (simp_all add: own_inv_def)
    note o = overwrite_replaces [OF this]
    show ?thesis using inv r unfolding own_inv_def t by (auto simp: o)
  qed
qed (use assms in \<open>simp_all add: replaceOwner_Inr\<close>)

text \<open>The loop of \<open>isConfirmed\<close> stops with true once enough different owners are counted.\<close>

lemma confirmed_loop_count:
  "confirmed_loop conf req os n \<Longrightarrow> unat n + length os < 2 ^ 256 \<Longrightarrow> n \<noteq> req \<Longrightarrow>
   unat req \<le> unat n + length (filter conf os)"
proof (induction os arbitrary: n)
  case (Cons a os)
  let ?n = "if conf a then n + 1 else n"
  have n: "unat ?n = unat n + of_bool (conf a)"
    using Cons.prems(2) by (simp add: unat_word_ariths)
  show ?case
  proof (cases "?n = req")
    case True
    then show ?thesis using n by (auto split: if_splits)
  next
    case False
    then have "unat req \<le> unat ?n + length (filter conf os)"
      using Cons.prems n by (intro Cons.IH) (auto simp: Let_def split: if_splits)
    then show ?thesis using n by (cases "conf a") simp_all
  qed
qed simp

lemma confirmed_agreed:
  assumes "isConfirmed s i" "own_inv s"
  shows "agreed (snapshot s i)"
proof -
  have "unat (ms_required s) \<le> unat (0 :: uint256) + length (filter (ms_confirmations s i) (ms_owners s))"
    using assms by (intro confirmed_loop_count) (auto simp: isConfirmed_def own_inv_def MAX_OWNER_COUNT_def)
  moreover have "card (set (filter (ms_confirmations s i) (ms_owners s))) = length (filter (ms_confirmations s i) (ms_owners s))"
    using assms(2) by (intro distinct_card) (simp add: own_inv_def)
  ultimately show ?thesis using assms(2) by (simp add: agreed_def snapshot_def own_inv_def)
qed

lemma rel_confirmation:
  assumes "b \<Longrightarrow> tx_destination (ms_transactions s i) \<noteq> 0"
  shows "wallet_rel s (s\<lparr>ms_confirmations := (ms_confirmations s)(i := (ms_confirmations s i)(a := b))\<rparr>)"
proof -
  let ?t = "s\<lparr>ms_confirmations := (ms_confirmations s)(i := (ms_confirmations s i)(a := b))\<rparr>"
  have "new_executions s ?t []" "keeps_txs s ?t" by (simp_all add: new_executions_def keeps_txs_def)
  moreover have "tx_inv ?t" if inv: "tx_inv s"
  proof -
    have "tx_destination (ms_transactions s j) \<noteq> 0" if c: "ms_confirmations ?t j x" for j x
    proof (cases "ms_confirmations s j x")
      case True
      then show ?thesis using inv unfolding tx_inv_def by blast
    next
      case False
      then show ?thesis using c assms by (auto split: if_splits)
    qed
    then show ?thesis using inv by (auto simp: tx_inv_def)
  qed
  ultimately show ?thesis by (auto simp: wallet_rel_def own_inv_def)
qed

lemma rel_addTransaction:
  assumes "addTransaction dest val data s = (Inr i, t)"
  shows "wallet_rel s t \<and> i = ms_count s \<and> ms_executions t = ms_executions s"
proof -
  have dest: "dest \<noteq> 0" and i: "i = ms_count s" and lt: "unat i + 1 < 2 ^ 256"
    and t: "t = s\<lparr>ms_transactions := (ms_transactions s)
      (i := \<lparr>tx_destination = dest, tx_value = val, tx_data = data, tx_executed = False\<rparr>), ms_count := i + 1\<rparr>"
    using assms by (auto simp: addTransaction_def bnd_eq_Inr_iff checked_add_Inr)
  have less: "j < i + 1 \<longleftrightarrow> j \<le> i" for j
    using lt by (simp add: word_less_nat_alt word_le_nat_alt unat_word_ariths less_Suc_eq_le)
  have "wallet_rel s t" unfolding wallet_rel_def
  proof (intro impI conjI)
    assume inv: "own_inv s \<and> tx_inv s"
    then have free: "tx_destination (ms_transactions s i) = 0" "\<not> tx_executed (ms_transactions s i)"
      unfolding tx_inv_def i by (metis less_irrefl, metis less_irrefl)
    show "own_inv t" using inv by (simp add: t own_inv_def)
    have new: "tx_destination (ms_transactions t i) \<noteq> 0" and old: "ms_transactions t j = ms_transactions s j" if "j \<noteq> i" for j
      using dest that by (simp_all add: t)
    show "tx_inv t" unfolding tx_inv_def
    proof (intro conjI allI impI)
      show "tx_destination (ms_transactions t j) \<noteq> 0" if "ms_confirmations t j a" for j a
        using inv that dest by (auto simp: t tx_inv_def)
      show "tx_destination (ms_transactions t j) \<noteq> 0" if "tx_executed (ms_transactions t j)" for j
        using inv that dest by (auto simp: t tx_inv_def split: if_splits)
      show "j < ms_count t" if "tx_destination (ms_transactions t j) \<noteq> 0" for j
      proof (cases "j = i")
        case True
        then show ?thesis by (simp add: t less)
      next
        case False
        then have "j < i" using inv that by (simp add: t tx_inv_def i)
        then show ?thesis by (simp add: t less)
      qed
    qed
    show "keeps_txs s t" using free by (auto simp: t keeps_txs_def)
    show "\<exists>es. new_executions s t es" by (rule exI [of _ "[]"]) (simp add: new_executions_def t)
  qed
  then show ?thesis using i by (simp add: t)
qed

text \<open>A caller that fails without effect, and keeps the relation when it succeeds.\<close>

definition fair_caller :: "'w caller \<Rightarrow> bool" where
  "fair_caller call \<longleftrightarrow> (\<forall>dest val data s b t. call dest val data s = (b, t) \<longrightarrow> (if b then wallet_rel s t else t = s))"

lemma set_executed_twice: "\<not> tx_executed (ms_transactions s i) \<Longrightarrow> set_executed i False (set_executed i True s) = s"
  by (simp add: set_executed_def fun_upd_idem)

lemma rel_run_transaction:
  assumes call: "fair_caller call" and open_tx: "\<not> tx_executed (ms_transactions s i)"
    and conf: "isConfirmed s i" and dest: "tx_destination (ms_transactions s i) \<noteq> 0"
    and run: "run_transaction call i s = (Inr (), t)"
  shows "wallet_rel s t"
proof -
  let ?u = "set_executed i True s" and ?txn = "ms_transactions s i"
  obtain b v where c: "call (tx_destination ?txn) (tx_value ?txn) (tx_data ?txn) ?u = (b, v)" by fastforce
  show ?thesis
  proof (cases b)
    case False
    then have "v = ?u" using call c unfolding fair_caller_def by metis
    then have "t = s" using run c False open_tx by (simp add: run_transaction_def Let_def set_executed_twice)
    then show ?thesis by (simp add: wr.R_refl)
  next
    case True
    then have rel: "wallet_rel ?u v" using call c unfolding fair_caller_def by metis
    have t: "t = v\<lparr>ms_executions := ms_executions v @ [snapshot s i]\<rparr>"
      using run c True by (simp add: run_transaction_def Let_def)
    show ?thesis unfolding wallet_rel_def
    proof
      assume inv: "own_inv s \<and> tx_inv s"
      have u: "ms_transactions ?u = (ms_transactions s)(i := (ms_transactions s i)\<lparr>tx_executed := True\<rparr>)"
          "ms_executions ?u = ms_executions s"
        by (simp_all add: set_executed_def)
      have "own_inv ?u" using inv by (simp add: set_executed_def own_inv_def)
      moreover have "tx_inv ?u" using inv dest unfolding tx_inv_def u by (auto simp: set_executed_def)
      ultimately obtain es where v: "own_inv v" "tx_inv v" "keeps_txs ?u v" "new_executions ?u v es"
        using rel unfolding wallet_rel_def by blast
      have su: "keeps_txs s ?u" unfolding keeps_txs_def u by auto
      have "keeps_txs s v" by (rule keeps_txs_trans [OF su v(3)])
      moreover have "tx_executed (ms_transactions v i)"
        using v(3) unfolding keeps_txs_def u by auto
      moreover have ids: "ex_id e \<noteq> i \<and> \<not> tx_executed (ms_transactions s (ex_id e))" if "e \<in> set es" for e
        using v(4) that unfolding new_executions_def u by (auto split: if_splits)
      moreover have "i \<notin> ex_id ` set es" using ids by blast
      ultimately have "new_executions s t (es @ [snapshot s i])"
        using v(4) open_tx confirmed_agreed [OF conf] inv
        by (auto simp: new_executions_def t u(2)) (simp_all add: snapshot_def)
      then show "own_inv t \<and> tx_inv t \<and> keeps_txs s t \<and> (\<exists>es. new_executions s t es)"
        using v(1,2) \<open>keeps_txs s v\<close> by (auto simp: t own_inv_def tx_inv_def keeps_txs_def)
    qed
  qed
qed

lemma rel_executeTransaction:
  assumes call: "fair_caller call" and run: "executeTransaction call sender i s = (Inr (), t)"
  shows "wallet_rel s t"
proof (cases "own_inv s \<and> tx_inv s")
  case True
  have conf: "ms_confirmations s i sender" and open_tx: "\<not> tx_executed (ms_transactions s i)"
    and rest: "(if isConfirmed s i then run_transaction call i else ret ()) s = (Inr (), t)"
    using run by (auto simp: executeTransaction_def wallet_op_Inr)
  have "tx_destination (ms_transactions s i) \<noteq> 0" using True conf by (auto simp: tx_inv_def)
  then show ?thesis
    using rest rel_run_transaction [OF call open_tx] by (auto simp: wr.R_refl split: if_splits)
next
  case False
  then show ?thesis unfolding wallet_rel_def by blast
qed

lemma confirmTransaction_Inr:
  assumes "confirmTransaction call sender i s = (Inr (), t)"
  shows "ms_isOwner s sender \<and> tx_destination (ms_transactions s i) \<noteq> 0 \<and> executeTransaction call sender i
    (s\<lparr>ms_confirmations := (ms_confirmations s)(i := (ms_confirmations s i)(sender := True))\<rparr>) = (Inr (), t)"
  using assms by (auto simp: confirmTransaction_def wallet_op_Inr)

lemma rel_confirmTransaction:
  assumes "fair_caller call" and "confirmTransaction call sender i s = (Inr (), t)"
  shows "wallet_rel s t"
  using confirmTransaction_Inr [OF assms(2)] rel_confirmation [of True s i sender]
    rel_executeTransaction [OF assms(1)] wr.R_trans by blast

lemma rel_wallet_exec:
  assumes call: "fair_caller call" and run: "wallet_exec E call sender op s = (Inr (), t)"
  shows "wallet_rel s t"
proof (cases op)
  case (SubmitTransaction a v d)
  then obtain i u where "addTransaction a v d s = (Inr i, u)" "confirmTransaction call sender i u = (Inr (), t)"
    using run by (auto simp: submitTransaction_def bnd_eq_Inr_iff)
  then show ?thesis using rel_addTransaction rel_confirmTransaction [OF call] wr.R_trans by blast
next
  case (RevokeConfirmation i)
  then have "t = s\<lparr>ms_confirmations := (ms_confirmations s)(i := (ms_confirmations s i)(sender := False))\<rparr>"
    using run by (simp add: revokeConfirmation_def wallet_op_Inr)
  then show ?thesis using rel_confirmation [of False] by simp
qed (use run rel_addOwner rel_removeOwner rel_replaceOwner rel_changeRequirement rel_confirmTransaction [OF call]
       rel_executeTransaction [OF call] in \<open>auto\<close>)

lemma rel_world: "wallet_rel s (s\<lparr>ms_world := w\<rparr>)"
  by (rule rel_owners) (simp_all add: own_inv_def)

lemma fair_external_call: "fair_caller (external_call E depth)"
proof (induction depth)
  case 0
  then show ?case by (simp add: fair_caller_def)
next
  case (Suc depth)
  show ?case unfolding fair_caller_def
  proof (intro allI impI)
    fix dest val data and s :: "'a wallet_state" and b t
    assume run: "external_call E (Suc depth) dest val data s = (b, t)"
    show "if b then wallet_rel s t else t = s"
    proof (cases "if dest = wa_this E then wa_decode E data else None")
      case None
      then show ?thesis using run rel_world [of s] by (auto split: prod.splits bool.splits)
    next
      case (Some op)
      then show ?thesis
        using run rel_wallet_exec [OF Suc, of E "wa_this E" op s]
        by (auto split: prod.splits sum.splits if_splits)
    qed
  qed
qed

section \<open>The wallet over time\<close>

inductive wallet_reachable :: "'w wallet_env \<Rightarrow> 'w wallet_state \<Rightarrow> bool" for E where
  constructed: "wallet_constructor os req (blank_wallet w) = (Inr (), s) \<Longrightarrow> wallet_reachable E s"
| step: "wallet_reachable E s \<Longrightarrow> wallet_tx_run E sender op s = (r, t) \<Longrightarrow> wallet_reachable E t"
| outside: "wallet_reachable E s \<Longrightarrow> wallet_reachable E (s\<lparr>ms_world := w\<rparr>)"

lemma construct_owners:
  "for_each construct_owner os s = (Inr (), t) \<Longrightarrow>
     distinct os \<and> (\<forall>a \<in> set os. \<not> ms_isOwner s a) \<and> t = s\<lparr>ms_isOwner := \<lambda>a. ms_isOwner s a \<or> a \<in> set os\<rparr>"
proof (induction os arbitrary: s)
  case Nil
  then show ?case by simp
next
  case (Cons a os)
  let ?u = "s\<lparr>ms_isOwner := (ms_isOwner s)(a := True)\<rparr>"
  have one: "construct_owner a s = (Inr (), v) \<longleftrightarrow> \<not> ms_isOwner s a \<and> a \<noteq> 0 \<and> v = s\<lparr>ms_isOwner := (ms_isOwner s)(a := True)\<rparr>"
    for v by (auto simp: construct_owner_def bnd_eq_Inr_iff)
  have a: "\<not> ms_isOwner s a" and rest: "for_each construct_owner os ?u = (Inr (), t)"
    using Cons.prems by (auto simp: bnd_eq_Inr_iff one)
  have ih: "distinct os" "\<forall>b \<in> set os. \<not> ms_isOwner ?u b" "t = ?u\<lparr>ms_isOwner := \<lambda>b. ms_isOwner ?u b \<or> b \<in> set os\<rparr>"
    using Cons.IH [OF rest] by blast+
  from ih(2) have "a \<notin> set os" and "\<forall>b \<in> set os. \<not> ms_isOwner s b" by (auto split: if_splits)
  then show ?case using ih(1) a unfolding ih(3) by (auto simp: fun_eq_iff)
qed

lemma wallet_run_rel: "wallet_tx_run E sender op s = (r, t) \<Longrightarrow> wallet_rel s t"
  using rel_wallet_exec [OF fair_external_call]
  by (auto simp: wallet_tx_run_def transact_def wr.R_refl split: prod.splits sum.splits)

definition log_inv :: "'w wallet_state \<Rightarrow> bool" where
  "log_inv s \<longleftrightarrow> distinct (map ex_id (ms_executions s)) \<and> list_all agreed (ms_executions s)
     \<and> (\<forall>e \<in> set (ms_executions s). tx_executed (ms_transactions s (ex_id e)))"

lemma log_inv_rel:
  assumes "wallet_rel s t" "own_inv s" "tx_inv s" "log_inv s"
  shows "own_inv t \<and> tx_inv t \<and> log_inv t"
proof -
  obtain es where es: "own_inv t" "tx_inv t" "keeps_txs s t" "new_executions s t es"
    using assms(1-3) unfolding wallet_rel_def by blast
  have "ex_id ` set (ms_executions s) \<inter> ex_id ` set es = {}"
    using es(4) assms(4) unfolding new_executions_def log_inv_def by auto
  then show ?thesis
    using es assms(4) unfolding new_executions_def log_inv_def keeps_txs_def by auto
qed

lemma wallet_inv_reachable: "wallet_reachable E s \<Longrightarrow> own_inv s \<and> tx_inv s \<and> log_inv s"
proof (induction rule: wallet_reachable.induct)
  case (constructed os req w s)
  then obtain u where u: "for_each construct_owner os (blank_wallet w) = (Inr (), u)"
    and s: "s = u\<lparr>ms_owners := os, ms_required := req\<rparr>"
    and req: "length os \<le> MAX_OWNER_COUNT" "unat req \<le> length os" "req \<noteq> 0"
    by (auto simp: wallet_constructor_def wallet_op_Inr)
  from construct_owners [OF u] have os: "distinct os"
    and v: "u = (blank_wallet w)\<lparr>ms_isOwner := \<lambda>a. ms_isOwner (blank_wallet w) a \<or> a \<in> set os\<rparr>"
    by blast+
  have "own_inv s" using os req by (simp add: s v own_inv_def blank_wallet_def)
  moreover have "tx_inv s" "log_inv s"
    by (simp_all add: s v tx_inv_def log_inv_def blank_wallet_def blank_tx_def)
  ultimately show ?case by blast
next
  case (step s sender op r t)
  then show ?case using log_inv_rel [OF wallet_run_rel [OF step(2)]] by simp
next
  case (outside s w)
  then show ?case using log_inv_rel [OF rel_world [of s w]] by simp
qed

section \<open>A small wallet\<close>

definition sample_wallet_env :: "nat wallet_env" where
  "sample_wallet_env = \<lparr>wa_this = 9, wa_decode = (\<lambda>d. if d = ''add'' then Some (AddOwner 3) else None),
     wa_call = (\<lambda>_ _ _ w. (True, Suc w))\<rparr>"

definition two_owners :: "nat wallet_state" where
  "two_owners = (blank_wallet 0)\<lparr>ms_isOwner := \<lambda>a. a = 1 \<or> a = 2, ms_owners := [1, 2], ms_required := 2\<rparr>"

definition one_confirmed :: "nat wallet_state" where
  "one_confirmed = two_owners\<lparr>ms_transactions := (\<lambda>_. blank_tx)
       (0 := \<lparr>tx_destination = 9, tx_value = 0, tx_data = ''add'', tx_executed = False\<rparr>),
     ms_count := 1, ms_confirmations := (\<lambda>_ _. False)(0 := (\<lambda>_. False)(1 := True))\<rparr>"

definition both_confirmed :: "nat wallet_state" where
  "both_confirmed = one_confirmed\<lparr>ms_transactions := (\<lambda>_. blank_tx)
       (0 := \<lparr>tx_destination = 9, tx_value = 0, tx_data = ''add'', tx_executed = True\<rparr>),
     ms_confirmations := (\<lambda>_ _. False)(0 := (\<lambda>_. False)(1 := True, 2 := True)),
     ms_isOwner := (\<lambda>a. a = 1 \<or> a = 2)(3 := True), ms_owners := [1, 2, 3],
     ms_executions := [\<lparr>ex_id = 0, ex_confirmers = {1, 2}, ex_required = 2\<rparr>]\<rparr>"

lemma sample_constructed: "wallet_constructor [1, 2] 2 (blank_wallet 0) = (Inr (), two_owners)"
  by (auto simp: wallet_constructor_def wallet_op_Inr construct_owner_def MAX_OWNER_COUNT_def blank_wallet_def
      two_owners_def fun_eq_iff)

lemma sample_submitted:
  "wallet_tx_run sample_wallet_env 1 (SubmitTransaction 9 0 ''add'') two_owners = (Inr (), one_confirmed)"
  by (simp add: wallet_tx_run_def transact_def submitTransaction_def addTransaction_def bnd_def checked_add_def
      confirmTransaction_def ownerExists_def two_owners_def blank_wallet_def executeTransaction_def confirmed_def
      notExecuted_def isConfirmed_def one_confirmed_def Let_def)

lemma sample_second_confirms:
  "wallet_tx_run sample_wallet_env 2 (ConfirmTransaction 0) one_confirmed = (Inr (), both_confirmed)"
proof -
  obtain d where d: "CALL_DEPTH = Suc d" by (cases CALL_DEPTH) (simp_all add: CALL_DEPTH_def)
  have owners: "{a. a \<noteq> 1 \<longrightarrow> a = 2} = {1, 2 :: address}" by auto
  show ?thesis
    by (simp add: wallet_tx_run_def d transact_def bnd_def confirmTransaction_def ownerExists_def one_confirmed_def
        two_owners_def blank_wallet_def executeTransaction_def confirmed_def notExecuted_def isConfirmed_def Let_def
        run_transaction_def sample_wallet_env_def set_executed_def addOwner_def onlyWallet_def ownerDoesNotExist_def
        wa_validRequirement_def MAX_OWNER_COUNT_def snapshot_def both_confirmed_def owners)
qed

lemma sample_wallet_reachable:
  "wallet_reachable sample_wallet_env one_confirmed" "wallet_reachable sample_wallet_env both_confirmed"
proof -
  show r: "wallet_reachable sample_wallet_env one_confirmed"
    by (rule wallet_reachable.step [OF wallet_reachable.constructed [OF sample_constructed] sample_submitted])
  show "wallet_reachable sample_wallet_env both_confirmed" by (rule wallet_reachable.step [OF r sample_second_confirms])
qed

section \<open>What the wallet promises\<close>

text \<open>What an outsider can see: who owns the wallet, how many must agree, and the other contracts.\<close>

definition outward :: "'w wallet_state \<Rightarrow> address list \<times> uint256 \<times> 'w" where
  "outward s = (ms_owners s, ms_required s, ms_world s)"

definition agreed_by :: "'w wallet_state \<Rightarrow> address \<Rightarrow> execution \<Rightarrow> bool" where
  "agreed_by s sender e \<longleftrightarrow> sender \<in> ex_confirmers e \<and> ex_confirmers e \<subseteq> set (ms_owners s)
     \<and> ex_required e = ms_required s \<and> unat (ms_required s) \<le> card (ex_confirmers e)
     \<and> \<not> tx_executed (ms_transactions s (ex_id e))"

lemma execute_outward:
  assumes call: "fair_caller call" and inv: "own_inv s"
    and run: "executeTransaction call sender i s = (Inr (), t)" and diff: "outward t \<noteq> outward s"
  shows "\<exists>xs. ms_executions t = xs @ [snapshot s i] \<and> agreed_by s sender (snapshot s i)"
proof -
  have own: "ms_isOwner s sender" "ms_confirmations s i sender" and open_tx: "\<not> tx_executed (ms_transactions s i)"
    and rest: "(if isConfirmed s i then run_transaction call i else ret ()) s = (Inr (), t)"
    using run by (auto simp: executeTransaction_def wallet_op_Inr)
  have conf: "isConfirmed s i" using rest diff by (auto split: if_splits)
  let ?u = "set_executed i True s" and ?txn = "ms_transactions s i"
  obtain b v where c: "call (tx_destination ?txn) (tx_value ?txn) (tx_data ?txn) ?u = (b, v)" by fastforce
  have b
  proof (rule ccontr)
    assume no: "\<not> b"
    then have "v = ?u" using call c unfolding fair_caller_def by metis
    then have "t = s" using rest conf c no open_tx by (simp add: run_transaction_def Let_def set_executed_twice)
    then show False using diff by simp
  qed
  then have "ms_executions t = ms_executions v @ [snapshot s i]"
    using rest conf c by (auto simp: run_transaction_def Let_def)
  moreover have "agreed_by s sender (snapshot s i)"
    using confirmed_agreed [OF conf inv] own inv open_tx
    by (auto simp: agreed_by_def agreed_def snapshot_def own_inv_def)
  ultimately show ?thesis by blast
qed

lemma confirm_outward:
  assumes "fair_caller call" "own_inv s" "confirmTransaction call sender i s = (Inr (), t)" "outward t \<noteq> outward s"
  shows "\<exists>xs e. ms_executions t = xs @ [e] \<and> ex_id e = i \<and> agreed_by s sender e"
proof -
  let ?u = "s\<lparr>ms_confirmations := (ms_confirmations s)(i := (ms_confirmations s i)(sender := True))\<rparr>"
  have "own_inv ?u" "outward t \<noteq> outward ?u" using assms(2,4) by (simp_all add: own_inv_def outward_def)
  then obtain xs where "ms_executions t = xs @ [snapshot ?u i]" "agreed_by ?u sender (snapshot ?u i)"
    using execute_outward [OF assms(1)] confirmTransaction_Inr [OF assms(3)] by blast
  then show ?thesis by (auto simp: agreed_by_def snapshot_def)
qed

text \<open>
  C22: in every state the multisig wallet can reach, by whatever transactions of whatever senders and
  whatever calls it makes to itself, its owners are different, are what isOwner says and at most 50;
  between one and all of them are required; only stored transactions are confirmed or executed.
\<close>

theorem wallet_well_formed:
  assumes "wallet_reachable E s"
  shows "distinct (ms_owners s) \<and> (\<forall>a. ms_isOwner s a \<longleftrightarrow> a \<in> set (ms_owners s)) \<and> length (ms_owners s) \<le> 50
    \<and> 1 \<le> unat (ms_required s) \<and> unat (ms_required s) \<le> length (ms_owners s)
    \<and> (\<forall>i a. \<not> ms_confirmations s i a \<or> tx_destination (ms_transactions s i) \<noteq> 0 \<and> i < ms_count s)"
  using wallet_inv_reachable [OF assms]
  by (auto simp: own_inv_def tx_inv_def MAX_OWNER_COUNT_def Suc_le_eq unat_gt_0)

theorem wallet_well_formed_witness:
  "distinct (ms_owners both_confirmed) \<and> ms_owners both_confirmed = [1, 2, 3] \<and> unat (ms_required both_confirmed) \<le> 3"
  using wallet_well_formed [OF sample_wallet_reachable(2)] by (simp add: both_confirmed_def)

lemma wallet_agreement:
  assumes "wallet_reachable E s" and "wallet_tx_run E sender op s = (r, t)" and "sender \<noteq> wa_this E"
    and "outward t \<noteq> outward s"
  shows "\<exists>xs e. ms_executions t = xs @ [e] \<and> agreed_by s sender e
    \<and> ex_id e \<notin> ex_id ` set (ms_executions s) \<and> distinct (map ex_id (ms_executions t))"
proof -
  let ?call = "external_call E CALL_DEPTH"
  have inv: "own_inv s" "tx_inv s" "log_inv s" using wallet_inv_reachable [OF assms(1)] by blast+
  have run: "wallet_exec E ?call sender op s = (Inr (), t)"
    using assms(2,4) by (auto simp: wallet_tx_run_def transact_def split: prod.splits sum.splits)
  have dist: "distinct (map ex_id (ms_executions t))"
    using log_inv_rel [OF wallet_run_rel [OF assms(2)] inv] by (simp add: log_inv_def)
  have "\<exists>xs e. ms_executions t = xs @ [e] \<and> agreed_by s sender e"
  proof (cases op)
    case (SubmitTransaction a v d)
    then obtain i u where u: "addTransaction a v d s = (Inr i, u)" "confirmTransaction ?call sender i u = (Inr (), t)"
      using run by (auto simp: submitTransaction_def bnd_eq_Inr_iff)
    have same: "outward u = outward s" using u(1) by (auto simp: addTransaction_def bnd_eq_Inr_iff outward_def checked_add_Inr)
    note rel = rel_addTransaction [OF u(1)]
    have "own_inv u" using rel inv unfolding wallet_rel_def by blast
    from confirm_outward [OF fair_external_call this u(2)] assms(4) same
    obtain xs e where e: "ms_executions t = xs @ [e]" "ex_id e = i" "agreed_by u sender e" by auto
    have "\<not> tx_executed (ms_transactions s i)"
      using rel inv(2) unfolding tx_inv_def by (metis less_irrefl)
    then have "agreed_by s sender e" using e same by (simp add: agreed_by_def outward_def)
    then show ?thesis using e(1) by blast
  next
    case (ConfirmTransaction i)
    then show ?thesis using confirm_outward [OF fair_external_call inv(1)] run assms(4) by fastforce
  next
    case (ExecuteTransaction i)
    then show ?thesis using execute_outward [OF fair_external_call inv(1)] run assms(4) by fastforce
  next
    case (RevokeConfirmation i)
    then have "outward t = outward s" using run by (auto simp: revokeConfirmation_def wallet_op_Inr outward_def)
    then show ?thesis using assms(4) by simp
  qed (use run assms(3) in \<open>auto simp: addOwner_def removeOwner_def replaceOwner_def wa_changeRequirement_def wallet_guards_Inr\<close>)
  then obtain xs e where e: "ms_executions t = xs @ [e]" "agreed_by s sender e" by blast
  have "ex_id e \<notin> ex_id ` set (ms_executions s)" using inv(3) e(2) by (auto simp: log_inv_def agreed_by_def)
  then show ?thesis using e dist by blast
qed

text \<open>
  C20: from a state the wallet can reach, a transaction sent to it from outside changes its owners, the
  requirement or any other contract only as the execution of a transaction that was not executed before
  and that, the sender included, at least the required number of different owners confirmed. No
  transaction is executed twice.
\<close>

theorem wallet_acts_by_agreement:
  assumes "wallet_reachable E s" and "wallet_tx_run E sender op s = (r, t)" and "sender \<noteq> wa_this E"
    and "outward t \<noteq> outward s"
  shows "\<exists>xs e. ms_executions t = xs @ [e] \<and> agreed_by s sender e
    \<and> ex_id e \<notin> ex_id ` set (ms_executions s) \<and> distinct (map ex_id (ms_executions t))"
  by (rule wallet_agreement [OF assms])

theorem wallet_acts_by_agreement_witness:
  "\<exists>e. ms_executions both_confirmed = [e] \<and> agreed_by one_confirmed 2 e"
  using wallet_acts_by_agreement [OF sample_wallet_reachable(1) sample_second_confirms]
  by (simp add: sample_wallet_env_def both_confirmed_def outward_def one_confirmed_def two_owners_def)

end
