(* ===== verification/WalletSystem.thy ===== *)
theory WalletSystem
  imports BridgeSystem WalletContract
begin

text \<open>
  The multisig wallet as the owner of the bridge, as the deployment leaves it: the bridge's storage is the
  world of the wallet, whose executed calls run the bridge's functions with the wallet as their sender.
\<close>

section \<open>What only the owner of the bridge changes\<close>

definition admin_view where
  "admin_view b = (br_owner b, br_federation b, feePercentage b, br_allowTokens b, br_sideTokenFactory b,
     isUpgrading b, wrapped b, sideTokenByOriginalTokenByChain b, originalTokenBySideToken b,
     br_EvmToHathor b, br_HathorToEvm b)"

fun owner_only :: "bridge_call \<Rightarrow> bool" where
  "owner_only (BSetSideToken c t a) = True"
| "owner_only (BSetOriginalToken a t) = True"
| "owner_only (BCreateSideToken t) = True"
| "owner_only (BCreateMultipleSideTokens ts) = True"
| "owner_only (BSetFeePercentage n) = True"
| "owner_only (BChangeFederation a) = True"
| "owner_only (BChangeAllowTokens a) = True"
| "owner_only (BChangeSideTokenFactory a) = True"
| "owner_only (BSetUpgrading b) = True"
| "owner_only (BSetWrappedCurrency a) = True"
| "owner_only (BAddHathorToken c a u) = True"
| "owner_only (BTransferOwnership a) = True"
| "owner_only BRenounceOwnership = True"
| "owner_only _ = False"

fun initialises :: "bridge_call \<Rightarrow> bool" where
  "initialises (BInitialize ow fed al fa) = True"
| "initialises (BOwnerInitialize a) = True"
| "initialises (BPausableInit a) = True"
| "initialises (BPauserRoleInit a) = True"
| "initialises _ = False"

lemma owner_only_owner: "owner_only c \<Longrightarrow> bridge_exec E m c s = (Inr (), t) \<Longrightarrow> msg_sender m = br_owner s"
  by (cases c) (auto simp: bridge_admin_defs br_onlyOwner_Inr)

lemma initialises_once: "initialises c \<Longrightarrow> bridge_exec E m c s = (Inr (), t) \<Longrightarrow> \<not> br_initialized s"
  by (cases c) (auto simp: bridge_initialize_def br_initializer_def br_owner_initialize_def br_pausable_init_def
      br_pauserRole_init_def bnd_eq_Inr_iff)

lemma admin_kept:
  assumes "\<not> owner_only c" "\<not> initialises c"
  shows "runs_in (same admin_view) (bridge_exec E m c)"
  using assms
  by (cases c) (auto simp: bridge_claim_defs bridge_cross_defs br_acceptTransfer_def initDomainSeparator_def
      addPauser_def renouncePauser_def addPauser_body_def removePauser_body_def pause_def unpause_def
      admin_view_def Let_def intro!: steps_intros split: prod.splits)

lemma bridge_admin_by_owner:
  assumes "br_initialized s" "msg_sender m \<noteq> br_owner s" and run: "transact (bridge_exec E m c) s = (r, t)"
  shows "admin_view t = admin_view s"
proof (cases r)
  case (Inl e)
  then show ?thesis using run by (auto simp: transact_def split: prod.splits sum.splits)
next
  case (Inr x)
  then have run: "bridge_exec E m c s = (Inr (), t)" using run by (simp add: transact_Inr)
  then show ?thesis
    using runs_inD [OF admin_kept run] owner_only_owner [OF _ run] initialises_once [OF _ run] assms(1,2)
    by (auto simp: same_def)
qed

section \<open>The wallet's view of the bridge\<close>

text \<open>
  The environment of the wallet at address \<open>W\<close>: a call of the bridge runs the function its data encodes, as
  \<open>dispatch\<close> says; other contracts only change the rest of the chain. No function the wallet calls is paid.
\<close>

definition wallet_on ::
    "'w evm \<Rightarrow> address \<Rightarrow> (string \<Rightarrow> wallet_op option) \<Rightarrow> (string \<Rightarrow> bridge_call option)
      \<Rightarrow> (address \<Rightarrow> uint256 \<Rightarrow> string \<Rightarrow> 'w \<Rightarrow> bool \<times> 'w) \<Rightarrow> ('w bridge_state) wallet_env" where
  "wallet_on B W decode dispatch other =
     \<lparr>wa_this = W, wa_decode = decode,
      wa_call = (\<lambda>dest val data b.
        if dest = ev_this B then
          (case dispatch data of
             None \<Rightarrow> (False, b)
           | Some c \<Rightarrow> (case transact (bridge_exec B (sender_msg W) c) b of (Inl e, t) \<Rightarrow> (False, t) | (Inr _, t) \<Rightarrow> (True, t)))
        else (case other dest val data (br_world b) of (ok, w) \<Rightarrow> (ok, b\<lparr>br_world := w\<rparr>)))\<rparr>"

text \<open>
  What can happen next: a transaction to the wallet, one to the bridge from any address but the wallet's, one
  to a contract AllowTokens, or anything elsewhere on the chain.
\<close>

inductive gov_step :: "'w evm \<Rightarrow> ('w bridge_state) wallet_env \<Rightarrow> ('w bridge_state) wallet_state
    \<Rightarrow> ('w bridge_state) wallet_state \<Rightarrow> bool" for B E where
  to_wallet: "sender \<noteq> wa_this E \<Longrightarrow> wallet_tx_run E sender op S = (r, T) \<Longrightarrow> gov_step B E S T"
| to_bridge: "msg_sender m \<noteq> wa_this E \<Longrightarrow> transact (bridge_exec B m c) (ms_world S) = (r, b) \<Longrightarrow>
    gov_step B E S (S\<lparr>ms_world := b\<rparr>)"
| to_allow: "gov_step B E S (S\<lparr>ms_world := (ms_world S)\<lparr>allow_at := a\<rparr>\<rparr>)"
| elsewhere: "gov_step B E S (S\<lparr>ms_world := (ms_world S)\<lparr>br_world := w\<rparr>\<rparr>)"

text \<open>
  C21: while the wallet owns an initialised bridge, nothing changes the bridge's owner, federation, fee,
  AllowTokens, factory, wrapped currency, upgrading flag or token tables but a transaction of the wallet,
  executed for the first time, that at least the required number of different owners confirmed.
\<close>

theorem bridge_governed_by_wallet:
  assumes "wallet_reachable (wallet_on B W decode dispatch other) S"
    and "br_initialized (ms_world S)" and "br_owner (ms_world S) = W"
    and "gov_step B (wallet_on B W decode dispatch other) S T"
    and "admin_view (ms_world T) \<noteq> admin_view (ms_world S)"
  shows "\<exists>sender xs e. ms_executions T = xs @ [e] \<and> agreed_by S sender e
    \<and> ex_id e \<notin> ex_id ` set (ms_executions S)"
  using assms(4)
proof cases
  case (to_wallet sender op r)
  have "outward T \<noteq> outward S" using assms(5) by (auto simp: outward_def)
  then show ?thesis using wallet_agreement [OF assms(1) to_wallet(2,1)] by blast
next
  case (to_bridge m c r b)
  then have "msg_sender m \<noteq> br_owner (ms_world S)" using assms(3) by (simp add: wallet_on_def)
  then show ?thesis using bridge_admin_by_owner [OF assms(2) _ to_bridge(3)] assms(5) to_bridge(1) by simp
qed (use assms(5) in \<open>simp_all add: admin_view_def\<close>)

definition sample_gov :: "unit bridge_state wallet_env" where
  "sample_gov = wallet_on sample_evm 9 (\<lambda>_. None) (\<lambda>d. if d = ''fee'' then Some (BSetFeePercentage 30) else None)
     (\<lambda>_ _ _ w. (True, w))"

definition owned_bridge :: "unit bridge_state" where
  "owned_bridge = sample_bridge_state\<lparr>br_owner := 9\<rparr>"

definition gov_start :: "unit bridge_state wallet_state" where
  "gov_start = (blank_wallet owned_bridge)\<lparr>ms_isOwner := \<lambda>a. a = 1 \<or> a = 2, ms_owners := [1, 2], ms_required := 2\<rparr>"

definition gov_submitted :: "unit bridge_state wallet_state" where
  "gov_submitted = gov_start\<lparr>ms_transactions := (\<lambda>_. blank_tx)
       (0 := \<lparr>tx_destination = 8, tx_value = 0, tx_data = ''fee'', tx_executed = False\<rparr>),
     ms_count := 1, ms_confirmations := (\<lambda>_ _. False)(0 := (\<lambda>_. False)(1 := True))\<rparr>"

definition gov_done :: "unit bridge_state wallet_state" where
  "gov_done = gov_submitted\<lparr>ms_transactions := (\<lambda>_. blank_tx)
       (0 := \<lparr>tx_destination = 8, tx_value = 0, tx_data = ''fee'', tx_executed = True\<rparr>),
     ms_confirmations := (\<lambda>_ _. False)(0 := (\<lambda>_. False)(1 := True, 2 := True)),
     ms_executions := [\<lparr>ex_id = 0, ex_confirmers = {1, 2}, ex_required = 2\<rparr>],
     ms_world := owned_bridge\<lparr>feePercentage := 30\<rparr>\<rparr>"

lemma gov_constructed: "wallet_constructor [1, 2] 2 (blank_wallet owned_bridge) = (Inr (), gov_start)"
  by (auto simp: wallet_constructor_def wallet_op_Inr construct_owner_def MAX_OWNER_COUNT_def blank_wallet_def
      gov_start_def fun_eq_iff)

lemma gov_submit: "wallet_tx_run sample_gov 1 (SubmitTransaction 8 0 ''fee'') gov_start = (Inr (), gov_submitted)"
  by (simp add: wallet_tx_run_def transact_def submitTransaction_def addTransaction_def bnd_def checked_add_def
      confirmTransaction_def ownerExists_def gov_start_def blank_wallet_def executeTransaction_def confirmed_def
      notExecuted_def isConfirmed_def gov_submitted_def Let_def)

lemma gov_fee_set:
  "transact (setFeePercentage (sender_msg 9) 30) owned_bridge = (Inr (), owned_bridge\<lparr>feePercentage := 30\<rparr>)"
  by (simp add: transact_def setFeePercentage_def br_onlyOwner_def bnd_def owned_bridge_def sender_msg_def
      feePercentageDivider_def word_less_nat_alt)

lemma gov_confirm: "wallet_tx_run sample_gov 2 (ConfirmTransaction 0) gov_submitted = (Inr (), gov_done)"
proof -
  obtain d where d: "CALL_DEPTH = Suc d" by (cases CALL_DEPTH) (simp_all add: CALL_DEPTH_def)
  have owners: "{a. a \<noteq> 1 \<longrightarrow> a = 2} = {1, 2 :: address}" by auto
  show ?thesis
    by (simp add: wallet_tx_run_def d transact_def bnd_def confirmTransaction_def ownerExists_def gov_submitted_def
        gov_start_def blank_wallet_def executeTransaction_def confirmed_def notExecuted_def isConfirmed_def Let_def
        run_transaction_def sample_gov_def wallet_on_def set_executed_def snapshot_def gov_done_def owners
        gov_fee_set [unfolded transact_def])
qed

theorem bridge_governed_by_wallet_witness:
  "\<exists>sender e. ms_executions gov_done = [e] \<and> agreed_by gov_submitted sender e
     \<and> feePercentage (ms_world gov_done) = 30"
proof -
  have r: "wallet_reachable sample_gov gov_submitted"
    by (rule wallet_reachable.step [OF wallet_reachable.constructed [OF gov_constructed] gov_submit])
  have st: "gov_step sample_evm sample_gov gov_submitted gov_done"
    by (rule gov_step.to_wallet [OF _ gov_confirm]) (simp add: sample_gov_def wallet_on_def)
  have w: "ms_world gov_submitted = owned_bridge" by (simp add: gov_submitted_def gov_start_def blank_wallet_def)
  show ?thesis
    using bridge_governed_by_wallet [OF r [unfolded sample_gov_def] _ _ st [unfolded sample_gov_def]]
    by (simp add: w owned_bridge_def sample_bridge_state_def gov_done_def admin_view_def)
qed

end
