(* ===== verification/ChainHelpers.thy ===== *)
theory ChainHelpers
  imports Utils
begin

text \<open>
  The rest of \<open>lib/utils.ts\<close>: waiting for blocks and for a receipt, mining and clock requests to a
  test node, keys, and the memory gauge. A client is a computation that answers with the block
  number; the loop that waits may not end, so its value is \<open>None\<close> when it does not.
\<close>

section \<open>Waiting for blocks\<close>

partial_function (option) wait_loop ::
  "('s, int) comp \<Rightarrow> (int \<Rightarrow> ('s, unit) comp) \<Rightarrow> int \<Rightarrow> int \<Rightarrow> int \<Rightarrow> 's \<Rightarrow> (unit res \<times> 's) option" where
  "wait_loop getBlockNumber slp numberOfBlocks startBlock currentBlock s =
     (if numberOfBlocks > currentBlock - startBlock
      then (case getBlockNumber s of
              (Inl e, t) \<Rightarrow> Some (Inl e, t)
            | (Inr newBlock, t) \<Rightarrow>
                if newBlock \<noteq> currentBlock
                then wait_loop getBlockNumber slp numberOfBlocks startBlock newBlock t
                else (case slp 20000 t of
                        (Inl e, u) \<Rightarrow> Some (Inl e, u)
                      | (Inr _, u) \<Rightarrow> wait_loop getBlockNumber slp numberOfBlocks startBlock currentBlock u))
      else Some (Inr (), s))"

definition waitBlocks ::
  "('s, int) comp \<Rightarrow> (int \<Rightarrow> ('s, unit) comp) \<Rightarrow> int \<Rightarrow> 's \<Rightarrow> (unit res \<times> 's) option" where
  "waitBlocks getBlockNumber slp numberOfBlocks s =
     (case getBlockNumber s of
        (Inl e, t) \<Rightarrow> Some (Inl e, t)
      | (Inr startBlock, t) \<Rightarrow> wait_loop getBlockNumber slp numberOfBlocks startBlock startBlock t)"

text \<open>A node seen through its answers: the \<open>i\<close>-th query is answered \<open>f i\<close>.\<close>

definition answers :: "(nat \<Rightarrow> int) \<Rightarrow> (nat, int) comp" where
  "answers f i = (Inr (f i), Suc i)"

definition no_wait :: "int \<Rightarrow> (nat, unit) comp" where
  "no_wait ms i = (Inr (), i)"

lemma wait_loop_steps:
  "n \<le> current - start \<Longrightarrow> wait_loop (answers f) no_wait n start current i = Some (Inr (), i)"
  "n > current - start \<Longrightarrow>
     wait_loop (answers f) no_wait n start current i = wait_loop (answers f) no_wait n start (f i) (Suc i)"
  by (subst wait_loop.simps; simp add: answers_def no_wait_def)+

lemma wait_loop_reaches:
  assumes "n \<le> f (i + k) - start" and "\<And>j. j < k \<Longrightarrow> f (i + j) - start < n"
  shows "n > current - start \<Longrightarrow> wait_loop (answers f) no_wait n start current i = Some (Inr (), Suc (i + k))"
  using assms
proof (induction k arbitrary: i current)
  case 0
  then show ?case by (simp add: wait_loop_steps)
next
  case (Suc k)
  have "f i - start < n" using Suc.prems(3) [of 0] by simp
  moreover have "n \<le> f (Suc i + k) - start" using Suc.prems(2) by simp
  moreover have "f (Suc i + j) - start < n" if "j < k" for j using Suc.prems(3) [of "Suc j"] that by simp
  ultimately have "wait_loop (answers f) no_wait n start (f i) (Suc i) = Some (Inr (), Suc (Suc i + k))"
    by (intro Suc.IH)
  then show ?case using Suc.prems(1) by (simp add: wait_loop_steps)
qed

lemma wait_loop_waits:
  assumes "\<And>k. i \<le> k \<Longrightarrow> f k - start < n" and "current - start < n"
  shows "wait_loop (answers f) no_wait n start current i = None"
proof (rule ccontr)
  assume "wait_loop (answers f) no_wait n start current i \<noteq> None"
  then obtain y where y: "wait_loop (answers f) no_wait n start current i = Some y" by auto
  have "answers f = answers f \<and> no_wait = no_wait \<and> (\<forall>k \<ge> i. f k - start < n) \<and> current - start < n \<longrightarrow> False"
  proof (rule wait_loop.raw_induct [where P = "\<lambda>g w n st c i y. g = answers f \<and> w = no_wait
        \<and> (\<forall>k \<ge> i. f k - st < n) \<and> c - st < n \<longrightarrow> False", OF _ y])
    fix rec :: "(nat, int) comp \<Rightarrow> (int \<Rightarrow> (nat, unit) comp) \<Rightarrow> int \<Rightarrow> int \<Rightarrow> int \<Rightarrow> nat \<Rightarrow> (unit res \<times> nat) option"
      and g w n st c i y
    assume IH: "\<And>g w n st c i y. rec g w n st c i = Some y \<Longrightarrow>
        g = answers f \<and> w = no_wait \<and> (\<forall>k \<ge> i. f k - st < n) \<and> c - st < n \<longrightarrow> False"
      and run: "(if c - st < n
         then (case g i of (Inl e, t) \<Rightarrow> Some (Inl e, t)
               | (Inr b, t) \<Rightarrow> if b \<noteq> c then rec g w n st b t
                   else (case w 20000 t of (Inl e, u) \<Rightarrow> Some (Inl e, u) | (Inr _, u) \<Rightarrow> rec g w n st c u))
         else Some (Inr (), i)) = Some y"
    show "g = answers f \<and> w = no_wait \<and> (\<forall>k \<ge> i. f k - st < n) \<and> c - st < n \<longrightarrow> False"
    proof
      assume a: "g = answers f \<and> w = no_wait \<and> (\<forall>k \<ge> i. f k - st < n) \<and> c - st < n"
      then have "rec g w n st (f i) (Suc i) = Some y"
        using run by (auto simp: answers_def no_wait_def split: if_splits)
      then show False using IH a by fastforce
    qed
  qed
  then show False using assms by blast
qed

text \<open>
  Waiting for \<open>n\<close> blocks ends exactly when some answer is \<open>n\<close> above the first one, and then at the
  first such answer; on a chain that stops, or that only falls back, it never ends.
\<close>

theorem waitBlocks_ends_at_block:
  "waitBlocks (answers f) no_wait n 0 =
     (if n \<le> 0 then Some (Inr (), 1)
      else if \<exists>k. n \<le> f k - f 0 then Some (Inr (), Suc (LEAST k. n \<le> f k - f 0)) else None)"
proof (cases "n \<le> 0")
  case True
  then have "wait_loop (answers f) no_wait n (f 0) (f 0) 1 = Some (Inr (), 1)" by (intro wait_loop_steps(1)) simp
  then show ?thesis using True by (simp add: waitBlocks_def) (simp add: answers_def)
next
  case pos: False
  show ?thesis
  proof (cases "\<exists>k. n \<le> f k - f 0")
    case True
    let ?k = "LEAST k. n \<le> f k - f 0"
    have k: "n \<le> f ?k - f 0" using True by (rule LeastI_ex)
    then obtain j where j: "?k = Suc j" using pos by (cases ?k) auto
    have "f (1 + i) - f 0 < n" if "i < j" for i
      using not_less_Least [of "1 + i" "\<lambda>k. n \<le> f k - f 0"] that j by simp
    moreover have "n \<le> f (1 + j) - f 0" using k j by simp
    ultimately have "wait_loop (answers f) no_wait n (f 0) (f 0) 1 = Some (Inr (), Suc (1 + j))"
      using pos by (intro wait_loop_reaches) auto
    then show ?thesis using pos True j by (simp add: waitBlocks_def) (simp add: answers_def)
  next
    case False
    then have "wait_loop (answers f) no_wait n (f 0) (f 0) 1 = None"
      using pos by (intro wait_loop_waits) (auto simp: not_le)
    then show ?thesis using pos False by (simp add: waitBlocks_def) (simp add: answers_def)
  qed
qed

section \<open>Waiting for a receipt\<close>

text \<open>
  \<open>waitForReceipt\<close>: a timer of ten seconds, whose callback asks for the receipt. The answer is an
  error, null (\<open>None\<close>) or the receipt. A promise is settled by its first \<open>resolve\<close> or \<open>reject\<close>. After
  the rejection the timer is not cleared.
\<close>

record 'r receipt_wait =
  timeElapsed :: int
  rw_cleared :: bool
  rw_settled :: "(string + 'r) option"

definition receipt_start :: "'r receipt_wait" where
  "receipt_start = \<lparr>timeElapsed = 0, rw_cleared = False, rw_settled = None\<rparr>"

definition settle_once :: "string + 'r \<Rightarrow> 'r receipt_wait \<Rightarrow> 'r receipt_wait" where
  "settle_once v s = (if rw_settled s = None then s\<lparr>rw_settled := Some v\<rparr> else s)"

definition receipt_tick :: "string \<Rightarrow> 'r option res \<Rightarrow> 'r receipt_wait \<Rightarrow> 'r receipt_wait" where
  "receipt_tick late answer s =
     (if rw_cleared s then s
      else let s = s\<lparr>timeElapsed := timeElapsed s + 10000\<rparr>
           in case answer of
                Inl e \<Rightarrow> s
              | Inr receipt \<Rightarrow>
                  let s = (case receipt of None \<Rightarrow> s | Some r \<Rightarrow> settle_once (Inr r) (s\<lparr>rw_cleared := True\<rparr>))
                  in if timeElapsed s > 120000 then settle_once (Inl late) s else s)"

definition late_message :: "string \<Rightarrow> string \<Rightarrow> string" where
  "late_message explorerUrl txHash =
     ''Operation took too long <a target=\"_blank\" href=\"'' @ explorerUrl @ ''/tx/'' @ txHash
     @ ''\">check Tx on the explorer</a>''"

definition waitForReceipt :: "string \<Rightarrow> string \<Rightarrow> 'r option res list \<Rightarrow> 'r receipt_wait" where
  "waitForReceipt explorerUrl txHash as =
     fold (receipt_tick (late_message explorerUrl txHash)) as receipt_start"

lemma tick_elapsed:
  "\<not> rw_cleared (fold (receipt_tick m) as s) \<Longrightarrow>
   timeElapsed (fold (receipt_tick m) as s) = timeElapsed s + 10000 * int (length as)"
proof (induction as arbitrary: s)
  case (Cons a as)
  have stay: "fold (receipt_tick m) bs u = u" if "rw_cleared u" for bs u
    using that by (induction bs) (simp_all add: receipt_tick_def)
  have "\<not> rw_cleared (receipt_tick m a s)"
    using Cons.prems stay [of "receipt_tick m a s" as] by auto
  then have "timeElapsed (receipt_tick m a s) = timeElapsed s + 10000"
    by (auto simp: receipt_tick_def settle_once_def Let_def split: sum.splits option.splits if_splits)
  then show ?case using Cons by simp
qed simp

text \<open>
  A wait whose queries all fail is never settled, not even by the timeout; one that is answered null
  is rejected with the thirteenth answer, and its timer goes on.
\<close>

theorem waitForReceipt_failing_queries:
  "list_all (\<lambda>a. \<exists>e. a = Inl e) as \<Longrightarrow> rw_settled (waitForReceipt url tx as) = None"
proof -
  have "list_all (\<lambda>a. \<exists>e. a = Inl e) as \<Longrightarrow> rw_settled (fold (receipt_tick m) as s) = rw_settled s" for m s
    by (induction as arbitrary: s) (auto simp: receipt_tick_def Let_def)
  then show "list_all (\<lambda>a. \<exists>e. a = Inl e) as \<Longrightarrow> rw_settled (waitForReceipt url tx as) = None"
    by (simp add: waitForReceipt_def receipt_start_def)
qed

theorem waitForReceipt_timeout:
  "rw_settled (waitForReceipt url tx (replicate n (Inr (None :: 'r option)))) =
     (if n < 13 then None else Some (Inl (late_message url tx)))
   \<and> \<not> rw_cleared (waitForReceipt url tx (replicate n (Inr (None :: 'r option))))"
proof (induction n)
  case 0
  then show ?case by (simp add: waitForReceipt_def receipt_start_def)
next
  case (Suc n)
  let ?s = "waitForReceipt url tx (replicate n (Inr (None :: 'r option)))"
  have "\<not> rw_cleared ?s" using Suc by blast
  from tick_elapsed [OF this [unfolded waitForReceipt_def]]
  have "timeElapsed ?s = 10000 * int n"
    by (simp add: waitForReceipt_def) (simp add: receipt_start_def)
  moreover have "waitForReceipt url tx (replicate (Suc n) (Inr (None :: 'r option))) = receipt_tick (late_message url tx) (Inr None) ?s"
    by (simp add: waitForReceipt_def replicate_append_same [symmetric] del: replicate_Suc)
  ultimately show ?case using Suc by (auto simp: receipt_tick_def settle_once_def Let_def)
qed

section \<open>Keys, memory, and requests to a test node\<close>

text \<open>The functions of ethereumjs-util are parameters.\<close>

record 'b eth_utils =
  addHexPrefix :: "string \<Rightarrow> string"
  toBuffer :: "string \<Rightarrow> 'b res"
  ethPrivateToAddress :: "'b \<Rightarrow> 'b res"
  bufferToHex :: "'b \<Rightarrow> string"

definition hexStringToBuffer :: "'b eth_utils \<Rightarrow> string \<Rightarrow> 'b res" where
  "hexStringToBuffer u hexString = toBuffer u (addHexPrefix u hexString)"

definition utils_privateToAddress :: "'b eth_utils \<Rightarrow> string \<Rightarrow> string res" where
  "utils_privateToAddress u privateKey =
     (case hexStringToBuffer u privateKey of
        Inl e \<Rightarrow> Inl e
      | Inr b \<Rightarrow> (case ethPrivateToAddress u b of Inl e \<Rightarrow> Inl e | Inr a \<Rightarrow> Inr (bufferToHex u a)))"

text \<open>\<open>Math.round\<close> rounds halves up.\<close>

definition memoryUsage :: "int \<Rightarrow> int" where
  "memoryUsage heapUsed = (2 * heapUsed + 1024 * 1024) div (2 * (1024 * 1024))"

datatype node_request = EvmMine | EvmIncreaseTime int

definition asyncMine :: "(node_request \<Rightarrow> ('s, 'r) comp) \<Rightarrow> ('s, 'r) comp" where
  "asyncMine provider_send = provider_send EvmMine"

fun evm_mine :: "(node_request \<Rightarrow> ('s, 'r) comp) \<Rightarrow> nat \<Rightarrow> ('s, unit) comp" where
  "evm_mine provider_send 0 = ret ()"
| "evm_mine provider_send (Suc iterations) =
     bnd (asyncMine provider_send) (\<lambda>_. evm_mine provider_send iterations)"

text \<open>When mining fails after the clock moved, the promise is never settled: its rejection is not handled.\<close>

definition increaseTimestamp ::
  "(node_request \<Rightarrow> ('s, 'r) comp) \<Rightarrow> int \<Rightarrow> 's \<Rightarrow> ('r res option \<times> 's)" where
  "increaseTimestamp provider_send increase s =
     (case provider_send (EvmIncreaseTime increase) s of
        (Inl e, t) \<Rightarrow> (Some (Inl e), t)
      | (Inr result, t) \<Rightarrow>
          (case asyncMine provider_send t of
             (Inl e, u) \<Rightarrow> (None, u)
           | (Inr _, u) \<Rightarrow> (Some (Inr result), u)))"

definition ZERO_HASH :: string where
  "ZERO_HASH = ''0x0000000000000000000000000000000000000000000000000000000000000000''"

section \<open>Prefixes and suffixes of trie nodes\<close>

text \<open>\<open>sha3\<close> of web3 has no value for an empty text; \<open>fromHex\<close> is \<open>Buffer.from(s, 'hex').toString()\<close>.\<close>

fun outer_nodes :: "string list \<Rightarrow> string list" where
  "outer_nodes [] = []"
| "outer_nodes [n] = [n]"
| "outer_nodes (n # m # ns) =
     (if index_of n m \<ge> 0 then outer_nodes (m # ns) else n # outer_nodes (m # ns))"

definition node_hash :: "(string \<Rightarrow> string option) \<Rightarrow> (string \<Rightarrow> string) \<Rightarrow> string \<Rightarrow> string res" where
  "node_hash sha3 fromHex n =
     (case sha3 (fromHex n) of None \<Rightarrow> Inl JsTypeError | Some h \<Rightarrow> Inr (stripHexPrefix h))"

fun split_nodes ::
  "(string \<Rightarrow> string) \<Rightarrow> (string \<Rightarrow> string option) \<Rightarrow> (string \<Rightarrow> string) \<Rightarrow> string \<Rightarrow> string list
    \<Rightarrow> (string \<times> string) list res" where
  "split_nodes addPrefix sha3 fromHex hash [] = Inr []"
| "split_nodes addPrefix sha3 fromHex hash (n # ns) =
     (let p = index_of hash n;
          pair = (addPrefix (js_substring n 0 p),
                  addPrefix (js_substring_from n (p + int (length hash))))
      in case node_hash sha3 fromHex n of
           Inl e \<Rightarrow> Inl e
         | Inr h \<Rightarrow>
             (case split_nodes addPrefix sha3 fromHex h ns of Inl e \<Rightarrow> Inl e | Inr ps \<Rightarrow> Inr (pair # ps)))"

text \<open>The nodes passed in lose their prefix, too. Without a node the first one is undefined.\<close>

definition calculatePrefixesSuffixes ::
  "(string \<Rightarrow> string) \<Rightarrow> (string \<Rightarrow> string option) \<Rightarrow> (string \<Rightarrow> string) \<Rightarrow> string list
    \<Rightarrow> (string list \<times> string list) res \<times> string list" where
  "calculatePrefixesSuffixes addPrefix sha3 fromHex nodes =
     (let nodes = map stripHexPrefix nodes
      in (case outer_nodes nodes of
            [] \<Rightarrow> Inl JsTypeError
          | n # ns \<Rightarrow>
              (case node_hash sha3 fromHex n of
                 Inl e \<Rightarrow> Inl e
               | Inr h \<Rightarrow>
                   (case split_nodes addPrefix sha3 fromHex h ns of
                      Inl e \<Rightarrow> Inl e
                    | Inr ps \<Rightarrow> Inr (''0x'' # map fst ps, ''0x'' # map snd ps))), nodes))"

end
