(* ===== verification/MainProcess.thy ===== *)
theory MainProcess
  imports Service
begin

text \<open>
  \<open>main.ts\<close> as a state machine: the processes the federator starts and the events it then reacts to,
  and the HTTP endpoint (\<open>lib/Endpoints.ts\<close>). A rejection nobody handles ends the process, as node
  does since version 15 (the image of the repository runs version 22).
\<close>

section \<open>The endpoint\<close>

datatype http_reply = JsonReply int "(string \<times> string) list" | TextReply int string

record endpoint =
  ep_port :: int
  ep_routes :: "string list"

definition new_Endpoint :: "int \<Rightarrow> endpoint" where
  "new_Endpoint p = \<lparr>ep_port = p, ep_routes = []\<rparr>"

definition endpoint_init :: "endpoint \<Rightarrow> endpoint" where
  "endpoint_init e = e\<lparr>ep_routes := [''/isAlive'', ''/metrics'']\<rparr>"

text \<open>
  The answer to a GET request, and the line \<open>logCall\<close> prints; no answer when the registry fails, since
  the handler only logs the error. Other paths are answered by express.
\<close>

definition handle_request :: "string res \<Rightarrow> http_reply \<Rightarrow> endpoint \<Rightarrow> string \<Rightarrow> http_reply option \<times> string" where
  "handle_request registry not_found e path =
     (if path \<notin> set (ep_routes e) then Some not_found
      else if path = ''/isAlive'' then Some (JsonReply 200 [(''status'', ''ok'')])
      else (case registry of Inr text \<Rightarrow> Some (TextReply 200 text) | Inl err \<Rightarrow> None), path)"

theorem endpoint_answers:
  "fst (handle_request registry nf (endpoint_init (new_Endpoint p)) ''/isAlive'') = Some (JsonReply 200 [(''status'', ''ok'')])"
  "fst (handle_request registry nf (endpoint_init (new_Endpoint p)) ''/metrics'') = None \<longleftrightarrow> (\<exists>e. registry = Inl e)"
  by (auto simp: handle_request_def endpoint_init_def new_Endpoint_def split: sum.splits)

text \<open>What the registry exports: the counters the constructor of \<open>MetricRegister\<close> registers, by their names.\<close>

fun metric_name :: "metric \<Rightarrow> string" where
  "metric_name EvmRun = ''evm_run_count''"
| "metric_name HtrRun = ''htr_run_count''"
| "metric_name SuccessVote = ''success_vote_count''"
| "metric_name FailedVote = ''failed_vote_count''"
| "metric_name InvalidProposal = ''invalid_proposal_count''"
| "metric_name Proposal = ''successful_proposal_count''"
| "metric_name InvalidSigning = ''invalid_signing_count''"
| "metric_name Signing = ''signing_count''"
| "metric_name InvalidPushed = ''invalid_pushed_proposal_count''"
| "metric_name Pushed = ''pushed_proposal_count''"

definition registered_metrics :: "metric list" where
  "registered_metrics = [EvmRun, HtrRun, SuccessVote, FailedVote, InvalidProposal, Proposal, Signing, Pushed]"

definition exported_metrics :: "(metric \<Rightarrow> nat) \<Rightarrow> (string \<times> nat) list" where
  "exported_metrics m = map (\<lambda>k. (metric_name k, m k)) registered_metrics"

text \<open>Two counters never reach the endpoint: those of invalid signatures and invalid pushes.\<close>

theorem metrics_exported:
  "map_of (exported_metrics m) (metric_name k) = (if k \<in> {InvalidSigning, InvalidPushed} then None else Some (m k))"
  by (cases k) (simp_all add: exported_metrics_def registered_metrics_def)

section \<open>The process\<close>

text \<open>
  Both schedulers are kept in one field, so it ends up with the second; the list holds every
  scheduler that was made. \<open>m_service\<close> is the service that consumes the queue.
\<close>

record 'w main =
  m_st :: "'w st"
  m_endpoint :: endpoint
  m_schedulers :: "(process \<times> scheduler) list"
  m_federatorScheduler :: "nat option"
  m_service :: "(allow_tokens \<times> queue) option"
  m_listening :: bool
  m_exited :: bool

definition new_Main :: "'w env \<Rightarrow> 'w st \<Rightarrow> 'w main" where
  "new_Main E s =
     \<lparr>m_st = s, m_endpoint = endpoint_init (new_Endpoint (endpointsPort (config E))), m_schedulers = [],
      m_federatorScheduler = None, m_service = None, m_listening = False, m_exited = False\<rparr>"

definition schedule_process :: "'w env \<Rightarrow> process \<Rightarrow> 'w main \<Rightarrow> 'w main" where
  "schedule_process E p M =
     (let s = new_Scheduler (Some (federatorPollingInterval (config E)));
          s = (case start_scheduler s of Inr t \<Rightarrow> t | Inl e \<Rightarrow> s)
      in M\<lparr>m_federatorScheduler := Some (length (m_schedulers M)), m_schedulers := m_schedulers M @ [(p, s)]\<rparr>)"

definition scheduleFederatorProcesses :: "'w env \<Rightarrow> 'w main \<Rightarrow> 'w main" where
  "scheduleFederatorProcesses E = schedule_process E FederatorProcess"

definition scheduleHathorFederationProcess :: "'w env \<Rightarrow> 'w main \<Rightarrow> 'w main" where
  "scheduleHathorFederationProcess E = schedule_process E HathorFederationProcess"

text \<open>None of the three is awaited; a rejection of the first one is handled by nobody.\<close>

definition start_processes :: "'w env \<Rightarrow> 'w main \<Rightarrow> 'w main" where
  "start_processes E M =
     (case listenToHathorTransactions E (m_st M) of
        (Inl e, t) \<Rightarrow> M\<lparr>m_st := t, m_exited := True\<rparr>
      | (Inr q, t) \<Rightarrow>
          scheduleHathorFederationProcess E (scheduleFederatorProcesses E (M\<lparr>m_st := t, m_service := Some q\<rparr>)))"

definition main_begin :: "'w env \<Rightarrow> 'w main \<Rightarrow> 'w main" where
  "main_begin E M =
     (case areWalletsReady E (m_st M) of
        (Inl e, t) \<Rightarrow> M\<lparr>m_st := t, m_exited := True\<rparr>
      | (Inr (ready, emitter), t) \<Rightarrow>
          let M = M\<lparr>m_st := t\<rparr>
          in if ready = Some True then start_processes E M
             else if emitter then M\<lparr>m_listening := True\<rparr>
             else M\<lparr>m_exited := True\<rparr>)"

text \<open>
  The listener runs when \<open>setWalletReady\<close> emits the event, which a run does that records the multisig
  wallet as ready.
\<close>

definition notified :: "'w env \<Rightarrow> 'w st \<Rightarrow> 'w main \<Rightarrow> 'w main" where
  "notified E s M =
     (if m_listening M \<and> wallets (m_st M) \<noteq> wallets s
         \<and> (case wallets (m_st M) ''multisig'' of None \<Rightarrow> False | Some w \<Rightarrow> w_ready w)
      then start_processes E M else M)"

definition process_run :: "'w env \<Rightarrow> process \<Rightarrow> 'w st \<Rightarrow> (bool \<times> 'w st) option" where
  "process_run E p s =
     (case p of
        FederatorProcess \<Rightarrow> runFederator E s
      | HathorFederationProcess \<Rightarrow> runHathorFederation E s
      | ListenToHathor \<Rightarrow> Some (True, s))"

text \<open>
  A message of the queue. \<open>subscription.on('message', this.pubSubConsume)\<close> passes the method without its
  object, so it is called on the subscription, which has neither \<open>parseHathorLogs\<close> nor the logger its
  handler of errors uses.
\<close>

datatype receiver = ServiceThis | SubscriptionThis

definition pubSubConsume_on ::
    "receiver \<Rightarrow> 'w env \<Rightarrow> allow_tokens \<Rightarrow> hathor_event res \<Rightarrow> ('w, verdict) run" where
  "pubSubConsume_on this E al content =
     (case this of
        ServiceThis \<Rightarrow> pubSubConsume E al content
      | SubscriptionThis \<Rightarrow> try_catch (throw JsTypeError) (\<lambda>e. throw JsTypeError))"

definition on_message :: "'w env \<Rightarrow> allow_tokens \<Rightarrow> queue \<Rightarrow> hathor_event res \<Rightarrow> ('w, verdict) run" where
  "on_message E al q content =
     (case q of
        RabbitQueue \<Rightarrow> rabbitConsume E al (Some content)
      | PubSubQueue \<Rightarrow> pubSubConsume_on SubscriptionThis E al content
      | _ \<Rightarrow> ret NoAnswer)"

text \<open>SIGINT, SIGUSR1 and SIGUSR2.\<close>

definition exitHandler :: "'w main \<Rightarrow> 'w main" where
  "exitHandler M = M\<lparr>m_exited := True\<rparr>"

inductive main_step :: "'w env \<Rightarrow> 'w main \<Rightarrow> 'w main \<Rightarrow> bool" for E where
  fire: "\<not> m_exited M \<Longrightarrow> i < length (m_schedulers M) \<Longrightarrow> m_schedulers M ! i = (p, s) \<Longrightarrow>
    sched_step s Fire s' \<Longrightarrow> main_step E M (M\<lparr>m_schedulers := (m_schedulers M)[i := (p, s')]\<rparr>)"
| poll_ends: "\<not> m_exited M \<Longrightarrow> i < length (m_schedulers M) \<Longrightarrow> m_schedulers M ! i = (p, s) \<Longrightarrow>
    sched_step s Done s' \<Longrightarrow> process_run E p (m_st M) = Some (True, t) \<Longrightarrow>
    main_step E M (notified E (m_st M) (M\<lparr>m_st := t, m_schedulers := (m_schedulers M)[i := (p, s')]\<rparr>))"
| poll_exits: "\<not> m_exited M \<Longrightarrow> i < length (m_schedulers M) \<Longrightarrow> m_schedulers M ! i = (p, s) \<Longrightarrow>
    0 < sc_inflight s \<Longrightarrow> process_run E p (m_st M) = Some (False, t) \<Longrightarrow>
    main_step E M (M\<lparr>m_st := t, m_exited := True\<rparr>)"
| message: "\<not> m_exited M \<Longrightarrow> m_service M = Some (al, q) \<Longrightarrow> q \<in> {RabbitQueue, PubSubQueue} \<Longrightarrow>
    on_message E al q content (m_st M) = (r, t) \<Longrightarrow>
    main_step E M (case r of Inl e \<Rightarrow> M\<lparr>m_st := t, m_exited := True\<rparr> | Inr v \<Rightarrow> notified E (m_st M) (M\<lparr>m_st := t\<rparr>))"
| killed: "main_step E M (exitHandler M)"
| outside: "main_step E M (M\<lparr>m_st := (m_st M)\<lparr>world := w\<rparr>\<rparr>)"

inductive main_reachable :: "'w env \<Rightarrow> 'w st \<Rightarrow> 'w main \<Rightarrow> bool" for E s where
  begun: "main_reachable E s (main_begin E (new_Main E s))"
| step: "main_reachable E s M \<Longrightarrow> main_step E M M' \<Longrightarrow> main_reachable E s M'"

section \<open>What the process does\<close>

definition waiting_inv :: "'w main \<Rightarrow> bool" where
  "waiting_inv M \<longleftrightarrow> m_schedulers M = [] \<and> m_service M = None \<and> m_federatorScheduler M = None"

definition started_inv :: "'w main \<Rightarrow> bool" where
  "started_inv M \<longleftrightarrow> \<not> m_listening M \<and> m_service M \<noteq> None \<and> m_federatorScheduler M = Some 1
     \<and> map fst (m_schedulers M) = [FederatorProcess, HathorFederationProcess]
     \<and> list_all (\<lambda>(p, s). sc_running s \<and> sc_inflight s + of_bool (sc_timer s) \<le> 1) (m_schedulers M)"

lemma waiting_step: "main_step E M M' \<Longrightarrow> waiting_inv M \<Longrightarrow> waiting_inv M'"
  by (cases rule: main_step.cases) (auto simp: waiting_inv_def exitHandler_def)

lemma not_listening: "\<not> m_listening M \<Longrightarrow> notified E s M = M"
  by (simp add: notified_def)

lemma one_poll_update:
  assumes "list_all P xs" "i < length xs" "P x"
  shows "list_all P (xs[i := x])"
  using assms by (auto simp: list_all_length nth_list_update)

lemma started_update:
  assumes inv: "started_inv M" and i: "i < length (m_schedulers M)" "m_schedulers M ! i = (p, s)"
    and step: "sched_step s l s'"
  shows "started_inv (M\<lparr>m_schedulers := (m_schedulers M)[i := (p, s')]\<rparr>)"
proof -
  have s: "sc_running s" "sc_inflight s + of_bool (sc_timer s) \<le> 1"
    using inv i by (auto simp: started_inv_def list_all_length)
  from step have run: "sc_running s'"
    by (cases rule: sched_stepE) (use s(1) in \<open>auto simp: sched_defs\<close>)
  have "list_all (\<lambda>(p, s). sc_running s \<and> sc_inflight s + of_bool (sc_timer s) \<le> 1) ((m_schedulers M)[i := (p, s')])"
    using inv i(1) run sched_step_one_poll [OF step s(2)] s(1)
    by (intro one_poll_update) (auto simp: started_inv_def)
  moreover have "map fst ((m_schedulers M)[i := (p, s')]) = map fst (m_schedulers M)"
    using i by (metis fst_conv list_update_id map_update nth_map)
  ultimately show ?thesis using inv by (simp add: started_inv_def)
qed

lemma started_st: "started_inv (M\<lparr>m_st := t\<rparr>) = started_inv M" "started_inv (M\<lparr>m_exited := b\<rparr>) = started_inv M"
  by (simp_all add: started_inv_def)

lemma started_step: "main_step E M M' \<Longrightarrow> started_inv M \<Longrightarrow> started_inv M'"
proof (induction rule: main_step.induct)
  case (fire M i p s s')
  then show ?case by (intro started_update)
next
  case (poll_ends M i p s s' t)
  then have "started_inv (M\<lparr>m_schedulers := (m_schedulers M)[i := (p, s')]\<rparr>)" by (intro started_update)
  then have "started_inv (M\<lparr>m_st := t, m_schedulers := (m_schedulers M)[i := (p, s')]\<rparr>)"
    by (simp add: started_inv_def)
  then show ?case by (simp add: not_listening started_inv_def)
next
  case (message M al q content r t)
  then show ?case by (auto simp: started_inv_def not_listening split: sum.splits)
qed (auto simp: started_inv_def exitHandler_def)

lemma main_begin_cases:
  "main_begin E (new_Main E s) = M \<Longrightarrow>
   (if fst (areWalletsReady E s) \<in> {Inr (Some True, True), Inr (Some True, False)} \<and> \<not> m_exited M
    then started_inv M else waiting_inv M)"
  by (auto simp: main_begin_def new_Main_def start_processes_def scheduleHathorFederationProcess_def
      scheduleFederatorProcesses_def schedule_process_def start_scheduler_def new_Scheduler_def poll_def
      started_inv_def waiting_inv_def Let_def split: prod.splits sum.splits if_splits)

lemma main_inv:
  assumes "main_reachable E s M"
  shows "waiting_inv M \<or> (\<exists>b. fst (areWalletsReady E s) = Inr (Some True, b)) \<and> started_inv M"
  using assms
proof (induction rule: main_reachable.induct)
  case begun
  then show ?case using main_begin_cases [of E s, OF refl] by (auto split: if_splits)
next
  case (step M M')
  then show ?case using waiting_step started_step by blast
qed


lemma sample_waits:
  "fst (areWalletsReady sample_env (sample_state\<lparr>wallets := [''multisig'' \<mapsto> \<lparr>w_ready = False, w_lastCheck = 0\<rparr>]\<rparr>))
     = Inr (Some False, True)"
  by (simp add: areWalletsReady_def sample_env_def sample_rpc_def sample_state_def)


text \<open>A message of a Pub/Sub subscription ends the process, and is not handled.\<close>

theorem pubsub_message_exits:
  "fst (on_message E al PubSubQueue content s) = Inl JsTypeError \<and> snd (on_message E al PubSubQueue content s) = s"
  by (simp add: on_message_def pubSubConsume_on_def try_catch_def)

end
