(* ===== verification/Wrappers.thy ===== *)
theory Wrappers
  imports Prelude
begin

text \<open>
  The wrappers under \<open>contracts/\<close> as the calls they build, those no factory instantiates included, and the
  functions the Solidity contracts offer. web3 finds a function by its name and, where it is
  overloaded, by the number of arguments; a name the ABI lacks is undefined, and calling it a TypeError.
\<close>

section \<open>Calls\<close>

text \<open>How a built call is used: read, read with a sender, encoded for a transaction, or returned as it is.\<close>

datatype call_mode = ReadCall | ReadFrom string | EncodeABI | NoCall

record 'v wcall =
  wc_method :: string
  wc_args :: "'v list"
  wc_mode :: call_mode

definition read_call :: "string \<Rightarrow> 'v list \<Rightarrow> 'v wcall" where
  "read_call m vs = \<lparr>wc_method = m, wc_args = vs, wc_mode = ReadCall\<rparr>"

text \<open>The arguments of a transfer: of a data hash, and of an identifier or a vote.\<close>

record 'v hash_params =
  hp_to :: 'v
  hp_amount :: 'v
  hp_blockHash :: 'v
  hp_transactionHash :: 'v
  hp_logIndex :: 'v
  hp_originChainId :: 'v
  hp_destinationChainId :: 'v

record 'v id_params =
  ip_originalTokenAddress :: 'v
  ip_sender :: 'v
  ip_receiver :: 'v
  ip_amount :: 'v
  ip_blockHash :: 'v
  ip_transactionHash :: 'v
  ip_logIndex :: 'v
  ip_originChainId :: 'v
  ip_destinationChainId :: 'v

section \<open>IBridgeV3\<close>

definition V3_getFederation :: "'v wcall" where
  "V3_getFederation = read_call ''getFederation'' []"

definition V3_getAllowedTokens :: "'v wcall" where
  "V3_getAllowedTokens = read_call ''allowedTokens'' []"

definition V3_getTransactionDataHash :: "'v hash_params \<Rightarrow> 'v wcall" where
  "V3_getTransactionDataHash p = read_call ''getTransactionDataHash''
     [hp_to p, hp_amount p, hp_blockHash p, hp_transactionHash p, hp_logIndex p]"

definition V3_getProcessed :: "'v \<Rightarrow> 'v wcall" where
  "V3_getProcessed transactionDataHash = read_call ''claimed'' [transactionDataHash]"

definition V3_getVersion :: "'v wcall" where
  "V3_getVersion = read_call ''version'' []"

definition V3_getMappedToken :: "'v \<Rightarrow> 'v wcall" where
  "V3_getMappedToken originalTokenAddress = read_call ''mappedTokens'' [originalTokenAddress]"

definition V3_calls :: "'v hash_params \<Rightarrow> 'v \<Rightarrow> 'v wcall list" where
  "V3_calls p v = [V3_getFederation, V3_getAllowedTokens, V3_getTransactionDataHash p, V3_getProcessed v,
     V3_getVersion, V3_getMappedToken v]"

section \<open>IBridgeV4\<close>

text \<open>The first two methods return the call without making it.\<close>

definition V4_getFederation :: "'v wcall" where
  "V4_getFederation = \<lparr>wc_method = ''getFederation'', wc_args = [], wc_mode = NoCall\<rparr>"

definition V4_getAllowedTokens :: "'v wcall" where
  "V4_getAllowedTokens = \<lparr>wc_method = ''allowedTokens'', wc_args = [], wc_mode = NoCall\<rparr>"

definition V4_getTransactionDataHash :: "'v hash_params \<Rightarrow> 'v wcall" where
  "V4_getTransactionDataHash p = read_call ''getTransactionDataHash''
     [hp_to p, hp_amount p, hp_blockHash p, hp_transactionHash p, hp_logIndex p, hp_originChainId p,
      hp_destinationChainId p]"

definition V4_getProcessed :: "'v \<Rightarrow> 'v wcall" where
  "V4_getProcessed transactionDataHash = read_call ''claimed'' [transactionDataHash]"

definition V4_getVersion :: "'v wcall" where
  "V4_getVersion = read_call ''version'' []"

definition V4_getMappedToken :: "'v \<Rightarrow> 'v \<Rightarrow> 'v wcall" where
  "V4_getMappedToken originalTokenAddress chain =
     read_call ''sideTokenByOriginalToken'' [chain, originalTokenAddress]"

definition V4_EvmToHathorTokenMap :: "'v \<Rightarrow> 'v wcall" where
  "V4_EvmToHathorTokenMap mainToken = read_call ''EvmToHathorTokenMap'' [mainToken]"

definition V4_HathorToEvmTokenMap :: "'v \<Rightarrow> 'v wcall" where
  "V4_HathorToEvmTokenMap mainToken = read_call ''HathorToEvmTokenMap'' [mainToken]"

definition V4_sideTokenByOriginalToken :: "'v \<Rightarrow> 'v \<Rightarrow> 'v wcall" where
  "V4_sideTokenByOriginalToken originChainId originalTokenAddress =
     read_call ''sideTokenByOriginalToken'' [originChainId, originalTokenAddress]"

definition V4_calls :: "'v hash_params \<Rightarrow> 'v \<Rightarrow> 'v wcall list" where
  "V4_calls p v = [V4_getFederation, V4_getAllowedTokens, V4_getTransactionDataHash p, V4_getProcessed v,
     V4_getVersion, V4_getMappedToken v v, V4_EvmToHathorTokenMap v, V4_HathorToEvmTokenMap v,
     V4_sideTokenByOriginalToken v v]"

section \<open>IFederationV2 and IFederationV3\<close>

definition F_isMember :: "'v \<Rightarrow> 'v wcall" where
  "F_isMember address = read_call ''isMember'' [address]"

definition F_transactionWasProcessed :: "'v \<Rightarrow> 'v wcall" where
  "F_transactionWasProcessed txId = read_call ''transactionWasProcessed'' [txId]"

definition F_hasVoted :: "'v \<Rightarrow> string \<Rightarrow> 'v wcall" where
  "F_hasVoted txId sender = \<lparr>wc_method = ''hasVoted'', wc_args = [txId], wc_mode = ReadFrom sender\<rparr>"

definition seven_args :: "'v id_params \<Rightarrow> 'v list" where
  "seven_args p = [ip_originalTokenAddress p, ip_sender p, ip_receiver p, ip_amount p, ip_blockHash p,
     ip_transactionHash p, ip_logIndex p]"

definition F2_getTransactionId :: "'v id_params \<Rightarrow> 'v wcall" where
  "F2_getTransactionId p = read_call ''getTransactionId'' (seven_args p)"

definition F2_getVoteTransactionABI :: "'v id_params \<Rightarrow> 'v wcall" where
  "F2_getVoteTransactionABI p = \<lparr>wc_method = ''voteTransaction'', wc_args = seven_args p, wc_mode = EncodeABI\<rparr>"

text \<open>The heartbeat of the second version takes the first two blocks and infos; the chains it is given are not used.\<close>

definition F2_emitHeartbeat :: "'v \<Rightarrow> 'v list \<Rightarrow> 'v list \<Rightarrow> 'v list \<Rightarrow> 'v \<Rightarrow> 'v wcall" where
  "F2_emitHeartbeat fedVersion fedChainsIds fedChainsBlocks fedChainsInfo undef =
     (let arg = (\<lambda>xs i. if i < length xs then xs ! i else undef)
      in \<lparr>wc_method = ''emitHeartbeat'',
          wc_args = [arg fedChainsBlocks 0, arg fedChainsBlocks 1, fedVersion, arg fedChainsInfo 0, arg fedChainsInfo 1],
          wc_mode = EncodeABI\<rparr>)"

definition F2_calls :: "'v id_params \<Rightarrow> 'v \<Rightarrow> 'v wcall list" where
  "F2_calls p v = [F_isMember v, F2_getTransactionId p, F_transactionWasProcessed v, F_hasVoted v [],
     F2_getVoteTransactionABI p, F2_emitHeartbeat v [v, v] [v, v] [v, v] v]"

definition F3_getTransactionId :: "'v id_params \<Rightarrow> 'v wcall" where
  "F3_getTransactionId p = read_call ''getTransactionId'' (seven_args p @ [ip_originChainId p, ip_destinationChainId p])"

definition F3_getVoteTransactionABI :: "'v id_params \<Rightarrow> 'v wcall" where
  "F3_getVoteTransactionABI p = \<lparr>wc_method = ''voteTransaction'',
     wc_args = seven_args p @ [ip_originChainId p, ip_destinationChainId p], wc_mode = EncodeABI\<rparr>"

definition F3_emitHeartbeat :: "'v \<Rightarrow> 'v \<Rightarrow> 'v \<Rightarrow> 'v \<Rightarrow> 'v wcall" where
  "F3_emitHeartbeat fedVersion fedChainsIds fedChainsBlocks fedChainsInfo =
     \<lparr>wc_method = ''emitHeartbeat'', wc_args = [fedVersion, fedChainsIds, fedChainsBlocks, fedChainsInfo],
      wc_mode = EncodeABI\<rparr>"

definition F3_calls :: "'v id_params \<Rightarrow> 'v \<Rightarrow> 'v wcall list" where
  "F3_calls p v = [F_isMember v, F3_getTransactionId p, F_transactionWasProcessed v, F_hasVoted v [],
     F3_getVoteTransactionABI p, F3_emitHeartbeat v v v v]"

section \<open>IAllowTokensV1 and ITokenV0\<close>

definition A1_getSmallAmountConfirmations :: "'v wcall" where
  "A1_getSmallAmountConfirmations = read_call ''smallAmountConfirmations'' []"

definition A1_getMediumAmountConfirmations :: "'v wcall" where
  "A1_getMediumAmountConfirmations = read_call ''mediumAmountConfirmations'' []"

definition A1_getLargeAmountConfirmations :: "'v wcall" where
  "A1_getLargeAmountConfirmations = read_call ''largeAmountConfirmations'' []"

definition A1_getInfoAndLimits :: "'v \<Rightarrow> 'v wcall" where
  "A1_getInfoAndLimits tokenAddress = read_call ''getInfoAndLimits'' [tokenAddress]"

definition A1_calls :: "'v \<Rightarrow> 'v wcall list" where
  "A1_calls v = [A1_getSmallAmountConfirmations, A1_getMediumAmountConfirmations, A1_getLargeAmountConfirmations,
     A1_getInfoAndLimits v]"

section \<open>What the contracts offer\<close>

text \<open>The external and public functions and the getters of public variables, with their numbers of arguments.\<close>

definition bridge_functions :: "(string \<times> nat) list" where
  "bridge_functions =
     [(''domainSeparator'', 0), (''deprecatedSymbolPrefix'', 0), (''deprecatedMappedTokens'', 1),
      (''deprecatedOriginalTokens'', 1), (''deprecatedKnownTokens'', 1), (''claimed'', 1), (''allowTokens'', 0),
      (''sideTokenFactory'', 0), (''isUpgrading'', 0), (''feePercentageDivider'', 0), (''wrappedCurrency'', 0),
      (''transactionsDataHashes'', 1), (''originalTokenAddresses'', 1), (''senderAddresses'', 1),
      (''CLAIM_TYPEHASH'', 0), (''nonces'', 1), (''sideTokenByOriginalTokenByChain'', 2),
      (''originalTokenBySideToken'', 1), (''knownTokenByChain'', 2), (''EvmToHathorTokenMap'', 1),
      (''HathorToEvmTokenMap'', 1), (''initiated'', 0), (''initialize'', 4), (''version'', 0),
      (''initDomainSeparator'', 0), (''sideTokenByOriginalToken'', 2), (''setSideTokenByOriginalAddressByChain'', 3),
      (''getOriginalTokenBySideToken'', 1), (''setOriginalTokenBySideTokenByChain'', 2), (''knownToken'', 2),
      (''acceptTransfer'', 9), (''createSideToken'', 6), (''createMultipleSideTokens'', 1), (''claim'', 1),
      (''claimFallback'', 1), (''claimGasless'', 7), (''isClaimed'', 2), (''receiveTokensTo'', 4), (''depositTo'', 2),
      (''tokensReceived'', 6), (''getTransactionDataHash'', 7), (''setFeePercentage'', 1), (''getFeePercentage'', 0),
      (''changeFederation'', 1), (''changeAllowTokens'', 1), (''getFederation'', 0), (''changeSideTokenFactory'', 1),
      (''setUpgrading'', 1), (''setWrappedCurrency'', 1), (''hasCrossed'', 1), (''hasBeenClaimed'', 1),
      (''uidToAddress'', 1), (''addHathorToken'', 3)]"

definition federation_functions :: "(string \<times> nat) list" where
  "federation_functions =
     [(''MAX_MEMBER_COUNT'', 0), (''bridge'', 0), (''members'', 1), (''required'', 0), (''isMember'', 1), (''votes'', 2),
      (''processed'', 1), (''initialize'', 4), (''version'', 0), (''setBridge'', 1), (''isProcessed'', 2),
      (''isVoted'', 2), (''voteTransaction'', 9), (''getTransactionCount'', 1), (''hasVoted'', 1),
      (''transactionWasProcessed'', 1), (''getTransactionId'', 9), (''addMember'', 1), (''removeMember'', 1),
      (''getMembers'', 0), (''changeRequirement'', 1), (''emitHeartbeat'', 4)]"

definition allow_functions :: "(string \<times> nat) list" where
  "allow_functions =
     [(''MAX_TYPES'', 0), (''allowedTokens'', 1), (''typeLimits'', 1), (''typeDescriptions'', 1),
      (''smallAmountConfirmations'', 0), (''mediumAmountConfirmations'', 0), (''largeAmountConfirmations'', 0),
      (''initialize'', 6), (''version'', 0), (''tokenInfo'', 1), (''getInfoAndLimits'', 1), (''calcMaxWithdraw'', 1),
      (''updateTokenTransfer'', 2), (''addTokenType'', 2), (''setTypeLimits'', 2), (''getTypesLimits'', 0),
      (''getTypeDescriptionsLength'', 0), (''getTypeDescriptions'', 0), (''setToken'', 2), (''setMultipleTokens'', 1),
      (''removeAllowedToken'', 1), (''setConfirmations'', 3), (''getConfirmations'', 0), (''isTokenAllowed'', 1)]"

definition fits :: "(string \<times> nat) list \<Rightarrow> 'v wcall \<Rightarrow> bool" where
  "fits fs c \<longleftrightarrow> (wc_method c, length (wc_args c)) \<in> set fs"

definition misfits :: "(string \<times> nat) list \<Rightarrow> 'v wcall list \<Rightarrow> string list" where
  "misfits fs cs = map wc_method (filter (\<lambda>c. \<not> fits fs c) cs)"

lemmas wrapper_defs = misfits_def fits_def read_call_def V3_calls_def V3_getFederation_def V3_getAllowedTokens_def
  V3_getTransactionDataHash_def V3_getProcessed_def V3_getVersion_def V3_getMappedToken_def V4_calls_def
  V4_getFederation_def V4_getAllowedTokens_def V4_getTransactionDataHash_def V4_getProcessed_def V4_getVersion_def
  V4_getMappedToken_def V4_EvmToHathorTokenMap_def V4_HathorToEvmTokenMap_def V4_sideTokenByOriginalToken_def
  F_isMember_def F_transactionWasProcessed_def F_hasVoted_def seven_args_def F2_getTransactionId_def
  F2_getVoteTransactionABI_def F2_emitHeartbeat_def F2_calls_def F3_getTransactionId_def F3_getVoteTransactionABI_def
  F3_emitHeartbeat_def F3_calls_def A1_getSmallAmountConfirmations_def A1_getMediumAmountConfirmations_def
  A1_getLargeAmountConfirmations_def A1_getInfoAndLimits_def A1_calls_def

text \<open>
  Every call of the wrappers the factories instantiate names a function of the deployed contracts with its
  number of arguments, except \<open>allowedTokens\<close>, which Bridge.sol does not have; the older wrappers fit in the
  calls that did not change.
\<close>

theorem wrappers_fit_contracts:
  "misfits bridge_functions (V4_calls p v) = [''allowedTokens'']
   \<and> misfits federation_functions (F3_calls q v) = [] \<and> misfits allow_functions (A1_calls v) = []
   \<and> misfits bridge_functions (V3_calls p v) = [''allowedTokens'', ''getTransactionDataHash'', ''mappedTokens'']
   \<and> misfits federation_functions (F2_calls q v) = [''getTransactionId'', ''voteTransaction'', ''emitHeartbeat'']"
  by (simp add: wrapper_defs bridge_functions_def federation_functions_def allow_functions_def)

text \<open>The identifier and the vote get the same arguments in the same order, so a vote is for the transfer that was asked about.\<close>

theorem vote_has_id_args: "wc_args (F3_getVoteTransactionABI p) = wc_args (F3_getTransactionId p)"
  by (simp add: F3_getVoteTransactionABI_def F3_getTransactionId_def read_call_def)

end
