(* ===== verification/FederatorVotes.thy ===== *)
theory FederatorVotes
  imports HathorBroker FederationContract
begin

text \<open>
  The two halves of a vote together: \<open>voteOnEvm\<close> of HathorBroker.ts, with the transaction sender under
  it, run against a node that holds the storage of Federation.sol. Between any two calls of the federator
  anybody else may send transactions to the contract. What the node does is documented behaviour: reads
  answer from the storage of their moment, and a signed transaction is executed once, as its signer, or
  not at all. The theory has no code of its own.
\<close>

section \<open>The node\<close>

text \<open>Transactions of other senders, and changes of the world behind the contract.\<close>

inductive others :: "'b chain \<Rightarrow> address \<Rightarrow> 'b federation_state \<Rightarrow> 'b federation_state \<Rightarrow> bool" for C me s where
  none: "others C me s s"
| call: "others C me s t \<Longrightarrow> msg_sender m \<noteq> 0 \<Longrightarrow> msg_sender m \<noteq> me \<Longrightarrow> transact (fed_exec C m c) t = (r, u)
    \<Longrightarrow> others C me s u"
| outside: "others C me s t \<Longrightarrow> others C me s (t\<lparr>fd_world := w\<rparr>)"

definition quiet_call :: "'b chain \<Rightarrow> address \<Rightarrow> ('b federation_state, 'a) ext \<Rightarrow> bool" where
  "quiet_call C me f \<longleftrightarrow> (\<forall>w r w'. f w = (r, w') \<longrightarrow> others C me w w')"

text \<open>One vote of our own; \<open>ok\<close> is what the receipt says of it.\<close>

definition own_vote :: "'b chain \<Rightarrow> address \<Rightarrow> transfer_args \<Rightarrow> bool \<Rightarrow> 'b federation_state \<Rightarrow> 'b federation_state \<Rightarrow> bool" where
  "own_vote C me tr ok w w' \<longleftrightarrow>
     (\<exists>m x. msg_sender m = me \<and> transact (fed_exec C m (FVote tr)) w = (x, w') \<and> (ok \<longrightarrow> x = Inr ()))"

definition submits :: "'b chain \<Rightarrow> address \<Rightarrow> transfer_args \<Rightarrow> bool \<Rightarrow> 'b federation_state \<Rightarrow> 'b federation_state \<Rightarrow> bool" where
  "submits C me tr ok w w' \<longleftrightarrow> \<not> ok \<and> others C me w w'
     \<or> (\<exists>u v. others C me w u \<and> own_vote C me tr ok u v \<and> others C me v w')"

definition positive :: "receipt res \<Rightarrow> bool" where
  "positive r = (case r of Inl _ \<Rightarrow> False | Inr rc \<Rightarrow> rc_status rc)"

text \<open>
  A federator's environment served by such a node: \<open>enc\<close> is what the ABI encoding of a vote stands for
  and \<open>tid\<close> reads an identifier. It votes as the address \<open>me\<close> of its private key.
\<close>

definition node_serves ::
    "'b chain \<Rightarrow> 'b federation_state env \<Rightarrow> address \<Rightarrow> (vote_params \<Rightarrow> transfer_args) \<Rightarrow> (string \<Rightarrow> uint256) \<Rightarrow> bool" where
  "node_serves C E me enc tid \<longleftrightarrow>
     (let f = FederationFactory_createInstance (mainchain (config E)); api = federation_api E; R = rpc E;
          pk = privateKey (config E)
      in truthy_string pk
       \<and> (\<forall>h. quiet_call C me (netId R h)) \<and> (\<forall>h a. quiet_call C me (getTransactionCount R h a))
       \<and> (\<forall>h. quiet_call C me (rpcGasPrice R h)) \<and> (\<forall>h. quiet_call C me (minimumGasPrice R h))
       \<and> (\<forall>k. quiet_call C me (gasOracle R k)) \<and> (\<forall>h tx. quiet_call C me (estimateGas R h tx))
       \<and> (\<forall>p. quiet_call C me (fed_getTransactionId api f p))
       \<and> (\<forall>p w s w'. fed_getTransactionId api f p w = (Inr s, w') \<longrightarrow> tid s = fed_getTransactionId_sol C (enc p))
       \<and> (\<forall>s. quiet_call C me (fed_transactionWasProcessed api f s))
       \<and> (\<forall>s w b w'. fed_transactionWasProcessed api f s w = (Inr b, w')
            \<longrightarrow> b = transactionWasProcessed_sol w' (tid s))
       \<and> (\<forall>s a. quiet_call C me (fed_hasVoted api f s a))
       \<and> (\<forall>s a w b w' m. privateToAddress (crypto E) (the pk) = Inr a \<longrightarrow> fed_hasVoted api f s (Some a) w = (Inr b, w')
            \<longrightarrow> msg_sender m = me \<longrightarrow> b = hasVoted_sol w' m (tid s))
       \<and> (\<forall>h ser tx p w hash r w'. signTx (crypto E) tx (the pk) = Inr ser \<longrightarrow> rt_to tx = snd f
            \<longrightarrow> rt_data tx = vote_call p \<longrightarrow> sendSignedTransaction R h ser w = ((hash, r), w')
            \<longrightarrow> submits C me (enc p) (positive r) w w'))"

section \<open>What stays\<close>

lemma others_trans:
  assumes "others C me t u" "others C me s t"
  shows "others C me s u"
  using assms by (induction rule: others.induct) (auto intro: others.intros)

lemma fed_exec_keeps:
  assumes "fed_exec C m c s = (Inr (), u)"
  shows "(processed s x \<longrightarrow> processed u x) \<and> (votes s y a \<longrightarrow> votes u y a)"
proof (cases c)
  case (FInitialize ms req b own)
  then show ?thesis using assms
    by (auto simp: fed_initialize_def validRequirement_Inr bnd_eq_Inr_iff setBridge_body_Inr
        dest!: initialize_members)
next
  case (FVote t)
  then have "fed_voteTransaction C m t s = (Inr (), u)" using assms by simp
  then show ?thesis by (cases rule: vote_cases) (auto simp: recorded_def)
qed (use assms in \<open>auto simp: bnd_eq_Inr_iff fed_owner_initialize_def setBridge_def setBridge_body_Inr
  fed_transferOwnership_def fed_renounceOwnership_def fed_emitHeartbeat_def addMember_def removeMember_def
  changeRequirement_def validRequirement_Inr\<close>)

lemma transact_keeps:
  "transact (fed_exec C m c) s = (r, u) \<Longrightarrow>
   (processed s x \<longrightarrow> processed u x) \<and> (votes s y a \<longrightarrow> votes u y a)"
  using fed_exec_keeps [of C m c s u] by (auto simp: transact_def split: prod.splits sum.splits)

lemma others_keeps:
  "others C me s u \<Longrightarrow> (processed s x \<longrightarrow> processed u x) \<and> (votes s y a \<longrightarrow> votes u y a)"
  by (induction rule: others.induct) (auto dest: transact_keeps)

text \<open>The transfer is done with for a federator: processed, or voted for by it, under either identifier.\<close>

definition settled :: "'b chain \<Rightarrow> address \<Rightarrow> transfer_args \<Rightarrow> 'b federation_state \<Rightarrow> bool" where
  "settled C me tr s \<longleftrightarrow> fed_isProcessed s (single_chain_id C tr) (fed_getTransactionId_sol C tr)
     \<or> voted_for s (single_chain_id C tr) (fed_getTransactionId_sol C tr) me"

lemma settled_others: "others C me s u \<Longrightarrow> settled C a tr s \<Longrightarrow> settled C a tr u"
  using others_keeps [of C me s u] by (auto simp: settled_def fed_isProcessed_def voted_for_def)

lemma own_vote_settles:
  assumes "own_vote C me tr True s u"
  shows "settled C me tr u"
proof -
  from assms obtain m where m: "msg_sender m = me" and v: "fed_voteTransaction C m tr s = (Inr (), u)"
    by (auto simp: own_vote_def transact_Inr)
  from v show ?thesis
    by (cases rule: vote_cases) (auto simp: settled_def fed_isProcessed_def fed_isVoted_def voted_for_def recorded_def m)
qed

lemma submits_settles: "submits C me tr True s u \<Longrightarrow> settled C me tr u"
  unfolding submits_def using own_vote_settles settled_others by blast

lemma submits_False: "submits C me tr ok s u \<Longrightarrow> submits C me tr False s u"
  by (auto simp: submits_def own_vote_def)

lemma submits_others:
  "others C me s t \<Longrightarrow> submits C me tr ok t u \<Longrightarrow> submits C me tr ok s u"
  "others C me t u \<Longrightarrow> submits C me tr ok s t \<Longrightarrow> submits C me tr ok s u"
  "others C me s u \<Longrightarrow> submits C me tr False s u"
  unfolding submits_def by (blast intro: others_trans)+

section \<open>The federator on this node\<close>

definition calm :: "'b chain \<Rightarrow> address \<Rightarrow> 'b federation_state st \<Rightarrow> 'b federation_state st \<Rightarrow> bool" where
  "calm C me s t \<longleftrightarrow> others C me (world s) (world t)"

interpretation calm: step_rel "calm C me"
  by unfold_locales (auto simp: calm_def intro: others.none others_trans)

lemma calm_same: "world t = world s \<Longrightarrow> calm C me s t"
  by (simp add: calm_def others.none)

lemma calm_steps [steps_intros]:
  "runs_in (calm C me) (emit e)" "runs_in (calm C me) (inc m)" "runs_in (calm C me) (append_file p c)"
  "runs_in (calm C me) (modify (\<lambda>s. s\<lparr>senders := g s\<rparr>))"
  "runs_in (calm C me) (new_TransactionSender h)" "runs_in (calm C me) (record_reverted q i p')"
  "runs_in (calm C me) (encode E c')"
  by (auto simp: runs_in_def append_file_def new_TransactionSender_def record_reverted_def encode_def
      intro: calm_same split: option.splits sum.splits)

lemma calm_ext: "quiet_call C me f \<Longrightarrow> runs_in (calm C me) (ext_call f)"
  by (auto simp: runs_in_def quiet_call_def calm_def ext_call_def split: prod.splits)

lemma served_calls:
  assumes "node_serves C E me enc tid"
  shows "runs_in (calm C me) (ext_call (netId (rpc E) h))" "runs_in (calm C me) (ext_call (getTransactionCount (rpc E) h a))"
    "runs_in (calm C me) (ext_call (rpcGasPrice (rpc E) h))" "runs_in (calm C me) (ext_call (minimumGasPrice (rpc E) h))"
    "runs_in (calm C me) (ext_call (gasOracle (rpc E) k))" "runs_in (calm C me) (ext_call (estimateGas (rpc E) h tx))"
  using assms by (auto simp: node_serves_def Let_def intro!: calm_ext)

lemma served_id:
  assumes "node_serves C E me enc tid"
    and "fed_getTransactionId (federation_api E) (FederationFactory_createInstance (mainchain (config E))) p w = (Inr x, w')"
  shows "tid x = fed_getTransactionId_sol C (enc p)"
  using assms(1) unfolding node_serves_def Let_def by (elim conjE allE) (erule impE, rule assms(2))

lemma served_views:
  assumes "node_serves C E me enc tid"
  shows "runs_in (calm C me) (federation_getTransactionId E (FederationFactory_createInstance (mainchain (config E))) p)"
    "runs_in (calm C me) (isTransactionVotedOrProcessed E x fa)"
  using assms
  by (auto simp: node_serves_def Let_def federation_getTransactionId_def isTransactionVotedOrProcessed_def
      transactionWasProcessed_def hasVoted_def intro!: steps_intros calm_ext)

lemma calm_getChainId:
  assumes "node_serves C E me enc tid"
  shows "runs_in (calm C me) (getChainId E i)"
  unfolding getChainId_def by (intro steps_intros served_calls [OF assms])

lemma calm_createRawTransaction:
  assumes "node_serves C E me enc tid"
  shows "runs_in (calm C me) (createRawTransaction E i from to d v)"
  unfolding createRawTransaction_def getNonce_def getGasPrice_def isRsk_def getRskGasPrice_def getEthGasPrice_def
    useEtherscanApi_def getGasLimit_def
  by (intro steps_intros served_calls [OF assms] calm_getChainId [OF assms])

lemma served_address:
  assumes "node_serves C E me enc tid"
  shows "getAddress E i (privateKey (config E)) =
    bnd (lift_res (privateToAddress (crypto E) (the (privateKey (config E))))) (\<lambda>a. ret (Some a))"
  using assms by (simp add: getAddress_def node_serves_def Let_def)

lemma calm_getAddress:
  assumes "node_serves C E me enc tid"
  shows "runs_in (calm C me) (getAddress E i (privateKey (config E)))"
  unfolding served_address [OF assms] by (intro steps_intros)

lemma calm_send_failed: "runs_in (calm C me) (send_failed E to d b h err)"
  unfolding send_failed_def by (intro steps_intros)

text \<open>Sending a vote: the transaction reaches the contract at most once, and the receipt tells whether it did.\<close>

lemma submit_signed_submits:
  assumes "node_serves C E me enc tid"
    and "signTx (crypto E) tx (the (privateKey (config E))) = Inr ser"
    and "well_made (snd (FederationFactory_createInstance (mainchain (config E)))) (vote_call p) tx"
    and "submit_signed E i c tx ser s = (r, t)"
  shows "\<exists>hash x. r = Inr (hash, x) \<and> submits C me (enc p) (positive x) (world s) (world t)"
proof -
  let ?h = "sender_client i s"
  obtain hash x w' where x: "sendSignedTransaction (rpc E) ?h ser (world s) = ((hash, x), w')"
    by (metis prod.exhaust)
  then have "submits C me (enc p) (positive x) (world s) w'"
    using assms(1-3) by (auto simp: node_serves_def Let_def well_made_def)
  moreover have "r = Inr (hash, x) \<and> world t = w'"
    using assms(4) x by (auto simp: submit_signed_def bnd_def ext_call_def split: if_splits)
  ultimately show ?thesis by simp
qed

lemma build_and_submit_submits:
  assumes served: "node_serves C E me enc tid"
    and run: "build_and_submit E i c (snd (FederationFactory_createInstance (mainchain (config E)))) (vote_call p) v
      (privateKey (config E)) s = (r, t)"
  shows "submits C me (enc p) (case r of Inl _ \<Rightarrow> False | Inr (h, x) \<Rightarrow> positive x) (world s) (world t)"
  using run unfolding build_and_submit_def
proof (cases rule: bnd_cases)
  case (err e)
  then show ?thesis
    using runs_inD [OF calm_getAddress [OF served]] by (fastforce simp: calm_def intro: submits_others(3))
next
  case (ok frm u)
  have su: "others C me (world s) (world u)"
    using runs_inD [OF calm_getAddress [OF served] ok(1)] by (simp add: calm_def)
  from ok(2) show ?thesis
  proof (cases rule: bnd_cases)
    case (err e)
    then show ?thesis
      using runs_inD [OF calm_createRawTransaction [OF served]] su
      by (fastforce simp: calm_def intro: submits_others(3) others_trans)
  next
    case (ok tx w)
    have sw: "others C me (world s) (world w)"
      using runs_inD [OF calm_createRawTransaction [OF served] ok(1)] su by (auto simp: calm_def intro: others_trans)
    have pk: "truthy_string (privateKey (config E))" using served by (simp add: node_serves_def Let_def)
    show ?thesis
    proof (cases "signTx (crypto E) tx (the (privateKey (config E)))")
      case (Inl e)
      then show ?thesis using ok(2) pk sw by (auto intro: submits_others(3))
    next
      case (Inr ser)
      then have "submit_signed E i c tx ser w = (r, t)" using ok(2) pk by simp
      from submit_signed_submits [OF served Inr createRawTransaction_well_made [OF ok(1)] this]
      show ?thesis using submits_others(1) [OF sw] by auto
    qed
  qed
qed

lemma sendTransaction_submits:
  assumes served: "node_serves C E me enc tid"
    and run: "sendTransaction E i (snd (FederationFactory_createInstance (mainchain (config E)))) (vote_call p) v
      (privateKey (config E)) False s = (r, t)"
  shows "submits C me (enc p) (positive r) (world s) (world t)"
  using run unfolding sendTransaction_def
proof (cases rule: bnd_cases)
  case (err e)
  then show ?thesis
    using runs_inD [OF calm_getChainId [OF served]] by (fastforce simp: calm_def positive_def intro: submits_others(3))
next
  case (ok c u)
  have su: "others C me (world s) (world u)"
    using runs_inD [OF calm_getChainId [OF served] ok(1)] by (simp add: calm_def)
  obtain x w where x: "build_and_submit E i c (snd (FederationFactory_createInstance (mainchain (config E))))
      (vote_call p) v (privateKey (config E)) u = (x, w)" by fastforce
  from build_and_submit_submits [OF served x]
  have sub: "submits C me (enc p) (case x of Inl _ \<Rightarrow> False | Inr (h, y) \<Rightarrow> positive y) (world s) (world w)"
    by (rule submits_others(1) [OF su])
  have failed: "send_failed E to d False h err w = (r, t) \<Longrightarrow> submits C me (enc p) (positive r) (world s) (world t)"
    for to d h err
    using send_failed_run [of E to d h err w] runs_inD [OF calm_send_failed] submits_False [OF sub] submits_others(2)
    by (fastforce simp: calm_def positive_def)
  show ?thesis
    using ok(2) x sub failed by (auto simp: bnd_def positive_def split: sum.splits prod.splits)
qed

lemma voteTransaction_submits:
  assumes served: "node_serves C E me enc tid" and contract: "v_contract v = FederationFactory_createInstance (mainchain (config E))"
    and run: "voteTransaction E v s = (r, t)"
  shows "submits C me (enc (v_params v)) (r = Inr True) (world s) (world t)"
proof -
  from run consider (before) e where "r = Inl e" "world t = world s" | (marked) "r = Inr False" "t = s"
    | (sent) x u where "vote_attempt E v s = (x, u)" "world t = world u" "r = Inr True \<longleftrightarrow> x = Inr True"
  proof -
    let ?tail = "\<lambda>e. bnd (inc FailedVote) (\<lambda>_. throw (CustomError (''Exception Voting tx:'' @ vp_transactionHash (v_params v)) e))"
    show thesis
    proof (cases "encodeABI (crypto E) (vote_call (v_params v))")
      case (Inl e)
      then show thesis
        using run that(1)
        by (auto simp: voteTransaction_def getVoteTransactionABI_def encode_def vote_call_def Let_def)
    next
      case (Inr d)
      show thesis
      proof (cases "is_marked E v s")
        case True
        then show thesis
          using run Inr that(2)
          by (auto simp: voteTransaction_def getVoteTransactionABI_def encode_def vote_call_def is_marked_def
              Let_def try_catch_def bnd_def)
      next
        case False
        obtain x u where x: "vote_attempt E v s = (x, u)" by fastforce
        have "voteTransaction E v s = try_catch (vote_attempt E v) ?tail s"
          using False Inr
          by (simp add: voteTransaction_def getVoteTransactionABI_def encode_def vote_call_def is_marked_def
              Let_def try_catch_def bnd_def [of "gets _"] vote_attempt_def)
        then have "world t = world u" "r = Inr True \<longleftrightarrow> x = Inr True"
          using run x by (auto simp: try_catch_def split: sum.splits)
        with x show thesis by (rule that(3))
      qed
    qed
  qed
  then show ?thesis
  proof cases
    case before
    then show ?thesis by (auto intro: submits_others(3) others.none)
  next
    case marked
    then show ?thesis by (auto intro: submits_others(3) others.none)
  next
    case (sent x u)
    from sent(1) have "submits C me (enc (v_params v)) (x = Inr True) (world s) (world u)"
      unfolding vote_attempt_def contract
    proof (cases rule: bnd_cases)
      case (err e)
      then show ?thesis using sendTransaction_submits [OF served] by (fastforce simp: positive_def)
    next
      case (ok rc w)
      then have w: "world u = world w"
        by (auto simp: bnd_def record_reverted_def split: if_splits option.splits)
      have "submits C me (enc (v_params v)) (rc_status rc) (world s) (world w)"
        using sendTransaction_submits [OF served ok(1)] by (simp add: positive_def)
      moreover have "x = Inr True \<Longrightarrow> rc_status rc"
        using ok(2) by (auto simp: bnd_def record_reverted_def split: if_splits option.splits)
      ultimately show ?thesis using w submits_False by metis
    qed
    then show ?thesis using sent by simp
  qed
qed

lemma seen_settled:
  assumes served: "node_serves C E me enc tid"
    and addr: "privateToAddress (crypto E) (the (privateKey (config E))) = Inr a"
    and run: "isTransactionVotedOrProcessed E x (Some a) s = (Inr True, t)" and id: "tid x = fed_getTransactionId_sol C tr"
  shows "settled C me tr (world t)"
proof -
  let ?f = "FederationFactory_createInstance (mainchain (config E))"
  have me: "msg_sender (sender_msg me) = me" by (simp add: sender_msg_def)
  from run consider "transactionWasProcessed E ?f x s = (Inr True, t)"
    | u where "hasVoted E ?f x (Some a) u = (Inr True, t)"
    by (auto simp: isTransactionVotedOrProcessed_def Let_def bnd_eq_Inr_iff split: if_splits)
  then show ?thesis
  proof cases
    case 1
    then have "fed_transactionWasProcessed (federation_api E) ?f x (world s) = (Inr True, world t)"
      by (auto simp: transactionWasProcessed_def ext_call_def split: prod.splits)
    then have "transactionWasProcessed_sol (world t) (tid x)" using served by (auto simp: node_serves_def Let_def)
    then show ?thesis by (simp add: settled_def fed_isProcessed_def transactionWasProcessed_sol_def id)
  next
    case (2 u)
    then have "fed_hasVoted (federation_api E) ?f x (Some a) (world u) = (Inr True, world t)"
      by (auto simp: hasVoted_def ext_call_def split: prod.splits)
    then have "hasVoted_sol (world t) (sender_msg me) (tid x)"
      using served addr me unfolding node_serves_def Let_def by blast
    then show ?thesis by (simp add: settled_def voted_for_def hasVoted_sol_def id me)
  qed
qed

lemma vote_once_settles:
  assumes served: "node_serves C E me enc tid" and run: "vote_once E p s = (r, t)"
  shows "submits C me (enc p) False (world s) (world t) \<and> (r = Inr True \<longrightarrow> settled C me (enc p) (world t))"
proof -
  let ?f = "FederationFactory_createInstance (mainchain (config E))"
  have quiet: "submits C me (enc p) False (world s) (world t) \<and> (r = Inr True \<longrightarrow> settled C me (enc p) (world t))"
    if "calm C me s t" "r = Inr True \<Longrightarrow> settled C me (enc p) (world t)"
    using that by (auto simp: calm_def intro: submits_others(3))
  obtain i s1 where i: "new_TransactionSender (host (mainchain (config E))) s = (Inr i, s1)"
    by (simp add: new_TransactionSender_def)
  have c1: "calm C me s s1" by (rule runs_inD [OF calm_steps(5) i])
  have run1: "bnd (getAddress E i (privateKey (config E))) (\<lambda>fa. bnd (federation_getTransactionId E ?f p) (\<lambda>x.
      bnd (isTransactionVotedOrProcessed E x fa) (\<lambda>seen. if seen then ret True else voteTransaction E
        \<lparr>v_sideChainId = chainId (mainchain (config E)), v_mainChainId = chainId (chainConfig E),
         v_sender = i, v_contract = ?f, v_transactionId = x, v_params = p\<rparr>))) s1 = (r, t)"
    using run i by (simp add: vote_once_def Let_def)
  then show ?thesis
  proof (cases rule: bnd_cases)
    case (err e)
    then show ?thesis using quiet [OF calm.R_trans [OF c1 runs_inD [OF calm_getAddress [OF served] err(1)]]] by simp
  next
    case (ok fa s2)
    note a = ok
    have c2: "calm C me s s2" by (rule calm.R_trans [OF c1 runs_inD [OF calm_getAddress [OF served] a(1)]])
    obtain a' where fa: "fa = Some a'" "privateToAddress (crypto E) (the (privateKey (config E))) = Inr a'"
      using a(1) unfolding served_address [OF served] by (auto simp: bnd_eq_Inr_iff lift_res_def)
    from a(2) show ?thesis
    proof (cases rule: bnd_cases)
      case (err e)
      then show ?thesis using quiet [OF calm.R_trans [OF c2 runs_inD [OF served_views(1) [OF served] err(1)]]] by simp
    next
      case (ok x s3)
      note g = ok
      have c3: "calm C me s s3" by (rule calm.R_trans [OF c2 runs_inD [OF served_views(1) [OF served] g(1)]])
      have "fed_getTransactionId (federation_api E) ?f p (world s2) = (Inr x, world s3)"
        using g(1) by (auto simp: federation_getTransactionId_def ext_call_def split: prod.splits)
      then have id: "tid x = fed_getTransactionId_sol C (enc p)" by (rule served_id [OF served])
      from g(2) show ?thesis
      proof (cases rule: bnd_cases)
        case (err e)
        then show ?thesis using quiet [OF calm.R_trans [OF c3 runs_inD [OF served_views(2) [OF served] err(1)]]] by simp
      next
        case (ok seen s4)
        have c4: "calm C me s s4" by (rule calm.R_trans [OF c3 runs_inD [OF served_views(2) [OF served] ok(1)]])
        show ?thesis
        proof (cases seen)
          case True
          then have "r = Inr True" "t = s4" using ok(2) by simp_all
          moreover have "settled C me (enc p) (world s4)"
            using seen_settled [OF served fa(2) _ id] ok(1) True fa(1) by simp
          ultimately show ?thesis using quiet c4 by simp
        next
          case False
          then have "voteTransaction E \<lparr>v_sideChainId = chainId (mainchain (config E)),
              v_mainChainId = chainId (chainConfig E), v_sender = i, v_contract = ?f, v_transactionId = x,
              v_params = p\<rparr> s4 = (r, t)" using ok(2) by simp
          then have "submits C me (enc p) (r = Inr True) (world s4) (world t)"
            using voteTransaction_submits [OF served, of "\<lparr>v_sideChainId = chainId (mainchain (config E)),
              v_mainChainId = chainId (chainConfig E), v_sender = i, v_contract = ?f, v_transactionId = x,
              v_params = p\<rparr>"] by simp
          from submits_others(1) [OF c4 [unfolded calm_def] this] show ?thesis
            using submits_False submits_settles by force
        qed
      qed
    qed
  qed
qed

text \<open>The vote that \<open>voteOnEvm\<close> is about: none when a hash or the sender's address fails.\<close>

definition ballot ::
    "'w env \<Rightarrow> string \<Rightarrow> int option \<Rightarrow> string \<Rightarrow> string \<Rightarrow> string option \<Rightarrow> vote_params option" where
  "ballot E receiver amt tok txId ogSender =
     (case ogSender of None \<Rightarrow> None | Some a \<Rightarrow>
        (case keccak256 (crypto E) a of Inl _ \<Rightarrow> None | Inr h \<Rightarrow>
           (case toChecksumAddress (crypto E) (js_substring h 0 42) of Inl _ \<Rightarrow> None | Inr sender \<Rightarrow>
              (case keccak256 (crypto E) txId of Inl _ \<Rightarrow> None
               | Inr idHash \<Rightarrow> Some (vote_params_of E tok sender receiver amt idHash)))))"

lemma voteOnEvm_ballot:
  assumes "voteOnEvm E receiver amt tok txId ogSender s = (r, t)"
  obtains (early) e where "r = Inl e" "t = s"
  | (vote) p where "ballot E receiver amt tok txId ogSender = Some p" "vote_once E p s = (r, t)"
  using assms
  by (auto simp: voteOnEvm_def ballot_def bnd_def new_Federator_def split: if_splits option.splits sum.splits)

text \<open>
  C13: a federator on a node that serves the contract, whatever others send to the contract meanwhile.
  Voting for a Hathor transaction sends the contract at most one vote, the one for this transfer, and
  nothing else; and when it answers true, the transfer is processed or the contract holds this
  federator's vote for it.
\<close>

theorem true_answer_is_a_vote:
  assumes "node_serves C E me enc tid" and "voteOnEvm E receiver amt tok txId ogSender s = (r, t)"
  shows "case ballot E receiver amt tok txId ogSender of
      None \<Rightarrow> t = s \<and> r \<noteq> Inr True
    | Some p \<Rightarrow> submits C me (enc p) False (world s) (world t) \<and> (r = Inr True \<longrightarrow> settled C me (enc p) (world t))"
  using assms(2)
proof (cases rule: voteOnEvm_ballot)
  case (early e)
  then show ?thesis by (auto intro: submits_others(3) others.none split: option.splits)
next
  case (vote p)
  then show ?thesis using vote_once_settles [OF assms(1) vote(2)] by simp
qed

section \<open>Enough federators\<close>

text \<open>Votes and heartbeats of whoever, with no change of the members or of the number required.\<close>

inductive voting :: "'b chain \<Rightarrow> 'b federation_state \<Rightarrow> 'b federation_state \<Rightarrow> bool" for C s where
  none: "voting C s s"
| vote: "voting C s t \<Longrightarrow> msg_sender m \<noteq> 0 \<Longrightarrow> transact (fed_exec C m (FVote tr)) t = (r, u) \<Longrightarrow> voting C s u"
| beat: "voting C s t \<Longrightarrow> msg_sender m \<noteq> 0 \<Longrightarrow> transact (fed_exec C m (FHeartbeat a b i)) t = (r, u) \<Longrightarrow> voting C s u"
| outside: "voting C s t \<Longrightarrow> voting C s (t\<lparr>fd_world := w\<rparr>)"

text \<open>No other transfer has an identifier of this one.\<close>

definition own_ids :: "'b chain \<Rightarrow> transfer_args \<Rightarrow> bool" where
  "own_ids C tr \<longleftrightarrow> (\<forall>t. fed_getTransactionId_sol C t \<in> {single_chain_id C tr, fed_getTransactionId_sol C tr} \<longrightarrow> t = tr)"

definition voters :: "'b chain \<Rightarrow> transfer_args \<Rightarrow> 'b federation_state \<Rightarrow> address set" where
  "voters C tr s = {a \<in> set (members s). voted_for s (single_chain_id C tr) (fed_getTransactionId_sol C tr) a}"

definition pending :: "'b chain \<Rightarrow> transfer_args \<Rightarrow> 'b federation_state \<Rightarrow> bool" where
  "pending C tr s \<longleftrightarrow> \<not> fed_isProcessed s (single_chain_id C tr) (fed_getTransactionId_sol C tr)
     \<and> card (voters C tr s) < votes_needed s"

definition released :: "'b chain \<Rightarrow> transfer_args \<Rightarrow> 'b federation_state \<Rightarrow> bool" where
  "released C tr s \<longleftrightarrow> processed s (fed_getTransactionId_sol C tr) \<and> tr \<in> set (accepted_transfers s)"

lemma vote_frame:
  "fed_voteTransaction C m t s = (Inr (), u) \<Longrightarrow> members u = members s \<and> required u = required s"
  by (erule vote_cases) (auto simp: recorded_def)

lemma pending_vote:
  assumes "fed_inv C s" "own_ids C tr" "pending C tr s \<or> released C tr s" "fed_voteTransaction C m t s = (Inr (), u)"
  shows "pending C tr u \<or> released C tr u"
proof (cases "t = tr")
  case True
  show ?thesis
    using assms(4)
  proof (cases rule: vote_cases)
    case 1
    then show ?thesis using assms(3) by simp
  next
    case 2
    have "voters C tr (recorded C m t s) = supporters C m t s"
      by (auto simp: voters_def supporters_def voted_for_def recorded_def True)
    moreover have "\<not> votes_needed s \<le> card (supporters C m t s)"
      using 2 validate_recorded [OF assms(1)] by simp
    moreover have "\<not> released C tr s" using 2(3) by (simp add: released_def True)
    moreover have "votes_needed (recorded C m t s) = votes_needed s"
      "processed (recorded C m t s) = processed s" by (simp_all add: recorded_def votes_needed_def)
    ultimately show ?thesis
      using assms(3) 2(2) by (simp add: pending_def fed_isProcessed_def not_le)
  next
    case (3 w)
    then show ?thesis by (simp add: released_def recorded_def True)
  qed
next
  case False
  then have ids: "fed_getTransactionId_sol C t \<noteq> single_chain_id C tr" "fed_getTransactionId_sol C t \<noteq> fed_getTransactionId_sol C tr"
    using assms(2) by (auto simp: own_ids_def)
  from assms(4) show ?thesis
    using assms(3) ids
    by (cases rule: vote_cases)
      (auto simp: pending_def released_def recorded_def voters_def voted_for_def fed_isProcessed_def votes_needed_def)
qed

lemma voting_pending:
  assumes "voting C s u" "fed_inv C s" "own_ids C tr" "pending C tr s"
  shows "fed_inv C u \<and> members u = members s \<and> required u = required s \<and> (pending C tr u \<or> released C tr u)"
  using assms(1)
proof (induction rule: voting.induct)
  case none
  then show ?case using assms by simp
next
  case (vote t m tr' r u)
  show ?case
  proof (cases r)
    case (Inl e)
    then show ?thesis using vote by (auto simp: transact_def split: prod.splits sum.splits)
  next
    case (Inr x)
    then have v: "fed_voteTransaction C m tr' t = (Inr (), u)" using vote.hyps by (simp add: transact_Inr)
    show ?thesis
      using vote.IH fed_inv_vote [OF _ v] vote_frame [OF v] pending_vote [OF _ assms(3) _ v] by auto
  qed
next
  case (beat t m a b i r u)
  then have "u = t" by (auto simp: transact_def fed_emitHeartbeat_def onlyMember_def bnd_def split: prod.splits sum.splits)
  then show ?case using beat by simp
next
  case (outside t w)
  then show ?case by (auto simp: fed_inv_world pending_def released_def voters_def votes_needed_def fed_isProcessed_def
      voted_for_def)
qed

lemma voting_keeps:
  "voting C s u \<Longrightarrow> (processed s x \<longrightarrow> processed u x) \<and> (votes s y a \<longrightarrow> votes u y a)"
  by (induction rule: voting.induct)
    (auto dest: transact_keeps [where c = "FVote v" for v, simplified]
      transact_keeps [where c = "FHeartbeat a b i" for a b i, simplified])

lemma settled_voting: "voting C s u \<Longrightarrow> settled C a tr s \<Longrightarrow> settled C a tr u"
  using voting_keeps [of C s u] by (auto simp: settled_def fed_isProcessed_def voted_for_def)

text \<open>Some federator voting as \<open>a\<close> answered true to its vote for the transfer, before the state \<open>u\<close>.\<close>

definition answered_true :: "'b chain \<Rightarrow> address \<Rightarrow> transfer_args \<Rightarrow> 'b federation_state \<Rightarrow> bool" where
  "answered_true C a tr u \<longleftrightarrow>
     (\<exists>E enc tid receiver amt tok txId ogSender s t p. node_serves C E a enc tid
        \<and> voteOnEvm E receiver amt tok txId ogSender s = (Inr True, t)
        \<and> ballot E receiver amt tok txId ogSender = Some p \<and> enc p = tr \<and> voting C (world t) u)"

lemma answered_true_settled: "answered_true C a tr u \<Longrightarrow> settled C a tr u"
  unfolding answered_true_def using true_answer_is_a_vote settled_voting by fastforce

text \<open>
  C14: while members and requirement stay as they are, a transfer whose identifiers no other transfer
  shares is handed to the bridge, once, as soon as as many members as needed run federators that
  answered true, in any order and interleaving with other votes.
\<close>

theorem quorum_releases:
  assumes "fed_reachable C s" and "own_ids C tr" and "pending C tr s" and "voting C s u"
    and "V \<subseteq> set (members s)" and "votes_needed s \<le> card V" and "\<forall>a \<in> V. answered_true C a tr u"
  shows "processed u (fed_getTransactionId_sol C tr) \<and> tr \<in> set (accepted_transfers u)
    \<and> distinct (accepted_transfers u)"
proof -
  have u: "fed_inv C u" "members u = members s" "required u = required s" "pending C tr u \<or> released C tr u"
    using voting_pending [OF assms(4) fed_inv_reachable [OF assms(1)] assms(2,3)] by simp_all
  have "\<not> pending C tr u"
  proof
    assume p: "pending C tr u"
    have "V \<subseteq> voters C tr u"
      using assms(5,7) p u(2) by (auto simp: voters_def pending_def settled_def dest!: bspec answered_true_settled)
    then have "card V \<le> card (voters C tr u)" by (intro card_mono) (auto simp: voters_def)
    moreover have "votes_needed u = votes_needed s" using u by (simp add: votes_needed_def)
    ultimately show False using p assms(6) by (simp add: pending_def)
  qed
  then show ?thesis using u(1,4) by (auto simp: released_def fed_inv_def distinct_map)
qed

section \<open>Two federators at work\<close>

text \<open>
  A node over the contract: every view answers from the storage, and a signed vote for the transfer is
  executed as the federator's. The federator is the sample one; only one vote can be encoded.
\<close>

definition look :: "'a \<Rightarrow> ('s, 'a) ext" where
  "look a w = (Inr a, w)"

definition the_ballot :: vote_params where
  "the_ballot = the (ballot Sample.sample_env ''0xr'' (Some 5) ''0xtoken'' ''d'' (Some ''Huser''))"

definition node_rpc :: "'b chain \<Rightarrow> address \<Rightarrow> transfer_args \<Rightarrow> 'b federation_state rpc" where
  "node_rpc C me tr =
     \<lparr>getBlockNumber = (\<lambda>h. look 1000), isSyncing = (\<lambda>h. look False),
      netId = (\<lambda>h. look 31), getTransactionCount = (\<lambda>h a. look 7),
      rpcGasPrice = (\<lambda>h. look 100), minimumGasPrice = (\<lambda>h. look 100),
      estimateGas = (\<lambda>h tx. look 21000), getAccounts = (\<lambda>h. look []),
      sendSignedTransaction = (\<lambda>h ser w. case transact (fed_exec C (sender_msg me) (FVote tr)) w of (r, w') \<Rightarrow>
        ((Some ''0xh'', Inr (sample_receipt\<lparr>rc_status := (r = Inr ())\<rparr>)), w')),
      sendPersonalTransaction = (\<lambda>h tx w. ((None, Inl JsTypeError), w)),
      evmTransactionBlock = (\<lambda>h tx. look None),
      gasOracle = (\<lambda>k w. (Inl JsTypeError, w)), passTime = (\<lambda>ms w. w), clock = (\<lambda>w. 0)\<rparr>"

definition node_federation :: "'b chain \<Rightarrow> address \<Rightarrow> transfer_args \<Rightarrow> 'b federation_state federation_api" where
  "node_federation C me tr =
     \<lparr>fed_isMember = (\<lambda>c a w. (Inr (isMember w me), w)),
      fed_getTransactionId = (\<lambda>c p w. (if p = the_ballot then Inr ''0xvote'' else Inl JsTypeError, w)),
      fed_transactionWasProcessed = (\<lambda>c x w. (Inr (transactionWasProcessed_sol w (fed_getTransactionId_sol C tr)), w)),
      fed_hasVoted = (\<lambda>c x a w. (Inr (hasVoted_sol w (sender_msg me) (fed_getTransactionId_sol C tr)), w)),
      smallAmount = (\<lambda>c. look 1), mediumAmount = (\<lambda>c. look 10), largeAmount = (\<lambda>c. look 100),
      infoAndLimits = (\<lambda>c t. look sample_limits)\<rparr>"

definition node_env :: "'b chain \<Rightarrow> address \<Rightarrow> transfer_args \<Rightarrow> 'b federation_state env" where
  "node_env C me tr =
     \<lparr>config = sample_config, dirname = ''/app'', penv = sample_penv, rpc = node_rpc C me tr,
      bridge_api = \<lparr>crossEvents = (\<lambda>c d a b. look None), evmToHathorTokenMap = (\<lambda>c t. look ''ht''),
        hathorToEvmTokenMap = (\<lambda>c t. look (''0xtoken'', 31)), sideTokenByOriginal = (\<lambda>c n t. look ''0xside''),
        tokenDecimals = (\<lambda>c. look 18)\<rparr>,
      federation_api = node_federation C me tr,
      hfed = \<lparr>view_check = (\<lambda>v. None), hf_signatureCount = (\<lambda>t. look 0), hf_isProcessed = (\<lambda>t. look False),
        hf_isSigned = (\<lambda>t a. look False), hf_isProposed = (\<lambda>t. look False), hf_transactionHex = (\<lambda>t. look []),
        hf_transactionSignatures = (\<lambda>t i. look []), hf_getTransactionId = (\<lambda>a b c d e f. look []),
        hf_allEvents = (\<lambda>a b. look []), hf_lockEvents = (\<lambda>a b. look [])\<rparr>,
      wallet = \<lparr>w_signAndPush = (\<lambda>t s. look (ok_response [])), w_lockInputs = (\<lambda>t l. look (ok_response ())),
        w_confirmations = (\<lambda>t. look (ok_response 0)), w_transaction = (\<lambda>t. look None),
        w_decode = (\<lambda>t. look (ok_response sample_proposal)), w_mySignatures = (\<lambda>t. look (ok_response [])),
        w_proposal = (\<lambda>r. look (ok_response [])), w_addressIndex = (\<lambda>a. look (ok_response ())),
        w_history = look (ok_response []), w_walletStatus = (\<lambda>i. look (ok_response (Some 3, None))),
        w_start = (\<lambda>i k m. look (ok_response ()))\<rparr>,
      crypto = sample_crypto\<lparr>signTx := (\<lambda>tx k. if rt_data tx = vote_call the_ballot then Inr ''0xsigned''
        else Inl JsTypeError)\<rparr>\<rparr>"

lemma quiet_look [simp]: "quiet_call C me (look a)"
  by (simp add: quiet_call_def look_def others.none)

lemma node_env_serves:
  "node_serves C (node_env C me tr) me (\<lambda>_. tr) (\<lambda>_. fed_getTransactionId_sol C tr)"
proof -
  have still: "quiet_call C me f" if "\<And>w. snd (f w) = w" for f :: "('a federation_state, 'c) ext"
    unfolding quiet_call_def using that by (metis others.none snd_conv)
  have vote: "submits C me tr (positive x) w w'"
    if "(case transact (fed_exec C (sender_msg me) (FVote tr)) w of (r, w') \<Rightarrow>
      ((Some ''0xh'', Inr (sample_receipt\<lparr>rc_status := (r = Inr ())\<rparr>)), w')) = ((h, x), w')" for h x w w'
  proof -
    obtain r u where r: "transact (fed_exec C (sender_msg me) (FVote tr)) w = (r, u)" by fastforce
    then have "own_vote C me tr (positive x) w w'"
      using that unfolding own_vote_def
      by (intro exI [of _ "sender_msg me"] exI [of _ r]) (auto simp: sender_msg_def positive_def)
    then show ?thesis unfolding submits_def using others.none by blast
  qed
  show ?thesis
    by (auto simp: node_serves_def Let_def node_env_def node_rpc_def node_federation_def sample_config_def
        truthy_string_def sender_msg_def hasVoted_sol_def split: if_splits intro!: still vote [unfolded sender_msg_def])
qed

text \<open>A contract whose identifiers tell the sample transfer from every other one.\<close>

definition vote_chain :: "unit chain" where
  "vote_chain = FederationContract.sample_chain\<lparr>keccak256_packed := (\<lambda>xs. if length xs = 7 then 7
     else if xs = [PAddress 10, PAddress 11, PAddress 12, PUint256 100, PBytes32 13, PBytes32 14, PUint32 0,
       PUint256 31, PUint256 5] then 9 else 1)\<rparr>"

lemma vote_chain_ids [simp]:
  "single_chain_id vote_chain t = 7"
  "fed_getTransactionId_sol vote_chain t = (if t = FederationContract.sample_transfer then 9 else 1)"
  by (auto simp: single_chain_id_def fed_getTransactionId_sol_def vote_chain_def FederationContract.sample_transfer_def
      intro: transfer_args.equality)

lemma vote_chain_simps [simp]:
  "chainid vote_chain = 5" "isContract vote_chain a" "bridge_acceptTransfer vote_chain b t w = (Inr (), w)"
  by (simp_all add: vote_chain_def)

lemma vote_chain_votes:
  "transact (fed_exec vote_chain (sender_msg 1) (FVote FederationContract.sample_transfer)) two_members
     = (Inr (), voted_once)"
  "transact (fed_exec vote_chain (sender_msg 2) (FVote FederationContract.sample_transfer)) voted_once
     = (Inr (), voted_twice)"
  by (simp add: vote_eval, simp add: two_members_def voted_once_def voted_twice_def
    FederationContract.sample_transfer_def sender_msg_def fun_upd_twist getMinimalNumberOfVotes_def member_count_def
    word_le_nat_alt)+

definition node_state :: "'b \<Rightarrow> 'b st" where
  "node_state w = \<lparr>world = w, trace = [], metrics = (\<lambda>m. 0), files = (\<lambda>p. None), reverted_files = (\<lambda>p. None),
     senders = [], limit_caches = [], wallets = (\<lambda>w. None), currentChainId = None\<rparr>"

lemma node_ballot:
  "ballot (node_env C me tr) ''0xr'' (Some 5) ''0xtoken'' ''d'' (Some ''Huser'') = Some the_ballot"
  by (simp add: the_ballot_def ballot_def node_env_def sample_simps vote_params_of_def chainConfig_def)

lemma voteOnEvm_is:
  assumes "ballot E receiver amt tok txId ogSender = Some p" and "new_Federator E s = (Inr (), s)"
  shows "voteOnEvm E receiver amt tok txId ogSender s = vote_once E p s"
  using assms by (auto simp: voteOnEvm_def ballot_def split: option.splits sum.splits)

lemma node_env_simps [simp]:
  "config (node_env C me tr) = sample_config" "federation_api (node_env C me tr) = node_federation C me tr"
  "rpc (node_env C me tr) = node_rpc C me tr" "penv (node_env C me tr) = sample_penv"
  "privateToAddress (crypto (node_env C me tr)) k = Inr ''0xme''"
  "signTx (crypto (node_env C me tr)) tx k = (if rt_data tx = vote_call the_ballot then Inr ''0xsigned'' else Inl JsTypeError)"
  "encodeABI (crypto (node_env C me tr)) c = Inr ''0xdata''" "lower_case (crypto (node_env C me tr)) x = x"
  by (simp_all add: node_env_def sample_crypto_def)

lemma node_Federator: "new_Federator (node_env C me tr) s = (Inr (), s)"
  by (simp add: new_Federator_def sample_config_def sample_penv_def Sample.sample_chain_def new_ConfigChain_def
      checkHttpsOrLocalhost_def starts_with_def)

lemma node_vote_call:
  "VoteTransaction (vp_originalTokenAddress the_ballot) (vp_sender the_ballot) (vp_receiver the_ballot)
     (vp_amount the_ballot) (vp_blockHash the_ballot) (vp_transactionHash the_ballot) (vp_logIndex the_ballot)
     (vp_originChainId the_ballot) (vp_destinationChainId the_ballot) = vote_call the_ballot"
  by (simp add: vote_call_def)

lemma node_votes:
  assumes "\<not> processed w (fed_getTransactionId_sol C tr)" "\<not> votes w (fed_getTransactionId_sol C tr) me"
    and "transact (fed_voteTransaction C (sender_msg me) tr) w = (Inr (), w')"
  shows "\<exists>t. voteOnEvm (node_env C me tr) ''0xr'' (Some 5) ''0xtoken'' ''d'' (Some ''Huser'') (node_state w) = (Inr True, t)
    \<and> world t = w'"
  unfolding voteOnEvm_is [OF node_ballot node_Federator]
  using assms
  by (simp add: vote_once_def new_TransactionSender_def getAddress_def truthy_string_def sample_config_def node_state_def
      federation_getTransactionId_def ext_call_def node_federation_def isTransactionVotedOrProcessed_def
      transactionWasProcessed_def transactionWasProcessed_sol_def hasVoted_def hasVoted_sol_def voteTransaction_def
      getVoteTransactionABI_def encode_def node_vote_call try_catch_def bnd_def settle_def sendTransaction_def
      getChainId_def node_rpc_def look_def build_and_submit_def createRawTransaction_def getNonce_def sender_client_def
      js_double_exact getGasPrice_def isRsk_def RSK_TEST_NET_CHAIN_ID_def getRskGasPrice_def getGasLimit_def Let_def
      submit_signed_def sample_receipt_def sender_msg_def)

abbreviation one_transfer :: transfer_args where
  "one_transfer \<equiv> FederationContract.sample_transfer"

lemma first_federator:
  "\<exists>t. voteOnEvm (node_env vote_chain 1 one_transfer) ''0xr'' (Some 5) ''0xtoken'' ''d'' (Some ''Huser'')
      (node_state two_members) = (Inr True, t) \<and> world t = voted_once"
  by (rule node_votes) (use vote_chain_votes(1) in \<open>simp_all add: two_members_def\<close>)

lemma second_federator:
  "\<exists>t. voteOnEvm (node_env vote_chain 2 one_transfer) ''0xr'' (Some 5) ''0xtoken'' ''d'' (Some ''Huser'')
      (node_state voted_once) = (Inr True, t) \<and> world t = voted_twice"
  by (rule node_votes) (use vote_chain_votes(2) in \<open>simp_all add: two_members_def voted_once_def\<close>)

theorem true_answer_is_a_vote_witness:
  "\<exists>t. voteOnEvm (node_env vote_chain 1 one_transfer) ''0xr'' (Some 5) ''0xtoken'' ''d'' (Some ''Huser'')
      (node_state two_members) = (Inr True, t) \<and> settled vote_chain 1 one_transfer (world t)"
proof -
  obtain t where t: "voteOnEvm (node_env vote_chain 1 one_transfer) ''0xr'' (Some 5) ''0xtoken'' ''d'' (Some ''Huser'')
      (node_state two_members) = (Inr True, t)" using first_federator by blast
  from true_answer_is_a_vote [OF node_env_serves t] t show ?thesis by (simp add: node_ballot)
qed

lemma answered_by:
  assumes "\<exists>t. voteOnEvm (node_env C a tr) ''0xr'' (Some 5) ''0xtoken'' ''d'' (Some ''Huser'') s = (Inr True, t)
    \<and> world t = w" and "voting C w u"
  shows "answered_true C a tr u"
proof -
  obtain t where "voteOnEvm (node_env C a tr) ''0xr'' (Some 5) ''0xtoken'' ''d'' (Some ''Huser'') s = (Inr True, t)"
    and "world t = w" using assms(1) by blast
  with assms(2) show ?thesis
    unfolding answered_true_def
    by (intro exI [of _ "node_env C a tr"] exI [of _ "\<lambda>_. tr"] exI [of _ "\<lambda>_. fed_getTransactionId_sol C tr"]
        exI [of _ "''0xr''"] exI [of _ "Some 5"] exI [of _ "''0xtoken''"] exI [of _ "''d''"]
        exI [of _ "Some ''Huser''"] exI [of _ s] exI [of _ t] exI [of _ the_ballot])
      (simp add: node_env_serves node_ballot)
qed

theorem quorum_releases_witness:
  "processed voted_twice 9 \<and> one_transfer \<in> set (accepted_transfers voted_twice)"
proof -
  have m: "msg_sender (sender_msg 1) \<noteq> 0" "msg_sender (sender_msg 2) \<noteq> 0" by (simp_all add: sender_msg_def)
  have "transact (fed_exec vote_chain (sender_msg 1) (FInitialize [1, 2] 2 9 3)) (blank_federation ()) = (Inr (), two_members)"
    by (simp add: transact_def fed_initialize_def validRequirement_def initialize_member_def setBridge_body_def
        bnd_def blank_federation_def two_members_def MAX_MEMBER_COUNT_def)
  then have r: "fed_reachable vote_chain two_members" by (rule fed_reachable.step [OF fed_reachable.created m(1)])
  have v2: "voting vote_chain voted_once voted_twice" by (rule voting.vote [OF voting.none m(2) vote_chain_votes(2)])
  have v: "voting vote_chain two_members voted_twice"
    by (rule voting.vote [OF voting.vote [OF voting.none m(1) vote_chain_votes(1)] m(2) vote_chain_votes(2)])
  have ids: "own_ids vote_chain one_transfer" by (auto simp: own_ids_def split: if_splits)
  have p: "pending vote_chain one_transfer two_members"
    by (simp add: pending_def fed_isProcessed_def voters_def voted_for_def two_members_def votes_needed_def)
  have V: "{1, 2} \<subseteq> set (members two_members)" "votes_needed two_members \<le> card {1 :: address, 2}"
    by (simp_all add: two_members_def votes_needed_def)
  have a: "\<forall>a \<in> {1, 2}. answered_true vote_chain a one_transfer voted_twice"
    using answered_by [OF first_federator v2] answered_by [OF second_federator voting.none] by simp
  show ?thesis using quorum_releases [OF r ids p v V a] by simp
qed

end
