(* ===== verification/PubSubPlugin.thy ===== *)
theory PubSubPlugin
  imports TxChecks
begin

text \<open>
  The plugin src/.gcp/hathor_pubsub.js of the headless wallet, which hands the wallet's messages to the
  topic the federator listens to. The library's answers are parameters: the listing of the topics when the
  plugin is loaded, and afterwards the events of the process, one at a time: a message on the bus, and
  the callbacks of the creation of the topic and of publishing.
\<close>

section \<open>Settings and dependencies\<close>

definition requiredDeps :: "(string \<times> string) list" where
  "requiredDeps = [(''@google-cloud/pubsub'', ''^4.0.1''), (''yargs'', ''^16.2.0'')]"

text \<open>The exit code of \<open>checkDeps\<close>, if it ends the process: an import that fails does.\<close>

definition checkDeps :: "(string \<Rightarrow> bool) \<Rightarrow> nat option" where
  "checkDeps installed = (if list_all (installed \<circ> fst) requiredDeps then None else Some 127)"

record pubsub_settings =
  ps_apiVersion :: string
  ps_projectId :: "string option"
  ps_topicName :: "string option"

text \<open>\<open>a || b\<close> on optional strings, of which the empty one counts as missing.\<close>

definition js_or :: "string option \<Rightarrow> string option \<Rightarrow> string option" where
  "js_or a b = (case a of None \<Rightarrow> b | Some s \<Rightarrow> if s = [] then b else Some s)"

definition getSettings :: "string option \<Rightarrow> string option \<Rightarrow> string option \<Rightarrow> string option \<Rightarrow> pubsub_settings" where
  "getSettings arg_project env_project arg_topic env_topic =
     \<lparr>ps_apiVersion = ''2012-11-05'', ps_projectId = js_or arg_project env_project,
      ps_topicName = js_or (js_or arg_topic env_topic) None\<rparr>"

section \<open>The plugin\<close>

text \<open>
  The variable \<open>topic\<close> may be undefined; \<open>handler\<close> is the topic the handler of messages was made with, if
  one is registered.
\<close>

record plugin =
  pl_topic :: "string option"
  pl_handler :: "string option option"
  pl_requests :: "string option list"
  pl_published :: "(string \<times> string) list"
  pl_errors :: nat

definition topic_path :: "pubsub_settings \<Rightarrow> string" where
  "topic_path s = ''projects/'' @ js_key (ps_projectId s) @ ''/topics/''
     @ (case ps_topicName s of None \<Rightarrow> ''null'' | Some t \<Rightarrow> t)"

text \<open>\<open>init\<close>, once the topics are listed: a topic that is not found is asked for, but nobody waits for it.\<close>

definition plugin_init :: "pubsub_settings \<Rightarrow> string list \<Rightarrow> plugin" where
  "plugin_init s topics =
     (let topic = List.find (\<lambda>t. t = topic_path s) topics
      in \<lparr>pl_topic = topic, pl_handler = Some topic,
          pl_requests = (if topic = None then [ps_topicName s] else []),
          pl_published = [], pl_errors = 0\<rparr>)"

datatype plugin_event = Message string | TopicCreated "string option" | PublishFailed

text \<open>
  \<open>eventHandlerFactory(topic)\<close>: publishing on an undefined topic throws, inside the listener of the bus;
  the callbacks only log and, for a topic, set the variable.
\<close>

definition handle_message :: "string \<Rightarrow> plugin \<Rightarrow> plugin" where
  "handle_message m p =
     (case pl_handler p of
        None \<Rightarrow> p
      | Some None \<Rightarrow> p\<lparr>pl_errors := Suc (pl_errors p)\<rparr>
      | Some (Some t) \<Rightarrow> p\<lparr>pl_published := pl_published p @ [(t, m)]\<rparr>)"

fun plugin_step :: "plugin_event \<Rightarrow> plugin \<Rightarrow> plugin" where
  "plugin_step (Message m) p = handle_message m p"
| "plugin_step (TopicCreated None) p = p"
| "plugin_step (TopicCreated (Some t)) p = p\<lparr>pl_topic := Some t\<rparr>"
| "plugin_step PublishFailed p = p"

definition plugin_run :: "plugin_event list \<Rightarrow> plugin \<Rightarrow> plugin" where
  "plugin_run es p = fold plugin_step es p"

fun messages_of :: "plugin_event list \<Rightarrow> string list" where
  "messages_of [] = []"
| "messages_of (Message m # es) = m # messages_of es"
| "messages_of (e # es) = messages_of es"

section \<open>What reaches the topic\<close>

lemma plugin_step_cases:
  "pl_handler (plugin_step e p) = pl_handler p"
  "pl_handler p = Some (Some t) \<Longrightarrow> pl_published (plugin_step e p) = pl_published p @ map (Pair t) (messages_of [e])
     \<and> pl_errors (plugin_step e p) = pl_errors p"
  "pl_handler p = Some None \<Longrightarrow> pl_published (plugin_step e p) = pl_published p
     \<and> pl_errors (plugin_step e p) = pl_errors p + length (messages_of [e])"
  by (cases "(e, p)" rule: plugin_step.cases; simp add: handle_message_def split: option.splits)+

lemma messages_of_Cons: "messages_of (e # es) = messages_of [e] @ messages_of es"
  by (cases e) simp_all

lemma plugin_run_topic:
  "pl_handler p = Some (Some t) \<Longrightarrow> pl_published (plugin_run es p) = pl_published p @ map (Pair t) (messages_of es)
     \<and> pl_errors (plugin_run es p) = pl_errors p"
  unfolding plugin_run_def
proof (induction es arbitrary: p)
  case Nil
  then show ?case by simp
next
  case (Cons e es)
  then show ?case
    using plugin_step_cases(1) [of e p] plugin_step_cases(2) [of p t e]
    by (simp add: messages_of_Cons [of e es] del: messages_of.simps)
qed

lemma plugin_run_undefined:
  "pl_handler p = Some None \<Longrightarrow> pl_published (plugin_run es p) = pl_published p
     \<and> pl_errors (plugin_run es p) = pl_errors p + length (messages_of es)"
  unfolding plugin_run_def
proof (induction es arbitrary: p)
  case Nil
  then show ?case by simp
next
  case (Cons e es)
  then show ?case
    using plugin_step_cases(1) [of e p] plugin_step_cases(3) [of p e]
    by (simp add: messages_of_Cons [of e es] del: messages_of.simps)
qed

text \<open>
  With the topic there when the plugin is loaded, every message of the wallet is published on it, in
  order. Without it the topic is asked for, but the handler was made with the undefined variable: no
  message is ever published, also after the topic has been created, and each one raises an error.
\<close>

theorem plugin_publishes_or_never:
  "pl_published (plugin_run es (plugin_init s topics)) =
     (if topic_path s \<in> set topics then map (Pair (topic_path s)) (messages_of es) else [])
   \<and> pl_errors (plugin_run es (plugin_init s topics)) =
     (if topic_path s \<in> set topics then 0 else length (messages_of es))"
proof (cases "List.find (\<lambda>t. t = topic_path s) topics")
  case None
  then have "topic_path s \<notin> set topics" by (auto simp: find_None_iff)
  moreover have "pl_handler (plugin_init s topics) = Some None" using None by (simp add: plugin_init_def)
  ultimately show ?thesis using plugin_run_undefined [of "plugin_init s topics" es] by (simp add: plugin_init_def Let_def)
next
  case (Some t)
  then have t: "t = topic_path s" "topic_path s \<in> set topics" by (auto simp: find_Some_iff in_set_conv_nth)
  moreover have "pl_handler (plugin_init s topics) = Some (Some t)" using Some by (simp add: plugin_init_def Let_def)
  ultimately show ?thesis using plugin_run_topic [of "plugin_init s topics" t es] by (simp add: plugin_init_def Let_def)
qed

end
