(* ===== verification/Payout.thy ===== *)
theory Payout
  imports Amounts
begin

text \<open>
  From acceptance to payment: what the federation handed to the bridge can be claimed. \<open>BridgeSystem\<close>
  shows that every payout was voted for; this theory shows the converse, that the bridge keeps the record
  of each accepted transfer and that only an earlier claim or the token can stop its claim.
\<close>

section \<open>The record is kept\<close>

text \<open>What is assumed of the chain: no other contract the federation may be pointed to takes transfers.\<close>

definition only_bridge :: "(address \<Rightarrow> transfer_args \<Rightarrow> unit res) \<Rightarrow> bool" where
  "only_bridge other \<longleftrightarrow> (\<forall>a t. \<exists>e. other a t = Inl e)"

definition all_recorded :: "'w evm \<Rightarrow> 'w system \<Rightarrow> bool" where
  "all_recorded E S \<longleftrightarrow> (\<forall>t \<in> set (accepted_transfers S).
     on_record E (fd_world S) (ta_transactionHash t) t \<and> ta_destinationChainId t = ev_chainid E
     \<and> ta_receiver t \<noteq> 0 \<and> ta_value t > 0)"

lemma all_recorded_bridge:
  assumes "all_recorded E S" "sys_inv E F S" "msg_sender m \<notin> {0, F}"
    and "bridge_exec E m c (fd_world S) = (Inr (), b)"
  shows "all_recorded E (S\<lparr>fd_world := b\<rparr>)"
proof -
  have "c \<noteq> BAcceptTransfer t" for t
    using assms(2-4) acceptTransfer_Inr(1) [of E m t "fd_world S" b] by (auto simp: sys_inv_def)
  from runs_inD [OF accept_view_kept [OF this] assms(4)]
  have "transactionsDataHashes b = transactionsDataHashes (fd_world S)"
      "originalTokenAddresses b = originalTokenAddresses (fd_world S)" "senderAddresses b = senderAddresses (fd_world S)"
    by (auto simp: same_def dest: accept_views)
  then show ?thesis using assms(1) by (simp add: all_recorded_def on_record_def)
qed

lemma all_recorded_fed:
  assumes "all_recorded E S" "\<forall>u \<in> set (accepted_transfers S). transfer_data_hash E u \<noteq> 0" "only_bridge other"
    and "fed_exec (fed_chain E F other) m c S = (Inr (), T)"
  shows "all_recorded E T"
  using assms(4)
proof (cases rule: fed_world_cases)
  case 1
  then show ?thesis using assms(1) by (simp add: all_recorded_def)
next
  case (2 t w)
  then have acc: "br_acceptTransfer E (fed_msg F) t (fd_world S) = (Inr (), w)"
    using assms(3) unfolding only_bridge_def
    by (auto simp: fed_chain_def transact_Inr split: if_splits) (metis sum.distinct(1))
  note w = acceptTransfer_Inr [OF acc]
  have "ta_transactionHash u \<noteq> ta_transactionHash t" if "u \<in> set (accepted_transfers S)" for u
    using that assms(1,2) w(2) by (auto simp: all_recorded_def on_record_def)
  then show ?thesis using assms(1) w 2(2,3) by (auto simp: all_recorded_def on_record_def)
qed

lemma accepted_kept:
  assumes "fed_exec C m c S = (Inr (), T)" "u \<in> set (accepted_transfers S)"
  shows "u \<in> set (accepted_transfers T)"
  using assms(1) by (cases rule: fed_world_cases) (use assms(2) in auto)

lemma all_recorded_reachable:
  assumes "sys_reachable E F other S" "only_bridge other"
  shows "\<forall>u \<in> set (accepted_transfers S). transfer_data_hash E u \<noteq> 0 \<Longrightarrow> all_recorded E S"
  using assms(1)
proof (induction rule: sys_reachable.induct)
  case (start b)
  then show ?case by (simp add: all_recorded_def blank_federation_def)
next
  case (fed S m c r T)
  show ?case
  proof (cases r)
    case (Inl e)
    then have "T = S" using fed.hyps by (auto simp: transact_def split: prod.splits sum.splits)
    then show ?thesis using fed by simp
  next
    case (Inr x)
    then have run: "fed_exec (fed_chain E F other) m c S = (Inr (), T)" using fed.hyps by (simp add: transact_Inr)
    have "\<forall>u \<in> set (accepted_transfers S). transfer_data_hash E u \<noteq> 0" using fed.prems accepted_kept [OF run] by blast
    then show ?thesis using all_recorded_fed [OF fed.IH _ assms(2) run] by blast
  qed
next
  case (bridge S m c r b)
  show ?case
  proof (cases r)
    case (Inl e)
    then have "b = fd_world S" using bridge.hyps by (auto simp: transact_def split: prod.splits sum.splits)
    then show ?thesis using bridge by simp
  next
    case (Inr x)
    then have "bridge_exec E m c (fd_world S) = (Inr (), b)" using bridge.hyps by (simp add: transact_Inr)
    then show ?thesis
      using all_recorded_bridge [OF bridge.IH sys_inv_reachable [OF bridge.hyps(1)]] bridge by auto
  qed
next
  case (allow S m c a r t)
  then show ?case by (simp add: all_recorded_def on_record_def)
next
  case (outside S w)
  then show ?case by (simp add: all_recorded_def on_record_def)
qed

section \<open>Claiming\<close>

text \<open>The claim of a transfer, by its receiver.\<close>

definition claim_of :: "transfer_args \<Rightarrow> claim_data" where
  "claim_of t = \<lparr>cd_to = ta_receiver t, cd_amount = ta_value t, cd_blockHash = ta_blockHash t,
     cd_transactionHash = ta_transactionHash t, cd_logIndex = ta_logIndex t, cd_originChainId = ta_originChainId t\<rparr>"

lemma claim_of_hash:
  "ta_destinationChainId t = ev_chainid E \<Longrightarrow> claim_hash E (claim_of t) = transfer_data_hash E t"
  by (simp add: claim_hash_def claim_of_def transfer_data_hash_def)

definition already_claimed :: "'w evm \<Rightarrow> 'w bridge_state \<Rightarrow> transfer_args \<Rightarrow> bool" where
  "already_claimed E b t \<longleftrightarrow> isClaimed b (old_data_hash E (ta_receiver t) (ta_value t) (ta_blockHash t)
     (ta_transactionHash t) (ta_logIndex t)) (transfer_data_hash E t)"

text \<open>
  C16: whatever transactions came in between, the bridge still has each transfer it accepted on record,
  and anyone can claim it for its receiver: the claim fails only if it was claimed before, or with the
  error of paying the token, and succeeds otherwise.
\<close>

theorem accepted_is_claimable:
  assumes "sys_reachable E F other S" and "only_bridge other"
    and "\<forall>u \<in> set (accepted_transfers S). transfer_data_hash E u \<noteq> 0"
    and "t \<in> set (accepted_transfers S)" and "ta_originalTokenAddress t \<noteq> 0"
  shows "fst (bridge_exec E m (BClaim (claim_of t)) (fd_world S)) =
    (if already_claimed E (fd_world S) t then Inl (JsError ''Bridge: Already claimed'')
     else map_sum id (\<lambda>_. ()) (fst (claimCross E (ta_originChainId t) (ta_originalTokenAddress t) (ta_receiver t)
       (ta_value t) 0 0 ((fd_world S)\<lparr>claimed := (claimed (fd_world S))(transfer_data_hash E t := True)\<rparr>))))"
proof -
  let ?b = "fd_world S"
  have r: "on_record E ?b (ta_transactionHash t) t" "ta_destinationChainId t = ev_chainid E"
    using all_recorded_reachable [OF assms(1-3)] assms(4) by (simp_all add: all_recorded_def)
  have "originalTokenAddresses ?b (ta_transactionHash t) = ta_originalTokenAddress t"
    "transactionsDataHashes ?b (ta_transactionHash t) = transfer_data_hash E t"
    using r(1) by (simp_all add: on_record_def)
  then show ?thesis
    using assms(5) claim_of_hash [OF r(2)]
    by (auto simp: ignoring_def claim_def claim_body_def bnd_def Let_def already_claimed_def claim_of_def
        split: prod.splits sum.splits)
qed

theorem accepted_is_claimable_witness:
  "fst (bridge_exec sample_evm (sender_msg 2) (BClaim (claim_of sample_transfer)) bridge_accepted) = Inr ()
   \<and> fst (bridge_exec sample_evm (sender_msg 2) (BClaim (claim_of sample_transfer)) bridge_paid)
      = Inl (JsError ''Bridge: Already claimed'')"
proof
  have o1: "only_bridge (\<lambda>_ _. Inl (JsError ''no contract''))" by (simp add: only_bridge_def)
  have t: "sample_transfer \<in> set (accepted_transfers system_accepted)" "ta_originalTokenAddress sample_transfer \<noteq> 0"
    by (simp_all add: system_accepted_def sample_transfer_def)
  have w: "fd_world system_accepted = bridge_accepted" by (simp add: system_accepted_def)
  show "fst (bridge_exec sample_evm (sender_msg 2) (BClaim (claim_of sample_transfer)) bridge_accepted) = Inr ()"
    using accepted_is_claimable [OF sample_sys_reachable(2) o1 _ t, of "sender_msg 2"] unfolding w
    by (simp add: already_claimed_def isClaimed_def claimCross_def bnd_def checkChainId_def knownToken_def
        claimCrossBackToToken_def lib_getDecimals_def pow10_missing_def sm_div_def sm_sub_def xrun_def word_le_nat_alt
        Let_def bridge_accepted_def sample_bridge_state_def sample_transfer_def)
  have t: "sample_transfer \<in> set (accepted_transfers (system_accepted\<lparr>fd_world := bridge_paid\<rparr>))"
      "ta_originalTokenAddress sample_transfer \<noteq> 0"
    by (simp_all add: system_accepted_def sample_transfer_def)
  show "fst (bridge_exec sample_evm (sender_msg 2) (BClaim (claim_of sample_transfer)) bridge_paid)
      = Inl (JsError ''Bridge: Already claimed'')"
    using accepted_is_claimable [OF sample_sys_reachable(3) o1 _ t, of "sender_msg 2"]
    by (simp add: already_claimed_def isClaimed_def bridge_paid_def)
qed

end
