(* ===== verification/Spec2Isabelle.thy ===== *)
theory Spec2Isabelle
  imports Utils Scripts HathorTx TxChecks Config Runtime TransactionSender Contracts Wallet Broker EvmBroker
    Federator HathorBroker FederatorHTR HathorService MultisigManager Service Protocol AllowTokens
    ChainConfig Deploy Logging FederationContract AdminScripts BridgeContract BridgeSystem Amounts
    WalletContract WalletSystem ChainHelpers MainProcess Wrappers FederatorVotes PubSubPlugin Payout
begin

text \<open>
  The federator of the Hathor token bridge (\<open>src/federator/src\<close>, TypeScript). A federation of
  members moves tokens between an EVM chain and Hathor. Each member runs three loops: one reads
  the Cross events of the EVM bridge and sends each transfer to Hathor; one follows the events of
  the Hathor federation contract (the state contract), where the members record proposals,
  signatures and pushes; one receives the transactions of the Hathor multisig wallet and sends
  withdrawals to the EVM chain. All of them end in a broker, which looks a transfer up in the state
  contract and takes the next step: propose, sign, push, or vote.

  The EVM side of the bridge is deployed by scripts (\<open>src/bridge/deploy\<close>) from configuration
  tables. There the contract Bridge takes the tokens that cross and pays the transfers that arrived;
  the limits and confirmations the members obey are kept by the contract AllowTokens, and their votes
  are counted by the contract Federation, which hands an accepted transfer to Bridge.

  Theories and the code they model (paths below \<open>src/federator/src\<close> unless they start with
  \<open>src/bridge\<close>):
  \<^item> \<open>Prelude\<close>: the error classes (\<open>types/HathorException.ts\<close>, \<open>lib/CustomError.ts\<close>), and the
    state-and-exception computations of which every asynchronous method is one. The locale
    \<open>step_rel\<close> proves once that a reflexive, transitive relation between the first and the last
    state of a run is inherited by composed computations; it is interpreted for the requests
    issued, for the files, for the file of reverted votes and for the progress files.
  \<^item> \<open>JsLib\<close>: the JavaScript library functions used on strings and numbers. A number is an integer
    rounded to 53 bits where the code computes with doubles; NaN and undefined are \<open>None\<close>.
  \<^item> \<open>Utils\<close>: \<open>lib/utils.ts\<close>, \<open>lib/typescriptUtils.ts\<close>: retries, host checks, decimals; \<open>ChainHelpers\<close>: the
    rest of \<open>lib/utils.ts\<close>, waits and requests to a test node.
  \<^item> \<open>Scripts\<close>, \<open>HathorTx\<close>, \<open>TxChecks\<close>: \<open>utils/scripts.ts\<close>, \<open>utils/opcodes.ts\<close>, \<open>types/HathorUtxo.ts\<close>,
    \<open>types/HathorTx.ts\<close> and the pure checks of \<open>lib/Broker/Broker.ts\<close>: data scripts, the transfer a
    Hathor transaction asks for, balances and authorities of a proposal.
  \<^item> \<open>Config\<close>: \<open>lib/config.ts\<close>, \<open>lib/configChain.ts\<close>.
  \<^item> \<open>Runtime\<close>: the state (files, metrics, senders, caches, wallets, the list of requests issued) and
    the environment: nodes, contracts, wallet and cryptography are parameters, functions of an
    abstract world. \<open>Sample\<close> is one concrete environment, used by the witnesses only.
  \<^item> \<open>TransactionSender\<close>, \<open>Contracts\<close>, \<open>Wallet\<close>: \<open>lib/TransactionSender.ts\<close>, the wrappers and factories
    under \<open>contracts\<close>, \<open>lib/HathorWallet.ts\<close>. \<open>Wrappers\<close>: the calls of all wrapper versions next to the
    functions of the Solidity contracts.
  \<^item> \<open>Broker\<close>, \<open>EvmBroker\<close>, \<open>HathorBroker\<close>: \<open>lib/Broker\<close>. The abstract class is a record of methods; the
    locale \<open>broker_methods\<close> states what the shared steps rely on and is interpreted by both brokers.
  \<^item> \<open>Federator\<close>, \<open>FederatorHTR\<close>: \<open>lib/Federator.ts\<close>, \<open>lib/FederatorHTR.ts\<close>: progress files, the outer
    loop, voting, paging through the Cross events.
  \<^item> \<open>HathorService\<close>: \<open>lib/HathorService.ts\<close>, \<open>lib/HathorHistorySync.ts\<close>, \<open>utils/fileManagement.ts\<close>.
  \<^item> \<open>MultisigManager\<close>: \<open>lib/HathorMultisigManager.ts\<close>, \<open>lib/HathorFederationLogsReader.ts\<close>.
  \<^item> \<open>Service\<close>: \<open>services/Scheduler.ts\<close> as a step relation, and what \<open>main.ts\<close> starts; \<open>MainProcess\<close>: \<open>main.ts\<close>
    as a process reacting to timers, messages and signals, and \<open>lib/Endpoints.ts\<close>.
  \<^item> \<open>Logging\<close>: \<open>lib/logs.ts\<close>, \<open>lib/logWrapper.ts\<close>: the shared loggers as a store of objects.
  \<^item> \<open>AllowTokens\<close>: \<open>src/bridge/contracts/AllowTokens/AllowTokens.sol\<close> with the contracts it inherits
    from: limits, confirmations and the daily counters, on 256 bit words.
  \<^item> \<open>FederationContract\<close>: \<open>src/bridge/contracts/Federation/Federation.sol\<close>: members, votes and the
    acceptance of transfers on the EVM side.
  \<^item> \<open>BridgeContract\<close>: \<open>src/bridge/contracts/Bridge/Bridge.sol\<close> with its bases and libraries: tokens,
    acceptance, claims, crossings. \<open>BridgeSystem\<close>: Federation, Bridge and AllowTokens together as a
    step relation, in which the storage of Bridge is the world of Federation.
  \<^item> \<open>Amounts\<close>: what a claim owes and pays, and an amount followed from its crossing through the
    federator's conversions (\<open>lib/utils.ts\<close>) to the claim of the way back; \<open>Payout\<close>: from acceptance to
    the claim. No code of their own.
  \<^item> \<open>FederatorVotes\<close>: a federator's vote on the EVM run against a node that holds the storage of
    Federation, with other senders in between; no code of its own.
  \<^item> \<open>PubSubPlugin\<close>: \<open>src/.gcp/hathor_pubsub.js\<close>, the plugin of the wallet that feeds the queue.
  \<^item> \<open>WalletContract\<close>: \<open>src/bridge/contracts/MultiSigWallet.sol\<close>, whose calls may come back to itself;
    \<open>WalletSystem\<close>: the wallet as the owner of Bridge.
  \<^item> \<open>ChainConfig\<close>: the tables of \<open>src/bridge/hardhat.config.js\<close>, \<open>src/bridge/hardhat/helper\<close>,
    \<open>src/bridge/deployed\<close> and \<open>src/bridge/deploy/09_deploy_allowTokensProxy.js\<close>, and what the contract
    accepts of them.
  \<^item> \<open>Deploy\<close>: \<open>src/bridge/hardhat/helper/address.js\<close> and the scripts of \<open>src/bridge/deploy\<close>, over an
    environment of hardhat, hardhat-deploy and web3 of their own.
  \<^item> \<open>AdminScripts\<close>: the scripts of \<open>src/bridge/hardhat/script\<close> an administrator runs by hand.
  \<^item> \<open>Protocol\<close>: no code of its own: the federation's protocol, which both brokers refine.

  What the lemmas show. For the checks: what a proposal accepted by either validator must satisfy, balances and
  authorities exactly, round trips of scripts and amounts. For the brokers: a request to sign, push or propose
  is issued only after validation and by the right member; each step of either broker is one the protocol
  allows, so a federation of such members records a transfer as processed only with enough different signatures.
  For the loops: block ranges are covered without gap or overlap, saved progress follows the work (for Cross
  events) or does not (for the state contract), an acknowledged message was handled. For the scheduler: polls
  never overlap. For AllowTokens: an invariant of every reachable storage, and the daily limit over any sequence
  of transfers. For Federation: no transfer is accepted twice, or without the votes of a majority; a federator
  that answers true has its vote there, and enough of them release the transfer. For the three contracts
  together: what Bridge pays was voted for and is paid once, what it accepted can be claimed, and what crosses
  was charged against the limits. For amounts: a claim pays exactly what the vote is worth, and what crossed to
  Hathor comes back but for the digits Hathor does not have. For the multisig wallet: it acts only by the
  agreement of enough owners, and so does everything the owner of Bridge decides. For the main process: it
  starts its loops once or never. For the deployment: what each script may request and in which order, which
  chains it leaves alone, and on which networks the contract accepts the tables. For the hand-run scripts: what
  they may send, and which of them no longer fit the contracts. Several properties describe behaviour the code
  hardly means: a mint proposal whose receiver is not compared, a single new block that is never read, a syncing
  node that hangs the process, a failed vote that is never recorded, deposits that are dropped, history that is
  not resent.

  Conventions. An awaited call runs to its end before the next step; a promise nobody awaits is run to its end
  where it is made (\<open>detach\<close>) and its outcome dropped, so interleavings inside one process are not
  modelled. A thrown error keeps the effects made so far. Calls of contracts are kept as the structured
  arguments the code passes to the ABI encoder. Requests that change something outside (transactions, wallet
  commands) are recorded in \<open>trace\<close>; reads are not. Error texts keep the fixed part only, since no
  code inspects the rest.

  Loops. Structural recursion over lists wherever the code iterates over one; loops over pages, batches and
  attempts have a measure; the loops \<open>while (numberOfRetries > 0)\<close> and that of
  \<open>waitBlocks\<close> may not end and are \<open>partial_function\<close>s whose value \<open>None\<close>
  is not ending. The only bound is the depth of nested calls of the multisig wallet, 1024 as in the EVM, below
  which a call fails there, too.

  Not modelled: what the libraries of the queues, web3 and express do inside (their answers are parameters), and
  opening the port of the endpoint; the integration tests, which belong to an earlier federator and load files
  the repository does not have; and, of the Solidity contracts, the tokens and their factory and the proxies:
  the code that calls them takes them as parameters. The contracts a transaction calls do not call back (Bridge
  and Federation are guarded against it). The Hathor federation contract is not in the repository.
\<close>

end
